(* ===== verification/Prelude.thy ===== *)
theory Prelude
  imports Complex_Main
begin

text \<open>
  Shared vocabulary of the development: JavaScript strings and the string operations the
  front end uses, decimal digits, and the generic list lemmas the components share.

  A JavaScript string is a sequence of UTF-16 code units. It is modelled by HOL's
  \<open>string\<close>, one \<open>char\<close> per code unit, so that \<open>length\<close>, \<open>take\<close> and \<open>drop\<close> count what
  \<open>.length\<close> and \<open>.slice\<close> count. A \<open>char\<close> below 128 or above 159 is the code unit with that
  number (ASCII and Latin-1). The C1 control codes 128 to 159, which no text carries, stand
  for the few symbols outside Latin-1 that the source writes itself: the rupee sign (U+20B9),
  the horizontal ellipsis (U+2026), the em dash (U+2014) and the right arrow (U+2192).
\<close>

named_theorems js_string \<open>evaluation of the JavaScript string operations\<close>

subsection \<open>Symbols\<close>

abbreviation RUPEE :: char where "RUPEE \<equiv> CHR 0x80"
abbreviation ELLIPSIS :: char where "ELLIPSIS \<equiv> CHR 0x85"
abbreviation EM_DASH :: char where "EM_DASH \<equiv> CHR 0x97"
abbreviation LDQUO :: char where "LDQUO \<equiv> CHR 0x93"
abbreviation RDQUO :: char where "RDQUO \<equiv> CHR 0x94"
abbreviation ARROW :: char where "ARROW \<equiv> CHR 0x9B"
abbreviation MIDDOT :: char where "MIDDOT \<equiv> CHR 0xB7"
abbreviation TIMES :: char where "TIMES \<equiv> CHR 0xD7"
abbreviation APOS :: char where "APOS \<equiv> CHR 0x27"
abbreviation BACKSLASH :: char where "BACKSLASH \<equiv> CHR 0x5C"
abbreviation NEWLINE :: char where "NEWLINE \<equiv> CHR 0x0A"

definition code_point :: "char \<Rightarrow> nat" where
  "code_point c =
     (if c = RUPEE then 0x20B9 else if c = ELLIPSIS then 0x2026
      else if c = EM_DASH then 0x2014 else if c = ARROW then 0x2192
      else if c = LDQUO then 0x201C else if c = RDQUO then 0x201D
      else of_char c)"

subsection \<open>Character classes\<close>

definition is_digit :: "char \<Rightarrow> bool" where
  "is_digit c \<longleftrightarrow> 48 \<le> (of_char c :: int) \<and> (of_char c :: int) \<le> 57"

definition is_space :: "char \<Rightarrow> bool" where
  "is_space c \<longleftrightarrow> c \<in> {CHR 0x09, CHR 0x0A, CHR 0x0B, CHR 0x0C, CHR 0x0D, CHR 0x20, CHR 0xA0}"

definition is_upper :: "char \<Rightarrow> bool" where
  "is_upper c \<longleftrightarrow> (let n = (of_char c :: nat) in
     (65 \<le> n \<and> n \<le> 90) \<or> (192 \<le> n \<and> n \<le> 222 \<and> n \<noteq> 215))"

definition is_lower :: "char \<Rightarrow> bool" where
  "is_lower c \<longleftrightarrow> (let n = (of_char c :: nat) in
     (97 \<le> n \<and> n \<le> 122) \<or> (224 \<le> n \<and> n \<le> 254 \<and> n \<noteq> 247))"

text \<open>The regular-expression class \<open>\w\<close>.\<close>

definition is_word :: "char \<Rightarrow> bool" where
  "is_word c \<longleftrightarrow> (let n = (of_char c :: nat) in
     (65 \<le> n \<and> n \<le> 90) \<or> (97 \<le> n \<and> n \<le> 122) \<or> (48 \<le> n \<and> n \<le> 57) \<or> n = 95)"

definition lower_char :: "char \<Rightarrow> char" where
  "lower_char c = (if is_upper c then char_of (of_char c + 32 :: nat) else c)"

definition upper_char :: "char \<Rightarrow> char" where
  "upper_char c = (if is_lower c then char_of (of_char c - 32 :: nat) else c)"

subsection \<open>String operations\<close>

definition to_lower :: "string \<Rightarrow> string" where "to_lower = map lower_char"
definition to_upper :: "string \<Rightarrow> string" where "to_upper = map upper_char"

definition trim_start :: "string \<Rightarrow> string" where "trim_start = dropWhile is_space"
definition trim :: "string \<Rightarrow> string" where
  "trim s = rev (dropWhile is_space (rev (dropWhile is_space s)))"

definition starts_with :: "string \<Rightarrow> string \<Rightarrow> bool" where
  "starts_with s p \<longleftrightarrow> take (length p) s = p"

fun str_includes :: "string \<Rightarrow> string \<Rightarrow> bool" where
  "str_includes [] w \<longleftrightarrow> w = []"
| "str_includes (c # s) w \<longleftrightarrow> starts_with (c # s) w \<or> str_includes s w"

text \<open>\<open>s.split(c)\<close> for a one-character separator: never the empty list.\<close>

fun split_on :: "char \<Rightarrow> string \<Rightarrow> string list" where
  "split_on c [] = [[]]"
| "split_on c (x # s) =
     (if x = c then [] # split_on c s
      else case split_on c s of [] \<Rightarrow> [[x]] | w # ws \<Rightarrow> (x # w) # ws)"

fun join :: "string \<Rightarrow> string list \<Rightarrow> string" where
  "join sep [] = []"
| "join sep [w] = w"
| "join sep (w # v # ws) = w @ sep @ join sep (v # ws)"

text \<open>\<open>s.slice(i)\<close>: a negative index counts from the end.\<close>

definition slice_from :: "int \<Rightarrow> string \<Rightarrow> string" where
  "slice_from i s = (if i < 0 then drop (nat (int (length s) + i)) s else drop (nat i) s)"

definition index_of :: "'a list \<Rightarrow> 'a \<Rightarrow> nat option" where
  "index_of xs x = (let n = length (takeWhile (\<lambda>y. y \<noteq> x) xs) in
     if n < length xs then Some n else None)"

text \<open>\<open>Array.prototype.str_includes\<close> and \<open>find\<close> are \<open>member\<close> and \<open>find\<close>; toggling one entry
  of a selection is the update both pickers use.\<close>

definition toggle :: "'a \<Rightarrow> 'a list \<Rightarrow> 'a list" where
  "toggle x xs = (if List.member xs x then filter (\<lambda>y. y \<noteq> x) xs else xs @ [x])"

subsection \<open>Lemmas on strings and lists\<close>

lemma starts_with_append [simp]: "starts_with (p @ s) p"
  by (simp add: starts_with_def)

lemma starts_with_iff: "starts_with s p \<longleftrightarrow> (\<exists>t. s = p @ t)"
  by (metis append_eq_conv_conj append_take_drop_id starts_with_def)

lemma length_to_lower [simp]: "length (to_lower s) = length s"
  by (simp add: to_lower_def)

lemma split_on_neq_Nil [simp]: "split_on c s \<noteq> []"
  by (induction s) (auto split: list.splits)

lemma length_split_on: "length (split_on c s) = Suc (count_list s c)"
  by (induction s) (auto split: list.splits)

lemma split_on_append:
  "split_on c (s @ c # t) = split_on c s @ split_on c t"
  by (induction s) (auto split: list.splits simp: append_eq_Cons_conv)

lemma split_on_no_sep: "c \<notin> set s \<Longrightarrow> split_on c s = [s]"
  by (induction s) auto

lemma split_on_parts: "w \<in> set (split_on c s) \<Longrightarrow> c \<notin> set w"
  by (induction s arbitrary: w) (auto split: list.splits if_splits)

lemma split_on_join:
  "ws \<noteq> [] \<Longrightarrow> \<forall>w \<in> set ws. c \<notin> set w \<Longrightarrow> split_on c (join [c] ws) = ws"
  by (induction "[c]" ws rule: join.induct) (auto simp: split_on_no_sep split_on_append)

lemma trim_Nil [simp]: "trim [] = []"
  by (simp add: trim_def)

lemma dropWhile_idem' [simp]: "dropWhile P (dropWhile P xs) = dropWhile P xs"
  by (induction xs) auto

lemma dropWhile_eq_Nil: "dropWhile P xs = [] \<longleftrightarrow> (\<forall>x \<in> set xs. P x)"
  by (induction xs) auto

lemma trim_eq_Nil_iff: "trim s = [] \<longleftrightarrow> (\<forall>c \<in> set s. is_space c)"
proof -
  have "dropWhile is_space (rev (dropWhile is_space s)) = [] \<longleftrightarrow>
      (\<forall>c \<in> set (dropWhile is_space s). is_space c)"
    by (simp add: dropWhile_eq_Nil)
  also have "\<dots> \<longleftrightarrow> (\<forall>c \<in> set s. is_space c)"
    by (induction s) auto
  finally show ?thesis by (simp add: trim_def)
qed

lemma trim_trim: "trim (trim s) = trim s"
proof -
  define a where "a = dropWhile is_space s"
  define b where "b = rev (dropWhile is_space (rev a))"
  have t: "trim s = b" by (simp add: trim_def a_def b_def)
  have split: "a = b @ rev (takeWhile is_space (rev a))"
    unfolding b_def by (metis rev_append rev_rev_ident takeWhile_dropWhile_id)
  have "dropWhile is_space b = b"
  proof (cases b)
    case (Cons c b')
    then have "a \<noteq> []" and "hd a = c" using split by (metis append_is_Nil_conv list.simps(3)) (metis Cons split hd_append list.sel(1) list.simps(3))
    then have "\<not> is_space c" using hd_dropWhile [of is_space s] by (simp add: a_def)
    then show ?thesis by (simp add: Cons)
  qed simp
  moreover have "dropWhile is_space (rev b) = rev b" by (simp add: b_def)
  ultimately show ?thesis by (simp add: t trim_def [of b])
qed

lemma trim_length: "length (trim s) \<le> length s"
  using length_dropWhile_le [of is_space "rev (dropWhile is_space s)"] length_dropWhile_le [of is_space s]
  by (simp add: trim_def)

lemma set_toggle: "set (toggle x xs) = (if x \<in> set xs then set xs - {x} else insert x (set xs))"
  by (auto simp: toggle_def)

lemma distinct_toggle: "distinct xs \<Longrightarrow> distinct (toggle x xs)"
  by (auto simp: toggle_def)

lemma toggle_toggle_set:
  "set (toggle x (toggle x xs)) = set xs"
  by (auto simp: toggle_def)

lemma find_SomeD: "find P xs = Some x \<Longrightarrow> P x \<and> x \<in> set xs"
  by (metis find_Some_iff nth_mem)

subsection \<open>Decimal digits\<close>

text \<open>Digits are computed on \<open>int\<close>, whose numerals are binary, so that amounts evaluate.\<close>

definition digit :: "int \<Rightarrow> char" where
  "digit d = char_of (48 + d)"

definition digit_val :: "char \<Rightarrow> int" where
  "digit_val c = of_char c - 48"

function show_digits :: "int \<Rightarrow> string" where
  "show_digits n =
     (if n < 10 then [digit n] else show_digits (n div 10) @ [digit (n mod 10)])"
  by pat_completeness auto
termination
  by (relation "measure nat") auto

declare show_digits.simps [simp del]

definition digits_val :: "string \<Rightarrow> int" where
  "digits_val s = foldl (\<lambda>a c. 10 * a + digit_val c) 0 s"

definition show_int :: "int \<Rightarrow> string" where
  "show_int i = (if i < 0 then CHR ''-'' # show_digits (- i) else show_digits i)"

abbreviation show_nat :: "nat \<Rightarrow> string" where
  "show_nat n \<equiv> show_digits (int n)"

definition pad_left :: "nat \<Rightarrow> string \<Rightarrow> string" where
  "pad_left k s = replicate (k - length s) (CHR ''0'') @ s"

lemma digit_cases: "0 \<le> d \<Longrightarrow> d < 10 \<Longrightarrow> d \<in> {0, 1, 2, 3, 4, 5, 6, 7, 8, 9::int}"
  by (simp only: insert_iff empty_iff) presburger

lemma digit_val_digit [simp]: "0 \<le> d \<Longrightarrow> d < 10 \<Longrightarrow> digit_val (digit d) = d"
  by (drule (1) digit_cases) (auto simp: digit_val_def digit_def)

lemma is_digit_digit [simp]: "0 \<le> d \<Longrightarrow> d < 10 \<Longrightarrow> is_digit (digit d)"
  by (drule (1) digit_cases) (auto simp: is_digit_def digit_def)

lemma digits_val_Nil [simp]: "digits_val [] = 0"
  by (simp add: digits_val_def)

lemma digits_val_snoc [simp]: "digits_val (s @ [c]) = 10 * digits_val s + digit_val c"
  by (simp add: digits_val_def)

lemma digits_val_append: "digits_val (s @ t) = digits_val s * 10 ^ length t + digits_val t"
proof (induction t rule: rev_induct)
  case Nil
  then show ?case by simp
next
  case (snoc c t)
  have "digits_val (s @ t @ [c]) = digits_val ((s @ t) @ [c])"
    by simp
  also have "\<dots> = 10 * digits_val (s @ t) + digit_val c"
    by (rule digits_val_snoc)
  finally show ?case
    using snoc by (simp add: algebra_simps)
qed

lemma digits_val_zeros [simp]: "digits_val (replicate k (CHR ''0'')) = 0"
proof (induction k)
  case (Suc k)
  have "replicate (Suc k) (CHR ''0'') = replicate k (CHR ''0'') @ [CHR ''0'']"
    by (simp add: replicate_append_same)
  then show ?case
    using Suc by (simp add: digit_val_def del: replicate.simps(2))
qed simp

lemma digits_val_show [simp]: "0 \<le> n \<Longrightarrow> digits_val (show_digits n) = n"
proof (induction n rule: show_digits.induct)
  case (1 n)
  show ?case
  proof (cases "n < 10")
    case True
    then have "show_digits n = [] @ [digit n]"
      by (subst show_digits.simps) simp
    then show ?thesis
      using "1.prems" True by (simp only: digits_val_snoc) simp
  next
    case False
    then have "show_digits n = show_digits (n div 10) @ [digit (n mod 10)]"
      by (subst show_digits.simps) simp
    then show ?thesis
      using "1.prems" "1.IH" False by simp
  qed
qed

lemma show_digits_neq_Nil [simp]: "show_digits n \<noteq> []"
  by (subst show_digits.simps) simp

lemma show_digits_digits: "0 \<le> n \<Longrightarrow> c \<in> set (show_digits n) \<Longrightarrow> is_digit c"
proof (induction n rule: show_digits.induct)
  case (1 n)
  show ?case
  proof (cases "n < 10")
    case True
    then show ?thesis using "1.prems" by (subst (asm) show_digits.simps) simp
  next
    case False
    then have "c \<in> set (show_digits (n div 10)) \<or> c = digit (n mod 10)"
      using "1.prems" by (subst (asm) show_digits.simps) auto
    then show ?thesis using "1.IH" "1.prems" False by auto
  qed
qed

lemma show_digits_inject: "0 \<le> m \<Longrightarrow> 0 \<le> n \<Longrightarrow> show_digits m = show_digits n \<longleftrightarrow> m = n"
  by (metis digits_val_show)

lemma length_show_digits_le: "n < 10 ^ k \<Longrightarrow> 0 < k \<Longrightarrow> length (show_digits n) \<le> k"
proof (induction n arbitrary: k rule: show_digits.induct)
  case (1 n)
  show ?case
  proof (cases "n < 10")
    case True
    then show ?thesis using "1.prems" by (subst show_digits.simps) simp
  next
    case False
    then obtain j where k: "k = Suc j" and "0 < j"
      using "1.prems" by (cases k; cases "k - 1") auto
    then have "n div 10 < 10 ^ j"
      using "1.prems" by simp
    then show ?thesis
      using False "1.IH" \<open>0 < j\<close> k by (subst show_digits.simps) simp
  qed
qed

lemma show_digits_lower: "0 < n \<Longrightarrow> 10 ^ (length (show_digits n) - 1) \<le> n"
proof (induction n rule: show_digits.induct)
  case (1 n)
  show ?case
  proof (cases "n < 10")
    case True
    then show ?thesis using "1.prems" by (subst show_digits.simps) simp
  next
    case False
    then have IH: "10 ^ (length (show_digits (n div 10)) - 1) \<le> n div 10"
      using "1.IH" by simp
    have len: "length (show_digits n) = Suc (length (show_digits (n div 10)))"
      using False by (subst show_digits.simps) simp
    have "10 ^ length (show_digits (n div 10))
        = (10 * 10 ^ (length (show_digits (n div 10)) - 1) :: int)"
      by (metis One_nat_def Suc_pred length_greater_0_conv power_Suc show_digits_neq_Nil)
    also have "\<dots> \<le> n"
      using IH by linarith
    finally show ?thesis by (simp add: len)
  qed
qed

lemma show_digits_upper: "0 \<le> n \<Longrightarrow> n < 10 ^ length (show_digits n)"
proof (induction n rule: show_digits.induct)
  case (1 n)
  show ?case
  proof (cases "n < 10")
    case True
    then show ?thesis by (subst show_digits.simps) simp
  next
    case False
    then have "n div 10 < 10 ^ length (show_digits (n div 10))"
      using "1.IH" "1.prems" by simp
    then show ?thesis
      using False by (subst show_digits.simps) simp
  qed
qed

lemma digits_val_pad_left [simp]: "digits_val (pad_left k s) = digits_val s"
  by (simp add: pad_left_def digits_val_append)

lemma length_pad_left: "length (pad_left k s) = max k (length s)"
  by (simp add: pad_left_def)

lemma pad_left_digits: "\<forall>c \<in> set s. is_digit c \<Longrightarrow> c \<in> set (pad_left k s) \<Longrightarrow> is_digit c"
  by (auto simp: pad_left_def is_digit_def)

lemma minus_neq_show_digits: "0 \<le> n \<Longrightarrow> CHR ''-'' # s \<noteq> show_digits n"
proof
  assume "0 \<le> n" "CHR ''-'' # s = show_digits n"
  then have "is_digit (CHR ''-'')"
    by (metis list.set_intros(1) show_digits_digits)
  then show False by (simp add: is_digit_def)
qed

lemma show_int_inject: "show_int i = show_int j \<longleftrightarrow> i = j"
  by (auto simp: show_int_def show_digits_inject minus_neq_show_digits
      minus_neq_show_digits [symmetric])

end
