(* ===== verification/JsNumber.thy ===== *)
theory JsNumber
  imports Prelude "HOL-Library.Log_Nat"
begin

text \<open>
  JavaScript numbers. A value is NaN, an infinity, negative zero, or a finite binary64
  number, which is carried as the rational it denotes (\<open>Fin 0\<close> is positive zero). Arithmetic
  computes exactly on rationals and then rounds to 53 significant bits, to nearest with ties
  to even, with the subnormal quantum 2^-1074 and overflow to infinity at 2^1024, as IEEE 754
  prescribes. \<open>Number.prototype.toString\<close>, \<open>toFixed\<close>, \<open>parseFloat\<close>, \<open>parseInt\<close>, \<open>Math.round\<close> and
  the fixed-point part of \<open>Intl.NumberFormat\<close> for the locale en-IN are written from ECMA-262
  and ECMA-402. All of it computes by rewriting.
\<close>

datatype jsnum = NaN | PosInf | NegInf | NegZero | Fin rat

subsection \<open>Rounding a rational to binary64\<close>

definition ilog2 :: "rat \<Rightarrow> int" where
  "ilog2 x = (let (a, b) = quotient_of x; k = bitlen a - bitlen b
              in if 2 powi k \<le> x then k else k - 1)"

definition round_half_even :: "rat \<Rightarrow> int" where
  "round_half_even x =
     (let f = \<lfloor>x\<rfloor>; d = x - of_int f
      in if d < 1/2 then f else if 1/2 < d then f + 1 else if even f then f else f + 1)"

definition rnd :: "rat \<Rightarrow> rat" where
  "rnd x = (if x = 0 then 0
            else let q = 2 powi (max (ilog2 \<bar>x\<bar> - 52) (- 1074))
                 in of_int (round_half_even (x / q)) * q)"

definition dbl :: "rat \<Rightarrow> jsnum" where
  "dbl x = (let r = rnd x in
     if r = 0 then (if x < 0 then NegZero else Fin 0)
     else if 1024 \<le> ilog2 \<bar>r\<bar> then (if r < 0 then NegInf else PosInf)
     else Fin r)"

lemma ilog2_bounds:
  assumes "0 < x"
  shows "2 powi ilog2 x \<le> x" and "x < 2 powi (ilog2 x + 1)"
proof -
  obtain a b where ab: "quotient_of x = (a, b)"
    by (cases "quotient_of x")
  have b: "0 < b" and x: "x = of_int a / of_int b"
    using quotient_of_denom_pos [OF ab] quotient_of_div [OF ab] by auto
  have a: "0 < a"
    using assms b by (simp add: x zero_less_divide_iff)
  define la lb where "la = bitlen a" and "lb = bitlen b"
  have pos: "1 \<le> la" "1 \<le> lb"
    using a b by (auto simp: la_def lb_def bitlen_def floorlog_def)
  have pw: "(of_int (2 ^ nat i) :: rat) = 2 powi i" if "0 \<le> i" for i
    using that by (simp add: power_int_def)
  have a1: "2 powi (la - 1) \<le> (of_int a :: rat)" and a2: "(of_int a :: rat) < 2 powi la"
    using bitlen_bounds [OF a] pos pw [of "la - 1"] pw [of la]
    by (metis la_def diff_ge_0_iff_ge of_int_le_iff)
      (metis la_def bitlen_bounds [OF a] pw bitlen_nonneg of_int_less_iff)
  have b1: "2 powi (lb - 1) \<le> (of_int b :: rat)" and b2: "(of_int b :: rat) < 2 powi lb"
    using bitlen_bounds [OF b] pos pw [of "lb - 1"] pw [of lb]
    by (metis lb_def diff_ge_0_iff_ge of_int_le_iff)
      (metis lb_def bitlen_bounds [OF b] pw bitlen_nonneg of_int_less_iff)
  have bpos: "(0::rat) < of_int b" using b by simp
  have "x < 2 powi la / 2 powi (lb - 1)"
    unfolding x using a2 b1 a bpos
    by (intro frac_less) auto
  then have hi: "x < 2 powi (la - lb + 1)"
    by (simp add: power_int_diff [symmetric] algebra_simps)
  have "2 powi (la - 1) / 2 powi lb < x"
    unfolding x using a1 b2 a bpos
    by (intro frac_less2) auto
  then have lo: "2 powi (la - lb - 1) < x"
    by (simp add: power_int_diff [symmetric] algebra_simps)
  have il: "ilog2 x = (if 2 powi (la - lb) \<le> x then la - lb else la - lb - 1)"
    by (simp add: ilog2_def ab la_def lb_def Let_def)
  show "2 powi ilog2 x \<le> x"
    using lo by (auto simp: il)
  show "x < 2 powi (ilog2 x + 1)"
    using hi by (auto simp: il)
qed

lemma powi2_le_iff: "(2::rat) powi i \<le> 2 powi j \<longleftrightarrow> i \<le> j"
  using power_int_strict_increasing [of j i "2::rat"] power_int_increasing [of i j "2::rat"]
  by (meson linorder_not_le one_le_numeral one_less_numeral_iff semiring_norm(76))

lemma powi2_less_iff: "(2::rat) powi i < 2 powi j \<longleftrightarrow> i < j"
  using powi2_le_iff [of j i] by linarith

lemma ilog2_unique: "2 powi k \<le> x \<Longrightarrow> x < 2 powi (k + 1) \<Longrightarrow> ilog2 x = k"
proof -
  assume k: "2 powi k \<le> x" "x < 2 powi (k + 1)"
  have "0 < x" using k(1) by (meson less_le_trans zero_less_power_int zero_less_numeral)
  note b = ilog2_bounds [OF this]
  have "k < ilog2 x + 1" using k(1) b(2) powi2_less_iff by (meson le_less_trans)
  moreover have "ilog2 x < k + 1" using b(1) k(2) powi2_less_iff by (meson le_less_trans)
  ultimately show ?thesis by simp
qed

lemma round_half_even_of_int [simp]: "round_half_even (of_int n) = n"
  by (simp add: round_half_even_def Let_def)

lemma round_half_even_error: "\<bar>of_int (round_half_even x) - x\<bar> \<le> 1/2"
proof -
  have "of_int \<lfloor>x\<rfloor> \<le> x" "x < of_int \<lfloor>x\<rfloor> + 1"
    by linarith+
  then show ?thesis
    unfolding round_half_even_def Let_def by (simp split: if_splits; linarith)
qed

lemma rnd_zero [simp]: "rnd 0 = 0"
  by (simp add: rnd_def)

lemma round_half_even_nonneg: "0 \<le> x \<Longrightarrow> 0 \<le> round_half_even x"
  by (simp add: round_half_even_def Let_def)

lemma rnd_nonneg: "0 \<le> x \<Longrightarrow> 0 \<le> rnd x"
  unfolding rnd_def Let_def
  by (cases "x = 0") (auto intro!: mult_nonneg_nonneg round_half_even_nonneg divide_nonneg_nonneg)

lemma dbl_nonneg:
  assumes "0 \<le> x"
  obtains (finite) y where "dbl x = Fin y" "0 \<le> y" | (overflow) "dbl x = PosInf"
proof -
  consider "rnd x = 0" | "rnd x \<noteq> 0" "1024 \<le> ilog2 \<bar>rnd x\<bar>" | "rnd x \<noteq> 0" "ilog2 \<bar>rnd x\<bar> < 1024"
    by linarith
  then show ?thesis
    using rnd_nonneg [OF assms] assms that by cases (auto simp: dbl_def Let_def)
qed

lemma rnd_error:
  assumes "2 powi (- 1022) \<le> \<bar>x\<bar>"
  shows "\<bar>rnd x - x\<bar> \<le> \<bar>x\<bar> / 2 ^ 53"
proof -
  define e where "e = ilog2 \<bar>x\<bar>"
  define q :: rat where "q = 2 powi (e - 52)"
  have pos: "0 < \<bar>x\<bar>"
    using assms by (meson less_le_trans zero_less_power_int zero_less_numeral)
  note b = ilog2_bounds [OF pos]
  have "2 powi (- 1022) < (2::rat) powi (e + 1)"
    using assms b(2) by (auto simp: e_def)
  then have "- 1022 \<le> e"
    unfolding powi2_less_iff by simp
  then have mx: "max (e - 52) (- 1074) = e - 52" by simp
  have q: "0 < q" by (simp add: q_def)
  have r: "rnd x = of_int (round_half_even (x / q)) * q"
    using pos by (simp add: rnd_def Let_def e_def [symmetric] mx q_def)
  have "rnd x - x = (of_int (round_half_even (x / q)) - x / q) * q"
    using q by (simp add: r left_diff_distrib)
  then have "\<bar>rnd x - x\<bar> = \<bar>of_int (round_half_even (x / q)) - x / q\<bar> * q"
    using q by (simp add: abs_mult)
  also have "\<dots> \<le> 1/2 * q"
    using round_half_even_error [of "x / q"] q by (intro mult_right_mono) auto
  also have "\<dots> = 2 powi e / 2 ^ 53"
    by (simp add: q_def power_int_diff)
  also have "\<dots> \<le> \<bar>x\<bar> / 2 ^ 53"
    using b(1) by (simp add: e_def divide_right_mono)
  finally show ?thesis .
qed

lemma rnd_of_int:
  assumes "\<bar>n\<bar> \<le> 2 ^ 53"
  shows "rnd (of_int n) = of_int n"
proof (cases "n = 0")
  case False
  define e where "e = ilog2 \<bar>of_int n :: rat\<bar>"
  have pos: "0 < \<bar>of_int n :: rat\<bar>" using False by simp
  note b = ilog2_bounds [OF pos, folded e_def]
  have ge1: "(1::rat) \<le> \<bar>of_int n\<bar>" using False by (simp flip: of_int_abs)
  have "(2::rat) powi 0 < 2 powi (e + 1)" using ge1 b(2) by simp
  then have e0: "0 \<le> e" by (simp add: powi2_less_iff del: power_int_0_right)
  have le53: "\<bar>of_int n :: rat\<bar> \<le> 2 powi 53"
    using assms by (metis of_int_abs of_int_le_iff of_int_numeral of_int_power power_int_numeral)
  have e53: "e \<le> 53"
    using b(1) le53 powi2_le_iff by (meson order_trans)
  define q :: rat where "q = 2 powi (e - 52)"
  have q: "q \<noteq> 0" by (simp add: q_def)
  have "\<exists>k::int. of_int n / q = of_int k"
  proof (cases "e = 53")
    case True
    then have "\<bar>of_int n :: rat\<bar> = 2 powi 53"
      using b(1) le53 by simp
    then have "\<bar>n\<bar> = 2 ^ 53"
      by (metis of_int_abs of_int_eq_iff of_int_numeral of_int_power power_int_numeral)
    then have "n = 2 ^ 53 \<or> n = - (2 ^ 53)" by linarith
    then have "of_int n / q = of_int (n div 2)"
      using True by (auto simp: q_def)
    then show ?thesis ..
  next
    case False
    then have "of_int n / q = of_int (n * 2 ^ nat (52 - e))"
      using e53 e0 by (simp add: q_def power_int_def field_simps)
    then show ?thesis ..
  qed
  then obtain k :: int where k: "of_int n / q = of_int k" ..
  have mx: "max (e - 52) (- 1074) = e - 52" using e0 by simp
  have "rnd (of_int n) = of_int (round_half_even (of_int n / q)) * q"
    using False by (simp add: rnd_def Let_def e_def [symmetric] mx q_def)
  also have "\<dots> = of_int n / q * q" by (simp add: k)
  finally show ?thesis using q by simp
qed simp

subsection \<open>Decimal text\<close>

text \<open>
  \<open>Number::toString\<close> writes the shortest decimal that reads back as the same number:
  \<open>dec_exp\<close> is the position of the leading digit, \<open>sig j\<close> the nearest \<open>j\<close>-digit significand,
  \<open>shortest\<close> the first that round-trips (17 digits always do for binary64), and \<open>strip10\<close>
  drops trailing zeros so that the digit count is the specification's \<open>k\<close>.
\<close>

fun lead :: "nat \<Rightarrow> rat \<Rightarrow> int" where
  "lead 0 x = 0"
| "lead (Suc f) x = (if 1 \<le> x then 1 else lead f (10 * x) - 1)"

definition dec_exp :: "rat \<Rightarrow> int" where
  "dec_exp x = (if 1 \<le> x then int (length (show_digits \<lfloor>x\<rfloor>)) else lead 400 x)"

definition sig :: "nat \<Rightarrow> rat \<Rightarrow> int" where
  "sig j x = \<lfloor>x * 10 powi (int j - dec_exp x) + 1/2\<rfloor>"

definition sig_ok :: "rat \<Rightarrow> nat \<Rightarrow> bool" where
  "sig_ok x j \<longleftrightarrow> rnd (of_int (sig j x) * 10 powi (dec_exp x - int j)) = x"

definition shortest :: "rat \<Rightarrow> int \<times> int" where
  "shortest x =
     (let j = (case find (sig_ok x) [1..<18] of Some j \<Rightarrow> j | None \<Rightarrow> 17)
      in (sig j x, dec_exp x - int j))"

function strip10 :: "int \<Rightarrow> int \<Rightarrow> int \<times> int" where
  "strip10 s e = (if 0 < s \<and> s mod 10 = 0 then strip10 (s div 10) (e + 1) else (s, e))"
  by pat_completeness auto
termination
  by (relation "measure (\<lambda>(s, e). nat s)") auto

declare strip10.simps [simp del]

definition show_dec :: "int \<Rightarrow> int \<Rightarrow> string" where
  "show_dec s e =
     (let ds = show_digits s; k = length ds; n = int k + e in
      if 0 \<le> e \<and> n \<le> 21 then ds @ replicate (nat e) (CHR ''0'')
      else if 0 < n \<and> n \<le> 21 then take (nat n) ds @ CHR ''.'' # drop (nat n) ds
      else if - 6 < n \<and> n \<le> 0 then ''0.'' @ replicate (nat (- n)) (CHR ''0'') @ ds
      else (if k = 1 then ds else hd ds # CHR ''.'' # tl ds)
        @ CHR ''e'' # (if n - 1 < 0 then CHR ''-'' else CHR ''+'') # show_digits \<bar>n - 1\<bar>)"

definition show_pos :: "rat \<Rightarrow> string" where
  "show_pos x = (case shortest x of (s, e) \<Rightarrow> case strip10 s e of (s', e') \<Rightarrow> show_dec s' e')"

fun to_string :: "jsnum \<Rightarrow> string" where
  "to_string NaN = ''NaN''"
| "to_string PosInf = ''Infinity''"
| "to_string NegInf = ''-Infinity''"
| "to_string NegZero = ''0''"
| "to_string (Fin x) =
     (if x = 0 then ''0'' else if x < 0 then CHR ''-'' # show_pos (- x) else show_pos x)"

fun negate :: "jsnum \<Rightarrow> jsnum" where
  "negate NaN = NaN"
| "negate PosInf = NegInf"
| "negate NegInf = PosInf"
| "negate NegZero = Fin 0"
| "negate (Fin x) = (if x = 0 then NegZero else Fin (- x))"

definition exponent_part :: "string \<Rightarrow> int" where
  "exponent_part r =
     (case r of
        c # r' \<Rightarrow>
          if c = CHR ''e'' \<or> c = CHR ''E'' then
            (let (neg, u) = (case r' of
                 d # r'' \<Rightarrow> if d = CHR ''-'' then (True, r'')
                            else if d = CHR ''+'' then (False, r'') else (False, r')
               | [] \<Rightarrow> (False, []));
               ds = takeWhile is_digit u
             in if neg then - digits_val ds else digits_val ds)
          else 0
      | [] \<Rightarrow> 0)"

definition take_sign :: "string \<Rightarrow> bool \<times> string" where
  "take_sign t = (case t of
       c # r \<Rightarrow> if c = CHR ''-'' then (True, r) else if c = CHR ''+'' then (False, r) else (False, t)
     | [] \<Rightarrow> (False, []))"

definition parse_mantissa :: "string \<Rightarrow> jsnum" where
  "parse_mantissa u =
     (let ip = takeWhile is_digit u; r1 = dropWhile is_digit u;
          (fp, r2) = (case r1 of
              c # r \<Rightarrow> if c = CHR ''.'' then (takeWhile is_digit r, dropWhile is_digit r) else ([], r1)
            | [] \<Rightarrow> ([], []))
      in if starts_with u ''Infinity'' then PosInf
         else if ip = [] \<and> fp = [] then NaN
         else dbl (of_int (digits_val (ip @ fp)) * 10 powi (exponent_part r2 - int (length fp))))"

definition parse_float :: "string \<Rightarrow> jsnum" where
  "parse_float s = (case take_sign (trim_start s) of
     (neg, u) \<Rightarrow> if neg then negate (parse_mantissa u) else parse_mantissa u)"

text \<open>\<open>Number.parseInt(s, 10)\<close>.\<close>

definition parse_int :: "string \<Rightarrow> jsnum" where
  "parse_int s = (case take_sign (trim_start s) of
     (neg, u) \<Rightarrow> (let ds = takeWhile is_digit u; v = dbl (of_int (digits_val ds)) in
        if ds = [] then NaN else if neg then negate v else v))"

subsection \<open>Arithmetic and comparison\<close>

fun is_finite_num :: "jsnum \<Rightarrow> bool" where
  "is_finite_num (Fin x) \<longleftrightarrow> True"
| "is_finite_num NegZero \<longleftrightarrow> True"
| "is_finite_num _ \<longleftrightarrow> False"

fun num_val :: "jsnum \<Rightarrow> rat" where
  "num_val (Fin x) = x"
| "num_val _ = 0"

fun num_neg :: "jsnum \<Rightarrow> bool" where
  "num_neg (Fin x) \<longleftrightarrow> x < 0"
| "num_neg NegZero \<longleftrightarrow> True"
| "num_neg NegInf \<longleftrightarrow> True"
| "num_neg _ \<longleftrightarrow> False"

definition num_of_int :: "int \<Rightarrow> jsnum" where
  "num_of_int i = Fin (of_int i)"

definition is_integer_num :: "jsnum \<Rightarrow> bool" where
  "is_integer_num n \<longleftrightarrow> is_finite_num n \<and> of_int \<lfloor>num_val n\<rfloor> = num_val n"

fun num_le :: "jsnum \<Rightarrow> jsnum \<Rightarrow> bool" where
  "num_le NaN _ \<longleftrightarrow> False"
| "num_le _ NaN \<longleftrightarrow> False"
| "num_le NegInf _ \<longleftrightarrow> True"
| "num_le _ PosInf \<longleftrightarrow> True"
| "num_le PosInf _ \<longleftrightarrow> False"
| "num_le _ NegInf \<longleftrightarrow> False"
| "num_le a b \<longleftrightarrow> num_val a \<le> num_val b"

definition num_eq :: "jsnum \<Rightarrow> jsnum \<Rightarrow> bool" where
  "num_eq a b \<longleftrightarrow> num_le a b \<and> num_le b a"

definition num_lt :: "jsnum \<Rightarrow> jsnum \<Rightarrow> bool" where
  "num_lt a b \<longleftrightarrow> num_le a b \<and> \<not> num_le b a"

definition with_sign :: "bool \<Rightarrow> jsnum \<Rightarrow> jsnum" where
  "with_sign neg n = (if neg then negate n else n)"

definition num_div :: "jsnum \<Rightarrow> jsnum \<Rightarrow> jsnum" where
  "num_div a b =
     (if a = NaN \<or> b = NaN then NaN
      else let s = (num_neg a \<noteq> num_neg b) in
        if \<not> is_finite_num a then (if is_finite_num b then with_sign s PosInf else NaN)
        else if \<not> is_finite_num b then with_sign s (Fin 0)
        else if num_val b = 0 then (if num_val a = 0 then NaN else with_sign s PosInf)
        else with_sign s (dbl (\<bar>num_val a\<bar> / \<bar>num_val b\<bar>)))"

definition num_mul :: "jsnum \<Rightarrow> jsnum \<Rightarrow> jsnum" where
  "num_mul a b =
     (if a = NaN \<or> b = NaN then NaN
      else let s = (num_neg a \<noteq> num_neg b) in
        if \<not> is_finite_num a then
          (if is_finite_num b \<and> num_val b = 0 then NaN else with_sign s PosInf)
        else if \<not> is_finite_num b then
          (if num_val a = 0 then NaN else with_sign s PosInf)
        else with_sign s (dbl (\<bar>num_val a\<bar> * \<bar>num_val b\<bar>)))"

definition num_add :: "jsnum \<Rightarrow> jsnum \<Rightarrow> jsnum" where
  "num_add a b =
     (if a = NaN \<or> b = NaN then NaN
      else if \<not> is_finite_num a then (if is_finite_num b \<or> a = b then a else NaN)
      else if \<not> is_finite_num b then b
      else if a = NegZero \<and> b = NegZero then NegZero
      else dbl (num_val a + num_val b))"

definition num_sub :: "jsnum \<Rightarrow> jsnum \<Rightarrow> jsnum" where
  "num_sub a b = num_add a (negate b)"

fun math_round :: "jsnum \<Rightarrow> jsnum" where
  "math_round (Fin x) = (let r = \<lfloor>x + 1/2\<rfloor> in if r = 0 \<and> x < 0 then NegZero else Fin (of_int r))"
| "math_round n = n"

fun math_floor :: "jsnum \<Rightarrow> jsnum" where
  "math_floor (Fin x) = Fin (of_int \<lfloor>x\<rfloor>)"
| "math_floor n = n"

fun math_abs :: "jsnum \<Rightarrow> jsnum" where
  "math_abs (Fin x) = Fin \<bar>x\<bar>"
| "math_abs NegZero = Fin 0"
| "math_abs NegInf = PosInf"
| "math_abs n = n"

subsection \<open>Fixed-point text\<close>

text \<open>\<open>fixed_digits f x\<close> writes \<open>x \<ge> 0\<close> with \<open>f\<close> fraction digits, halves rounded up: the
  integer digits and the fraction digits.\<close>

definition fixed_int :: "nat \<Rightarrow> rat \<Rightarrow> int" where
  "fixed_int f x = \<lfloor>x * 10 ^ f + 1/2\<rfloor>"

definition fixed_parts :: "nat \<Rightarrow> rat \<Rightarrow> string \<times> string" where
  "fixed_parts f x = (let n = fixed_int f x in
     (show_digits (n div 10 ^ f), if f = 0 then [] else pad_left f (show_digits (n mod 10 ^ f))))"

definition point :: "string \<Rightarrow> string" where
  "point fr = (if fr = [] then [] else CHR ''.'' # fr)"

definition to_fixed :: "nat \<Rightarrow> jsnum \<Rightarrow> string" where
  "to_fixed f n =
     (if \<not> is_finite_num n \<or> 10 ^ 21 \<le> \<bar>num_val n\<bar> then to_string n
      else let x = num_val n; (ip, fr) = fixed_parts f \<bar>x\<bar> in
        (if x < 0 then ''-'' else []) @ ip @ point fr)"

text \<open>Indian grouping: the last three digits, then groups of two.\<close>

fun group2 :: "string \<Rightarrow> string" where
  "group2 (a # b # c # r) = a # b # CHR '','' # group2 (c # r)"
| "group2 r = r"

definition group_indian :: "string \<Rightarrow> string" where
  "group_indian ds = (if length ds \<le> 3 then ds
     else rev (take 3 (rev ds) @ CHR '','' # group2 (drop 3 (rev ds))))"

text \<open>
  \<open>Intl.NumberFormat("en-IN")\<close>: at least \<open>minf\<close> and at most \<open>maxf\<close> fraction digits, trailing
  zeros beyond \<open>minf\<close> cut, negative values (negative zero included) with a leading minus, and
  the currency symbol \<open>symb\<close> between the sign and the digits.
\<close>

definition cut_zeros :: "nat \<Rightarrow> string \<Rightarrow> string" where
  "cut_zeros minf fr = take minf fr @ rev (dropWhile (\<lambda>c. c = CHR ''0'') (rev (drop minf fr)))"

definition intl_format :: "string \<Rightarrow> nat \<Rightarrow> nat \<Rightarrow> jsnum \<Rightarrow> string" where
  "intl_format symb minf maxf n =
     (if n = NaN then ''NaN''
      else (if num_neg n then ''-'' else []) @ symb @
        (if \<not> is_finite_num n then [CHR 0x9C]
         else let (ip, fr) = fixed_parts maxf \<bar>num_val n\<bar>
              in group_indian ip @ point (cut_zeros minf fr)))"

subsection \<open>Reading back what was written\<close>

lemma strip10_value:
  assumes "strip10 s e = (s', e')" and "0 < s"
  shows "(of_int s' :: rat) * 10 powi e' = of_int s * 10 powi e" and "0 < s'"
proof -
  have "(of_int s' :: rat) * 10 powi e' = of_int s * 10 powi e \<and> 0 < s'"
    using assms
  proof (induction s e rule: strip10.induct)
    case (1 s e)
    show ?case
    proof (cases "0 < s \<and> s mod 10 = 0")
      case True
      then have s: "s = 10 * (s div 10)" "0 < s div 10" by auto
      have "strip10 (s div 10) (e + 1) = (s', e')"
        using "1.prems" True by (subst (asm) strip10.simps) simp
      then have "(of_int s' :: rat) * 10 powi e' = of_int (s div 10) * 10 powi (e + 1) \<and> 0 < s'"
        using "1.IH" True s(2) by blast
      moreover have "(of_int (s div 10) :: rat) * 10 powi (e + 1) = of_int s * 10 powi e"
        by (subst (2) s(1)) (simp add: power_int_add)
      ultimately show ?thesis by simp
    next
      case False
      then show ?thesis
        using "1.prems" by (subst (asm) strip10.simps) auto
    qed
  qed
  then show "(of_int s' :: rat) * 10 powi e' = of_int s * 10 powi e" and "0 < s'" by auto
qed

lemma digit_not_special:
  assumes "is_digit c"
  shows "\<not> is_space c" "c \<noteq> CHR ''-''" "c \<noteq> CHR ''+''" "c \<noteq> CHR ''I''" "c \<noteq> CHR ''.''"
  using assms by (auto simp: is_digit_def is_space_def)

lemma starts_with_Infinity: "is_digit c \<Longrightarrow> \<not> starts_with (c # u) ''Infinity''"
  by (auto simp: starts_with_def digit_not_special)

lemma takeWhile_all: "\<forall>c \<in> set s. P c \<Longrightarrow> takeWhile P (s @ t) = s @ takeWhile P t"
  by (induction s) auto

lemma dropWhile_all: "\<forall>c \<in> set s. P c \<Longrightarrow> dropWhile P (s @ t) = dropWhile P t"
  by (induction s) auto

lemma parse_float_digits:
  assumes "ip \<noteq> []" and "\<forall>c \<in> set ip. is_digit c"
  shows "parse_float ip = dbl (of_int (digits_val ip))"
proof -
  obtain c r where ip: "ip = c # r" using assms(1) by (cases ip) auto
  have c: "is_digit c" using assms(2) ip by simp
  have tr: "trim_start ip = ip" "take_sign ip = (False, ip)"
    using digit_not_special [OF c] by (auto simp: ip trim_start_def take_sign_def)
  have tw: "takeWhile is_digit ip = ip" "dropWhile is_digit ip = []"
    using assms(2) by auto
  have "\<not> starts_with ip ''Infinity''"
    using starts_with_Infinity [OF c] by (simp add: ip)
  then show ?thesis
    unfolding parse_float_def tr
    by (simp add: parse_mantissa_def tw assms(1) exponent_part_def)
qed

lemma parse_float_point:
  assumes "ip \<noteq> []" and "\<forall>c \<in> set ip. is_digit c" and "\<forall>c \<in> set fp. is_digit c"
  shows "parse_float (ip @ CHR ''.'' # fp)
      = dbl (of_int (digits_val (ip @ fp)) * 10 powi (- int (length fp)))"
proof -
  obtain c r where ip: "ip = c # r" using assms(1) by (cases ip) auto
  have c: "is_digit c" using assms(2) ip by simp
  let ?t = "ip @ CHR ''.'' # fp"
  have tr: "trim_start ?t = ?t" "take_sign ?t = (False, ?t)"
    using digit_not_special [OF c] by (auto simp: ip trim_start_def take_sign_def)
  have nd: "\<not> is_digit (CHR ''.'')" by (simp add: is_digit_def)
  have tw: "takeWhile is_digit ?t = ip" "dropWhile is_digit ?t = CHR ''.'' # fp"
    using assms(2) nd by (auto simp: takeWhile_all dropWhile_all)
  have tf: "takeWhile is_digit fp = fp" "dropWhile is_digit fp = []"
    using assms(3) by auto
  have "\<not> starts_with ?t ''Infinity''"
    using starts_with_Infinity [OF c] by (simp add: ip)
  then show ?thesis
    unfolding parse_float_def tr
    by (simp add: parse_mantissa_def tw tf assms(1) exponent_part_def)
qed

lemma parse_show_dec:
  assumes s: "0 < s"
    and n: "- 6 < int (length (show_digits s)) + e" "int (length (show_digits s)) + e \<le> 21"
  shows "parse_float (show_dec s e) = dbl (of_int s * 10 powi e)"
proof -
  define ds where "ds = show_digits s"
  have dd: "\<forall>c \<in> set ds. is_digit c" and ne: "ds \<noteq> []" and v: "digits_val ds = s"
    using s show_digits_digits [of s] by (auto simp: ds_def)
  have z0: "is_digit (CHR ''0'')" by (simp add: is_digit_def)
  then have z: "\<forall>c \<in> set (replicate k (CHR ''0'')). is_digit c" for k
    by auto
  consider (int) "0 \<le> e" | (mid) "e < 0" "0 < int (length ds) + e"
    | (small) "int (length ds) + e \<le> 0" "e < 0"
    using ne by linarith
  then show ?thesis
  proof cases
    case int
    then have "show_dec s e = ds @ replicate (nat e) (CHR ''0'')"
      using n by (simp add: show_dec_def Let_def ds_def)
    moreover have "parse_float (ds @ replicate (nat e) (CHR ''0''))
        = dbl (of_int (digits_val (ds @ replicate (nat e) (CHR ''0''))))"
      using dd z0 ne by (intro parse_float_digits) auto
    moreover have "(of_int (digits_val (ds @ replicate (nat e) (CHR ''0''))) :: rat)
        = of_int s * 10 powi e"
      using int by (simp add: digits_val_append v power_int_def)
    ultimately show ?thesis by simp
  next
    case mid
    let ?n = "nat (int (length ds) + e)"
    have "show_dec s e = take ?n ds @ CHR ''.'' # drop ?n ds"
      using n mid by (simp add: show_dec_def Let_def ds_def)
    moreover have "parse_float (take ?n ds @ CHR ''.'' # drop ?n ds)
        = dbl (of_int (digits_val (take ?n ds @ drop ?n ds)) * 10 powi (- int (length (drop ?n ds))))"
      using dd mid ne by (intro parse_float_point) (auto dest: in_set_takeD in_set_dropD)
    moreover have "- int (length (drop ?n ds)) = e"
      using mid by simp
    ultimately show ?thesis by (simp only: append_take_drop_id v)
  next
    case small
    let ?z = "replicate (nat (- (int (length ds) + e))) (CHR ''0'')"
    have "show_dec s e = ''0'' @ CHR ''.'' # (?z @ ds)"
      using n small by (simp add: show_dec_def Let_def ds_def)
    moreover have "parse_float (''0'' @ CHR ''.'' # (?z @ ds))
        = dbl (of_int (digits_val (''0'' @ (?z @ ds))) * 10 powi (- int (length (?z @ ds))))"
      using dd z0 by (intro parse_float_point) auto
    moreover have "- int (length (?z @ ds)) = e"
      using small by simp
    moreover have "digits_val (''0'' @ (?z @ ds)) = s"
      by (simp only: digits_val_append digits_val_zeros v) (simp add: digits_val_def digit_val_def)
    ultimately show ?thesis by simp
  qed
qed

subsection \<open>Minor units divided by one hundred\<close>

text \<open>
  The amounts the product handles are integer paise \<open>m\<close>, shown as the binary64 quotient
  \<open>m / 100\<close>. Up to \<open>2 ^ 50\<close> paise (more than eleven trillion rupees) the rounding error of that
  quotient, scaled back, stays below an eighth of a paisa, which every conversion below needs.
\<close>

definition safe_minor :: "int \<Rightarrow> bool" where
  "safe_minor m \<longleftrightarrow> \<bar>m\<bar> \<le> 2 ^ 50"

definition rupees :: "int \<Rightarrow> rat" where
  "rupees m = rnd (of_int m / 100)"

lemma rnd_error_ge:
  assumes "1 / 100 \<le> \<bar>x\<bar>"
  shows "\<bar>rnd x - x\<bar> \<le> \<bar>x\<bar> / 2 ^ 53"
proof -
  have "(2::rat) powi (- 1022) \<le> 2 powi (- 7)"
    by (simp only: powi2_le_iff)
  also have "(2::rat) powi (- 7) \<le> 1 / 100"
    by (simp add: power_int_def power_divide)
  finally show ?thesis
    using assms by (intro rnd_error) simp
qed

lemma rupees_error:
  assumes "safe_minor m"
  shows "\<bar>100 * rupees m - of_int m\<bar> \<le> 1 / 8"
proof (cases "m = 0")
  case True
  then show ?thesis by (simp add: rupees_def)
next
  case False
  define a :: rat where "a = of_int \<bar>m\<bar>"
  have m1: "1 \<le> \<bar>m\<bar>" and m2: "\<bar>m\<bar> \<le> 2 ^ 50"
    using False assms by (auto simp: safe_minor_def)
  have a1: "1 \<le> a"
    using m1 unfolding a_def by (metis of_int_1 of_int_le_iff)
  have a2: "a \<le> 2 ^ 50"
    using m2 unfolding a_def by (metis of_int_le_iff of_int_numeral of_int_power)
  have abs: "\<bar>of_int m / 100 :: rat\<bar> = a / 100"
    by (simp add: a_def)
  have "\<bar>rupees m - of_int m / 100\<bar> \<le> a / 100 / 2 ^ 53"
    using a1 abs rnd_error_ge [of "of_int m / 100"] unfolding rupees_def by simp
  also have "\<dots> \<le> 2 ^ 50 / 100 / 2 ^ 53"
    using a2 by (intro divide_right_mono) auto
  also have "\<dots> = 1 / 800"
    by simp
  finally have "\<bar>rupees m - of_int m / 100\<bar> \<le> 1 / 800" .
  moreover have "100 * rupees m - of_int m = 100 * (rupees m - of_int m / 100)"
    by simp
  then have "\<bar>100 * rupees m - of_int m\<bar> = 100 * \<bar>rupees m - of_int m / 100\<bar>"
    by (simp only: abs_mult)
  ultimately show ?thesis by simp
qed

lemma rupees_pos: "0 < m \<Longrightarrow> safe_minor m \<Longrightarrow> 1 / 200 < rupees m"
proof -
  assume m: "0 < m" "safe_minor m"
  then have "(1::rat) \<le> of_int m" by simp
  moreover have "of_int m - 1 / 8 \<le> 100 * rupees m"
    using rupees_error [OF m(2)] by linarith
  ultimately show ?thesis by simp
qed

lemma rupees_zero [simp]: "rupees 0 = 0"
  by (simp add: rupees_def)

lemma floor_half_unique:
  fixes y :: rat
  assumes "\<bar>y - of_int m\<bar> < 1 / 2"
  shows "\<lfloor>y + 1 / 2\<rfloor> = m"
  using assms by (intro floor_unique) (auto simp: abs_if split: if_splits)

lemma fixed_int_rupees: "safe_minor m \<Longrightarrow> fixed_int 2 (rupees m) = m"
  unfolding fixed_int_def using rupees_error [of m]
  by (intro floor_half_unique) (simp add: mult.commute)

lemma lead_lower: "1 \<le> x * 10 ^ f \<Longrightarrow> 10 powi (lead f x - 1) \<le> x"
proof (induction f arbitrary: x)
  case 0
  then show ?case by (simp add: power_int_def)
next
  case (Suc f)
  show ?case
  proof (cases "1 \<le> x")
    case False
    have "10 powi (lead f (10 * x) - 1) \<le> 10 * x"
      using Suc.prems by (intro Suc.IH) (simp add: mult_ac)
    then show ?thesis
      using False by (simp add: power_int_diff)
  qed simp
qed

lemma dec_exp_lower:
  assumes "1 / 200 < x"
  shows "10 powi (dec_exp x - 1) \<le> x"
proof (cases "1 \<le> x")
  case True
  then have "10 ^ (length (show_digits \<lfloor>x\<rfloor>) - 1) \<le> \<lfloor>x\<rfloor>"
    by (intro show_digits_lower) simp
  then have "(10::rat) ^ (length (show_digits \<lfloor>x\<rfloor>) - 1) \<le> of_int \<lfloor>x\<rfloor>"
    by (metis of_int_le_iff of_int_numeral of_int_power)
  also have "\<dots> \<le> x" by simp
  finally have "(10::rat) ^ (length (show_digits \<lfloor>x\<rfloor>) - 1) \<le> x" .
  moreover have "int (length (show_digits \<lfloor>x\<rfloor>)) - 1 = int (length (show_digits \<lfloor>x\<rfloor>) - 1)"
    by (cases "show_digits \<lfloor>x\<rfloor>") auto
  moreover have "dec_exp x = int (length (show_digits \<lfloor>x\<rfloor>))"
    using True by (simp only: dec_exp_def if_True)
  ultimately show ?thesis
    by (simp only: power_int_of_nat)
next
  case False
  have fuel: "1 \<le> x * 10 ^ f" if "3 \<le> f" for f
  proof -
    have "1 \<le> x * 10 ^ 3"
      using assms by simp
    also have "\<dots> \<le> x * 10 ^ f"
      using assms that by (intro mult_left_mono power_increasing) auto
    finally show ?thesis .
  qed
  have "10 powi (lead 400 x - 1) \<le> x"
    by (rule lead_lower [OF fuel]) simp
  then show ?thesis
    using False by (simp only: dec_exp_def if_False)
qed

lemma dec_exp_range:
  assumes "1 / 100 \<le> x" and "x < 10 ^ 14"
  shows "- 1 \<le> dec_exp x" and "dec_exp x \<le> 14"
proof -
  have "- 1 \<le> dec_exp x \<and> dec_exp x \<le> 14"
  proof (cases "1 \<le> x")
    case True
    have "\<lfloor>x\<rfloor> < 10 ^ 14"
      using assms(2) by (simp add: floor_less_iff)
    then have "length (show_digits \<lfloor>x\<rfloor>) \<le> 14"
      by (intro length_show_digits_le) auto
    then show ?thesis
      using True by (simp only: dec_exp_def if_True) simp
  next
    case False
    have big: "1 \<le> 10 * (10 * x)" using assms(1) by simp
    have step: "lead (Suc (Suc (Suc g))) x = (if 1 \<le> 10 * x then 0 else - 1)" for g
      using False by (simp only: lead.simps big if_True if_False) simp
    have "lead 400 x = (if 1 \<le> 10 * x then 0 else - 1)"
      using step [of 397] by (simp only: numeral_eq_Suc pred_numeral_simps BitM.simps)
    then show ?thesis
      using False by (simp only: dec_exp_def if_False) simp
  qed
  then show "- 1 \<le> dec_exp x" and "dec_exp x \<le> 14" by auto
qed

lemma rupees_one_paisa: "1 / 100 \<le> rupees 1"
  by code_simp

lemma rupees_ge_paisa:
  assumes "0 < m" and "safe_minor m"
  shows "1 / 100 \<le> rupees m"
proof (cases "m = 1")
  case True
  show ?thesis unfolding True by (rule rupees_one_paisa)
next
  case False
  then have "2 \<le> m" using assms(1) by simp
  then have "(2::rat) \<le> of_int m" by simp
  then show ?thesis
    using rupees_error [OF assms(2)] by linarith
qed

lemma rupees_less:
  assumes "safe_minor m"
  shows "rupees m < 10 ^ 14"
proof -
  have "of_int m \<le> (2 ^ 50 :: rat)"
    using assms unfolding safe_minor_def
    by (metis abs_le_D1 of_int_le_iff of_int_numeral of_int_power)
  then have "100 * rupees m \<le> 2 ^ 50 + 1 / 8"
    using rupees_error [OF assms] by linarith
  also have "\<dots> < (100 * 10 ^ 14 :: rat)" by simp
  finally show ?thesis by simp
qed

lemma sig_ok_rupees:
  assumes "0 < m" and "safe_minor m"
  shows "sig_ok (rupees m) (nat (dec_exp (rupees m) + 2))"
    and "nat (dec_exp (rupees m) + 2) \<in> {1..<18}"
proof -
  note r = dec_exp_range [OF rupees_ge_paisa [OF assms] rupees_less [OF assms(2)]]
  then show "nat (dec_exp (rupees m) + 2) \<in> {1..<18}" by auto
  have "sig (nat (dec_exp (rupees m) + 2)) (rupees m) = \<lfloor>rupees m * 10 ^ 2 + 1/2\<rfloor>"
    using r by (simp add: sig_def power_int_def)
  also have "\<dots> = m"
    using fixed_int_rupees [OF assms(2)] by (simp add: fixed_int_def)
  finally have s: "sig (nat (dec_exp (rupees m) + 2)) (rupees m) = m" .
  have p: "(10::rat) powi (dec_exp (rupees m) - int (nat (dec_exp (rupees m) + 2))) = 1 / 100"
    using r by (simp add: power_int_def power_divide)
  show "sig_ok (rupees m) (nat (dec_exp (rupees m) + 2))"
    unfolding sig_ok_def by (simp only: s p) (simp add: rupees_def)
qed

lemma shortest_ok:
  assumes "\<exists>j \<in> {1..<18}. sig_ok x j" and "shortest x = (s, e)"
  obtains j where "sig_ok x j" "j \<in> {1..<18}" "s = sig j x" "e = dec_exp x - int j"
proof -
  obtain j where "find (sig_ok x) [1..<18] = Some j"
    using assms(1) by (cases "find (sig_ok x) [1..<18]") (auto simp: find_None_iff)
  then have "sig_ok x j" "j \<in> {1..<18}" "shortest x = (sig j x, dec_exp x - int j)"
    by (auto simp: shortest_def dest: find_SomeD)
  then show ?thesis using that assms(2) by simp
qed

lemma sig_near:
  assumes "1 / 200 < x" and "1 \<le> j"
  shows "\<bar>of_int (sig j x) * 10 powi (dec_exp x - int j) - x\<bar> \<le> x / 2"
proof -
  define p :: rat where "p = 10 powi (dec_exp x - int j)"
  have p: "0 < p" by (simp add: p_def)
  have inv: "(10::rat) powi (int j - dec_exp x) = 1 / p"
    by (simp add: p_def power_int_diff)
  have "\<bar>of_int (sig j x) - x / p\<bar> \<le> 1 / 2"
    unfolding sig_def inv times_divide_eq_right mult_1_right by linarith
  then have "\<bar>of_int (sig j x) - x / p\<bar> * p \<le> 1 / 2 * p"
    using p by (intro mult_right_mono) auto
  also have "\<bar>of_int (sig j x) - x / p\<bar> * p = \<bar>(of_int (sig j x) - x / p) * p\<bar>"
    using p by (simp add: abs_mult)
  also have "(of_int (sig j x) - x / p) * p = of_int (sig j x) * p - x"
    using p by (simp add: left_diff_distrib)
  finally have near: "\<bar>of_int (sig j x) * p - x\<bar> \<le> 1 / 2 * p" .
  have "p \<le> 10 powi (dec_exp x - 1)"
    unfolding p_def using assms(2) by (intro power_int_increasing) auto
  also have "\<dots> \<le> x" by (rule dec_exp_lower [OF assms(1)])
  finally show ?thesis using near by (simp add: p_def)
qed

lemma show_digits_span:
  assumes "0 < s"
  shows "10 powi (int (length (show_digits s)) - 1) \<le> (of_int s :: rat)"
    and "(of_int s :: rat) < 10 powi int (length (show_digits s))"
proof -
  obtain k where k: "length (show_digits s) = Suc k"
    by (cases "show_digits s") auto
  have "10 ^ k \<le> s" and "s < 10 ^ Suc k"
    using show_digits_lower [OF assms] show_digits_upper [of s] assms by (auto simp: k)
  then have "(10::rat) ^ k \<le> of_int s" and "of_int s < (10::rat) ^ Suc k"
    by (metis of_int_le_iff of_int_numeral of_int_power)
      (metis \<open>s < 10 ^ Suc k\<close> of_int_less_iff of_int_numeral of_int_power)
  then show "10 powi (int (length (show_digits s)) - 1) \<le> (of_int s :: rat)"
    and "(of_int s :: rat) < 10 powi int (length (show_digits s))"
    by (simp_all add: k power_int_of_nat [symmetric] del: power_Suc power_int_of_nat)
qed

lemma digit_span_bounds:
  assumes s: "0 < s" and lo: "1 / 400 < (of_int s :: rat) * 10 powi e"
    and hi: "(of_int s :: rat) * 10 powi e < 10 ^ 15"
  shows "- 6 < int (length (show_digits s)) + e" and "int (length (show_digits s)) + e \<le> 21"
proof -
  let ?l = "int (length (show_digits s))"
  have "(10::rat) powi (- 3) < of_int s * 10 powi e"
    using lo by (simp add: power_int_def power_divide)
  also have "\<dots> < 10 powi ?l * 10 powi e"
    using show_digits_span(2) [OF s] by (intro mult_strict_right_mono) auto
  also have "\<dots> = 10 powi (?l + e)" by (simp add: power_int_add)
  finally have "(10::rat) powi (- 3) < 10 powi (?l + e)" .
  then show "- 6 < ?l + e"
    using power_int_increasing [of "?l + e" "- 3" "10::rat"] by (cases "?l + e \<le> - 3") auto
  have "(10::rat) powi (?l - 1 + e) = 10 powi (?l - 1) * 10 powi e" by (simp add: power_int_add)
  also have "\<dots> \<le> of_int s * 10 powi e"
    using show_digits_span(1) [OF s] by (intro mult_right_mono) auto
  also have "\<dots> < 10 powi 15" using hi by simp
  finally have "(10::rat) powi (?l - 1 + e) < 10 powi 15" .
  then show "?l + e \<le> 21"
    using power_int_increasing [of 15 "?l - 1 + e" "10::rat"] by (cases "15 \<le> ?l - 1 + e") auto
qed

text \<open>The text of an amount reads back as the very binary64 number it was written from.\<close>

lemma dbl_rupees:
  assumes "0 < m" and "safe_minor m" and "rnd y = rupees m"
  shows "dbl y = Fin (rupees m)"
proof -
  have pos: "0 < rupees m" using rupees_pos [OF assms(1,2)] by simp
  have "rupees m < 2 powi 1024"
    using rupees_less [OF assms(2)] powi2_le_iff [of 47 1024] by (simp add: power_int_def)
  then have "ilog2 (rupees m) < 1024"
    using ilog2_bounds(1) [OF pos] powi2_less_iff by (meson le_less_trans)
  then show ?thesis using pos assms(3) by (simp add: dbl_def Let_def)
qed

lemma rupees_shown:
  assumes "0 < m" and "safe_minor m"
  obtains s e where "to_string (Fin (rupees m)) = show_dec s e" "0 < s"
    "- 6 < int (length (show_digits s)) + e" "int (length (show_digits s)) + e \<le> 21"
    "dbl (of_int s * 10 powi e) = Fin (rupees m)"
proof -
  define x where "x = rupees m"
  have lo: "1 / 200 < x" and hi: "x < 10 ^ 14"
    using rupees_pos rupees_less assms by (auto simp: x_def)
  obtain s e where se: "shortest x = (s, e)" by (cases "shortest x")
  obtain j where j: "sig_ok x j" "j \<in> {1..<18}" "s = sig j x" "e = dec_exp x - int j"
    using shortest_ok [OF _ se] sig_ok_rupees [OF assms] unfolding x_def by blast
  define y :: rat where "y = of_int s * 10 powi e"
  have near: "\<bar>y - x\<bar> \<le> x / 2"
    using sig_near [OF lo, of j] j by (simp add: y_def)
  have ylo: "1 / 400 < y"
    using near lo by linarith
  have yhi: "y < 10 ^ 15"
  proof -
    have "y \<le> 3 / 2 * x" using near by linarith
    also have "\<dots> < 3 / 2 * 10 ^ 14" using hi by simp
    also have "\<dots> < (10 ^ 15 :: rat)" by simp
    finally show ?thesis .
  qed
  have "0 < y" using ylo by linarith
  then have s: "0 < s"
    using zero_less_mult_pos2 [of "of_int s :: rat" "10 powi e"] by (simp add: y_def)
  obtain s' e' where st: "strip10 s e = (s', e')" by (cases "strip10 s e")
  note v = strip10_value [OF st s]
  have shown: "to_string (Fin x) = show_dec s' e'"
    using lo by (simp add: show_pos_def se st)
  moreover have "dbl (of_int s' * 10 powi e') = Fin x"
  proof -
    have "dbl (of_int s' * 10 powi e') = dbl y" by (simp add: v(1) y_def)
    also have "\<dots> = Fin x"
      unfolding x_def using j by (intro dbl_rupees assms) (simp add: sig_ok_def y_def x_def)
    finally show ?thesis .
  qed
  ultimately show thesis
    using digit_span_bounds [OF v(2)] ylo yhi v by (intro that [of s' e']) (auto simp: x_def y_def)
qed

lemma parse_to_string_rupees:
  assumes "0 < m" and "safe_minor m"
  shows "parse_float (to_string (Fin (rupees m))) = Fin (rupees m)"
proof -
  obtain s e where s: "to_string (Fin (rupees m)) = show_dec s e" "0 < s"
    "- 6 < int (length (show_digits s)) + e" "int (length (show_digits s)) + e \<le> 21"
    "dbl (of_int s * 10 powi e) = Fin (rupees m)"
    by (rule rupees_shown [OF assms])
  show ?thesis using parse_show_dec [OF s(2-4)] by (simp only: s)
qed

subsection \<open>Integer quotients\<close>

text \<open>Within \<open>2 ^ 50\<close>, rounding the quotient of two integers never moves it across an integer.\<close>

lemma dbl_Fin:
  assumes "0 \<le> x" and "rnd x < 2 powi 1024"
  shows "dbl x = Fin (rnd x)"
proof (cases "rnd x = 0")
  case False
  then have pos: "0 < rnd x" using rnd_nonneg [OF assms(1)] by simp
  have "ilog2 (rnd x) < 1024"
    using ilog2_bounds(1) [OF pos] assms(2) powi2_less_iff by (meson le_less_trans)
  then show ?thesis using pos by (simp add: dbl_def Let_def)
qed (use assms in \<open>simp add: dbl_def\<close>)

lemma dbl_overflow:
  assumes "2 powi 1025 \<le> x"
  shows "dbl x = PosInf"
proof -
  have "(2::rat) powi (- 1022) \<le> 2 powi 1025" by (simp only: powi2_le_iff)
  then have x: "2 powi (- 1022) \<le> \<bar>x\<bar>" "0 < x"
    using assms by (auto intro: less_le_trans [of 0 "2 powi 1025"])
  have "x - x / 2 ^ 53 \<le> rnd x" using rnd_error [OF x(1)] x(2) by linarith
  moreover have "x / 2 ^ 53 \<le> x / 2" using x(2) by (intro divide_left_mono) auto
  ultimately have "x / 2 \<le> rnd x" by linarith
  moreover have "2 powi 1024 \<le> x / 2"
    using assms power_int_add [of "2::rat" 1024 1] by simp
  ultimately have r: "2 powi 1024 \<le> rnd x" by linarith
  moreover have "(0::rat) < 2 powi 1024" by (rule zero_less_power_int) simp
  ultimately have pos: "0 < rnd x" by (rule less_le_trans [rotated])
  have "(2::rat) powi 1024 < 2 powi (ilog2 (rnd x) + 1)"
    using r ilog2_bounds(2) [OF pos] by (rule le_less_trans)
  then have "1024 < ilog2 (rnd x) + 1" by (simp only: powi2_less_iff)
  then show ?thesis using pos by (simp add: dbl_def Let_def)
qed

lemma dbl_small:
  assumes "0 \<le> x" and "rnd x < 2 ^ 60"
  shows "dbl x = Fin (rnd x)"
proof -
  have "rnd x < 2 powi 60" using assms(2) by (simp add: power_int_def)
  also have "(2::rat) powi 60 \<le> 2 powi 1024" by (simp only: powi2_le_iff)
  finally show ?thesis by (intro dbl_Fin assms(1))
qed

lemma rnd_quotient_error:
  fixes n d :: int
  assumes "0 \<le> n" "n \<le> 2 ^ 50" "1 \<le> d" "d \<le> 1000"
  shows "\<bar>rnd (of_int n / of_int d) - of_int n / of_int d\<bar> \<le> 1 / (8 * of_int d)"
proof (cases "n = 0")
  case True
  then show ?thesis using assms by simp
next
  case False
  define x :: rat where "x = of_int n / of_int d"
  have n1: "(1::rat) \<le> of_int n" using False assms(1) by simp
  have n2: "(of_int n :: rat) \<le> 2 ^ 50"
    using assms(2) by (metis of_int_le_iff of_int_numeral of_int_power)
  have d1: "(1::rat) \<le> of_int d" "(of_int d :: rat) \<le> 1000" using assms by simp_all
  have x0: "0 < x" using n1 d1 by (simp add: x_def)
  have "1 / 1000 \<le> x" unfolding x_def using n1 d1 by (intro frac_le) auto
  moreover have "(2::rat) powi (- 1022) \<le> 2 powi (- 10)" by (simp only: powi2_le_iff)
  moreover have "(2::rat) powi (- 10) \<le> 1 / 1000" by (simp add: power_int_def power_divide)
  ultimately have "2 powi (- 1022) \<le> \<bar>x\<bar>" using x0 by simp
  then have "\<bar>rnd x - x\<bar> \<le> \<bar>x\<bar> / 2 ^ 53" by (rule rnd_error)
  also have "\<bar>x\<bar> / 2 ^ 53 = of_int n / 2 ^ 53 / of_int d" using n1 d1 by (simp add: x_def)
  also have "\<dots> \<le> 2 ^ 50 / 2 ^ 53 / of_int d"
    using n2 d1 by (intro divide_right_mono) auto
  finally show ?thesis by (simp add: x_def)
qed

lemma floor_rnd_quotient:
  fixes n d :: int
  assumes "0 \<le> n" "n \<le> 2 ^ 50" "1 \<le> d" "d \<le> 1000"
  shows "\<lfloor>rnd (of_int n / of_int d)\<rfloor> = n div d"
proof (cases "n mod d = 0")
  case True
  then have "(of_int n :: rat) = of_int d * of_int (n div d)"
    by (metis div_mult_mod_eq add.right_neutral mult.commute of_int_mult)
  then have x: "(of_int n :: rat) / of_int d = of_int (n div d)" using assms by simp
  have "n div d \<le> n div 1" using assms by (intro zdiv_mono2) auto
  then have "\<bar>n div d\<bar> \<le> 2 ^ 53"
    using assms pos_imp_zdiv_nonneg_iff [of d n] by simp
  then show ?thesis by (simp only: x rnd_of_int floor_of_int)
next
  case False
  define x :: rat where "x = of_int n / of_int d"
  define k r where "k = n div d" and "r = n mod d"
  have r: "1 \<le> r" "r \<le> d - 1"
    using False assms pos_mod_sign [of d n] pos_mod_bound [of d n] unfolding r_def by linarith+
  have d0: "(0::rat) < of_int d" using assms by simp
  have "n = k * d + r" by (simp add: k_def r_def)
  then have x: "x = of_int k + of_int r / of_int d"
    using d0 by (simp add: x_def add_divide_distrib)
  have e: "\<bar>rnd x - x\<bar> \<le> 1 / (8 * of_int d)"
    unfolding x_def by (rule rnd_quotient_error [OF assms])
  have "(1::rat) / (8 * of_int d) < 1 / of_int d" using d0 by (simp add: field_simps)
  moreover have "(1::rat) / of_int d \<le> of_int r / of_int d"
    using r d0 by (intro divide_right_mono) auto
  moreover have "of_int r / of_int d \<le> (of_int (d - 1) :: rat) / of_int d"
    using r d0 by (intro divide_right_mono) (auto simp: of_int_le_iff)
  moreover have "(of_int (d - 1) :: rat) / of_int d = 1 - 1 / of_int d"
    using d0 by (simp add: diff_divide_distrib)
  ultimately have "of_int k < rnd x" "rnd x < of_int k + 1"
    using e x by linarith+
  then show ?thesis unfolding x_def [symmetric] k_def by (intro floor_unique) auto
qed

lemma math_floor_quotient:
  assumes "0 \<le> n" "n \<le> 2 ^ 50" "1 \<le> d" "d \<le> 1000"
  shows "math_floor (num_div (num_of_int n) (Fin (of_int d))) = num_of_int (n div d)"
proof -
  let ?x = "of_int n / of_int d :: rat"
  have "of_int \<lfloor>rnd ?x\<rfloor> \<le> (2 ^ 50 :: rat)"
  proof -
    have "n div d \<le> n div 1" using assms by (intro zdiv_mono2) auto
    then have "n div d \<le> 2 ^ 50" using assms(2) by simp
    then show ?thesis unfolding floor_rnd_quotient [OF assms]
      by (metis of_int_le_iff of_int_numeral of_int_power)
  qed
  then have "rnd ?x < 2 ^ 50 + 1" by linarith
  also have "\<dots> < (2 ^ 60 :: rat)" by simp
  finally have "dbl ?x = Fin (rnd ?x)"
    using assms by (intro dbl_small) auto
  then have "num_div (num_of_int n) (Fin (of_int d)) = Fin (rnd ?x)"
    using assms by (simp add: num_div_def num_of_int_def with_sign_def)
  then show ?thesis
    by (simp add: floor_rnd_quotient [OF assms] num_of_int_def)
qed

text \<open>\<open>Math.round(n / 1000)\<close> for a nonnegative integer: halves included.\<close>

lemma rnd_half:
  assumes "1 \<le> \<bar>x\<bar>"
  shows "rnd (x / 2) = rnd x / 2"
proof -
  define e where "e = ilog2 \<bar>x\<bar>"
  have pos: "0 < \<bar>x\<bar>" using assms by simp
  note b = ilog2_bounds [OF pos, folded e_def]
  have "(2::rat) powi 0 < 2 powi (e + 1)" using assms b(2) by simp
  then have e0: "0 \<le> e" by (simp add: powi2_less_iff del: power_int_0_right)
  have h: "ilog2 (\<bar>x\<bar> / 2) = e - 1"
    using b by (intro ilog2_unique) (auto simp: power_int_diff power_int_add)
  have m: "max (e - 52) (- 1074) = e - 52" "max (e - 53) (- 1074) = e - 53"
    using e0 by auto
  have q: "(2::rat) powi (e - 53) = 2 powi (e - 52) / 2"
    by (simp add: power_int_diff)
  show ?thesis
    using pos by (simp add: rnd_def Let_def e_def [symmetric] h m q)
qed

lemma math_round_thousandths:
  assumes "0 \<le> n" "n \<le> 2 ^ 50"
  shows "math_round (num_div (num_of_int n) (Fin 1000)) = num_of_int ((n + 500) div 1000)"
proof -
  define x :: rat where "x = of_int n / 1000"
  define k r where "k = (n + 500) div 1000" and "r = (n + 500) mod 1000"
  have r: "0 \<le> r" "r < 1000" by (simp_all add: r_def)
  have "n + 500 = k * 1000 + r" by (simp add: k_def r_def)
  then have "(of_int n :: rat) + 500 = of_int k * 1000 + of_int r"
    by (metis of_int_add of_int_mult of_int_numeral)
  then have x: "x + 1 / 2 = of_int k + of_int r / 1000" by (simp add: x_def)
  have e: "\<bar>rnd x - x\<bar> \<le> 1 / 8000"
    using rnd_quotient_error [OF assms, of 1000] by (simp add: x_def)
  have fl: "\<lfloor>rnd x + 1 / 2\<rfloor> = k"
  proof (cases "r = 0")
    case True
    then have x2: "x = of_int (2 * k - 1) / 2" using x by simp
    have n: "n + 500 = k * 1000"
      using True \<open>n + 500 = k * 1000 + r\<close> by simp
    have k0: "1 \<le> k" using n assms(1) by linarith
    have "k * 1000 \<le> 2 ^ 50 + 500" using n assms(2) by linarith
    then have k1: "1 \<le> 2 * k - 1" "2 * k - 1 \<le> 2 ^ 53" using k0 by simp_all
    have "rnd x = rnd (of_int (2 * k - 1)) / 2"
      unfolding x2 by (rule rnd_half, use k1(1) in linarith)
    also have "rnd (of_int (2 * k - 1)) = of_int (2 * k - 1)"
      using k1 by (intro rnd_of_int) simp
    finally have "rnd x = x" by (simp only: x2)
    then show ?thesis using x True by simp
  next
    case False
    then have "(1::rat) \<le> of_int r" "(of_int r :: rat) \<le> 999" using r by simp_all
    then have "of_int k \<le> rnd x + 1 / 2" "rnd x + 1 / 2 < of_int k + 1"
      using e x by linarith+
    then show ?thesis by (intro floor_unique) auto
  qed
  have "of_int k \<le> (2 ^ 50 :: rat)"
  proof -
    have "k \<le> 2 ^ 50" using assms by (simp add: k_def)
    then show ?thesis by (metis of_int_le_iff of_int_numeral of_int_power)
  qed
  then have "rnd x < 2 ^ 50 + 1"
    using fl by linarith
  also have "\<dots> < (2 ^ 60 :: rat)" by simp
  finally have "rnd x < 2 ^ 60" .
  then have "dbl x = Fin (rnd x)"
    using assms by (intro dbl_small) (auto simp: x_def)
  then have "num_div (num_of_int n) (Fin 1000) = Fin (rnd x)"
    using assms by (simp add: num_div_def num_of_int_def with_sign_def x_def)
  moreover have "0 \<le> rnd x" using assms by (intro rnd_nonneg) (simp add: x_def)
  ultimately show ?thesis using fl by (simp add: num_of_int_def k_def)
qed

subsection \<open>Sums of whole numbers\<close>

lemma dbl_of_int:
  assumes "\<bar>n\<bar> \<le> 2 ^ 53"
  shows "dbl (of_int n) = num_of_int n"
proof (cases "n = 0")
  case True
  then show ?thesis by (simp add: dbl_def num_of_int_def)
next
  case False
  then have pos: "0 < \<bar>of_int n :: rat\<bar>" by simp
  have "2 powi ilog2 \<bar>of_int n :: rat\<bar> \<le> \<bar>of_int n :: rat\<bar>"
    by (rule ilog2_bounds(1) [OF pos])
  also have "\<bar>of_int n :: rat\<bar> \<le> 2 powi 53"
  proof -
    have "(of_int \<bar>n\<bar> :: rat) \<le> of_int (2 ^ 53)" using assms by (simp only: of_int_le_iff)
    then show ?thesis by simp
  qed
  finally have "ilog2 \<bar>of_int n :: rat\<bar> \<le> 53" by (simp only: powi2_le_iff)
  then show ?thesis
    using False rnd_of_int [OF assms] by (simp add: dbl_def num_of_int_def Let_def)
qed

lemma num_add_of_int:
  "\<bar>i + j\<bar> \<le> 2 ^ 53 \<Longrightarrow> num_add (num_of_int i) (num_of_int j) = num_of_int (i + j)"
  using dbl_of_int [of "i + j"] by (simp add: num_add_def num_of_int_def)

lemma num_sub_of_int:
  assumes "\<bar>i - j\<bar> \<le> 2 ^ 53"
  shows "num_sub (num_of_int i) (num_of_int j) = num_of_int (i - j)"
  using assms dbl_of_int [of "i - j"]
  by (cases "j = 0") (simp_all add: num_sub_def num_add_def num_of_int_def)

end
