(* ===== verification/Format.thy ===== *)
theory Format
  imports JsNumber
begin

text \<open>
  \<open>frontend/lib/format.ts\<close>: the presentation of amounts, rates, times and identifiers, and the
  two conversions between the rupee text of a form field and integer minor units.

  An argument of type \<open>X | null | undefined\<close> is an \<open>option\<close>: every formatter treats \<open>null\<close> and
  \<open>undefined\<close> alike. Timestamps need the host: how \<open>new Date(ts).getTime()\<close> reads a text that
  need not be in the ISO format, and the text \<open>Intl.DateTimeFormat\<close> produces in the host's time
  zone from its locale data, are the fields of \<open>host\<close>. The current time is an argument, as it is
  in the source.
\<close>

type_synonym Money = jsnum
type_synonym Ppm = jsnum
type_synonym Timestamp = string

record host =
  date_value :: "string \<Rightarrow> int option"
  format_date_time :: "int \<Rightarrow> string"
  format_date_only :: "int \<Rightarrow> string"
  format_time_only :: "int \<Rightarrow> string"

subsection \<open>Amounts\<close>

definition NO_VALUE :: string where "NO_VALUE = [EM_DASH]"

text \<open>The three \<open>Intl.NumberFormat\<close> instances of the module.\<close>

definition inr :: "jsnum \<Rightarrow> string" where "inr = intl_format [RUPEE] 2 2"
definition inrWhole :: "jsnum \<Rightarrow> string" where "inrWhole = intl_format [RUPEE] 0 0"
definition counts :: "jsnum \<Rightarrow> string" where "counts = intl_format [] 0 3"

definition money :: "Money option \<Rightarrow> string" where
  "money minor = (case minor of None \<Rightarrow> NO_VALUE
     | Some n \<Rightarrow> if \<not> is_finite_num n then NO_VALUE else inr (num_div n (Fin 100)))"

definition moneyShort :: "Money option \<Rightarrow> string" where
  "moneyShort minor = (case minor of None \<Rightarrow> NO_VALUE
     | Some n \<Rightarrow> if \<not> is_finite_num n then NO_VALUE
                else inrWhole (math_round (num_div n (Fin 100))))"

definition rupeeInputValue :: "Money option \<Rightarrow> string" where
  "rupeeInputValue minor = (case minor of None \<Rightarrow> []
     | Some n \<Rightarrow> if \<not> is_finite_num n then [] else to_string (num_div n (Fin 100)))"

definition rupeeInputToMinor :: "string \<Rightarrow> Money option" where
  "rupeeInputToMinor s = (let parsed = parse_float s in
     if \<not> is_finite_num parsed \<or> num_le parsed (Fin 0) then None
     else Some (math_round (num_mul parsed (Fin 100))))"

definition moneyCompact :: "Money option \<Rightarrow> string" where
  "moneyCompact minor = (case minor of None \<Rightarrow> NO_VALUE
     | Some m \<Rightarrow> if \<not> is_finite_num m then NO_VALUE
       else let r = num_div m (Fin 100);
                s = (if num_lt r (Fin 0) then ''-'' else []);
                n = math_abs r
            in if num_le (Fin 10000000) n
                 then s @ RUPEE # to_fixed 2 (num_div n (Fin 10000000)) @ ''Cr''
               else if num_le (Fin 100000) n
                 then s @ RUPEE # to_fixed 2 (num_div n (Fin 100000)) @ ''L''
               else if num_le (Fin 1000) n
                 then s @ RUPEE # to_fixed 1 (num_div n (Fin 1000)) @ ''K''
               else s @ RUPEE # to_fixed 0 n)"

definition count :: "jsnum option \<Rightarrow> string" where
  "count v = (case v of None \<Rightarrow> NO_VALUE
     | Some n \<Rightarrow> if \<not> is_finite_num n then NO_VALUE else counts n)"

subsection \<open>Rates\<close>

definition percent :: "Ppm option \<Rightarrow> nat \<Rightarrow> string" where
  "percent ppm digits = (case ppm of None \<Rightarrow> NO_VALUE
     | Some n \<Rightarrow> if \<not> is_finite_num n then NO_VALUE
                else to_fixed digits (num_div n (Fin 10000)) @ ''%'')"

definition percentOf :: "jsnum option \<Rightarrow> jsnum option \<Rightarrow> nat \<Rightarrow> string" where
  "percentOf numerator denominator digits =
     (case (numerator, denominator) of
        (Some n, Some d) \<Rightarrow>
          if num_eq d (Fin 0) then NO_VALUE
          else to_fixed digits (num_mul (num_div n d) (Fin 100)) @ ''%''
      | _ \<Rightarrow> NO_VALUE)"

definition ppmToBps :: "Ppm option \<Rightarrow> string" where
  "ppmToBps ppm = (case ppm of None \<Rightarrow> NO_VALUE
     | Some n \<Rightarrow> if \<not> is_finite_num n then NO_VALUE
                else to_fixed 0 (num_div n (Fin 100)) @ '' bps'')"

subsection \<open>Times\<close>

text \<open>\<open>!iso\<close> holds of \<open>null\<close>, \<open>undefined\<close> and the empty string.\<close>

definition falsy_string :: "string option \<Rightarrow> bool" where
  "falsy_string v \<longleftrightarrow> v = None \<or> v = Some []"

definition date_text :: "host \<Rightarrow> (int \<Rightarrow> string) \<Rightarrow> Timestamp option \<Rightarrow> string" where
  "date_text h fmt ts = (if falsy_string ts then NO_VALUE
     else case date_value h (the ts) of None \<Rightarrow> NO_VALUE | Some t \<Rightarrow> fmt t)"

definition dateTimeOf :: "host \<Rightarrow> Timestamp option \<Rightarrow> string" where
  "dateTimeOf h = date_text h (format_date_time h)"

definition dateOf :: "host \<Rightarrow> Timestamp option \<Rightarrow> string" where
  "dateOf h = date_text h (format_date_only h)"

definition timeOf :: "host \<Rightarrow> Timestamp option \<Rightarrow> string" where
  "timeOf h = date_text h (format_time_only h)"

definition relativeTime :: "host \<Rightarrow> Timestamp option \<Rightarrow> int \<Rightarrow> string" where
  "relativeTime h ts now =
     (if falsy_string ts then NO_VALUE
      else case date_value h (the ts) of None \<Rightarrow> NO_VALUE
      | Some t \<Rightarrow>
          let seconds = math_round (num_div (num_of_int (now - t)) (Fin 1000)) in
          if num_lt seconds (Fin 0) then dateTimeOf h ts
          else if num_lt seconds (Fin 10) then ''just now''
          else if num_lt seconds (Fin 60) then to_string seconds @ ''s ago''
          else let minutes = math_floor (num_div seconds (Fin 60)) in
          if num_lt minutes (Fin 60) then to_string minutes @ '' min ago''
          else let hours = math_floor (num_div minutes (Fin 60)) in
          if num_lt hours (Fin 24) then to_string hours @ ''h ago''
          else let days = math_floor (num_div hours (Fin 24)) in
          if num_lt days (Fin 7) then to_string days @ ''d ago''
          else dateOf h ts)"

text \<open>The remainder \<open>%\<close>: truncated division, exact on binary64; the callers' divisor is 24.\<close>

definition num_rem :: "jsnum \<Rightarrow> rat \<Rightarrow> jsnum" where
  "num_rem a b = (if \<not> is_finite_num a then NaN
     else let x = num_val a; q = \<lfloor>\<bar>x\<bar> / b\<rfloor>; r = \<bar>x\<bar> - b * of_int q in with_sign (num_neg a) (Fin r))"

definition durationHours :: "jsnum option \<Rightarrow> string" where
  "durationHours hours = (case hours of None \<Rightarrow> NO_VALUE
     | Some h \<Rightarrow> if \<not> is_finite_num h then NO_VALUE
       else if num_lt h (Fin 24) then to_string h @ ''h''
       else let days = math_floor (num_div h (Fin 24)); rest = num_rem h 24 in
         if num_eq rest (Fin 0) then to_string days @ ''d''
         else to_string days @ ''d '' @ to_string rest @ ''h'')"

subsection \<open>Identifiers and labels\<close>

definition shortId :: "string option \<Rightarrow> nat \<Rightarrow> nat \<Rightarrow> string" where
  "shortId v h t = (if falsy_string v then NO_VALUE
     else let s = the v in
       if length s \<le> h + t + 1 then s
       else take h s @ ELLIPSIS # slice_from (- int t) s)"

definition shortHash :: "string option \<Rightarrow> string" where
  "shortHash v = (if falsy_string v then NO_VALUE
     else let s = the v in
       if length s \<le> 16 then s else take 8 s @ ELLIPSIS # slice_from (- 6) s)"

text \<open>\<open>code.replace(/[_-]+/g, " ")\<close>.\<close>

definition is_sep :: "char \<Rightarrow> bool" where
  "is_sep c \<longleftrightarrow> c = CHR ''_'' \<or> c = CHR ''-''"

function space_seps :: "string \<Rightarrow> string" where
  "space_seps [] = []"
| "space_seps (c # s) =
     (if is_sep c then CHR '' '' # space_seps (dropWhile is_sep s) else c # space_seps s)"
  by pat_completeness auto
termination
  by (relation "measure length") (auto simp: length_dropWhile_le less_Suc_eq_le)

definition humanise :: "string option \<Rightarrow> string" where
  "humanise code = (if falsy_string code then NO_VALUE
     else let spaced = trim (to_lower (space_seps (the code))) in
       to_upper (take 1 spaced) @ drop 1 spaced)"

definition pluralise :: "jsnum \<Rightarrow> string \<Rightarrow> string option \<Rightarrow> string" where
  "pluralise n one many = (if num_eq n (Fin 1) then one
     else case many of None \<Rightarrow> one @ ''s'' | Some m \<Rightarrow> m)"

subsection \<open>Conversions of safe amounts\<close>

lemma num_div_100:
  assumes "safe_minor m"
  shows "num_div (num_of_int m) (Fin 100) = Fin (of_int (sgn m) * rupees \<bar>m\<bar>)"
proof (cases "m = 0")
  case True
  then show ?thesis by (simp add: num_div_def num_of_int_def with_sign_def dbl_def)
next
  case False
  have safe: "safe_minor \<bar>m\<bar>" and pos: "0 < \<bar>m\<bar>"
    using assms False by (auto simp: safe_minor_def)
  have d: "dbl (of_int \<bar>m\<bar> / 100) = Fin (rupees \<bar>m\<bar>)"
    by (rule dbl_rupees [OF pos safe]) (simp add: rupees_def)
  have r: "rupees \<bar>m\<bar> \<noteq> 0" using rupees_pos [OF pos safe] by simp
  show ?thesis
    using False d r by (auto simp: num_div_def num_of_int_def with_sign_def sgn_if)
qed

lemma num_mul_100_rupees:
  assumes "0 < m" and "safe_minor m"
  shows "math_round (num_mul (Fin (rupees m)) (Fin 100)) = num_of_int m"
proof -
  define y where "y = rupees m * 100"
  have pos: "0 < rupees m" using rupees_pos [OF assms] by simp
  have m1: "1 \<le> (of_int m :: rat)" using assms(1) by simp
  have m2: "(of_int m :: rat) \<le> 2 ^ 50"
    using assms unfolding safe_minor_def by (metis abs_le_D1 of_int_le_iff of_int_numeral of_int_power)
  have e: "\<bar>y - of_int m\<bar> \<le> 1 / 8"
    using rupees_error [OF assms(2)] by (simp add: y_def mult.commute)
  have y: "1 / 100 \<le> \<bar>y\<bar>" "y \<le> 2 ^ 50 + 1 / 8" "0 < y"
    using e m1 m2 by linarith+
  have "\<bar>rnd y - y\<bar> \<le> \<bar>y\<bar> / 2 ^ 53" by (rule rnd_error_ge [OF y(1)])
  also have "\<dots> \<le> (2 ^ 50 + 1 / 8) / 2 ^ 53" using y by (intro divide_right_mono) auto
  also have "\<dots> \<le> 1 / 4" by simp
  finally have r: "\<bar>rnd y - of_int m\<bar> < 1 / 2" using e by linarith
  have rpos: "0 < rnd y" and rle: "rnd y < 2 powi 51"
  proof -
    show "0 < rnd y" using r m1 by linarith
    have "rnd y < 2 ^ 50 + 1" using r m2 by linarith
    also have "\<dots> \<le> (2 powi 51 :: rat)" by (simp add: power_int_def)
    finally show "rnd y < 2 powi 51" .
  qed
  have "ilog2 (rnd y) < 51"
    using ilog2_bounds(1) [OF rpos] rle powi2_less_iff by (meson le_less_trans)
  then have "dbl y = Fin (rnd y)" using rpos by (simp add: dbl_def Let_def)
  then have "num_mul (Fin (rupees m)) (Fin 100) = Fin (rnd y)"
    using pos by (simp add: num_mul_def with_sign_def y_def)
  then show ?thesis
    using floor_half_unique [OF r] rpos assms(1) by (simp add: num_of_int_def)
qed

subsection \<open>A form field holds the amount it was filled with\<close>

text \<open>
  The contract the amount fields rely on: \<open>render\<close> fills the field, \<open>parse\<close> reads it back. Left
  alone, a field still denotes the amount it shows, and different amounts look different.
\<close>

locale amount_field =
  fixes render :: "'m \<Rightarrow> string"
    and parse :: "string \<Rightarrow> 'm option"
    and valid :: "'m \<Rightarrow> bool"
  assumes read_back: "valid m \<Longrightarrow> parse (render m) = Some m"
begin

lemma render_inj: "valid m \<Longrightarrow> valid n \<Longrightarrow> render m = render n \<longleftrightarrow> m = n"
  by (metis option.inject read_back)

lemma untouched: "valid m \<Longrightarrow> s = render m \<Longrightarrow> parse s = Some m"
  by (simp add: read_back)

lemma edited: "valid m \<Longrightarrow> parse s \<noteq> Some m \<Longrightarrow> s \<noteq> render m"
  by (auto simp: read_back)

end

definition payable :: "Money \<Rightarrow> bool" where
  "payable n \<longleftrightarrow> (\<exists>m. n = num_of_int m \<and> 0 < m \<and> safe_minor m)"

lemma rupee_field_reads_back:
  assumes "0 < m" and "safe_minor m"
  shows "rupeeInputToMinor (rupeeInputValue (Some (num_of_int m))) = Some (num_of_int m)"
proof -
  have d: "num_div (num_of_int m) (Fin 100) = Fin (rupees m)"
    using num_div_100 [OF assms(2)] assms(1) by simp
  have "rupeeInputValue (Some (num_of_int m)) = to_string (Fin (rupees m))"
    unfolding rupeeInputValue_def option.case d by (simp add: num_of_int_def)
  then have "parse_float (rupeeInputValue (Some (num_of_int m))) = Fin (rupees m)"
    by (simp only: parse_to_string_rupees [OF assms])
  then show ?thesis
    using num_mul_100_rupees [OF assms] rupees_pos [OF assms]
    by (simp add: rupeeInputToMinor_def)
qed

interpretation rupee_field: amount_field "\<lambda>n. rupeeInputValue (Some n)" rupeeInputToMinor payable
  by unfold_locales (auto simp: payable_def rupee_field_reads_back)

text \<open>
  C3. The paise/rupee boundary loses nothing: an amount of \<open>m\<close> paise, written into a form field
  by \<open>rupeeInputValue\<close> (a binary64 division and the shortest decimal text) and read back by
  \<open>rupeeInputToMinor\<close> (\<open>parseFloat\<close>, a binary64 multiplication and \<open>Math.round\<close>), is \<open>m\<close> paise
  again, for every positive amount up to \<open>2 ^ 50\<close> paise.
\<close>

theorem rupee_round_trip:
  assumes "0 < m" and "m \<le> 2 ^ 50"
  shows "rupeeInputToMinor (rupeeInputValue (Some (num_of_int m))) = Some (num_of_int m)"
  using assms by (intro rupee_field.read_back) (auto simp: payable_def safe_minor_def)

theorem rupee_round_trip_witness:
  "rupeeInputToMinor (rupeeInputValue (Some (num_of_int 123456789))) = Some (num_of_int 123456789)"
  by (rule rupee_round_trip) simp_all

subsection \<open>The text of an amount\<close>

lemma filter_group2: "filter is_digit (group2 r) = filter is_digit r"
  by (induction r rule: group2.induct) (auto simp: is_digit_def)

lemma filter_rev_digits: "filter P (rev xs) = rev (filter P xs)"
  by (simp add: rev_filter)

lemma filter_group_indian: "filter is_digit (group_indian ds) = filter is_digit ds"
proof (cases "length ds \<le> 3")
  case False
  have "filter is_digit (group_indian ds)
      = rev (filter is_digit (take 3 (rev ds)) @ filter is_digit (drop 3 (rev ds)))"
    using False by (simp add: group_indian_def filter_rev_digits filter_group2 is_digit_def
        flip: rev_filter)
  also have "\<dots> = rev (filter is_digit (rev ds))"
    by (metis append_take_drop_id filter_append)
  finally show ?thesis by (simp add: filter_rev_digits)
qed (simp add: group_indian_def)

lemma set_group2: "set (group2 r) \<subseteq> insert (CHR '','') (set r)"
  by (induction r rule: group2.induct) auto

lemma set_group_indian: "set (group_indian ds) \<subseteq> insert (CHR '','') (set ds)"
proof -
  have "set (take 3 (rev ds)) \<subseteq> set ds" "set (drop 3 (rev ds)) \<subseteq> set ds"
    using set_take_subset [of 3 "rev ds"] set_drop_subset [of 3 "rev ds"] by simp_all
  then show ?thesis
    using set_group2 [of "drop 3 (rev ds)"] by (simp add: group_indian_def) blast
qed

definition paise_text :: "int \<Rightarrow> string" where
  "paise_text r = pad_left 2 (show_digits r)"

lemma paise_text_props:
  assumes "0 \<le> r" and "r < 100"
  shows "length (paise_text r) = 2" and "\<forall>c \<in> set (paise_text r). is_digit c"
    and "digits_val (paise_text r) = r"
proof -
  have "length (show_digits r) \<le> 2"
    using assms by (intro length_show_digits_le) auto
  then show "length (paise_text r) = 2"
    by (simp add: paise_text_def length_pad_left)
  show "\<forall>c \<in> set (paise_text r). is_digit c"
    using assms by (auto simp: paise_text_def intro: pad_left_digits show_digits_digits)
  show "digits_val (paise_text r) = r"
    using assms by (simp add: paise_text_def)
qed

definition inr_text :: "int \<Rightarrow> string" where
  "inr_text m = (if m < 0 then ''-'' else []) @ RUPEE # group_indian (show_digits (\<bar>m\<bar> div 100))
      @ CHR ''.'' # paise_text (\<bar>m\<bar> mod 100)"

lemma fixed_parts_rupees:
  assumes "safe_minor m" and "0 \<le> m"
  shows "fixed_parts 2 (rupees m) = (show_digits (m div 100), paise_text (m mod 100))"
  using fixed_int_rupees [OF assms(1)] by (simp add: fixed_parts_def paise_text_def)

lemma rupees_nonneg: "0 \<le> m \<Longrightarrow> safe_minor m \<Longrightarrow> 0 \<le> rupees m"
  by (cases "m = 0") (use rupees_pos [of m] in auto)

lemma money_text:
  assumes "safe_minor m"
  shows "money (Some (num_of_int m)) = inr_text m"
proof -
  have safe: "safe_minor \<bar>m\<bar>" using assms by (simp add: safe_minor_def)
  have nn: "0 \<le> rupees \<bar>m\<bar>" by (rule rupees_nonneg [OF _ safe]) simp
  have abs: "\<bar>of_int (sgn m) * rupees \<bar>m\<bar>\<bar> = rupees \<bar>m\<bar>"
    using nn by (cases "m = 0") (auto simp: abs_mult sgn_if)
  have neg: "of_int (sgn m) * rupees \<bar>m\<bar> < 0 \<longleftrightarrow> m < 0"
    using nn rupees_pos [OF _ safe] by (auto simp: sgn_if)
  have l: "length (paise_text (\<bar>m\<bar> mod 100)) = 2" by (rule paise_text_props) auto
  then have "cut_zeros 2 (paise_text (\<bar>m\<bar> mod 100)) = paise_text (\<bar>m\<bar> mod 100)"
    and "point (paise_text (\<bar>m\<bar> mod 100)) = CHR ''.'' # paise_text (\<bar>m\<bar> mod 100)"
    by (auto simp: cut_zeros_def point_def)
  then show ?thesis
    by (simp add: money_def num_div_100 [OF assms] inr_def intl_format_def num_of_int_def abs neg
        fixed_parts_rupees [OF safe] inr_text_def num_div_100 [OF assms, unfolded num_of_int_def])
qed

lemma digits_of_inr_text: "digits_val (filter is_digit (inr_text m)) = \<bar>m\<bar>"
proof -
  note p = paise_text_props [of "\<bar>m\<bar> mod 100"]
  have "filter is_digit (show_digits (\<bar>m\<bar> div 100)) = show_digits (\<bar>m\<bar> div 100)"
    using show_digits_digits [of "\<bar>m\<bar> div 100"] by (simp add: filter_id_conv)
  moreover have "filter is_digit (paise_text (\<bar>m\<bar> mod 100)) = paise_text (\<bar>m\<bar> mod 100)"
    using p(2) by (simp add: filter_id_conv)
  ultimately have "filter is_digit (inr_text m)
      = show_digits (\<bar>m\<bar> div 100) @ paise_text (\<bar>m\<bar> mod 100)"
    by (simp add: inr_text_def filter_group_indian is_digit_def)
  moreover have "digits_val (show_digits (\<bar>m\<bar> div 100) @ paise_text (\<bar>m\<bar> mod 100))
      = \<bar>m\<bar> div 100 * 100 + \<bar>m\<bar> mod 100"
    using p by (simp only: digits_val_append) simp
  ultimately show ?thesis by simp
qed

lemma inr_text_inject: "inr_text m = inr_text n \<longleftrightarrow> m = n"
proof
  assume eq: "inr_text m = inr_text n"
  then have "\<bar>m\<bar> = \<bar>n\<bar>" by (metis digits_of_inr_text)
  moreover have "m < 0 \<longleftrightarrow> n < 0"
    using eq by (auto simp: inr_text_def split: if_splits)
  ultimately show "m = n" by linarith
qed simp

text \<open>
  C20. Full-precision amounts are exact and never look alike: within \<open>2 ^ 50\<close> paise either way,
  \<open>money\<close> writes the sign, the rupee symbol, the rupees in Indian grouping and exactly two
  digits of paise, the digits spell the amount, and two amounts share a text only if they are
  the same amount.
\<close>

theorem money_exact:
  assumes "\<bar>m\<bar> \<le> 2 ^ 50" and "\<bar>n\<bar> \<le> 2 ^ 50"
  shows "money (Some (num_of_int m)) = inr_text m
    \<and> digits_val (filter is_digit (money (Some (num_of_int m)))) = \<bar>m\<bar>
    \<and> (money (Some (num_of_int m)) = money (Some (num_of_int n)) \<longleftrightarrow> m = n)"
proof -
  have m: "money (Some (num_of_int m)) = inr_text m" and n: "money (Some (num_of_int n)) = inr_text n"
    using assms by (simp_all add: money_text safe_minor_def)
  show ?thesis by (simp only: m n digits_of_inr_text inr_text_inject simp_thms)
qed

theorem money_exact_witness:
  "money (Some (num_of_int (- 12345678))) = ''-'' @ RUPEE # ''1,23,456.78''
    \<and> money (Some (num_of_int (- 12345678))) \<noteq> money (Some (num_of_int 12345678))"
proof -
  have shown: "inr_text (- 12345678) = ''-'' @ RUPEE # ''1,23,456.78''"
    by code_simp
  have "money (Some (num_of_int (- 12345678))) = inr_text (- 12345678)
    \<and> digits_val (filter is_digit (money (Some (num_of_int (- 12345678))))) = \<bar>- 12345678\<bar>
    \<and> (money (Some (num_of_int (- 12345678))) = money (Some (num_of_int 12345678)) \<longleftrightarrow> (- 12345678 :: int) = 12345678)"
    by (rule money_exact) simp_all
  moreover have "(- 12345678 :: int) \<noteq> 12345678" by simp
  ultimately show ?thesis unfolding shown by blast
qed

subsection \<open>Absent is not zero\<close>

text \<open>
  Every figure formatter answers an absent or non-finite value with the dash, and no figure with
  the dash. The laws are stated once for the formatters' shared interface.
\<close>

locale figure_formatter =
  fixes fmt :: "'v option \<Rightarrow> string"
    and known :: "'v \<Rightarrow> bool"
  assumes absent: "fmt None = NO_VALUE"
    and unknown: "\<not> known v \<Longrightarrow> fmt (Some v) = NO_VALUE"
    and figure: "known v \<Longrightarrow> fmt (Some v) \<noteq> NO_VALUE"
begin

lemma dash_iff: "fmt x = NO_VALUE \<longleftrightarrow> (\<forall>v. x = Some v \<longrightarrow> \<not> known v)"
  using absent unknown figure by (cases x) auto

lemma zero_is_a_figure: "known z \<Longrightarrow> fmt (Some z) \<noteq> fmt None"
  using absent figure by simp

end

lemma NO_VALUE_append_percent: "s @ t # u \<noteq> NO_VALUE" if "t \<noteq> EM_DASH \<or> s \<noteq> [] \<or> u \<noteq> []"
  using that by (auto simp: NO_VALUE_def append_eq_Cons_conv)

lemma counts_not_dash:
  assumes "is_finite_num n"
  shows "counts n \<noteq> NO_VALUE"
proof
  assume eq: "counts n = NO_VALUE"
  obtain ip fr where p: "fixed_parts 3 \<bar>num_val n\<bar> = (ip, fr)"
    by (cases "fixed_parts 3 \<bar>num_val n\<bar>")
  have nn: "0 \<le> fixed_int 3 \<bar>num_val n\<bar>" by (simp add: fixed_int_def)
  then have nd: "0 \<le> fixed_int 3 \<bar>num_val n\<bar> div 10 ^ 3"
    by (rule pos_imp_zdiv_nonneg_iff [THEN iffD2, rotated]) simp
  have "ip = show_digits (fixed_int 3 \<bar>num_val n\<bar> div 10 ^ 3)"
    using p by (simp add: fixed_parts_def Let_def)
  then have ip: "\<forall>c \<in> set ip. is_digit c" "ip \<noteq> []"
    using show_digits_digits [OF nd] by auto
  have n: "n \<noteq> NaN" using assms by auto
  have "EM_DASH \<notin> set (group_indian ip)"
  proof
    assume "EM_DASH \<in> set (group_indian ip)"
    then have "EM_DASH \<in> set ip" using set_group_indian [of ip] by auto
    then have "is_digit EM_DASH" using ip(1) by blast
    then show False by (simp add: is_digit_def)
  qed
  moreover have "group_indian ip \<noteq> []"
    using ip(2) by (auto simp: group_indian_def)
  ultimately show False
    using eq n assms by (auto simp: counts_def intl_format_def p NO_VALUE_def append_eq_Cons_conv
        split: if_splits)
qed

interpretation money_fig: figure_formatter money is_finite_num
  by unfold_locales (auto simp: money_def inr_def intl_format_def NO_VALUE_def append_eq_Cons_conv
      split: if_splits prod.splits)

interpretation short_fig: figure_formatter moneyShort is_finite_num
  by unfold_locales (auto simp: moneyShort_def inrWhole_def intl_format_def NO_VALUE_def
      append_eq_Cons_conv split: if_splits prod.splits)

interpretation compact_fig: figure_formatter moneyCompact is_finite_num
  by unfold_locales (auto simp: moneyCompact_def NO_VALUE_def Let_def)

interpretation count_fig: figure_formatter count is_finite_num
  by unfold_locales (auto simp: count_def counts_not_dash)

interpretation percent_fig: figure_formatter "\<lambda>v. percent v d" is_finite_num for d
  by unfold_locales (auto simp: percent_def NO_VALUE_append_percent)

interpretation bps_fig: figure_formatter ppmToBps is_finite_num
  by unfold_locales (auto simp: ppmToBps_def NO_VALUE_def append_eq_Cons_conv)

text \<open>
  Absent is not zero: each figure formatter shows the dash exactly for a missing or
  non-finite value, so an absent figure is never shown as a number and a number, zero included,
  is never shown as absent.
\<close>

theorem absent_is_not_zero:
  "(money v = NO_VALUE \<longleftrightarrow> (\<forall>n. v = Some n \<longrightarrow> \<not> is_finite_num n))
   \<and> (moneyShort v = NO_VALUE \<longleftrightarrow> (\<forall>n. v = Some n \<longrightarrow> \<not> is_finite_num n))
   \<and> (moneyCompact v = NO_VALUE \<longleftrightarrow> (\<forall>n. v = Some n \<longrightarrow> \<not> is_finite_num n))
   \<and> (count v = NO_VALUE \<longleftrightarrow> (\<forall>n. v = Some n \<longrightarrow> \<not> is_finite_num n))
   \<and> (percent v d = NO_VALUE \<longleftrightarrow> (\<forall>n. v = Some n \<longrightarrow> \<not> is_finite_num n))
   \<and> (ppmToBps v = NO_VALUE \<longleftrightarrow> (\<forall>n. v = Some n \<longrightarrow> \<not> is_finite_num n))"
  by (intro conjI money_fig.dash_iff short_fig.dash_iff compact_fig.dash_iff count_fig.dash_iff
      percent_fig.dash_iff bps_fig.dash_iff)

theorem absent_is_not_zero_witness:
  "money None = NO_VALUE \<and> money (Some (Fin 0)) = RUPEE # ''0.00''"
proof -
  have "money (Some (Fin 0)) = RUPEE # ''0.00''" by code_simp
  moreover have "money None = NO_VALUE"
    using absent_is_not_zero [of None 1] by simp
  ultimately show ?thesis by simp
qed

subsection \<open>What the rupee parser accepts\<close>

lemma rupeeInputToMinor_shape:
  assumes "rupeeInputToMinor s = Some n"
  shows "n = PosInf \<or> (\<exists>k \<ge> 0. n = num_of_int k)"
proof -
  obtain x where x: "parse_float s = Fin x" "0 < x"
    using assms by (cases "parse_float s") (auto simp: rupeeInputToMinor_def Let_def split: if_splits)
  have n: "n = math_round (dbl (x * 100))"
    using assms x by (simp add: rupeeInputToMinor_def num_mul_def with_sign_def)
  have "0 \<le> x * 100" using x(2) by simp
  then show ?thesis
    by (cases rule: dbl_nonneg) (auto simp: n num_of_int_def Let_def)
qed

text \<open>
  C35. What the parser of amounts guarantees: an accepted text denotes a nonnegative whole number
  of paise, or infinity when the product with 100 overflows.
\<close>

theorem rupee_input_shape:
  assumes "rupeeInputToMinor s = Some n"
  shows "n = PosInf \<or> (\<exists>k \<ge> 0. n = num_of_int k)"
  by (rule rupeeInputToMinor_shape [OF assms])

theorem rupee_input_shape_witness:
  "rupeeInputToMinor ''12.345'' = Some (num_of_int 1235)
    \<and> (num_of_int 1235 = PosInf \<or> (\<exists>k \<ge> 0. num_of_int 1235 = num_of_int k))"
proof -
  have h: "rupeeInputToMinor ''12.345'' = Some (num_of_int 1235)" by code_simp
  show ?thesis by (rule conjI [OF h rupee_input_shape [OF h]])
qed

lemma parse_huge: "parse_float ''1e308'' = dbl (10 powi 308)"
  by (simp add: parse_float_def trim_start_def is_space_def take_sign_def parse_mantissa_def
      is_digit_def exponent_part_def digits_val_def digit_val_def starts_with_def
      del: power_int_numeral)

lemma huge_overflows: "rupeeInputToMinor ''1e308'' = Some PosInf"
proof -
  define x :: rat where "x = 10 powi 308"
  have x0: "0 < x" by (simp add: x_def)
  have lo: "2 powi 1020 \<le> x" and hi: "2 * x < 2 powi 1025" and ten: "2 powi 1025 \<le> 10 * x"
    by (simp_all add: x_def)
  have "(2::rat) powi (- 1022) \<le> 2 powi 1020" by (simp only: powi2_le_iff)
  then have "\<bar>rnd x - x\<bar> \<le> x / 2 ^ 53"
    using rnd_error [of x] lo x0 by simp
  also have "\<dots> \<le> x / 10" using x0 by (intro divide_left_mono) auto
  finally have e: "\<bar>rnd x - x\<bar> \<le> x / 10" .
  have "x * (11 / 10) < 2 powi 1024" by (simp add: x_def)
  then have "rnd x < 2 powi 1024" using e by linarith
  then have p: "parse_float ''1e308'' = Fin (rnd x)"
    using parse_huge dbl_Fin [of x] x0 by (simp only: x_def less_imp_le)
  have pos: "0 < rnd x" and big: "10 * x \<le> rnd x * 100" using e x0 by linarith+
  have "dbl (rnd x * 100) = PosInf"
    using ten big by (intro dbl_overflow) (rule order_trans)
  then show ?thesis
    using pos by (simp add: rupeeInputToMinor_def p num_mul_def with_sign_def)
qed

text \<open>
  Three texts the parser lets through although no usable amount was typed: a positive amount
  below half a paisa becomes zero, an amount whose product overflows becomes infinity, and a text
  with grouping separators is read up to the first separator only.
\<close>

theorem rupee_input_gaps:
  "rupeeInputToMinor ''0.001'' = Some (num_of_int 0)
   \<and> rupeeInputToMinor ''1e308'' = Some PosInf
   \<and> rupeeInputToMinor ''1,20,000'' = Some (num_of_int 100)"
proof (intro conjI)
  show "rupeeInputToMinor ''0.001'' = Some (num_of_int 0)" by code_simp
  show "rupeeInputToMinor ''1e308'' = Some PosInf" by (rule huge_overflows)
  show "rupeeInputToMinor ''1,20,000'' = Some (num_of_int 100)" by code_simp
qed

subsection \<open>Identifiers and labels\<close>

lemma slice_from_neg:
  "0 < t \<Longrightarrow> t \<le> length s \<Longrightarrow> slice_from (- int t) s = drop (length s - t) s"
  by (simp add: slice_from_def nat_diff_distrib of_nat_diff [symmetric] del: of_nat_diff)

text \<open>
  A shortened identifier keeps both ends: one no longer than \<open>h + t + 1\<close> is shown whole, a
  longer one as its first \<open>h\<close> characters, an ellipsis and its last \<open>t\<close> characters.
\<close>

theorem shortId_keeps_both_ends:
  assumes "s \<noteq> []" and "0 < t"
  shows "shortId (Some s) h t =
      (if length s \<le> h + t + 1 then s else take h s @ ELLIPSIS # drop (length s - t) s)
    \<and> length (shortId (Some s) h t) = min (length s) (h + t + 1)"
proof -
  have eq: "shortId (Some s) h t =
      (if length s \<le> h + t + 1 then s else take h s @ ELLIPSIS # drop (length s - t) s)"
    using assms by (simp add: shortId_def falsy_string_def slice_from_neg)
  moreover have "length (shortId (Some s) h t) = min (length s) (h + t + 1)"
    by (simp add: eq)
  ultimately show ?thesis by blast
qed

theorem shortId_keeps_both_ends_witness:
  "shortId (Some ''agt_a926f2523a5943b5b7d4'') 10 4 = ''agt_a926f2'' @ ELLIPSIS # ''b7d4''"
  by (subst shortId_keeps_both_ends [THEN conjunct1]) (simp_all add: eval_nat_numeral)

lemma set_space_seps: "c \<in> set (space_seps s) \<Longrightarrow> \<not> is_sep c"
  by (induction s rule: space_seps.induct) (auto split: if_splits simp: is_sep_def)

lemma is_sep_code: "is_sep c \<longleftrightarrow> of_char c = (95::nat) \<or> of_char c = (45::nat)"
proof -
  have "c = CHR ''_'' \<longleftrightarrow> of_char c = (of_char (CHR ''_'') :: nat)"
    and "c = CHR ''-'' \<longleftrightarrow> of_char c = (of_char (CHR ''-'') :: nat)"
    by (simp_all only: of_char_eq_iff)
  then show ?thesis by (simp add: is_sep_def)
qed

lemma of_char_lower:
  "(of_char (lower_char c) :: nat) = (if is_upper c then of_char c + 32 else of_char c)"
  by (auto simp: lower_char_def is_upper_def Let_def of_char_mod_256)

lemma of_char_upper:
  "(of_char (upper_char c) :: nat) = (if is_lower c then of_char c - 32 else of_char c)"
  by (auto simp: upper_char_def is_lower_def Let_def of_char_mod_256)

lemma sep_case [simp]: "is_sep (lower_char c) \<longleftrightarrow> is_sep c" "is_sep (upper_char c) \<longleftrightarrow> is_sep c"
  by (auto simp: is_sep_code of_char_lower of_char_upper is_upper_def is_lower_def Let_def)

lemma set_trim: "set (trim s) \<subseteq> set s"
  unfolding trim_def by (auto dest!: set_dropWhileD)

text \<open>
  A humanised code never shows the machine's separators: whatever the code, the label
  contains neither an underscore nor a hyphen.
\<close>

lemma humanise_no_separators:
  "set (humanise code) \<inter> {CHR ''_'', CHR ''-''} = {}"
proof -
  have "\<not> is_sep c" if "c \<in> set (humanise code)" for c
  proof (cases "falsy_string code")
    case True
    then show ?thesis using that by (simp add: humanise_def NO_VALUE_def is_sep_def)
  next
    case False
    define w where "w = trim (to_lower (space_seps (the code)))"
    have w: "\<not> is_sep d" if "d \<in> set w" for d
      using that set_trim [of "to_lower (space_seps (the code))"] set_space_seps
      by (auto simp: w_def to_lower_def)
    have "c \<in> set (to_upper (take 1 w)) \<or> c \<in> set (drop 1 w)"
      using that False by (auto simp: humanise_def Let_def w_def)
    then show ?thesis
      using w by (auto simp: to_upper_def dest!: in_set_takeD in_set_dropD)
  qed
  then show ?thesis by (auto simp: is_sep_def)
qed

subsection \<open>Relative times\<close>

text \<open>
  The age of a past timestamp is bucketed by exact integer arithmetic although the code
  divides in binary64: the milliseconds are rounded to seconds (halves up) and each larger unit
  is the integer quotient, for any age up to \<open>2 ^ 50\<close> milliseconds; beyond a week the absolute
  date is shown.
\<close>

theorem relativeTime_buckets:
  assumes "ts \<noteq> []" and "date_value h ts = Some t" and "t \<le> now" and "now - t \<le> 2 ^ 50"
    and "s = (now - t + 500) div 1000"
  shows "relativeTime h (Some ts) now =
     (if s < 10 then ''just now''
      else if s < 60 then to_string (num_of_int s) @ ''s ago''
      else if s div 60 < 60 then to_string (num_of_int (s div 60)) @ '' min ago''
      else if s div 60 div 60 < 24 then to_string (num_of_int (s div 60 div 60)) @ ''h ago''
      else if s div 60 div 60 div 24 < 7 then
        to_string (num_of_int (s div 60 div 60 div 24)) @ ''d ago''
      else dateOf h (Some ts))"
proof -
  have sec: "math_round (num_div (num_of_int (now - t)) (Fin 1000)) = num_of_int s"
    using math_round_thousandths [of "now - t"] assms by simp
  have s: "0 \<le> s" "s \<le> 2 ^ 50" using assms by simp_all
  have m: "0 \<le> s div 60" "s div 60 \<le> 2 ^ 50" using s by simp_all
  have hh: "0 \<le> s div 60 div 60" "s div 60 div 60 \<le> 2 ^ 50" using s by simp_all
  have q: "math_floor (num_div (num_of_int s) (Fin 60)) = num_of_int (s div 60)"
    "math_floor (num_div (num_of_int (s div 60)) (Fin 60)) = num_of_int (s div 60 div 60)"
    "math_floor (num_div (num_of_int (s div 60 div 60)) (Fin 24))
       = num_of_int (s div 60 div 60 div 24)"
    using math_floor_quotient [OF s, of 60] math_floor_quotient [OF m, of 60]
      math_floor_quotient [OF hh, of 24] by simp_all
  have lt: "num_lt (num_of_int i) (Fin (of_int j)) \<longleftrightarrow> i < j" for i j
    by (auto simp: num_lt_def num_of_int_def)
  have lts: "num_lt (num_of_int i) (Fin 0) \<longleftrightarrow> i < 0" "num_lt (num_of_int i) (Fin 10) \<longleftrightarrow> i < 10"
    "num_lt (num_of_int i) (Fin 60) \<longleftrightarrow> i < 60" "num_lt (num_of_int i) (Fin 24) \<longleftrightarrow> i < 24"
    "num_lt (num_of_int i) (Fin 7) \<longleftrightarrow> i < 7" for i
    using lt [of i 0] lt [of i 10] lt [of i 60] lt [of i 24] lt [of i 7] by simp_all
  show ?thesis
    using assms(1,2) s(1)
    by (simp add: relativeTime_def falsy_string_def sec q Let_def lts)
qed

theorem relativeTime_buckets_witness:
  "relativeTime \<lparr>date_value = (\<lambda>_. Some 0), format_date_time = show_int,
      format_date_only = show_int, format_time_only = show_int\<rparr> (Some ''1970-01-01T00:00:00Z'')
      7200000 = ''2h ago''"
proof -
  have "to_string (num_of_int 2) = ''2''" by code_simp
  then show ?thesis
    by (subst relativeTime_buckets [where t = 0 and s = 7200]) simp_all
qed

end
