(* ===== verification/Json.thy ===== *)
theory Json
  imports JsNumber
begin

text \<open>
  JavaScript data values as \<open>JSON.parse\<close> produces them and as the code builds them: \<open>null\<close>,
  \<open>undefined\<close>, booleans, numbers, strings, arrays, and objects as the list of their own
  enumerable entries in \<open>Object.entries\<close> order. \<open>member\<close> is the property read \<open>v.k\<close>
  (\<open>undefined\<close> when there is none) and \<open>stringify_value\<close> is what \<open>JSON.stringify\<close> keeps: an
  \<open>undefined\<close> field is dropped, a non-finite number is written as \<open>null\<close>.
\<close>

datatype json =
    JNull
  | JUndef
  | JBool bool
  | JNum jsnum
  | JStr string
  | JArr "json list"
  | JObj "(string \<times> json) list"

definition is_nullish :: "json \<Rightarrow> bool" where
  "is_nullish v \<longleftrightarrow> v = JNull \<or> v = JUndef"

fun member :: "string \<Rightarrow> json \<Rightarrow> json" where
  "member k (JObj kvs) = (case map_of kvs k of None \<Rightarrow> JUndef | Some v \<Rightarrow> v)"
| "member k _ = JUndef"

text \<open>The guard \<open>typeof v === "string"\<close> together with the value it narrows to.\<close>

fun as_string :: "json \<Rightarrow> string option" where
  "as_string (JStr s) = Some s"
| "as_string _ = None"

fun is_object :: "json \<Rightarrow> bool" where
  "is_object (JObj _) \<longleftrightarrow> True"
| "is_object (JArr _) \<longleftrightarrow> True"
| "is_object _ \<longleftrightarrow> False"

text \<open>JavaScript truthiness.\<close>

fun truthy :: "json \<Rightarrow> bool" where
  "truthy JNull = False"
| "truthy JUndef = False"
| "truthy (JBool b) = b"
| "truthy (JNum n) \<longleftrightarrow> n \<noteq> NaN \<and> \<not> num_eq n (Fin 0)"
| "truthy (JStr s) \<longleftrightarrow> s \<noteq> []"
| "truthy (JArr vs) = True"
| "truthy (JObj kvs) = True"

lemma size_entry [termination_simp]:
  "(k, v) \<in> set kvs \<Longrightarrow> size v < Suc (size_list (size_prod (size_list size) size) kvs)"
  by (induction kvs) auto

lemma size_entry' [termination_simp]:
  "(k, v) \<in> set kvs \<Longrightarrow> size v < Suc (size_list (size_prod (\<lambda>x. 0) size) kvs)"
  by (induction kvs) auto

fun stringify_value :: "json \<Rightarrow> json" where
  "stringify_value (JNum n) = (if is_finite_num n then JNum n else JNull)"
| "stringify_value (JArr vs) =
     JArr (map (\<lambda>v. if v = JUndef then JNull else stringify_value v) vs)"
| "stringify_value (JObj kvs) =
     JObj (map (\<lambda>(k, v). (k, stringify_value v)) (filter (\<lambda>(k, v). v \<noteq> JUndef) kvs))"
| "stringify_value v = v"

text \<open>Optional fields of a request body: present only when the caller supplies them.\<close>

definition opt_field :: "string \<Rightarrow> ('a \<Rightarrow> json) \<Rightarrow> 'a option \<Rightarrow> (string \<times> json) list" where
  "opt_field k f v = (case v of None \<Rightarrow> [] | Some x \<Rightarrow> [(k, f x)])"

definition str_array :: "string list \<Rightarrow> json" where
  "str_array ss = JArr (map JStr ss)"

lemma member_hit [simp]: "member k (JObj ((k, v) # kvs)) = v"
  by simp

lemma member_miss [simp]: "k \<noteq> k' \<Longrightarrow> member k (JObj ((k', v) # kvs)) = member k (JObj kvs)"
  by simp

end
