(* ===== verification/Types.thy ===== *)
theory Types
  imports Format Json
begin

text \<open>
  \<open>frontend/lib/types.ts\<close>: the response types of the read API, one HOL record per object type
  with the source's field names behind a prefix per type (the sources reuse names such as
  \<open>status\<close>), so a field \<open>f\<close> of \<open>VaultSummary\<close> is \<open>vs_f\<close>. An inline object type is a record of its
  own, named after the field that holds it. \<open>T | null\<close> and an optional field are \<open>option\<close>, an
  array is a \<open>list\<close>, a string-literal union is a \<open>datatype\<close>, an intersection \<open>A & { ... }\<close> is a
  record extension, \<open>Record<string, T>\<close> is the list of its entries and a \<open>Record\<close> over a closed
  union is a function. Every number, money included, is a JavaScript number. The declarations
  stand in dependency order.
\<close>

subsection \<open>The closed vocabularies\<close>

datatype ScenarioName =
    HappyPath
  | Overspend
  | UnapprovedVendor
  | SplitPayment
  | RevokeMidTask
  | TaskFailure

definition SCENARIOS :: "ScenarioName list" where
  "SCENARIOS = [HappyPath, Overspend, UnapprovedVendor, SplitPayment, RevokeMidTask, TaskFailure]"

fun scenario_text :: "ScenarioName \<Rightarrow> string" where
  "scenario_text HappyPath = ''happy-path''"
| "scenario_text Overspend = ''overspend''"
| "scenario_text UnapprovedVendor = ''unapproved-vendor''"
| "scenario_text SplitPayment = ''split-payment''"
| "scenario_text RevokeMidTask = ''revoke-mid-task''"
| "scenario_text TaskFailure = ''task-failure''"

datatype PipelineStageName =
    REQUEST_RECEIVED
  | SCHEMA_VALIDATION
  | PASSPORT_VERIFICATION
  | EVIDENCE_RETRIEVAL
  | TASK_ANALYST
  | FEATURE_CALCULATION
  | UNDERWRITING_ANALYST
  | CREDIT_RISK_MODEL
  | INDEPENDENT_RISK_CRITIC
  | POLICY_ENGINE
  | HUMAN_REVIEW
  | VAULT_CREATION
  | SPEND_MONITORING
  | REVENUE_COLLECTION
  | REPAYMENT_WATERFALL
  | AUDIT_FINALIZATION

definition PIPELINE_STAGE_ORDER :: "PipelineStageName list" where
  "PIPELINE_STAGE_ORDER =
     [REQUEST_RECEIVED, SCHEMA_VALIDATION, PASSPORT_VERIFICATION, EVIDENCE_RETRIEVAL,
      TASK_ANALYST, FEATURE_CALCULATION, UNDERWRITING_ANALYST, CREDIT_RISK_MODEL,
      INDEPENDENT_RISK_CRITIC, POLICY_ENGINE, HUMAN_REVIEW, VAULT_CREATION, SPEND_MONITORING,
      REVENUE_COLLECTION, REPAYMENT_WATERFALL, AUDIT_FINALIZATION]"

subsection \<open>The response types\<close>

record Me_user =
  me_user_id :: "string"
  me_user_email :: "string"
  me_user_role :: "string"

record Me =
  me_organization_id :: "string"
  me_name :: "string"
  me_status :: "string"
  me_created_at :: "Timestamp option"
  me_user :: "Me_user"

record AgentFeatures =
  af_tasks_total :: "jsnum"
  af_tasks_succeeded :: "jsnum"
  af_task_success_rate_ppm :: "Ppm"
  af_repayments_total :: "jsnum"
  af_repaid_in_full :: "jsnum"
  af_repayment_rate_ppm :: "Ppm"
  af_total_defaulted_minor :: "Money"
  af_current_outstanding_minor :: "Money"
  af_policy_violation_count :: "jsnum"
  af_blocked_spend_attempts :: "jsnum"
  af_identity_age_days :: "jsnum"
  af_is_first_credit :: "bool"

datatype RiskTier =
    LOW
  | MEDIUM
  | HIGH

record AgentSummary =
  as_agent_id :: "string"
  as_name :: "string"
  as_status :: "string"
  as_model_provider :: "string"
  as_model_name :: "string"
  as_model_version_hash :: "string"
  as_owner_user_id :: "string"
  as_owner_email :: "string"
  as_trust_score :: "jsnum"
  as_risk_tier :: "RiskTier"
  as_task_success_rate_ppm :: "Ppm"
  as_repayment_rate_ppm :: "Ppm"
  as_tasks_total :: "jsnum"
  as_policy_violation_count :: "jsnum"
  as_blocked_spend_attempts :: "jsnum"
  as_active_exposure_minor :: "Money"
  as_vault_count :: "jsnum"
  as_has_passport :: "bool"
  as_passport_expires_at :: "Timestamp option"
  as_created_at :: "Timestamp option"
  as_last_activity_at :: "Timestamp option"

record PassportView =
  pv_passport_id :: "string"
  pv_issuer :: "string"
  pv_key_version :: "string"
  pv_purpose :: "string"
  pv_permitted_task_categories :: "string list"
  pv_max_borrowing_authority_minor :: "Money"
  pv_max_transaction_value_minor :: "Money"
  pv_approved_vendor_ids :: "string list"
  pv_audience :: "string"
  pv_valid_from :: "Timestamp option"
  pv_expires_at :: "Timestamp option"
  pv_signature_verified :: "bool"
  pv_reason_codes :: "string list"

record AgentProfile_credit_history =
  ap_ch_application_id :: "string"
  ap_ch_task_id :: "string"
  ap_ch_status :: "string"
  ap_ch_requested_minor :: "Money"
  ap_ch_approved_limit_minor :: "Money option"
  ap_ch_decision :: "string option"
  ap_ch_created_at :: "Timestamp option"

record AgentProfile_vaults =
  ap_vaul_vault_id :: "string"
  ap_vaul_status :: "string"
  ap_vaul_total_limit_minor :: "Money"
  ap_vaul_spent_minor :: "Money"
  ap_vaul_principal_outstanding_minor :: "Money"
  ap_vaul_created_at :: "Timestamp option"

record AgentProfile_spending_behaviour_vendor_distribution =
  ap_sbvd_vendor_id :: "string"
  ap_sbvd_count :: "jsnum"
  ap_sbvd_amount_minor :: "Money"

record AgentProfile_spending_behaviour_policy_violations =
  ap_sbpv_proposal_id :: "string"
  ap_sbpv_reason_codes :: "string list"
  ap_sbpv_created_at :: "Timestamp option"

record AgentProfile_spending_behaviour =
  ap_sb_vendor_distribution :: "AgentProfile_spending_behaviour_vendor_distribution list"
  ap_sb_executed_count :: "jsnum"
  ap_sb_blocked_count :: "jsnum"
  ap_sb_policy_violations :: "AgentProfile_spending_behaviour_policy_violations list"

record AgentProfile_repayments =
  ap_repa_repayment_id :: "string"
  ap_repa_vault_id :: "string"
  ap_repa_kind :: "string"
  ap_repa_principal_minor :: "Money"
  ap_repa_fee_minor :: "Money"
  ap_repa_owner_minor :: "Money"
  ap_repa_loss_minor :: "Money"
  ap_repa_created_at :: "Timestamp option"

record TaskSummary =
  ts_task_id :: "string"
  ts_agent_id :: "string option"
  ts_agent_name :: "string option"
  ts_title :: "string"
  ts_category :: "string"
  ts_status :: "string"
  ts_currency :: "string option"
  ts_expected_revenue_minor :: "Money"
  ts_expected_cost_minor :: "Money"
  ts_expected_margin_minor :: "Money"
  ts_created_at :: "Timestamp option"

record RiskEvent =
  re_id :: "string"
  re_event_type :: "string"
  re_severity :: "string"
  re_subject_type :: "string option"
  re_subject_id :: "string option"
  re_detail :: "(string \<times> json) list"
  re_created_at :: "Timestamp option"

record AuditEventRef =
  aer_seq :: "jsnum"
  aer_event_type :: "string"
  aer_actor_type :: "string"
  aer_resource_id :: "(string option) option"
  aer_event_hash :: "string option"
  aer_prev_hash :: "string option"
  aer_created_at :: "Timestamp option"

record AgentProfile = AgentSummary +
  ap_features :: "AgentFeatures"
  ap_passport :: "PassportView option"
  ap_tasks :: "TaskSummary list"
  ap_credit_history :: "AgentProfile_credit_history list"
  ap_vaults :: "AgentProfile_vaults list"
  ap_spending_behaviour :: "AgentProfile_spending_behaviour"
  ap_repayments :: "AgentProfile_repayments list"
  ap_risk_events :: "RiskEvent list"
  ap_audit_events :: "AuditEventRef list"

record CreditApplicationSummary_human_review =
  ca_hr_action :: "string"
  ca_hr_amount_minor :: "Money option"
  ca_hr_notes :: "string option"
  ca_hr_created_at :: "Timestamp option"

record CreditApplicationSummary =
  ca_application_id :: "string"
  ca_agent_id :: "string"
  ca_agent_name :: "string"
  ca_task_id :: "string"
  ca_task_title :: "string"
  ca_status :: "string"
  ca_currency :: "string"
  ca_requested_minor :: "Money"
  ca_approved_limit_minor :: "Money option"
  ca_decision :: "string option"
  ca_reason_codes :: "string list"
  ca_receipt_hash :: "string option"
  ca_expected_revenue_minor :: "Money"
  ca_expected_cost_minor :: "Money"
  ca_expected_margin_minor :: "Money"
  ca_requested_duration_hours :: "jsnum"
  ca_pd_ppm :: "Ppm option"
  ca_expected_loss_minor :: "Money option"
  ca_human_review :: "CreditApplicationSummary_human_review option"
  ca_vault_id :: "string option"
  ca_created_at :: "Timestamp option"
  ca_updated_at :: "Timestamp option"

record EvidenceItem =
  ev_evidence_id :: "string"
  ev_evidence_type :: "string"
  ev_source :: "string"
  ev_content_hash :: "string"
  ev_content_text :: "string"
  ev_created_at :: "Timestamp option"

record StoredEvidence = EvidenceItem +
  se_organization_id :: "string"
  se_task_id :: "string"

record EvidenceReceipt = StoredEvidence +
  er_redactions :: "string list"
  er_injection_signature :: "bool"

record PassportVerification =
  pver_agent_id :: "string"
  pver_valid :: "bool"
  pver_reason_codes :: "string list"

record AiRecommendation_claims =
  ai_clai_claim_id :: "string"
  ai_clai_text :: "string"
  ai_clai_evidence_ids :: "string list"

record AiRecommendation =
  ai_role :: "string"
  ai_model_profile :: "string"
  ai_schema_valid :: "bool"
  ai_summary :: "string"
  ai_claims :: "AiRecommendation_claims list"
  ai_risk_flags :: "string list"
  ai_missing_evidence :: "string list"
  ai_evidence_ids :: "string list"
  ai_created_at :: "Timestamp option"

record DeterministicEngine_caps =
  de_caps_requested_minor :: "Money"
  de_caps_available_exposure_minor :: "Money"
  de_caps_revenue_advance_cap_minor :: "Money"
  de_caps_task_cost_cap_minor :: "Money"
  de_caps_policy_cap_minor :: "Money"

record DeterministicEngine =
  de_decision :: "string"
  de_approved_limit_minor :: "Money"
  de_caps :: "DeterministicEngine_caps"
  de_reason_codes :: "string list"
  de_receipt_hash :: "string option"
  de_created_at :: "Timestamp option"
  de_pd_ppm :: "Ppm"
  de_lgd_ppm :: "Ppm"
  de_ead_minor :: "Money"
  de_expected_loss_minor :: "Money"
  de_model_name :: "string"
  de_is_simulation :: "bool"
  de_features :: "AgentFeatures"

record VerifiedClaim =
  vc_claim_id :: "string"
  vc_text :: "string"
  vc_evidence_ids :: "string list"
  vc_unknown_evidence_ids :: "string list"

datatype IndependentVerifier_verdict =
    I_NO_MODEL_ANALYSIS
  | I_CONTRADICTIONS_FOUND
  | I_CLAIMS_TRACE_TO_EVIDENCE

record IndependentVerifier =
  iv_claims_total :: "jsnum"
  iv_claims_supported :: "jsnum"
  iv_claims_unsupported :: "jsnum"
  iv_supported :: "VerifiedClaim list"
  iv_unsupported :: "VerifiedClaim list"
  iv_analyst_risk_flags_unverified :: "string list"
  iv_model_output_schema_valid :: "bool"
  iv_model_influenced_amounts :: "bool"
  iv_verdict :: "IndependentVerifier_verdict"
  iv_note :: "string"

record PolicyDecisionRecord =
  pd_engine :: "string"
  pd_allow :: "bool"
  pd_deny :: "string list"
  pd_policy_version :: "string option"
  pd_created_at :: "Timestamp option"

record RevenueMandate =
  rm_mandate_id :: "string"
  rm_status :: "string"
  rm_locked :: "bool"
  rm_reserve_cap_minor :: "Money"
  rm_destination_account_code :: "string"

record UnderwritingView_application =
  uv_appl_application_id :: "string"
  uv_appl_status :: "string"
  uv_appl_currency :: "string"
  uv_appl_requested_minor :: "Money"
  uv_appl_requested_duration_hours :: "jsnum"
  uv_appl_expected_revenue_minor :: "Money"
  uv_appl_expected_cost_minor :: "Money"
  uv_appl_expected_margin_minor :: "Money"
  uv_appl_owner_exposure_cap_minor :: "Money"
  uv_appl_proposed_vendor_ids :: "string list"
  uv_appl_created_at :: "Timestamp option"

record UnderwritingView_agent =
  uv_agen_agent_id :: "string"
  uv_agen_name :: "string"
  uv_agen_status :: "string"
  uv_agen_model_name :: "string"

record UnderwritingView_task =
  uv_task_task_id :: "string"
  uv_task_title :: "string"
  uv_task_description :: "string"
  uv_task_category :: "string"
  uv_task_status :: "string"

record UnderwritingView_human_reviews =
  uv_hr_action :: "string"
  uv_hr_amount_minor :: "Money option"
  uv_hr_notes :: "string option"
  uv_hr_reviewer_user_id :: "string"
  uv_hr_created_at :: "Timestamp option"

record UnderwritingView =
  uv_application :: "UnderwritingView_application"
  uv_agent :: "UnderwritingView_agent"
  uv_task :: "UnderwritingView_task"
  uv_revenue_mandate :: "RevenueMandate option"
  uv_evidence :: "EvidenceItem list"
  uv_ai_recommendation :: "AiRecommendation option"
  uv_deterministic_engine :: "DeterministicEngine option"
  uv_verifier :: "IndependentVerifier"
  uv_policy_decisions :: "PolicyDecisionRecord list"
  uv_human_reviews :: "UnderwritingView_human_reviews list"

datatype UnderwritingQueueBucket =
    awaiting_ai_analysis
  | awaiting_deterministic_decision
  | awaiting_human_review
  | recently_completed

record UnderwritingQueue =
  uq_buckets :: "UnderwritingQueueBucket \<Rightarrow> CreditApplicationSummary list"
  uq_counts :: "UnderwritingQueueBucket \<Rightarrow> jsnum"

record VaultSummary =
  vs_vault_id :: "string"
  vs_agent_id :: "string"
  vs_agent_name :: "string"
  vs_task_id :: "string"
  vs_task_title :: "string"
  vs_application_id :: "string"
  vs_status :: "string"
  vs_currency :: "string"
  vs_total_limit_minor :: "Money"
  vs_spent_minor :: "Money"
  vs_remaining_minor :: "Money"
  vs_per_transaction_limit_minor :: "Money"
  vs_daily_limit_minor :: "Money"
  vs_principal_outstanding_minor :: "Money"
  vs_fee_due_minor :: "Money"
  vs_reserve_drawn_minor :: "Money"
  vs_transaction_count :: "jsnum"
  vs_max_transactions :: "jsnum"
  vs_frozen_reason :: "string option"
  vs_expires_at :: "Timestamp option"
  vs_created_at :: "Timestamp option"
  vs_updated_at :: "Timestamp option"

record WaterfallAllocation =
  wa_step :: "string"
  wa_amount_minor :: "Money"

record RepaymentRecord =
  rr_repayment_id :: "string"
  rr_kind :: "string"
  rr_allocations :: "WaterfallAllocation list"
  rr_principal_minor :: "Money"
  rr_fee_minor :: "Money"
  rr_reserve_minor :: "Money"
  rr_owner_minor :: "Money"
  rr_loss_minor :: "Money"
  rr_journal_transaction_id :: "string option"
  rr_created_at :: "Timestamp option"

record VaultDetail_allowlist =
  vd_allo_vendor_id :: "string"
  vd_allo_vendor_name :: "string"
  vd_allo_category :: "string"
  vd_allo_purpose_codes :: "string list"
  vd_allo_per_vendor_cap_minor :: "Money option"

record VaultDetail_transactions =
  vd_tran_proposal_id :: "string"
  vd_tran_vendor_id :: "string"
  vd_tran_vendor_name :: "string"
  vd_tran_amount_minor :: "Money"
  vd_tran_currency :: "string"
  vd_tran_purpose_code :: "string"
  vd_tran_status :: "string"
  vd_tran_reason_codes :: "string list"
  vd_tran_transaction_id :: "string option"
  vd_tran_journal_transaction_id :: "string option"
  vd_tran_created_at :: "Timestamp option"
  vd_tran_executed_at :: "Timestamp option"

record VaultDetail_revenue_events =
  vd_re_amount_minor :: "Money"
  vd_re_created_at :: "Timestamp option"

record VaultDetail = VaultSummary +
  vd_agent_status :: "string"
  vd_allowlist :: "VaultDetail_allowlist list"
  vd_transactions :: "VaultDetail_transactions list"
  vd_revenue_events :: "VaultDetail_revenue_events list"
  vd_repayments :: "RepaymentRecord list"
  vd_revenue_mandate :: "RevenueMandate option"
  vd_risk_events :: "RiskEvent list"
  vd_audit_events :: "AuditEventRef list"

record TransactionSummary =
  txs_proposal_id :: "string"
  txs_transaction_id :: "string option"
  txs_vault_id :: "string"
  txs_agent_id :: "string"
  txs_agent_name :: "string"
  txs_vendor_id :: "string"
  txs_vendor_name :: "string"
  txs_vendor_known :: "bool"
  txs_amount_minor :: "Money"
  txs_currency :: "string"
  txs_purpose_code :: "string"
  txs_type :: "string"
  txs_policy_result :: "string"
  txs_status :: "string"
  txs_reason_codes :: "string list"
  txs_journal_transaction_id :: "string option"
  txs_created_at :: "Timestamp option"
  txs_decided_at :: "Timestamp option"
  txs_executed_at :: "Timestamp option"

record TransactionDetail = TransactionSummary +
  td_idempotency_key_present :: "bool"
  td_policy_decisions :: "PolicyDecisionRecord list"
  td_audit_events :: "AuditEventRef list"

record RepaymentRow =
  rp_repayment_id :: "string"
  rp_vault_id :: "string"
  rp_agent_id :: "string"
  rp_agent_name :: "string"
  rp_task_title :: "string"
  rp_kind :: "string"
  rp_allocations :: "WaterfallAllocation list"
  rp_revenue_minor :: "Money"
  rp_principal_minor :: "Money"
  rp_fee_minor :: "Money"
  rp_reserve_minor :: "Money"
  rp_owner_minor :: "Money"
  rp_loss_minor :: "Money"
  rp_vault_status :: "string"
  rp_outstanding_minor :: "Money"
  rp_journal_transaction_id :: "string option"
  rp_status :: "string"
  rp_created_at :: "Timestamp option"

record AuditEvent =
  ae_id :: "string"
  ae_seq :: "jsnum"
  ae_actor_type :: "string"
  ae_event_type :: "string"
  ae_resource_id :: "string option"
  ae_event_hash :: "string"
  ae_prev_hash :: "string"
  ae_created_at :: "Timestamp"

record RiskSummary_events_by_type =
  rs_ebt_event_type :: "string"
  rs_ebt_count :: "jsnum"

record RiskSummary =
  rs_critical_events :: "jsnum"
  rs_high_events :: "jsnum"
  rs_total_events :: "jsnum"
  rs_frozen_agents :: "jsnum"
  rs_frozen_vaults :: "jsnum"
  rs_blocked_transactions :: "jsnum"
  rs_blocked_value_minor :: "Money"
  rs_active_monitoring_rules :: "jsnum"
  rs_events_by_type :: "RiskSummary_events_by_type list"

record ChainVerification =
  cv_intact :: "bool"
  cv_first_broken_seq :: "jsnum option"

record LabelMaps =
  lm_audit :: "(string \<times> string) list"
  lm_risk :: "(string \<times> string) list"

record DashboardSummary_agents =
  ds_agen_total :: "jsnum"
  ds_agen_active :: "jsnum"
  ds_agen_frozen :: "jsnum"
  ds_agen_revoked :: "jsnum"

record DashboardSummary_credit =
  ds_cred_approved_minor :: "Money"
  ds_cred_utilized_minor :: "Money"
  ds_cred_repaid_minor :: "Money"
  ds_cred_outstanding_minor :: "Money"
  ds_cred_at_risk_minor :: "Money"
  ds_cred_recovered_minor :: "Money"
  ds_cred_loss_minor :: "Money"
  ds_cred_fees_minor :: "Money"
  ds_cred_released_to_owner_minor :: "Money"

record DashboardSummary_vaults =
  ds_vaul_total :: "jsnum"
  ds_vaul_active :: "jsnum"
  ds_vaul_frozen :: "jsnum"
  ds_vaul_closed :: "jsnum"
  ds_vaul_defaulted :: "jsnum"

record DashboardSummary_applications =
  ds_appl_total :: "jsnum"
  ds_appl_approved :: "jsnum"
  ds_appl_human_review :: "jsnum"
  ds_appl_rejected :: "jsnum"
  ds_appl_in_flight :: "jsnum"
  ds_appl_requested_minor :: "Money"
  ds_appl_approved_limit_minor :: "Money"

record DashboardSummary_transactions =
  ds_tran_proposed :: "jsnum"
  ds_tran_executed :: "jsnum"
  ds_tran_blocked :: "jsnum"
  ds_tran_executed_value_minor :: "Money"
  ds_tran_blocked_value_minor :: "Money"

record DashboardSummary_repayments =
  ds_repa_count :: "jsnum"
  ds_repa_settled_vaults :: "jsnum"
  ds_repa_terminal_vaults :: "jsnum"
  ds_repa_repayment_rate_ppm :: "Ppm option"

record DashboardSummary_risk =
  ds_risk_total_events :: "jsnum"
  ds_risk_critical :: "jsnum"
  ds_risk_high :: "jsnum"
  ds_risk_warn :: "jsnum"

record DashboardSummary_integrity =
  ds_inte_ledger_balanced :: "bool"
  ds_inte_ledger_imbalance :: "(string \<times> jsnum) list"
  ds_inte_audit_chain_intact :: "bool"
  ds_inte_first_broken_seq :: "jsnum option"

record DashboardSummary =
  ds_agents :: "DashboardSummary_agents"
  ds_credit :: "DashboardSummary_credit"
  ds_vaults :: "DashboardSummary_vaults"
  ds_applications :: "DashboardSummary_applications"
  ds_transactions :: "DashboardSummary_transactions"
  ds_repayments :: "DashboardSummary_repayments"
  ds_risk :: "DashboardSummary_risk"
  ds_integrity :: "DashboardSummary_integrity"
  ds_generated_at :: "Timestamp"

record ActivityEvent =
  act_seq :: "jsnum"
  act_event_type :: "string"
  act_label :: "string"
  act_actor_type :: "string"
  act_actor_id :: "string option"
  act_resource_id :: "string option"
  act_payload :: "(string \<times> json) list"
  act_created_at :: "Timestamp option"

record ExposurePoint =
  ep_date :: "string"
  ep_approved_minor :: "Money"
  ep_utilized_minor :: "Money"
  ep_repaid_minor :: "Money"

record PolicyParameters_credit_policy =
  pp_cp_advance_rate_ppm :: "Ppm"
  pp_cp_lgd_ppm_default :: "Ppm"
  pp_cp_auto_approve_max_pd_ppm :: "Ppm"
  pp_cp_auto_approve_max_el_ratio_ppm :: "Ppm"
  pp_cp_fee_rate_ppm :: "Ppm"
  pp_cp_decision_version :: "string"
  pp_cp_scorecard_version :: "string"
  pp_cp_limit_formula :: "string"

record PolicyParameters_risk_policy =
  pp_rp_velocity_window_seconds :: "jsnum"
  pp_rp_velocity_max_transactions :: "jsnum"
  pp_rp_max_transactions_default :: "jsnum"
  pp_rp_spendable_vault_statuses :: "string list"
  pp_rp_active_controls :: "jsnum"
  pp_rp_anti_splitting :: "string"

record PolicyParameters_environment =
  pp_envi_run_mode :: "string"
  pp_envi_environment :: "string"
  pp_envi_model_provider :: "string"
  pp_envi_voice_provider :: "string"
  pp_envi_test_credits_only :: "bool"

record PolicyParameters =
  pp_credit_policy :: "PolicyParameters_credit_policy"
  pp_risk_policy :: "PolicyParameters_risk_policy"
  pp_environment :: "PolicyParameters_environment"

record Vendor =
  vn_vendor_id :: "string"
  vn_name :: "string"
  vn_category :: "string"
  vn_status :: "string"

record Readiness =
  rd_status :: "string"
  rd_version :: "string"
  rd_run_mode :: "string"
  rd_environment :: "string"
  rd_model_provider :: "string"
  rd_test_credits_only :: "bool"

record EvaluationMetrics =
  em_ledger_balanced :: "bool"
  em_ledger_imbalance :: "(string \<times> jsnum) list"
  em_audit_chain_intact :: "bool"
  em_environment :: "string"
  em_run_mode :: "string"
  em_test_credits_only :: "bool"

record ScenarioResult_seed =
  sr_seed_organization_id :: "string"
  sr_seed_owner_user_id :: "string"
  sr_seed_agent_id :: "string"
  sr_seed_agent_name :: "string"
  sr_seed_owner_api_token :: "string option"
  sr_seed_passport_nonce :: "string"

record ScenarioResult =
  sr_scenario :: "string"
  sr_seed :: "ScenarioResult_seed"
  sr_rest :: "(string \<times> json) list"

datatype SystemIntelligenceWindow =
    W_1h
  | W_24h
  | W_7d
  | W_30d

datatype MetricUnit =
    U_ppm
  | U_minor
  | U_count
  | U_ms

datatype MetricStatus =
    M_ok
  | M_not_evaluated
  | M_insufficient_sample
  | M_not_connected
  | M_unavailable

record MetricEnvelope =
  env_value :: "jsnum option"
  env_unit :: "MetricUnit"
  env_sample_size :: "jsnum option"
  env_status :: "MetricStatus"

datatype PipelineStageStatus =
    P_healthy
  | P_degraded
  | P_waiting
  | P_reviewing
  | P_failed
  | P_unavailable

record PipelineStage =
  ps_stage :: "PipelineStageName"
  ps_label :: "string"
  ps_status :: "PipelineStageStatus"
  ps_processed :: "MetricEnvelope"
  ps_succeeded :: "MetricEnvelope"
  ps_controlled_rejections :: "MetricEnvelope"
  ps_true_errors :: "MetricEnvelope"
  ps_p50_ms :: "MetricEnvelope"
  ps_p95_ms :: "MetricEnvelope"
  ps_last_completed_at :: "Timestamp option"

record AssuranceComponents =
  ac_identity_verification_accuracy :: "MetricEnvelope"
  ac_underwriting_decision_agreement :: "MetricEnvelope"
  ac_evidence_grounding_rate :: "MetricEnvelope"
  ac_hallucination_containment_rate :: "MetricEnvelope"
  ac_adversarial_policy_block_rate :: "MetricEnvelope"
  ac_repayment_invariant_pass_rate :: "MetricEnvelope"

datatype ServiceHealthComponent =
    C_api
  | C_database
  | C_opa
  | C_model_runtime

datatype ServiceHealthStatus =
    S_healthy
  | S_degraded
  | S_down
  | S_idle
  | S_not_connected

record ServiceHealthEntry =
  sh_component :: "ServiceHealthComponent"
  sh_status :: "ServiceHealthStatus"
  sh_detail :: "string option"
  sh_checked_at :: "Timestamp"

record FailClosedEvent =
  fc_at :: "Timestamp"
  fc_component :: "string"
  fc_action :: "string"
  fc_detail :: "string"

record PolicyDenialCount =
  pdc_code :: "string"
  pdc_count :: "jsnum"

record SystemIntelligence_assurance =
  si_assu_score :: "MetricEnvelope"
  si_assu_components :: "AssuranceComponents"
  si_assu_last_evaluation_run_at :: "Timestamp option"

record SystemIntelligence_summary =
  si_summ_requests_processed :: "MetricEnvelope"
  si_summ_approvals :: "MetricEnvelope"
  si_summ_controlled_rejections :: "MetricEnvelope"
  si_summ_human_reviews :: "MetricEnvelope"
  si_summ_true_errors :: "MetricEnvelope"
  si_summ_pipeline_success_rate :: "MetricEnvelope"
  si_summ_prevented_exposure_minor :: "MetricEnvelope"
  si_summ_blocked_attempts :: "MetricEnvelope"

record SystemIntelligence_ai_quality =
  si_aq_structured_output_validity :: "MetricEnvelope"
  si_aq_verifier_disagreement_rate :: "MetricEnvelope"
  si_aq_model_fallback_rate :: "MetricEnvelope"
  si_aq_insufficient_evidence_responses :: "MetricEnvelope"

record SystemIntelligence_models =
  si_mode_provider :: "string"
  si_mode_analyst_model :: "string option"
  si_mode_critic_model :: "string option"
  si_mode_external_llm_api_calls :: "MetricEnvelope"

record SystemIntelligence_credit_engine =
  si_ce_decision_version :: "string"
  si_ce_scorecard_version :: "string"
  si_ce_decisions :: "MetricEnvelope"
  si_ce_auto_approved :: "MetricEnvelope"
  si_ce_auto_rejected :: "MetricEnvelope"
  si_ce_referred_to_human :: "MetricEnvelope"

record SystemIntelligence_financial_safety =
  si_fs_policy_denials_by_code :: "PolicyDenialCount list"
  si_fs_frozen_vaults :: "MetricEnvelope"
  si_fs_revoked_agents :: "MetricEnvelope"
  si_fs_prevented_exposure_minor :: "MetricEnvelope"

record SystemIntelligence_repayment =
  si_repa_waterfall_runs :: "MetricEnvelope"
  si_repa_invariant_checked :: "MetricEnvelope"
  si_repa_invariant_passed :: "MetricEnvelope"
  si_repa_ledger_balanced :: "bool"
  si_repa_audit_chain_intact :: "bool"

record SystemIntelligence_infrastructure =
  si_infr_billing_connected :: "bool"
  si_infr_note :: "string"

record SystemIntelligence =
  si_generated_at :: "Timestamp"
  si_window :: "SystemIntelligenceWindow"
  si_assurance :: "SystemIntelligence_assurance"
  si_summary :: "SystemIntelligence_summary"
  si_pipeline :: "PipelineStage list"
  si_ai_quality :: "SystemIntelligence_ai_quality"
  si_models :: "SystemIntelligence_models"
  si_credit_engine :: "SystemIntelligence_credit_engine"
  si_financial_safety :: "SystemIntelligence_financial_safety"
  si_repayment :: "SystemIntelligence_repayment"
  si_service_health :: "ServiceHealthEntry list"
  si_fail_closed_events :: "FailClosedEvent list"
  si_infrastructure :: "SystemIntelligence_infrastructure"

subsection \<open>Texts of the literal unions\<close>

fun window_text :: "SystemIntelligenceWindow \<Rightarrow> string" where
  "window_text W_1h = ''1h''"
| "window_text W_24h = ''24h''"
| "window_text W_7d = ''7d''"
| "window_text W_30d = ''30d''"

end
