(* ===== verification/Onboarding.thy ===== *)
theory Onboarding
  imports Json
begin

text \<open>
  \<open>frontend/lib/onboarding.ts\<close>: the closed vocabularies the forms offer and the sequencer that
  runs a submission's dependent writes one after another.

  A write is a function on a world \<open>'w\<close> (the backend and everything the step's closure
  mutates): it returns what the promise settles to, a value or the thrown error, and the new
  world. \<open>runSteps\<close> returns the frames it passed to \<open>onProgress\<close>, in order, beside the outcome.
\<close>

record Choice =
  ch_value :: string
  ch_label :: string
  ch_hint :: "string option"

definition EVIDENCE_TYPES :: "Choice list" where
  "EVIDENCE_TYPES =
    [\<lparr>ch_value = ''TASK_ORDER'', ch_label = ''Task order'', ch_hint = Some (''The order or brief the work is being done against.'')\<rparr>,
     \<lparr>ch_value = ''TASK_CONTRACT'', ch_label = ''Task contract'', ch_hint = Some (''Signed terms covering the engagement.'')\<rparr>,
     \<lparr>ch_value = ''INVOICE'', ch_label = ''Invoice'', ch_hint = Some (''A bill raised or received for this task.'')\<rparr>,
     \<lparr>ch_value = ''COST_QUOTE'', ch_label = ''Cost quote'', ch_hint = Some (''What the inputs are expected to cost, per vendor.'')\<rparr>,
     \<lparr>ch_value = ''PRIOR_TASK_OUTCOME'', ch_label = ''Prior task outcome'', ch_hint = Some (''How comparable work by this agent ended.'')\<rparr>,
     \<lparr>ch_value = ''REPAYMENT_HISTORY'', ch_label = ''Repayment history'', ch_hint = Some (''Whether earlier facilities were repaid.'')\<rparr>,
     \<lparr>ch_value = ''AUTHORIZATION'', ch_label = ''Authorization'', ch_hint = Some (''The owner'' @ [APOS] @ ''s written permission to borrow.'')\<rparr>,
     \<lparr>ch_value = ''VENDOR_INFO'', ch_label = ''Vendor information'', ch_hint = Some (''Who is being paid, and on what terms.'')\<rparr>,
     \<lparr>ch_value = ''SPENDING_HISTORY'', ch_label = ''Spending history'', ch_hint = Some (''Where this agent'' @ [APOS] @ ''s money has gone before.'')\<rparr>,
     \<lparr>ch_value = ''RISK_EVENT'', ch_label = ''Risk event'', ch_hint = Some (''A breach, dispute or failure worth disclosing.'')\<rparr>]"

definition TASK_CATEGORIES :: "Choice list" where
  "TASK_CATEGORIES =
    [\<lparr>ch_value = ''COMPUTE'', ch_label = ''Compute'', ch_hint = None\<rparr>,
     \<lparr>ch_value = ''IMAGE'', ch_label = ''Image generation'', ch_hint = None\<rparr>,
     \<lparr>ch_value = ''DATA'', ch_label = ''Data and enrichment'', ch_hint = None\<rparr>,
     \<lparr>ch_value = ''LOGISTICS'', ch_label = ''Logistics'', ch_hint = None\<rparr>,
     \<lparr>ch_value = ''MARKETING'', ch_label = ''Marketing'', ch_hint = None\<rparr>]"

definition MODEL_PROVIDERS :: "Choice list" where
  "MODEL_PROVIDERS =
    [\<lparr>ch_value = ''ollama'', ch_label = ''Self-hosted (Ollama)'', ch_hint = None\<rparr>,
     \<lparr>ch_value = ''anthropic'', ch_label = ''Anthropic'', ch_hint = None\<rparr>,
     \<lparr>ch_value = ''openai'', ch_label = ''OpenAI'', ch_hint = None\<rparr>,
     \<lparr>ch_value = ''google'', ch_label = ''Google'', ch_hint = None\<rparr>,
     \<lparr>ch_value = ''other'', ch_label = ''Other'', ch_hint = None\<rparr>]"

definition EVIDENCE_TEMPLATES :: "(string \<times> string) list" where
  "EVIDENCE_TEMPLATES =
    [(''TASK_ORDER'',
        ''Purchase order SYN-2044 from sandbox customer NorthWind Retail: '' @
        ''payment of '' @ [RUPEE] @ ''4,000.00 due on delivery of 800 enriched product listings.''),
     (''TASK_CONTRACT'',
        ''Engagement terms SYN-2044: fixed fee '' @ [RUPEE] @ ''4,000.00, delivery within 48 '' @
        ''hours, payment routed to the platform revenue account on acceptance.''),
     (''INVOICE'',
        ''Invoice SYN-INV-118 raised against order SYN-2044 for '' @ [RUPEE] @ ''4,000.00, net '' @
        ''0 days on delivery.''),
     (''COST_QUOTE'',
        ''Cost estimate: compute '' @ [RUPEE] @ ''1,500.00 (vendor_gcp_compute), image '' @
        ''generation '' @ [RUPEE] @ ''900.00 (vendor_image_api). Total '' @ [RUPEE] @ ''2,400.00.''),
     (''PRIOR_TASK_OUTCOME'',
        ''Prior task SYN-1987: 600 listings enriched, delivered 6 hours early, '' @
        ''accepted without revision. Revenue '' @ [RUPEE] @ ''3,000.00 received in full.''),
     (''REPAYMENT_HISTORY'',
        ''Two prior facilities on this agent, '' @ [RUPEE] @ ''1,000.00 and '' @ [RUPEE] @ ''2,500.00, both '' @
        ''repaid in full from task revenue with no reserve draw.''),
     (''AUTHORIZATION'',
        ''Owner authorisation: this agent may borrow up to '' @ [RUPEE] @ ''5,000.00 against '' @
        ''catalogue enrichment work, expiring with the current passport.''),
     (''VENDOR_INFO'',
        ''vendor_gcp_compute '' @ [EM_DASH] @ '' compute, settled per usage, active on the '' @
        ''platform allowlist. vendor_image_api '' @ [EM_DASH] @ '' image generation, prepaid per '' @
        ''call.''),
     (''SPENDING_HISTORY'',
        ''Last 30 days: '' @ [RUPEE] @ ''2,400.00 across two vendors, both on the allowlist. No '' @
        ''blocked proposals, no split-payment flags.''),
     (''RISK_EVENT'',
        ''One delivery slipped 4 hours in the prior quarter after an upstream '' @
        ''API outage. No financial loss, no reserve draw, no dispute raised.'')]"

definition template_of :: "string \<Rightarrow> string" where
  "template_of t = (case map_of EVIDENCE_TEMPLATES t of None \<Rightarrow> [] | Some s \<Rightarrow> s)"

subsection \<open>Sequencing\<close>

text \<open>What a rejected promise carries: an \<open>Error\<close> with its message, or anything else.\<close>

datatype thrown = Error string | NonError

datatype step_status = Pending | Running | Done | Failed

record 'w Step =
  step_label :: string
  step_run :: "'w \<Rightarrow> (thrown + json) \<times> 'w"

record StepState =
  ss_label :: string
  ss_status :: step_status
  ss_detail :: "string option"
  ss_error :: "string option"

definition describe_keys :: "string list" where
  "describe_keys = [''agent_id'', ''passport_id'', ''task_id'', ''evidence_id'', ''mandate_id'',
     ''application_id'', ''vault_id'', ''repayment_id'']"

fun first_string :: "string list \<Rightarrow> json \<Rightarrow> string option" where
  "first_string [] r = None"
| "first_string (k # ks) r =
     (case as_string (member k r) of Some s \<Rightarrow> Some s | None \<Rightarrow> first_string ks r)"

definition describe :: "json \<Rightarrow> string option" where
  "describe r = (if \<not> is_object r then None else first_string describe_keys r)"

fun thrown_text :: "thrown \<Rightarrow> string" where
  "thrown_text (Error m) = m"
| "thrown_text NonError = ''That step did not complete.''"

record 'w outcome =
  oc_frames :: "StepState list list"
  oc_ok :: bool
  oc_results :: "json list"
  oc_world :: 'w

fun run_loop :: "'w Step list \<Rightarrow> nat \<Rightarrow> StepState list \<Rightarrow> json list \<Rightarrow> 'w \<Rightarrow> 'w outcome" where
  "run_loop [] i states res w = \<lparr>oc_frames = [], oc_ok = True, oc_results = res, oc_world = w\<rparr>"
| "run_loop (s # ss) i states res w =
     (let states1 = states[i := (states ! i)\<lparr>ss_status := Running\<rparr>]
      in case step_run s w of
           (Inr r, w') \<Rightarrow>
             (let states2 = states1[i := (states1 ! i)\<lparr>ss_status := Done, ss_detail := describe r\<rparr>];
                  out = run_loop ss (Suc i) states2 (res @ [r]) w'
              in out\<lparr>oc_frames := states1 # states2 # oc_frames out\<rparr>)
         | (Inl e, w') \<Rightarrow>
             (let states2 = states1[i := (states1 ! i)\<lparr>ss_status := Failed,
                    ss_error := Some (thrown_text e)\<rparr>]
              in \<lparr>oc_frames = [states1, states2], oc_ok = False, oc_results = res, oc_world = w'\<rparr>))"

definition initial_states :: "'w Step list \<Rightarrow> StepState list" where
  "initial_states steps =
     map (\<lambda>s. \<lparr>ss_label = step_label s, ss_status = Pending, ss_detail = None, ss_error = None\<rparr>) steps"

definition runSteps :: "'w Step list \<Rightarrow> 'w \<Rightarrow> 'w outcome" where
  "runSteps steps w = run_loop steps 0 (initial_states steps) [] w"

subsection \<open>The account a run leaves\<close>

text \<open>
  The abstract run: how far the steps get, what they returned and the world they leave. It
  mentions no progress record.
\<close>

fun exec :: "'w Step list \<Rightarrow> 'w \<Rightarrow> json list \<times> thrown option \<times> 'w" where
  "exec [] w = ([], None, w)"
| "exec (s # ss) w =
     (case step_run s w of
        (Inr r, w') \<Rightarrow> (case exec ss w' of (rs, e, w'') \<Rightarrow> (r # rs, e, w''))
      | (Inl e, w') \<Rightarrow> ([], Some e, w'))"

text \<open>The status line after \<open>k\<close> of \<open>n\<close> steps completed, with \<open>x\<close> the step now concerned.\<close>

definition account :: "nat \<Rightarrow> nat \<Rightarrow> step_status \<Rightarrow> step_status list" where
  "account n k x = replicate k Done @ x # replicate (n - Suc k) Pending"

lemma exec_length: "exec ss w = (rs, e, w') \<Longrightarrow> length rs \<le> length ss"
  by (induction ss arbitrary: w rs e w') (fastforce split: prod.splits sum.splits)+

lemma exec_ok: "exec ss w = (rs, e, w') \<Longrightarrow> e = None \<longleftrightarrow> length rs = length ss"
  by (induction ss arbitrary: w rs e w') (fastforce split: prod.splits sum.splits)+

text \<open>The status lines of the frames of a run of \<open>n\<close> steps, from step \<open>i\<close>, of which \<open>m\<close> complete.\<close>

definition progress :: "nat \<Rightarrow> nat \<Rightarrow> nat \<Rightarrow> bool \<Rightarrow> step_status list list" where
  "progress n i m failed =
     concat (map (\<lambda>k. [account n k Running, account n k Done]) [i..<i + m])
     @ (if failed then [account n (i + m) Running, account n (i + m) Failed] else [])"

lemma progress_Suc:
  "progress n i (Suc m) failed = account n i Running # account n i Done # progress n (Suc i) m failed"
proof -
  have "[i..<i + Suc m] = i # [Suc i..<Suc i + m]" by (simp add: upt_rec)
  then show ?thesis by (simp add: progress_def)
qed

lemma status_update:
  assumes "map ss_status sts = replicate i Done @ replicate (Suc m) Pending"
  shows "map ss_status (sts[i := (sts ! i)\<lparr>ss_status := x\<rparr>]) = account (i + Suc m) i x"
    and "map ss_status (sts[i := y]) = account (i + Suc m) i (ss_status y)"
  using assms by (simp_all add: map_update account_def list_update_append)

lemma label_update: "i < length sts \<Longrightarrow> ss_label y = ss_label (sts ! i) \<Longrightarrow>
    map ss_label (sts[i := y]) = map ss_label sts"
  by (metis list_update_id map_update nth_map length_map list_update_beyond linorder_not_le)

lemma run_loop_refines:
  assumes "exec ss w = (rs, e, w')"
    and "map ss_status sts = replicate i Done @ replicate (length ss) Pending"
    and "n = i + length ss"
  shows "oc_results (run_loop ss i sts res w) = res @ rs"
    and "oc_world (run_loop ss i sts res w) = w'"
    and "oc_ok (run_loop ss i sts res w) \<longleftrightarrow> e = None"
    and "map (map ss_status) (oc_frames (run_loop ss i sts res w))
           = progress n i (length rs) (e \<noteq> None)"
    and "\<forall>fr \<in> set (oc_frames (run_loop ss i sts res w)). map ss_label fr = map ss_label sts"
proof -
  have "oc_results (run_loop ss i sts res w) = res @ rs
      \<and> oc_world (run_loop ss i sts res w) = w'
      \<and> (oc_ok (run_loop ss i sts res w) \<longleftrightarrow> e = None)
      \<and> map (map ss_status) (oc_frames (run_loop ss i sts res w))
           = progress n i (length rs) (e \<noteq> None)
      \<and> (\<forall>fr \<in> set (oc_frames (run_loop ss i sts res w)). map ss_label fr = map ss_label sts)"
    using assms
  proof (induction ss arbitrary: i sts res w rs e w')
    case Nil
    then show ?case by (auto simp: progress_def)
  next
    case (Cons s ss)
    define states1 where "states1 = sts[i := (sts ! i)\<lparr>ss_status := Running\<rparr>]"
    have len: "length sts = n"
      using arg_cong [OF Cons.prems(2), of length] Cons.prems(3) by simp
    have i: "i < length sts" using len Cons.prems(3) by simp
    have st: "map ss_status sts = replicate i Done @ replicate (Suc (length ss)) Pending"
      using Cons.prems(2) by simp
    have n: "n = i + Suc (length ss)" using Cons.prems(3) by simp
    have s1: "map ss_status states1 = account n i Running"
      unfolding states1_def n by (rule status_update(1) [OF st])
    have l1: "map ss_label states1 = map ss_label sts"
      unfolding states1_def using i by (intro label_update) auto
    have nth1: "states1 ! i = (sts ! i)\<lparr>ss_status := Running\<rparr>"
      using i by (simp add: states1_def)
    obtain r1 w1 where run: "step_run s w = (r1, w1)" by (cases "step_run s w")
    show ?case
    proof (cases r1)
      case (Inl t)
      define states2 where "states2 = states1[i := (states1 ! i)\<lparr>ss_status := Failed,
          ss_error := Some (thrown_text t)\<rparr>]"
      have "map ss_status states2 = account n i Failed"
        unfolding states2_def states1_def n using status_update(2) [OF st] by simp
      moreover have "map ss_label states2 = map ss_label sts"
        unfolding states2_def l1 [symmetric] using i
        by (intro label_update) (auto simp: states1_def)
      ultimately show ?thesis
        using Cons.prems(1) run Inl s1 l1
        by (auto simp: progress_def Let_def states1_def [symmetric] states2_def [symmetric])
    next
      case (Inr r)
      define states2 where "states2 = states1[i := (states1 ! i)\<lparr>ss_status := Done,
          ss_detail := describe r\<rparr>]"
      have s2: "map ss_status states2 = account n i Done"
        unfolding states2_def states1_def n using status_update(2) [OF st] by simp
      have l2: "map ss_label states2 = map ss_label sts"
        unfolding states2_def l1 [symmetric] using i
        by (intro label_update) (auto simp: states1_def)
      obtain rs' where ex: "exec ss w1 = (rs', e, w')" and rs: "rs = r # rs'"
        using Cons.prems(1) run Inr by (auto split: prod.splits)
      have "map ss_status states2 = replicate (Suc i) Done @ replicate (length ss) Pending"
        unfolding s2 n by (simp add: account_def replicate_append_same [symmetric])
      note IH = Cons.IH [OF ex this, of "res @ [r]"]
      show ?thesis
        using IH n rs s1 s2 l1 l2 run Inr
        by (auto simp: progress_Suc Let_def states1_def [symmetric] states2_def [symmetric])
    qed
  qed
  then show "oc_results (run_loop ss i sts res w) = res @ rs"
    and "oc_world (run_loop ss i sts res w) = w'"
    and "oc_ok (run_loop ss i sts res w) \<longleftrightarrow> e = None"
    and "map (map ss_status) (oc_frames (run_loop ss i sts res w))
           = progress n i (length rs) (e \<noteq> None)"
    and "\<forall>fr \<in> set (oc_frames (run_loop ss i sts res w)). map ss_label fr = map ss_label sts"
    by auto
qed

lemma runSteps_run:
  assumes "exec steps w = (rs, e, w')"
  shows "oc_results (runSteps steps w) = rs" and "oc_world (runSteps steps w) = w'"
    and "oc_ok (runSteps steps w) \<longleftrightarrow> e = None"
    and "map (map ss_status) (oc_frames (runSteps steps w))
           = progress (length steps) 0 (length rs) (e \<noteq> None)"
    and "\<forall>fr \<in> set (oc_frames (runSteps steps w)). map ss_label fr = map step_label steps"
proof -
  have st: "map ss_status (initial_states steps) = replicate 0 Done @ replicate (length steps) Pending"
    by (simp add: initial_states_def comp_def map_replicate_const)
  have lb: "map ss_label (initial_states steps) = map step_label steps"
    by (simp add: initial_states_def comp_def)
  note r = run_loop_refines [OF assms st, of "length steps" "[]"]
  show "oc_results (runSteps steps w) = rs" "oc_world (runSteps steps w) = w'"
    "oc_ok (runSteps steps w) \<longleftrightarrow> e = None"
    "map (map ss_status) (oc_frames (runSteps steps w))
       = progress (length steps) 0 (length rs) (e \<noteq> None)"
    "\<forall>fr \<in> set (oc_frames (runSteps steps w)). map ss_label fr = map step_label steps"
    using r lb by (simp_all add: runSteps_def)
qed

text \<open>
  C10. The sequencer implements the abstract run: it performs exactly the writes up to the first
  failure and returns their results and the world they leave, and the status lines it reports are
  exactly, for each completed step, that step running and then done with every earlier step done
  and every later one pending, followed on failure by the failing step running and then failed.
  The labels never change.
\<close>

theorem runSteps_refines_exec:
  assumes "exec steps w = (rs, e, w')"
  shows "oc_results (runSteps steps w) = rs \<and> oc_world (runSteps steps w) = w'
    \<and> (oc_ok (runSteps steps w) \<longleftrightarrow> e = None)
    \<and> map (map ss_status) (oc_frames (runSteps steps w)) = progress (length steps) 0 (length rs) (e \<noteq> None)
    \<and> list_all (\<lambda>fr. map ss_label fr = map step_label steps) (oc_frames (runSteps steps w))"
  using runSteps_run [OF assms] by (simp add: list_all_iff)

theorem runSteps_refines_exec_witness:
  "map (map ss_status) (oc_frames (runSteps
      [\<lparr>step_label = ''one'', step_run = (\<lambda>n. (Inr JNull, Suc n))\<rparr>,
       \<lparr>step_label = ''two'', step_run = (\<lambda>n. (Inl NonError, n))\<rparr>,
       \<lparr>step_label = ''three'', step_run = (\<lambda>n. (Inr JNull, Suc n))\<rparr>] 0))
    = [[Running, Pending, Pending], [Done, Pending, Pending],
       [Done, Running, Pending], [Done, Failed, Pending]]"
  by (subst runSteps_refines_exec [where rs = "[JNull]" and e = "Some NonError" and w' = 1,
        THEN conjunct2, THEN conjunct2, THEN conjunct2, THEN conjunct1])
    (simp_all add: progress_def account_def eval_nat_numeral)

text \<open>
  A failure is accounted for truthfully: when the run reports failure, its last frame shows
  one \<open>Done\<close> per write that really happened (as many as results), then the failed step, then only
  pending steps; when it reports success every step is shown done.
\<close>

theorem runSteps_truthful:
  assumes "steps \<noteq> []" and "out = runSteps steps w"
  shows "map ss_status (last (oc_frames out)) =
      (if oc_ok out then replicate (length steps) Done
       else account (length steps) (length (oc_results out)) Failed)
    \<and> (oc_ok out \<longleftrightarrow> length (oc_results out) = length steps)"
proof -
  obtain rs e w' where ex: "exec steps w = (rs, e, w')" by (cases "exec steps w") auto
  note r = runSteps_run [OF ex, folded assms(2)]
  have okl: "e = None \<longleftrightarrow> length rs = length steps" by (rule exec_ok [OF ex])
  then have ok: "oc_ok out \<longleftrightarrow> length (oc_results out) = length steps"
    using r by simp
  have ne: "progress (length steps) 0 (length rs) (e \<noteq> None) \<noteq> []"
    using assms(1) okl by (auto simp: progress_def)
  have "map ss_status (last (oc_frames out)) = last (map (map ss_status) (oc_frames out))"
    using ne r(4) by (intro last_map [symmetric]) auto
  also have "\<dots> = last (progress (length steps) 0 (length rs) (e \<noteq> None))"
    by (simp only: r(4))
  also have "\<dots> = (if e = None then replicate (length steps) Done
      else account (length steps) (length rs) Failed)"
  proof (cases "e = None")
    case True
    then obtain k where k: "length rs = Suc k" "length steps = Suc k"
      using okl assms(1) by (cases steps) auto
    then show ?thesis
      using True by (simp add: progress_def account_def replicate_append_same)
  next
    case False
    then show ?thesis by (simp only: progress_def if_False if_True not_False_eq_True) simp
  qed
  finally show ?thesis using r ok by simp
qed

theorem runSteps_truthful_witness:
  "map ss_status (last (oc_frames (runSteps
      [\<lparr>step_label = ''one'', step_run = (\<lambda>n. (Inr JNull, Suc n))\<rparr>,
       \<lparr>step_label = ''two'', step_run = (\<lambda>n. (Inl NonError, n))\<rparr>] 0))) = [Done, Failed]"
  by (subst runSteps_truthful [OF _ refl, THEN conjunct1]) (simp_all add: runSteps_def Let_def
      initial_states_def account_def)

subsection \<open>The vocabularies\<close>

text \<open>
  The evidence vocabulary is consistent: the offered types are distinct, each has a
  template, no template is blank, and every template fits the length the forms accept.
\<close>

theorem evidence_vocabulary:
  "distinct (map ch_value EVIDENCE_TYPES)
   \<and> set (map ch_value EVIDENCE_TYPES) = set (map fst EVIDENCE_TEMPLATES)
   \<and> list_all (\<lambda>t. trim t \<noteq> [] \<and> length t \<le> 20000) (map snd EVIDENCE_TEMPLATES)"
proof (intro conjI)
  show "distinct (map ch_value EVIDENCE_TYPES)" by (simp add: EVIDENCE_TYPES_def)
  show "set (map ch_value EVIDENCE_TYPES) = set (map fst EVIDENCE_TEMPLATES)"
    by (auto simp: EVIDENCE_TYPES_def EVIDENCE_TEMPLATES_def)
  show "list_all (\<lambda>t. trim t \<noteq> [] \<and> length t \<le> 20000) (map snd EVIDENCE_TEMPLATES)"
    unfolding trim_eq_Nil_iff
    by (simp add: EVIDENCE_TEMPLATES_def is_space_def)
qed

end
