(* ===== verification/Backend.thy ===== *)
theory Backend
  imports Json
begin

text \<open>
  \<open>frontend/lib/server/backend.ts\<close>: the server configuration of the API edge and the redaction
  that every proxied JSON response passes through. The environment is the map \<open>env\<close> from variable
  names to values.
\<close>

type_synonym env = "string \<Rightarrow> string option"

definition DEFAULT_BASE :: string where "DEFAULT_BASE = ''http://localhost:8001''"

text \<open>\<open>s.replace(/\/+$/, "")\<close>.\<close>

definition strip_slashes :: "string \<Rightarrow> string" where
  "strip_slashes s = rev (dropWhile (\<lambda>c. c = CHR ''/'') (rev s))"

definition backendBase :: "env \<Rightarrow> string" where
  "backendBase env =
     strip_slashes (case env ''CREDENCE_API_BASE'' of Some b \<Rightarrow> b | None \<Rightarrow> DEFAULT_BASE)"

definition demoToken :: "env \<Rightarrow> string" where
  "demoToken env = (case env ''CREDENCE_DEMO_TOKEN'' of Some t \<Rightarrow> t | None \<Rightarrow> [])"

definition REDACTED :: string where "REDACTED = ''[redacted server-side]''"

definition SECRET_KEYS :: "string list" where
  "SECRET_KEYS = [''owner_api_token'', ''api_token'', ''api_token_hash'', ''token'',
     ''access_token'', ''refresh_token'', ''bearer'', ''authorization'', ''private_key'',
     ''private_key_b64'', ''signing_key'', ''secret'', ''client_secret'', ''password'',
     ''passphrase'']"

definition secret_key :: "string \<Rightarrow> bool" where
  "secret_key k \<longleftrightarrow> List.member SECRET_KEYS (to_lower k)"

fun redact :: "json \<Rightarrow> json" where
  "redact (JArr vs) = JArr (map redact vs)"
| "redact (JObj kvs) = JObj (map (\<lambda>(k, v).
     if secret_key k then (k, if is_nullish v then v else JStr REDACTED)
     else (k, redact v)) kvs)"
| "redact v = v"

subsection \<open>What redaction guarantees\<close>

text \<open>No object, at any depth, carries anything but nothing or the marker under a secret key.\<close>

fun secret_free :: "json \<Rightarrow> bool" where
  "secret_free (JArr vs) \<longleftrightarrow> list_all secret_free vs"
| "secret_free (JObj kvs) \<longleftrightarrow> list_all (\<lambda>(k, v).
     if secret_key k then is_nullish v \<or> v = JStr REDACTED else secret_free v) kvs"
| "secret_free v \<longleftrightarrow> True"

text \<open>No object, at any depth, has a secret key.\<close>

fun no_secret_keys :: "json \<Rightarrow> bool" where
  "no_secret_keys (JArr vs) \<longleftrightarrow> list_all no_secret_keys vs"
| "no_secret_keys (JObj kvs) \<longleftrightarrow> list_all (\<lambda>(k, v). \<not> secret_key k \<and> no_secret_keys v) kvs"
| "no_secret_keys v \<longleftrightarrow> True"

text \<open>The same response with other credentials: \<open>f\<close> rewrites every value under a secret key.\<close>

fun swap_secrets :: "(json \<Rightarrow> json) \<Rightarrow> json \<Rightarrow> json" where
  "swap_secrets f (JArr vs) = JArr (map (swap_secrets f) vs)"
| "swap_secrets f (JObj kvs) = JObj (map (\<lambda>(k, v).
     if secret_key k then (k, f v) else (k, swap_secrets f v)) kvs)"
| "swap_secrets f v = v"

text \<open>
  The interface a proxy relies on: a sanitiser that always yields an acceptable value and leaves
  acceptable values alone.
\<close>

locale sanitiser =
  fixes clean :: "'v \<Rightarrow> 'v"
    and acceptable :: "'v \<Rightarrow> bool"
  assumes cleaned: "acceptable (clean v)"
    and untouched: "acceptable v \<Longrightarrow> clean v = v"
begin

lemma idempotent: "clean (clean v) = clean v"
  by (simp add: cleaned untouched)

lemma fixpoint_iff: "clean v = v \<longleftrightarrow> acceptable v"
  by (metis cleaned untouched)

end

lemma redact_secret_free: "secret_free (redact v)"
  by (induction v rule: redact.induct) (auto simp: list_all_iff split: if_splits)

lemma redact_id: "secret_free v \<Longrightarrow> redact v = v"
proof (induction v rule: redact.induct)
  case (2 kvs)
  have "redact (JObj kvs) = JObj (map id kvs)"
    unfolding redact.simps
  proof (intro arg_cong [where f = JObj] map_cong refl)
    fix p assume p: "p \<in> set kvs"
    obtain k v where kv: "p = (k, v)" by (cases p)
    then have "if secret_key k then is_nullish v \<or> v = JStr REDACTED else secret_free v"
      using p "2.prems" by (auto simp: list_all_iff)
    then show "(case p of (k, v) \<Rightarrow> if secret_key k then (k, if is_nullish v then v else JStr REDACTED)
        else (k, redact v)) = id p"
      using p kv "2.IH" by (auto split: if_splits)
  qed
  then show ?case by simp
qed (auto simp: list_all_iff intro!: map_idI)

interpretation redaction: sanitiser redact secret_free
  by unfold_locales (rule redact_secret_free, rule redact_id)

text \<open>
  C1. Redaction is complete and minimal: the redacted value carries no credential at any depth,
  redacting again changes nothing, and a value is left unchanged exactly when it carried none.
\<close>

theorem redact_complete:
  "secret_free (redact v) \<and> redact (redact v) = redact v \<and> (redact v = v \<longleftrightarrow> secret_free v)"
  using redaction.cleaned redaction.idempotent redaction.fixpoint_iff by blast

text \<open>
  Nothing flows from a credential to the browser: two responses that differ only in what
  they hold under secret keys (nothing staying nothing) redact to the same value.
\<close>

theorem redact_noninterference:
  assumes "\<And>x. is_nullish (f x) \<longleftrightarrow> is_nullish x" and "\<And>x. is_nullish x \<Longrightarrow> f x = x"
  shows "redact (swap_secrets f v) = redact v"
proof (induction v rule: redact.induct)
  case (2 kvs)
  then show ?case using assms by auto
qed auto

theorem redact_noninterference_witness:
  "redact (swap_secrets (\<lambda>x. if is_nullish x then x else JStr ''other'')
      (JObj [(''seed'', JObj [(''Owner_API_Token'', JStr ''cred''), (''n'', JNum (Fin 1))])]))
    = JObj [(''seed'', JObj [(''Owner_API_Token'', JStr REDACTED), (''n'', JNum (Fin 1))])]"
proof -
  have "redact (swap_secrets (\<lambda>x. if is_nullish x then x else JStr ''other'')
      (JObj [(''seed'', JObj [(''Owner_API_Token'', JStr ''cred''), (''n'', JNum (Fin 1))])]))
    = redact (JObj [(''seed'', JObj [(''Owner_API_Token'', JStr ''cred''), (''n'', JNum (Fin 1))])])"
    by (rule redact_noninterference) (auto simp: is_nullish_def)
  also have "\<dots> = JObj [(''seed'', JObj [(''Owner_API_Token'', JStr REDACTED), (''n'', JNum (Fin 1))])]"
    by code_simp
  finally show ?thesis .
qed

text \<open>
  The financial payload passes untouched: a response with no secret key is returned as it
  is, whatever its figures, hashes and identifiers.
\<close>

theorem redact_passes_payload:
  assumes "no_secret_keys v"
  shows "redact v = v"
  using assms by (induction v rule: redact.induct) (auto simp: list_all_iff intro!: map_idI)

theorem redact_passes_payload_witness:
  "redact (JObj [(''event_hash'', JStr ''9f2c''), (''remaining_minor'', JNum (Fin 0)),
      (''passport_nonce'', JStr ''abc'')])
    = JObj [(''event_hash'', JStr ''9f2c''), (''remaining_minor'', JNum (Fin 0)),
      (''passport_nonce'', JStr ''abc'')]"
  by (rule redact_passes_payload) code_simp

lemma strip_slashes_no_slash: "strip_slashes s = [] \<or> last (strip_slashes s) \<noteq> CHR ''/''"
proof -
  let ?t = "dropWhile (\<lambda>c. c = CHR ''/'') (rev s)"
  have "?t = [] \<or> hd ?t \<noteq> CHR ''/''" by (meson hd_dropWhile)
  then show ?thesis by (auto simp: strip_slashes_def last_rev)
qed

end
