(* ===== verification/Session.thy ===== *)
theory Session
  imports Backend
begin

text \<open>
  \<open>frontend/lib/server/session.ts\<close>: sandbox sessions. The module keeps one piece of shared state,
  \<open>mintsInFlight\<close>, a map from a client key to the promise of a bearer. Requests run concurrently
  and interleave at every \<open>await\<close>, so \<open>resolveSession\<close> is cut at its awaits: \<open>begin_resolve\<close>
  runs up to \<open>await inflight\<close>, \<open>settle_mint\<close> is the backend round trip ending, \<open>release_slot\<close> is
  the \<open>finally\<close> callback and \<open>finish_resolve\<close> is the rest of a waiting request. A promise is an
  index into the list of mints started so far.
\<close>

definition COOKIE_NAME :: string where "COOKIE_NAME = ''credence_session''"
definition COOKIE_MAX_AGE_SECONDS :: int where "COOKIE_MAX_AGE_SECONDS = 60 * 60 * 12"

definition clientKey :: "string option \<Rightarrow> string option \<Rightarrow> string" where
  "clientKey xff ua =
     (let forwarded = (case xff of Some f \<Rightarrow> f | None \<Rightarrow> []);
          address = trim (last (split_on (CHR '','') forwarded))
      in address @ ''|'' @ (case ua of Some u \<Rightarrow> u | None \<Rightarrow> []))"

datatype session_error = SessionError string | OtherError

text \<open>
  What the organization endpoint answers: no connection, or a status with the parsed body
  (\<open>None\<close> when the body is not JSON). \<open>response.ok\<close> is a status from 200 to 299. A parsed
  \<open>null\<close> body makes the property read throw.
\<close>

datatype mint_response = Unreachable | Response int "json option"

definition status_ok :: "int \<Rightarrow> bool" where
  "status_ok s \<longleftrightarrow> 200 \<le> s \<and> s \<le> 299"

fun mintSandboxTenant :: "mint_response \<Rightarrow> session_error + string" where
  "mintSandboxTenant Unreachable = Inl OtherError"
| "mintSandboxTenant (Response status body) =
     (if \<not> status_ok status then
        Inl (SessionError (''sandbox workspace could not be created ('' @ show_int status @ '')''))
      else case body of None \<Rightarrow> Inl OtherError
      | Some b \<Rightarrow> if is_nullish b then Inl OtherError
          else (case member ''owner_api_token'' b of
            JStr t \<Rightarrow> if t = [] then Inl (SessionError ''sandbox workspace response carried no bearer token'')
                      else Inr t
          | _ \<Rightarrow> Inl (SessionError ''sandbox workspace response carried no bearer token'')))"

record Session =
  token :: string
  minted :: bool

record cookie =
  c_name :: string
  c_value :: string
  c_httpOnly :: bool
  c_sameSite :: "string option"
  c_secure :: bool
  c_path :: string
  c_maxAge :: int

definition session_cookie :: "env \<Rightarrow> string \<Rightarrow> cookie" where
  "session_cookie env t = \<lparr>c_name = COOKIE_NAME, c_value = t, c_httpOnly = True,
     c_sameSite = Some ''lax'', c_secure = (env ''NODE_ENV'' = Some ''production''),
     c_path = ''/'', c_maxAge = COOKIE_MAX_AGE_SECONDS\<rparr>"

definition clearSession :: cookie where
  "clearSession = \<lparr>c_name = COOKIE_NAME, c_value = [], c_httpOnly = False,
     c_sameSite = None, c_secure = False, c_path = ''/'', c_maxAge = 0\<rparr>"

subsection \<open>The shared state and one request's steps\<close>

datatype mint_state = InFlight | Settled "session_error + string"

record mint =
  m_key :: string
  m_state :: mint_state

datatype phase =
    Arrived
  | Waiting nat
  | Returned Session
  | Threw session_error

record session_request =
  r_key :: string
  r_cookie :: "string option"
  r_phase :: phase
  r_set :: "cookie option"

record server =
  mintsInFlight :: "string \<Rightarrow> nat option"
  mints :: "mint list"

definition begin_resolve :: "server \<Rightarrow> session_request \<Rightarrow> server \<times> session_request" where
  "begin_resolve s r =
     (case r_cookie r of
        Some (c # cs) \<Rightarrow> (s, r\<lparr>r_phase := Returned \<lparr>token = c # cs, minted = False\<rparr>\<rparr>)
      | _ \<Rightarrow> (case mintsInFlight s (r_key r) of
            Some p \<Rightarrow> (s, r\<lparr>r_phase := Waiting p\<rparr>)
          | None \<Rightarrow> (let p = length (mints s) in
              (\<lparr>mintsInFlight = (mintsInFlight s)(r_key r := Some p),
                mints = mints s @ [\<lparr>m_key = r_key r, m_state = InFlight\<rparr>]\<rparr>,
               r\<lparr>r_phase := Waiting p\<rparr>))))"

definition settle_mint :: "nat \<Rightarrow> mint_response \<Rightarrow> server \<Rightarrow> server" where
  "settle_mint p resp s = s\<lparr>mints := (mints s)[p := (mints s ! p)\<lparr>m_state := Settled (mintSandboxTenant resp)\<rparr>]\<rparr>"

definition release_slot :: "nat \<Rightarrow> server \<Rightarrow> server" where
  "release_slot p s = (let k = m_key (mints s ! p) in
     if mintsInFlight s k = Some p then s\<lparr>mintsInFlight := (mintsInFlight s)(k := None)\<rparr> else s)"

definition finish_resolve :: "env \<Rightarrow> session_error + string \<Rightarrow> session_request \<Rightarrow> session_request" where
  "finish_resolve env out r =
     (case out of
        Inr t \<Rightarrow> r\<lparr>r_phase := Returned \<lparr>token = t, minted = True\<rparr>, r_set := Some (session_cookie env t)\<rparr>
      | Inl e \<Rightarrow> r\<lparr>r_phase := Threw e\<rparr>)"

subsection \<open>Interleavings\<close>

record system =
  srv :: server
  reqs :: "session_request list"

definition init_system :: system where
  "init_system = \<lparr>srv = \<lparr>mintsInFlight = (\<lambda>_. None), mints = []\<rparr>, reqs = []\<rparr>"

inductive sess_step :: "env \<Rightarrow> system \<Rightarrow> system \<Rightarrow> bool" for env where
  arrive: "sess_step env s (s\<lparr>reqs := reqs s @ [\<lparr>r_key = k, r_cookie = c, r_phase = Arrived, r_set = None\<rparr>]\<rparr>)"
| start: "i < length (reqs s) \<Longrightarrow> r_phase (reqs s ! i) = Arrived \<Longrightarrow>
    begin_resolve (srv s) (reqs s ! i) = (srv', r') \<Longrightarrow>
    sess_step env s (s\<lparr>srv := srv', reqs := (reqs s)[i := r']\<rparr>)"
| settle: "p < length (mints (srv s)) \<Longrightarrow> m_state (mints (srv s) ! p) = InFlight \<Longrightarrow>
    sess_step env s (s\<lparr>srv := settle_mint p resp (srv s)\<rparr>)"
| release: "p < length (mints (srv s)) \<Longrightarrow> m_state (mints (srv s) ! p) = Settled out \<Longrightarrow>
    sess_step env s (s\<lparr>srv := release_slot p (srv s)\<rparr>)"
| finish: "i < length (reqs s) \<Longrightarrow> r_phase (reqs s ! i) = Waiting p \<Longrightarrow>
    m_state (mints (srv s) ! p) = Settled out \<Longrightarrow>
    sess_step env s (s\<lparr>reqs := (reqs s)[i := finish_resolve env out (reqs s ! i)]\<rparr>)"

inductive reachable :: "env \<Rightarrow> system \<Rightarrow> bool" for env where
  init: "reachable env init_system"
| step: "reachable env s \<Longrightarrow> sess_step env s s' \<Longrightarrow> reachable env s'"

inductive_cases sess_stepE: "sess_step env s s'"

subsection \<open>The invariant\<close>

text \<open>
  A slot belongs to the mint it points at and to that mint's client; a mint still in flight holds
  its client's slot; a waiting request waits for a mint of its own client; a minted session is
  the outcome of a mint of that client, and its cookie is the one set.
\<close>

definition slots_ok :: "server \<Rightarrow> bool" where
  "slots_ok s \<longleftrightarrow> (\<forall>k p. mintsInFlight s k = Some p \<longrightarrow> p < length (mints s) \<and> m_key (mints s ! p) = k)
     \<and> (\<forall>p < length (mints s). m_state (mints s ! p) = InFlight \<longrightarrow>
          mintsInFlight s (m_key (mints s ! p)) = Some p)"

definition request_ok :: "env \<Rightarrow> server \<Rightarrow> session_request \<Rightarrow> bool" where
  "request_ok env s r \<longleftrightarrow>
     (case r_phase r of
        Arrived \<Rightarrow> r_set r = None
      | Waiting p \<Rightarrow> p < length (mints s) \<and> m_key (mints s ! p) = r_key r \<and> r_set r = None
      | Returned ses \<Rightarrow> if minted ses
          then (\<exists>p < length (mints s). m_key (mints s ! p) = r_key r
                  \<and> m_state (mints s ! p) = Settled (Inr (token ses)))
               \<and> r_set r = Some (session_cookie env (token ses))
          else r_cookie r = Some (token ses) \<and> r_set r = None
      | Threw e \<Rightarrow> r_set r = None)"

definition sess_inv :: "env \<Rightarrow> system \<Rightarrow> bool" where
  "sess_inv env s \<longleftrightarrow> slots_ok (srv s) \<and> (\<forall>r \<in> set (reqs s). request_ok env (srv s) r)"

text \<open>The mints a server knows only grow, and a settled one keeps its outcome.\<close>

definition extends :: "server \<Rightarrow> server \<Rightarrow> bool" where
  "extends s s' \<longleftrightarrow> length (mints s) \<le> length (mints s') \<and>
     (\<forall>p < length (mints s). m_key (mints s' ! p) = m_key (mints s ! p) \<and>
        (\<forall>out. m_state (mints s ! p) = Settled out \<longrightarrow> m_state (mints s' ! p) = Settled out))"

lemma extends_refl [simp]: "extends s s"
  by (simp add: extends_def)

lemma request_ok_extends: "extends s s' \<Longrightarrow> request_ok env s r \<Longrightarrow> request_ok env s' r"
  unfolding request_ok_def extends_def
  by (cases "r_phase r") (auto split: if_splits intro: less_le_trans dest: less_le_trans)

lemma slotD: "slots_ok s \<Longrightarrow> mintsInFlight s k = Some p \<Longrightarrow> p < length (mints s) \<and> m_key (mints s ! p) = k"
  by (simp add: slots_ok_def)

lemma flightD: "slots_ok s \<Longrightarrow> p < length (mints s) \<Longrightarrow> m_state (mints s ! p) = InFlight \<Longrightarrow>
    mintsInFlight s (m_key (mints s ! p)) = Some p"
  by (simp add: slots_ok_def)

lemma slots_okI:
  assumes "\<And>k p. mintsInFlight s k = Some p \<Longrightarrow> p < length (mints s) \<and> m_key (mints s ! p) = k"
    and "\<And>p. p < length (mints s) \<Longrightarrow> m_state (mints s ! p) = InFlight \<Longrightarrow>
          mintsInFlight s (m_key (mints s ! p)) = Some p"
  shows "slots_ok s"
  using assms by (simp add: slots_ok_def)

lemma new_mint_ok:
  assumes ok: "slots_ok s" and free: "mintsInFlight s k = None"
  shows "slots_ok \<lparr>mintsInFlight = (mintsInFlight s)(k := Some (length (mints s))),
      mints = mints s @ [\<lparr>m_key = k, m_state = InFlight\<rparr>]\<rparr>"
proof (rule slots_okI, goal_cases)
  case (1 k' p)
  show ?case
  proof (cases "k' = k")
    case True
    then show ?thesis using 1 by (auto simp: nth_append)
  next
    case False
    then have "mintsInFlight s k' = Some p" using 1 by simp
    from slotD [OF ok this] show ?thesis by (simp add: nth_append)
  qed
next
  case (2 p)
  show ?case
  proof (cases "p < length (mints s)")
    case True
    then have "m_state (mints s ! p) = InFlight" using 2 by (simp add: nth_append)
    from flightD [OF ok True this] have "mintsInFlight s (m_key (mints s ! p)) = Some p" .
    moreover from this free have "m_key (mints s ! p) \<noteq> k" by auto
    ultimately show ?thesis using True by (simp add: nth_append)
  next
    case False
    then have "p = length (mints s)" using 2 by simp
    then show ?thesis by simp
  qed
qed

lemma begin_resolve_ok:
  assumes "begin_resolve s r = (s', r')" and "slots_ok s" and "r_phase r = Arrived"
    and "r_set r = None"
  shows "slots_ok s'" and "extends s s'" and "request_ok env s' r'" and "r_key r' = r_key r"
proof -
  have "slots_ok s' \<and> extends s s' \<and> request_ok env s' r' \<and> r_key r' = r_key r"
  proof (cases "\<exists>c cs. r_cookie r = Some (c # cs)")
    case True
    then show ?thesis using assms by (auto simp: begin_resolve_def request_ok_def)
  next
    case False
    then have nc: "r_cookie r = None \<or> r_cookie r = Some []"
      by (metis list.exhaust option.exhaust)
    show ?thesis
    proof (cases "mintsInFlight s (r_key r)")
      case (Some p)
      then show ?thesis using assms nc
        by (auto simp: begin_resolve_def request_ok_def slots_ok_def)
    next
      case None
      then have s': "s' = \<lparr>mintsInFlight = (mintsInFlight s)(r_key r := Some (length (mints s))),
            mints = mints s @ [\<lparr>m_key = r_key r, m_state = InFlight\<rparr>]\<rparr>"
        and r': "r' = r\<lparr>r_phase := Waiting (length (mints s))\<rparr>"
        using assms(1) nc by (auto simp: begin_resolve_def Let_def)
      have "slots_ok s'"
        unfolding s' by (rule new_mint_ok [OF assms(2) None])
      then show ?thesis
        using assms(4) by (auto simp: extends_def request_ok_def s' r' nth_append)
    qed
  qed
  then show "slots_ok s'" and "extends s s'" and "request_ok env s' r'" and "r_key r' = r_key r"
    by auto
qed

lemma settle_ok:
  assumes "slots_ok s" and "p < length (mints s)" and "m_state (mints s ! p) = InFlight"
  shows "slots_ok (settle_mint p resp s)" and "extends s (settle_mint p resp s)"
  using assms by (auto simp: slots_ok_def settle_mint_def extends_def nth_list_update)

lemma release_ok:
  assumes "slots_ok s" and "p < length (mints s)" and "m_state (mints s ! p) = Settled out"
  shows "slots_ok (release_slot p s)" and "extends s (release_slot p s)"
proof -
  define k where "k = m_key (mints s ! p)"
  have rel: "release_slot p s = (if mintsInFlight s k = Some p
      then s\<lparr>mintsInFlight := (mintsInFlight s)(k := None)\<rparr> else s)"
    by (simp add: release_slot_def Let_def k_def)
  show "extends s (release_slot p s)" by (simp add: rel extends_def)
  have "slots_ok (s\<lparr>mintsInFlight := (mintsInFlight s)(k := None)\<rparr>)" if slot: "mintsInFlight s k = Some p"
  proof (rule slots_okI, goal_cases)
    case (1 k' q)
    then show ?case using slotD [OF assms(1)] by (auto split: if_splits)
  next
    case (2 q)
    then have q: "mintsInFlight s (m_key (mints s ! q)) = Some q"
      using flightD [OF assms(1)] by simp
    have "q \<noteq> p" using 2 assms(3) by auto
    then have "m_key (mints s ! q) \<noteq> k" using q slot by auto
    then show ?case using q by simp
  qed
  then show "slots_ok (release_slot p s)" using assms(1) by (simp add: rel)
qed

lemma finish_ok:
  assumes "request_ok env s r" and "r_phase r = Waiting p" and "m_state (mints s ! p) = Settled out"
  shows "request_ok env s (finish_resolve env out r)"
  using assms by (auto simp: request_ok_def finish_resolve_def split: sum.splits)

lemma sess_step_inv:
  assumes "sess_step env s s'" and "sess_inv env s"
  shows "sess_inv env s'"
  using assms
proof (induction rule: sess_step.induct)
  case (arrive s k c)
  then show ?case by (auto simp: sess_inv_def request_ok_def)
next
  case (start i s srv' r')
  have ok: "request_ok env (srv s) (reqs s ! i)"
    using start by (simp add: sess_inv_def)
  then have "r_set (reqs s ! i) = None" using start(2) by (simp add: request_ok_def)
  note b = begin_resolve_ok [OF start(3) _ start(2) this]
  have "slots_ok (srv s)" using start by (simp add: sess_inv_def)
  note b = b [OF this]
  have "request_ok env srv' r" if "r \<in> set ((reqs s)[i := r'])" for r
    using that set_update_subset_insert [of "reqs s" i r'] b(3) start(4)
      request_ok_extends [OF b(2)] by (auto simp: sess_inv_def)
  then show ?case using b(1) by (simp add: sess_inv_def)
next
  case (settle p s resp)
  then show ?case
    using settle_ok [of "srv s" p resp] request_ok_extends by (auto simp: sess_inv_def)
next
  case (release p s out)
  then show ?case
    using release_ok [of "srv s" p out] request_ok_extends by (auto simp: sess_inv_def)
next
  case (finish i s p out)
  have "request_ok env (srv s) (finish_resolve env out (reqs s ! i))"
    using finish by (intro finish_ok) (auto simp: sess_inv_def)
  then show ?case
    using finish set_update_subset_insert [of "reqs s" i "finish_resolve env out (reqs s ! i)"]
    by (auto simp: sess_inv_def)
qed

lemma reachable_inv: "reachable env s \<Longrightarrow> sess_inv env s"
proof (induction rule: reachable.induct)
  case init
  show ?case by (simp add: sess_inv_def init_system_def slots_ok_def)
next
  case (step s s')
  then show ?case by (blast intro: sess_step_inv)
qed

subsection \<open>Properties of every interleaving\<close>

text \<open>
  C16. First-load requests are coalesced: in every reachable state a client has at most one
  sandbox tenant being minted.
\<close>

theorem one_mint_in_flight_per_client:
  assumes "reachable env s"
    and "p < length (mints (srv s))" and "m_state (mints (srv s) ! p) = InFlight"
    and "q < length (mints (srv s))" and "m_state (mints (srv s) ! q) = InFlight"
    and "m_key (mints (srv s) ! p) = m_key (mints (srv s) ! q)"
  shows "p = q"
proof -
  have ok: "slots_ok (srv s)" using reachable_inv [OF assms(1)] by (simp add: sess_inv_def)
  have "Some p = mintsInFlight (srv s) (m_key (mints (srv s) ! p))"
    by (rule flightD [OF ok assms(2,3), symmetric])
  also have "\<dots> = mintsInFlight (srv s) (m_key (mints (srv s) ! q))" by (simp only: assms(6))
  also have "\<dots> = Some q" by (rule flightD [OF ok assms(4,5)])
  finally show ?thesis by (rule option.inject [THEN iffD1])
qed

text \<open>
  C8. A workspace is never handed to another client: if the backend never issues one bearer for
  two tenants, two requests served the same freshly minted bearer present the same client key,
  in every reachable interleaving.
\<close>

theorem minted_sessions_isolated:
  assumes "reachable env s"
    and "\<And>p q t. p < length (mints (srv s)) \<Longrightarrow> q < length (mints (srv s)) \<Longrightarrow>
           m_state (mints (srv s) ! p) = Settled (Inr t) \<Longrightarrow>
           m_state (mints (srv s) ! q) = Settled (Inr t) \<Longrightarrow> p = q"
    and "r1 \<in> set (reqs s)" and "r_phase r1 = Returned \<lparr>token = t, minted = True\<rparr>"
    and "r2 \<in> set (reqs s)" and "r_phase r2 = Returned \<lparr>token = t, minted = True\<rparr>"
  shows "r_key r1 = r_key r2"
proof -
  have inv: "request_ok env (srv s) r" if "r \<in> set (reqs s)" for r
    using reachable_inv [OF assms(1)] that by (simp add: sess_inv_def)
  obtain p where p: "p < length (mints (srv s))" "m_key (mints (srv s) ! p) = r_key r1"
    "m_state (mints (srv s) ! p) = Settled (Inr t)"
    using inv [OF assms(3)] assms(4) by (auto simp: request_ok_def)
  obtain q where q: "q < length (mints (srv s))" "m_key (mints (srv s) ! q) = r_key r2"
    "m_state (mints (srv s) ! q) = Settled (Inr t)"
    using inv [OF assms(5)] assms(6) by (auto simp: request_ok_def)
  show ?thesis using assms(2) [OF p(1) q(1) p(3) q(3)] p(2) q(2) by simp
qed

text \<open>
  What a caller gets: a session that was not minted is the bearer of the caller's own
  cookie and sets no cookie; a minted one sets exactly the session cookie of that bearer, which
  scripts cannot read and cross-site posts do not carry.
\<close>

theorem session_cookie_discipline:
  assumes "reachable env s" and "r \<in> set (reqs s)" and "r_phase r = Returned ses"
  shows "if minted ses
     then r_set r = Some (session_cookie env (token ses))
       \<and> c_httpOnly (the (r_set r)) \<and> c_sameSite (the (r_set r)) = Some ''lax''
     else r_cookie r = Some (token ses) \<and> r_set r = None"
proof -
  have "request_ok env (srv s) r"
    using reachable_inv [OF assms(1)] assms(2) by (simp add: sess_inv_def)
  then show ?thesis using assms(3) by (simp add: request_ok_def session_cookie_def split: if_splits)
qed

text \<open>
  A mint is shared only while its slot is held: once it has been released, the next
  cookieless request of that client starts a mint of its own, so a failed mint is not replayed.
\<close>

theorem released_mint_not_rejoined:
  assumes "mintsInFlight s (r_key r) = Some p" and "m_key (mints s ! p) = r_key r"
    and "r_cookie r = None"
  shows "r_phase (snd (begin_resolve (release_slot p s) r)) = Waiting (length (mints s))
    \<and> mints (fst (begin_resolve (release_slot p s) r))
           = mints s @ [\<lparr>m_key = r_key r, m_state = InFlight\<rparr>]"
  using assms by (simp_all add: begin_resolve_def release_slot_def Let_def)

theorem released_mint_not_rejoined_witness:
  "r_phase (snd (begin_resolve (release_slot 0
      \<lparr>mintsInFlight = [''ip|ua'' \<mapsto> 0], mints = [\<lparr>m_key = ''ip|ua'', m_state = Settled (Inl OtherError)\<rparr>]\<rparr>)
      \<lparr>r_key = ''ip|ua'', r_cookie = None, r_phase = Arrived, r_set = None\<rparr>)) = Waiting 1"
  using released_mint_not_rejoined [of
      "\<lparr>mintsInFlight = [''ip|ua'' \<mapsto> 0], mints = [\<lparr>m_key = ''ip|ua'', m_state = Settled (Inl OtherError)\<rparr>]\<rparr>"
      "\<lparr>r_key = ''ip|ua'', r_cookie = None, r_phase = Arrived, r_set = None\<rparr>" 0] by simp

subsection \<open>A run\<close>

text \<open>Two requests of one client share a mint; the witnesses below are taken from this run.\<close>

definition run_env :: env where "run_env = (\<lambda>_. None)"

definition run_request :: "phase \<Rightarrow> cookie option \<Rightarrow> session_request" where
  "run_request ph c = \<lparr>r_key = ''ip|ua'', r_cookie = None, r_phase = ph, r_set = c\<rparr>"

definition run_response :: mint_response where
  "run_response = Response 201 (Some (JObj [(''owner_api_token'', JStr ''tok'')]))"

definition run_flight :: system where
  "run_flight = \<lparr>srv = \<lparr>mintsInFlight = [''ip|ua'' \<mapsto> 0],
      mints = [\<lparr>m_key = ''ip|ua'', m_state = InFlight\<rparr>]\<rparr>,
    reqs = [run_request (Waiting 0) None, run_request (Waiting 0) None]\<rparr>"

definition run_done :: session_request where
  "run_done = run_request (Returned \<lparr>token = ''tok'', minted = True\<rparr>)
     (Some (session_cookie run_env ''tok''))"

definition run_served :: system where
  "run_served = \<lparr>srv = \<lparr>mintsInFlight = [''ip|ua'' \<mapsto> 0],
      mints = [\<lparr>m_key = ''ip|ua'', m_state = Settled (Inr ''tok'')\<rparr>]\<rparr>,
    reqs = [run_done, run_done]\<rparr>"

lemma run_flight_reachable: "reachable run_env run_flight"
proof -
  let ?a = "run_request Arrived None"
  let ?w = "run_request (Waiting 0) None"
  let ?m = "[''ip|ua'' \<mapsto> 0] :: string \<Rightarrow> nat option"
  have "reachable run_env (init_system\<lparr>reqs := reqs init_system @ [?a]\<rparr>)" (is "reachable _ ?s1")
    unfolding run_request_def by (rule reachable.step [OF reachable.init sess_step.arrive])
  moreover have "sess_step run_env ?s1
      (?s1\<lparr>srv := \<lparr>mintsInFlight = ?m, mints = [\<lparr>m_key = ''ip|ua'', m_state = InFlight\<rparr>]\<rparr>,
        reqs := (reqs ?s1)[0 := ?w]\<rparr>)" (is "sess_step _ _ ?s2")
    by (rule sess_step.start)
      (simp_all add: init_system_def run_request_def begin_resolve_def Let_def)
  ultimately have "reachable run_env ?s2" by (rule reachable.step)
  moreover have "sess_step run_env ?s2 (?s2\<lparr>reqs := reqs ?s2 @ [?a]\<rparr>)" (is "sess_step _ _ ?s3")
    unfolding run_request_def by (rule sess_step.arrive)
  ultimately have "reachable run_env ?s3" by (rule reachable.step)
  moreover have "sess_step run_env ?s3 (?s3\<lparr>srv := srv ?s3, reqs := (reqs ?s3)[1 := ?w]\<rparr>)"
    (is "sess_step _ _ ?s4")
    by (rule sess_step.start)
      (simp_all add: init_system_def run_request_def begin_resolve_def Let_def)
  ultimately have "reachable run_env ?s4" by (rule reachable.step)
  moreover have "?s4 = run_flight"
    by (simp add: run_flight_def init_system_def)
  ultimately show ?thesis by simp
qed

definition run_settled :: system where
  "run_settled = \<lparr>srv = srv run_served,
    reqs = [run_request (Waiting 0) None, run_request (Waiting 0) None]\<rparr>"

lemma run_settled_reachable: "reachable run_env run_settled"
proof -
  have "sess_step run_env run_flight (run_flight\<lparr>srv := settle_mint 0 run_response (srv run_flight)\<rparr>)"
    by (rule sess_step.settle) (simp_all add: run_flight_def)
  moreover have "run_flight\<lparr>srv := settle_mint 0 run_response (srv run_flight)\<rparr> = run_settled"
    by (simp add: run_flight_def run_settled_def run_served_def settle_mint_def run_response_def
        status_ok_def is_nullish_def)
  ultimately show ?thesis using reachable.step [OF run_flight_reachable] by simp
qed

lemma run_finish: "finish_resolve run_env (Inr ''tok'') (run_request (Waiting 0) None) = run_done"
  by (simp add: finish_resolve_def run_request_def run_done_def)

lemma run_served_reachable: "reachable run_env run_served"
proof -
  have "sess_step run_env run_settled (run_settled\<lparr>reqs :=
      (reqs run_settled)[0 := finish_resolve run_env (Inr ''tok'') (reqs run_settled ! 0)]\<rparr>)"
    (is "sess_step _ _ ?s2")
    by (rule sess_step.finish [where p = 0])
      (simp_all add: run_settled_def run_served_def run_request_def)
  then have r2: "reachable run_env ?s2" by (rule reachable.step [OF run_settled_reachable])
  have "sess_step run_env ?s2
      (?s2\<lparr>reqs := (reqs ?s2)[1 := finish_resolve run_env (Inr ''tok'') (reqs ?s2 ! 1)]\<rparr>)"
    (is "sess_step _ _ ?s3")
    by (rule sess_step.finish [where p = 0])
      (simp_all add: run_settled_def run_served_def run_request_def)
  then have "reachable run_env ?s3" by (rule reachable.step [OF r2])
  moreover have "?s3 = run_served"
    by (simp add: run_settled_def run_served_def run_finish)
  ultimately show ?thesis by simp
qed

theorem one_mint_in_flight_per_client_witness:
  "reachable run_env run_flight \<and> m_state (mints (srv run_flight) ! 0) = InFlight \<and> (0::nat) = 0"
  using one_mint_in_flight_per_client [OF run_flight_reachable, of 0 0] run_flight_reachable
  by (simp add: run_flight_def)

theorem minted_sessions_isolated_witness:
  "reachable run_env run_served \<and> r_key (reqs run_served ! 0) = r_key (reqs run_served ! 1)"
proof
  show "r_key (reqs run_served ! 0) = r_key (reqs run_served ! 1)"
    by (rule minted_sessions_isolated [OF run_served_reachable, where t = "''tok''"])
      (simp_all add: run_served_def run_done_def run_request_def)
qed (rule run_served_reachable)

theorem session_cookie_discipline_witness:
  "r_set (reqs run_served ! 0) = Some (session_cookie run_env ''tok'')"
  using session_cookie_discipline [OF run_served_reachable, of "reqs run_served ! 0"
      "\<lparr>token = ''tok'', minted = True\<rparr>"]
  by (simp add: run_served_def run_done_def run_request_def)

end
