(* ===== verification/SessionProgress.thy ===== *)
theory SessionProgress
  imports Session
begin

text \<open>
  Progress of the session module: once no further request arrives, every interleaving of the
  awaits of \<open>frontend/lib/server/session.ts\<close> ends, after a number of steps bounded by the work that was
  waiting, and it can only end with every request served. The backend's answer is a step of the
  model, so this is progress under the assumption that the backend answers, with success or not.
\<close>

text \<open>A step that is not the arrival of a request and does change the state.\<close>

definition serving :: "env \<Rightarrow> system \<Rightarrow> system \<Rightarrow> bool" where
  "serving env s s' \<longleftrightarrow> sess_step env s s' \<and> s' \<noteq> s \<and> length (reqs s') = length (reqs s)"

fun request_work :: "phase \<Rightarrow> nat" where
  "request_work Arrived = 4"
| "request_work (Waiting p) = 1"
| "request_work (Returned ses) = 0"
| "request_work (Threw e) = 0"

definition mint_work :: "server \<Rightarrow> nat \<Rightarrow> nat" where
  "mint_work s p = (case m_state (mints s ! p) of InFlight \<Rightarrow> 2
     | Settled out \<Rightarrow> of_bool (mintsInFlight s (m_key (mints s ! p)) = Some p))"

definition all_mint_work :: "server \<Rightarrow> nat" where
  "all_mint_work s = (\<Sum>p < length (mints s). mint_work s p)"

definition request_works :: "session_request list \<Rightarrow> nat" where
  "request_works rs = (\<Sum>r \<leftarrow> rs. request_work (r_phase r))"

definition work :: "system \<Rightarrow> nat" where
  "work s = request_works (reqs s) + all_mint_work (srv s)"

fun served :: "phase \<Rightarrow> bool" where
  "served (Returned ses) \<longleftrightarrow> True"
| "served (Threw e) \<longleftrightarrow> True"
| "served _ \<longleftrightarrow> False"

lemma request_works_update:
  assumes "i < length rs"
  shows "request_works (rs[i := r]) + request_work (r_phase (rs ! i)) = request_works rs + request_work (r_phase r)"
  using assms
proof (induction rs arbitrary: i)
  case (Cons a rs)
  then show ?case by (cases i) (simp_all add: request_works_def)
qed simp

lemma all_mint_work_same:
  assumes "length (mints s') = length (mints s)" and "\<And>p. p < length (mints s) \<Longrightarrow> mint_work s' p \<le> mint_work s p"
    and "q < length (mints s)" and "mint_work s' q < mint_work s q"
  shows "all_mint_work s' < all_mint_work s"
  unfolding all_mint_work_def assms(1) using assms(2-4)
  by (intro sum_strict_mono_ex1) auto

lemma new_mint_work:
  assumes free: "mintsInFlight s k = None"
  shows "all_mint_work \<lparr>mintsInFlight = (mintsInFlight s)(k \<mapsto> length (mints s)),
      mints = mints s @ [\<lparr>m_key = k, m_state = InFlight\<rparr>]\<rparr> = all_mint_work s + 2"
proof -
  let ?s = "\<lparr>mintsInFlight = (mintsInFlight s)(k \<mapsto> length (mints s)),
      mints = mints s @ [\<lparr>m_key = k, m_state = InFlight\<rparr>]\<rparr>"
  have "mint_work ?s p = mint_work s p" if "p < length (mints s)" for p
    using that free by (auto simp: mint_work_def nth_append split: mint_state.splits)
  moreover have "mint_work ?s (length (mints s)) = 2" by (simp add: mint_work_def)
  ultimately show ?thesis by (simp add: all_mint_work_def)
qed

lemma begin_resolve_work:
  assumes "begin_resolve s r = (s', r')" and "r_phase r = Arrived"
  shows "request_work (r_phase r') + all_mint_work s' < request_work (r_phase r) + all_mint_work s
    \<and> r_phase r' \<noteq> Arrived"
proof (cases "\<exists>c cs. r_cookie r = Some (c # cs)")
  case True
  then show ?thesis using assms by (auto simp: begin_resolve_def)
next
  case False
  then have nc: "r_cookie r = None \<or> r_cookie r = Some []" by (metis list.exhaust option.exhaust)
  show ?thesis
  proof (cases "mintsInFlight s (r_key r)")
    case None
    then have "s' = \<lparr>mintsInFlight = (mintsInFlight s)(r_key r \<mapsto> length (mints s)),
        mints = mints s @ [\<lparr>m_key = r_key r, m_state = InFlight\<rparr>]\<rparr>" "r' = r\<lparr>r_phase := Waiting (length (mints s))\<rparr>"
      using assms(1) nc by (auto simp: begin_resolve_def Let_def)
    then show ?thesis using new_mint_work [OF None] assms(2) by simp
  next
    case (Some p)
    then show ?thesis using assms nc by (auto simp: begin_resolve_def)
  qed
qed

lemma settle_work:
  assumes "p < length (mints s)" and "m_state (mints s ! p) = InFlight"
  shows "all_mint_work (settle_mint p resp s) < all_mint_work s"
  using assms by (intro all_mint_work_same [where q = p])
    (auto simp: settle_mint_def mint_work_def nth_list_update split: mint_state.splits)

lemma release_work:
  assumes "p < length (mints s)" and "m_state (mints s ! p) = Settled out" and "release_slot p s \<noteq> s"
  shows "all_mint_work (release_slot p s) < all_mint_work s"
proof (rule all_mint_work_same [where q = p])
  have rel: "release_slot p s = s\<lparr>mintsInFlight := (mintsInFlight s)(m_key (mints s ! p) := None)\<rparr>"
    and held: "mintsInFlight s (m_key (mints s ! p)) = Some p"
    using assms(3) by (auto simp: release_slot_def Let_def split: if_splits)
  show "length (mints (release_slot p s)) = length (mints s)" by (simp add: rel)
  show "mint_work (release_slot p s) q \<le> mint_work s q" for q
    by (auto simp: rel mint_work_def split: mint_state.split)
  show "mint_work (release_slot p s) p < mint_work s p"
    using assms(2) held by (simp add: rel mint_work_def)
qed (rule assms(1))

lemma serving_work: "serving env s s' \<Longrightarrow> work s' < work s"
  unfolding serving_def
proof (elim conjE sess_stepE, goal_cases)
  case (2 i srv' r')
  then have "request_work (r_phase r') + all_mint_work srv' < request_work Arrived + all_mint_work (srv s)"
    using begin_resolve_work [of "srv s" "reqs s ! i" srv' r'] by simp
  then show ?case using 2 request_works_update [of i "reqs s" r'] by (simp add: work_def)
next
  case (3 p resp)
  then show ?case using settle_work [of p "srv s" resp] by (simp add: work_def)
next
  case (4 p out)
  then have "release_slot p (srv s) \<noteq> srv s" by auto
  then show ?case using 4 release_work [of p "srv s" out] by (simp add: work_def)
next
  case (5 i p out)
  have "request_work (r_phase (finish_resolve env out (reqs s ! i))) = 0"
    by (simp add: finish_resolve_def split: sum.split)
  then show ?case using 5 request_works_update [of i "reqs s" "finish_resolve env out (reqs s ! i)"]
    by (simp add: work_def)
qed simp

lemma serving_reachable: "(serving env)\<^sup>*\<^sup>* s s' \<Longrightarrow> reachable env s \<Longrightarrow> reachable env s'"
  by (induction rule: rtranclp_induct) (auto simp: serving_def intro: reachable.step)

lemma update_neq: "i < length xs \<Longrightarrow> y \<noteq> xs ! i \<Longrightarrow> xs[i := y] \<noteq> xs"
  by (metis nth_list_update_eq)

lemma unserved_serving:
  assumes "reachable env s" and "i < length (reqs s)" and "\<not> served (r_phase (reqs s ! i))"
  shows "\<exists>s'. serving env s s'"
proof (cases "r_phase (reqs s ! i)")
  case Arrived
  obtain srv' r' where b: "begin_resolve (srv s) (reqs s ! i) = (srv', r')" by fastforce
  then have "(reqs s)[i := r'] \<noteq> reqs s"
    using begin_resolve_work [OF b Arrived] Arrived assms(2) by (intro update_neq) auto
  then have "s\<lparr>srv := srv', reqs := (reqs s)[i := r']\<rparr> \<noteq> s" by (metis system.select_convs(2) system.surjective system.update_convs(2))
  then show ?thesis using sess_step.start [OF assms(2) Arrived b]
    by (intro exI [of _ "s\<lparr>srv := srv', reqs := (reqs s)[i := r']\<rparr>"]) (simp add: serving_def)
next
  case (Waiting p)
  have "request_ok env (srv s) (reqs s ! i)"
    using reachable_inv [OF assms(1)] assms(2) by (simp add: sess_inv_def)
  then have p: "p < length (mints (srv s))" by (simp add: request_ok_def Waiting)
  show ?thesis
  proof (cases "m_state (mints (srv s) ! p)")
    case InFlight
    have "all_mint_work (settle_mint p Unreachable (srv s)) < all_mint_work (srv s)" by (rule settle_work [OF p InFlight])
    then have "s\<lparr>srv := settle_mint p Unreachable (srv s)\<rparr> \<noteq> s" by (auto dest: arg_cong [of _ _ srv])
    then show ?thesis using sess_step.settle [OF p InFlight]
      by (intro exI [of _ "s\<lparr>srv := settle_mint p Unreachable (srv s)\<rparr>"]) (simp add: serving_def)
  next
    case (Settled out)
    have "r_phase (finish_resolve env out (reqs s ! i)) \<noteq> Waiting p"
      by (simp add: finish_resolve_def split: sum.split)
    then have "(reqs s)[i := finish_resolve env out (reqs s ! i)] \<noteq> reqs s"
      using Waiting assms(2) by (intro update_neq) auto
    then have "s\<lparr>reqs := (reqs s)[i := finish_resolve env out (reqs s ! i)]\<rparr> \<noteq> s" by (auto dest: arg_cong [of _ _ reqs])
    then show ?thesis using sess_step.finish [OF assms(2) Waiting Settled]
      by (intro exI [of _ "s\<lparr>reqs := (reqs s)[i := finish_resolve env out (reqs s ! i)]\<rparr>"]) (simp add: serving_def)
  qed
qed (use assms(3) in simp_all)

lemma serving_bounded: "(serving env ^^ n) s s' \<Longrightarrow> n + work s' \<le> work s"
proof (induction n arbitrary: s')
  case (Suc n)
  then obtain t where "(serving env ^^ n) s t" and "serving env t s'" by auto
  then show ?case using Suc.IH [of t] serving_work [of env t s'] by simp
qed simp

text \<open>
  C17. Every request is served: once no further request arrives, whatever the order in which requests
  start, mints settle, slots are released and waiters go on, the module stops within the bound
  \<open>work\<close> and stops only when every request has its session or its error.
\<close>

theorem requests_get_served:
  assumes "reachable env s"
  shows "\<forall>n s'. (serving env ^^ n) s s' \<longrightarrow> n \<le> work s
      \<and> ((\<nexists>s''. serving env s' s'') \<longrightarrow> list_all (\<lambda>r. served (r_phase r)) (reqs s'))"
proof (intro allI impI conjI)
  fix n s' assume n: "(serving env ^^ n) s s'"
  then show "n \<le> work s" using serving_bounded by fastforce
  assume stuck: "\<nexists>s''. serving env s' s''"
  have "reachable env s'"
    using serving_reachable assms relpowp_imp_rtranclp [OF n] by blast
  then show "list_all (\<lambda>r. served (r_phase r)) (reqs s')"
    using unserved_serving stuck by (auto simp: list_all_length)
qed

theorem requests_get_served_witness:
  "reachable run_env run_flight \<and> (serving run_env ^^ 1) run_flight run_settled \<and> 1 \<le> work run_flight"
proof -
  have "sess_step run_env run_flight (run_flight\<lparr>srv := settle_mint 0 run_response (srv run_flight)\<rparr>)"
    by (rule sess_step.settle) (simp_all add: run_flight_def)
  moreover have "run_flight\<lparr>srv := settle_mint 0 run_response (srv run_flight)\<rparr> = run_settled"
    by (simp add: run_flight_def run_settled_def run_served_def settle_mint_def run_response_def
        status_ok_def is_nullish_def)
  moreover have "run_settled \<noteq> run_flight" "length (reqs run_settled) = length (reqs run_flight)"
    by (simp_all add: run_settled_def run_flight_def run_served_def)
  ultimately have "serving run_env run_flight run_settled" by (simp add: serving_def)
  then have s: "(serving run_env ^^ 1) run_flight run_settled" by (simp only: relpowp_1)
  then show ?thesis using requests_get_served [OF run_flight_reachable] run_flight_reachable by blast
qed

end
