(* ===== verification/Proxy.thy ===== *)
theory Proxy
  imports Session
begin

text \<open>
  \<open>frontend/app/api/credence/[...path]/route.ts\<close>: the same-origin proxy every browser call goes
  through. \<open>proxy\<close> is the whole handler, with its effects threaded through an \<open>edge\<close> state: the
  session cookie as the handler sees it, the cookie the answer will set, and the log of upstream
  requests. The Next runtime and the backend are parameters (\<open>services\<close>): the host of an origin
  URL, \<open>JSON.parse\<close>, one upstream fetch, the outcome of the mint a cookieless request waits for, and
  whether reading a body to its end succeeds (\<open>request.text()\<close>, \<open>upstream.text()\<close>); \<open>'w\<close> is whatever
  state they keep.
\<close>

record http_request =
  q_method :: string
  q_path :: "string list option"
  q_search :: string
  q_origin :: "string option"
  q_host :: "string option"
  q_content_type :: "string option"
  q_body :: string

record upstream_request =
  u_url :: string
  u_method :: string
  u_headers :: "(string \<times> string) list"
  u_body :: "string option"

record upstream_response =
  up_status :: int
  up_content_type :: "string option"
  up_text :: string

datatype body = NoBody | JsonBody json | StreamBody string

record response =
  rs_status :: int
  rs_content_type :: "string option"
  rs_cache_control :: "string option"
  rs_body :: body

record 'w services =
  sv_env :: env
  sv_url_host :: "string \<Rightarrow> string option"
  sv_parse :: "string \<Rightarrow> json option"
  sv_fetch :: "'w \<Rightarrow> upstream_request \<Rightarrow> upstream_response option \<times> 'w"
  sv_mint :: "'w \<Rightarrow> (session_error + string) \<times> 'w"
  sv_body_read :: "http_request \<Rightarrow> bool"
  sv_text_read :: "upstream_response \<Rightarrow> bool"

record 'w edge =
  world :: 'w
  jar :: "string option"
  out_cookie :: "cookie option"
  sent :: "upstream_request list"

definition MUTATING_METHODS :: "string list" where
  "MUTATING_METHODS = [''POST'', ''PUT'', ''PATCH'', ''DELETE'']"

text \<open>\<open>segments[i]\<close>, \<open>undefined\<close> beyond the end.\<close>

definition seg :: "string list \<Rightarrow> nat \<Rightarrow> string option" where
  "seg segments i = (if i < length segments then Some (segments ! i) else None)"

definition isAllowedDemoPath :: "string list \<Rightarrow> bool" where
  "isAllowedDemoPath segments \<longleftrightarrow> seg segments 2 = Some ''scenarios'' \<and> length segments = 4"

definition problem :: "string \<Rightarrow> string \<Rightarrow> int \<Rightarrow> response" where
  "problem code detail status = \<lparr>rs_status = status, rs_content_type = Some ''application/json'',
     rs_cache_control = None,
     rs_body = JsonBody (JObj [(''error'', JObj [(''code'', JStr code), (''detail'', JStr detail)])])\<rparr>"

text \<open>What the runtime answers for a handler that threw: nothing of the request or of its answer.\<close>

definition server_fault :: response where
  "server_fault = \<lparr>rs_status = 500, rs_content_type = None, rs_cache_control = None, rs_body = NoBody\<rparr>"

definition isCrossSite :: "'w services \<Rightarrow> http_request \<Rightarrow> bool" where
  "isCrossSite sv q =
     (case q_origin q of None \<Rightarrow> False
      | Some origin \<Rightarrow> (case sv_url_host sv origin of
            None \<Rightarrow> True
          | Some h \<Rightarrow> Some h \<noteq> q_host q))"

definition bad_segment :: "string \<Rightarrow> bool" where
  "bad_segment s \<longleftrightarrow> s = ''.'' \<or> s = ''..'' \<or> str_includes s ''/'' \<or> str_includes s [BACKSLASH]"

subsection \<open>The session, as one request sees it\<close>

definition resolveSession :: "'w services \<Rightarrow> 'w edge \<Rightarrow> (session_error + Session) \<times> 'w edge" where
  "resolveSession sv st =
     (case jar st of
        Some (c # cs) \<Rightarrow> (Inr \<lparr>token = c # cs, minted = False\<rparr>, st)
      | _ \<Rightarrow> (case sv_mint sv (world st) of
            (Inl e, w) \<Rightarrow> (Inl e, st\<lparr>world := w\<rparr>)
          | (Inr t, w) \<Rightarrow> (Inr \<lparr>token = t, minted = True\<rparr>,
              st\<lparr>world := w, jar := Some t, out_cookie := Some (session_cookie (sv_env sv) t)\<rparr>)))"

definition drop_session :: "'w edge \<Rightarrow> 'w edge" where
  "drop_session st = st\<lparr>jar := Some [], out_cookie := Some clearSession\<rparr>"

subsection \<open>The handler\<close>

definition upstream_of :: "'w services \<Rightarrow> http_request \<Rightarrow> string list \<Rightarrow> string \<Rightarrow> upstream_request" where
  "upstream_of sv q segments tok =
     (let body = (if List.member MUTATING_METHODS (q_method q) then Some (q_body q) else None) in
      \<lparr>u_url = backendBase (sv_env sv) @ ''/'' @ join ''/'' segments @ q_search q,
       u_method = q_method q,
       u_headers = [(''Accept'', ''application/json''), (''Authorization'', ''Bearer '' @ tok)]
         @ (case q_content_type q of None \<Rightarrow> [] | Some c \<Rightarrow> [(''Content-Type'', c)])
         @ (if seg segments 1 = Some ''demo'' then [(''X-Demo-Token'', demoToken (sv_env sv))] else []),
       u_body = (if body = Some [] then None else body)\<rparr>)"

definition send :: "'w services \<Rightarrow> http_request \<Rightarrow> string list \<Rightarrow> string \<Rightarrow> 'w edge
    \<Rightarrow> upstream_response option \<times> 'w edge" where
  "send sv q segments tok st =
     (let u = upstream_of sv q segments tok; (r, w) = sv_fetch sv (world st) u
      in (r, st\<lparr>world := w, sent := sent st @ [u]\<rparr>))"

definition session_problem :: "session_error \<Rightarrow> response" where
  "session_problem e = (case e of
     SessionError _ \<Rightarrow> problem ''WORKSPACE_UNAVAILABLE''
       ''Your sandbox workspace could not be prepared. The CredenceAI service may still be starting.'' 503
   | OtherError \<Rightarrow> problem ''SERVICE_UNAVAILABLE'' ''The CredenceAI service is not reachable.'' 503)"

definition relay :: "'w services \<Rightarrow> upstream_response \<Rightarrow> response" where
  "relay sv up =
     (let ty = (case up_content_type up of None \<Rightarrow> [] | Some c \<Rightarrow> c) in
      if starts_with ty ''audio/'' then
        \<lparr>rs_status = up_status up, rs_content_type = Some ty,
         rs_cache_control = Some ''no-store, private'', rs_body = StreamBody (up_text up)\<rparr>
      else if \<not> sv_text_read sv up then server_fault
      else if up_text up = [] then
        \<lparr>rs_status = up_status up, rs_content_type = None, rs_cache_control = None, rs_body = NoBody\<rparr>
      else (case sv_parse sv (up_text up) of
          None \<Rightarrow> problem ''UPSTREAM_UNREADABLE''
            ''The CredenceAI service returned an unreadable response.'' 502
        | Some payload \<Rightarrow>
            \<lparr>rs_status = up_status up,
             rs_content_type = (case up_content_type up of None \<Rightarrow> Some ''application/json'' | Some c \<Rightarrow> Some c),
             rs_cache_control = Some ''no-store, private'', rs_body = JsonBody (redact payload)\<rparr>))"

definition route_gate :: "'w services \<Rightarrow> http_request \<Rightarrow> string list \<Rightarrow> response option" where
  "route_gate sv q segments =
     (if list_ex bad_segment segments then
        Some (problem ''BAD_PATH'' ''That request path is not valid.'' 400)
      else if seg segments 0 \<noteq> Some ''v1'' then
        Some (problem ''NOT_PROXIED'' ''That resource is not available here.'' 404)
      else if List.member MUTATING_METHODS (q_method q) \<and> isCrossSite sv q then
        Some (problem ''CROSS_SITE_BLOCKED'' ''That request was blocked.'' 403)
      else if seg segments 1 = Some ''demo'' \<and> \<not> isAllowedDemoPath segments then
        Some (problem ''NOT_PROXIED'' ''That resource is not available here.'' 404)
      else None)"

text \<open>
  The checks before a session is looked for; the last of them comes after the body of a mutating
  request was read, which throws when that fails (\<open>body_lost\<close>).
\<close>

definition gate :: "'w services \<Rightarrow> http_request \<Rightarrow> string list \<Rightarrow> response option" where
  "gate sv q segments = (case route_gate sv q segments of Some refusal \<Rightarrow> Some refusal
     | None \<Rightarrow>
         if seg segments 1 = Some ''demo'' \<and> demoToken (sv_env sv) = [] then
           Some (problem ''DEMO_DISABLED''
             ''The demonstration surface is switched off in this deployment.'' 503)
         else None)"

definition body_lost :: "'w services \<Rightarrow> http_request \<Rightarrow> bool" where
  "body_lost sv q \<longleftrightarrow> List.member MUTATING_METHODS (q_method q) \<and> \<not> sv_body_read sv q"

definition exchange :: "'w services \<Rightarrow> http_request \<Rightarrow> string list \<Rightarrow> Session \<Rightarrow> 'w edge
    \<Rightarrow> (session_error + upstream_response) \<times> 'w edge" where
  "exchange sv q segments session st =
     (case send sv q segments (token session) st of
        (None, st1) \<Rightarrow> (Inl OtherError, st1)
      | (Some upstream, st1) \<Rightarrow>
          if up_status upstream = 401 \<and> \<not> minted session then
            (case resolveSession sv (drop_session st1) of
               (Inl e, st2) \<Rightarrow> (Inl e, st2)
             | (Inr session2, st2) \<Rightarrow> (case send sv q segments (token session2) st2 of
                  (None, st3) \<Rightarrow> (Inl OtherError, st3)
                | (Some upstream2, st3) \<Rightarrow> (Inr upstream2, st3)))
          else (Inr upstream, st1))"

definition proxy :: "'w services \<Rightarrow> http_request \<Rightarrow> 'w edge \<Rightarrow> response \<times> 'w edge" where
  "proxy sv q st =
     (let segments = (case q_path q of None \<Rightarrow> [] | Some p \<Rightarrow> p) in
      if route_gate sv q segments = None \<and> body_lost sv q then (server_fault, st)
      else case gate sv q segments of Some refusal \<Rightarrow> (refusal, st)
      | None \<Rightarrow> (case resolveSession sv st of
          (Inl e, st1) \<Rightarrow> (session_problem e, st1)
        | (Inr session, st1) \<Rightarrow> (case exchange sv q segments session st1 of
            (Inl e, st2) \<Rightarrow> (session_problem e, st2)
          | (Inr upstream, st2) \<Rightarrow> (relay sv upstream, st2))))"

subsection \<open>Where a forwarded path leads\<close>

text \<open>
  \<open>fetch\<close> parses its target with the URL standard: tabs and line breaks are removed, trailing
  spaces and controls are stripped, the path ends at \<open>?\<close> or \<open>#\<close>, slashes and backslashes separate
  segments, and dot segments, also percent-encoded ones, are resolved. \<open>routed_path\<close> is the path
  the backend sees for what follows \<open>backendBase()/\<close>, for a base that is a bare origin.
\<close>

definition url_path_text :: "string \<Rightarrow> string" where
  "url_path_text s = takeWhile (\<lambda>c. c \<noteq> CHR ''?'' \<and> c \<noteq> CHR ''#'')
     (filter (\<lambda>c. c \<noteq> CHR 0x09 \<and> c \<noteq> CHR 0x0A \<and> c \<noteq> CHR 0x0D)
       (rev (dropWhile (\<lambda>c. (of_char c :: nat) \<le> 32) (rev s))))"

definition single_dot :: "string \<Rightarrow> bool" where
  "single_dot s \<longleftrightarrow> List.member [''.'', ''%2e''] (to_lower s)"

definition double_dot :: "string \<Rightarrow> bool" where
  "double_dot s \<longleftrightarrow> List.member [''..'', ''.%2e'', ''%2e.'', ''%2e%2e''] (to_lower s)"

fun resolve_dots :: "string list \<Rightarrow> string list \<Rightarrow> string list" where
  "resolve_dots acc [] = rev acc"
| "resolve_dots acc (s # rest) =
     (if double_dot s then resolve_dots (if rest = [] then [] # tl acc else tl acc) rest
      else if single_dot s then resolve_dots (if rest = [] then [] # acc else acc) rest
      else resolve_dots (s # acc) rest)"

definition routed_path :: "string \<Rightarrow> string list" where
  "routed_path s = resolve_dots []
     (split_on (CHR ''/'') (map (\<lambda>c. if c = BACKSLASH then CHR ''/'' else c) (url_path_text s)))"

text \<open>Segments that the URL parser takes as they are.\<close>

definition plain_char :: "char \<Rightarrow> bool" where
  "plain_char c \<longleftrightarrow> c \<noteq> CHR ''?'' \<and> c \<noteq> CHR ''#'' \<and> c \<noteq> CHR ''/'' \<and> c \<noteq> BACKSLASH
     \<and> 32 < (of_char c :: nat)"

definition plain_segment :: "string \<Rightarrow> bool" where
  "plain_segment s \<longleftrightarrow> list_all plain_char s \<and> \<not> single_dot s \<and> \<not> double_dot s"

lemma resolve_dots_plain: "list_all plain_segment segs \<Longrightarrow> resolve_dots acc segs = rev acc @ segs"
  by (induction segs arbitrary: acc) (auto simp: plain_segment_def)

lemma set_join: "set (join sep ss) \<subseteq> set sep \<union> \<Union> (set ` set ss)"
  by (induction sep ss rule: join.induct) auto

lemma strip_right_id: "list_all (\<lambda>c. \<not> P c) s \<Longrightarrow> rev (dropWhile P (rev s)) = s"
  by (cases s rule: rev_cases) (auto simp: list_all_iff)

text \<open>A text without spaces and controls is cut at its first query or fragment mark, and no more.\<close>

lemma url_path_text_visible:
  assumes "list_all (\<lambda>c. 32 < (of_char c :: nat)) s"
  shows "url_path_text s = takeWhile (\<lambda>c. c \<noteq> CHR ''?'' \<and> c \<noteq> CHR ''#'') s"
proof -
  have big: "32 < (of_char c :: nat)" if "c \<in> set s" for c
    using assms that by (simp add: list_all_iff)
  have "rev (dropWhile (\<lambda>c. (of_char c :: nat) \<le> 32) (rev s)) = s"
    using big by (intro strip_right_id) (simp add: list_all_iff not_le)
  moreover have "filter (\<lambda>c. c \<noteq> CHR 0x09 \<and> c \<noteq> CHR 0x0A \<and> c \<noteq> CHR 0x0D) s = s"
  proof (rule filter_True, rule ballI)
    fix c assume "c \<in> set s"
    from big [OF this] show "c \<noteq> CHR 0x09 \<and> c \<noteq> CHR 0x0A \<and> c \<noteq> CHR 0x0D" by auto
  qed
  ultimately show ?thesis by (simp add: url_path_text_def)
qed

lemma str_includes_char: "str_includes s [c] \<longleftrightarrow> c \<in> set s"
  by (induction s) (auto simp: starts_with_def)

lemma dot_segments: "single_dot ''.''" "double_dot ''..''"
  by code_simp+

lemma plain_not_bad: "plain_segment s \<Longrightarrow> \<not> bad_segment s"
proof
  assume s: "plain_segment s" and "bad_segment s"
  then consider "s = ''.''" | "s = ''..''" | "CHR ''/'' \<in> set s" | "BACKSLASH \<in> set s"
    by (auto simp: bad_segment_def str_includes_char)
  then show False
  proof cases
    case 3
    then have "plain_char (CHR ''/'')" using s by (simp add: plain_segment_def list_all_iff)
    then show False by (simp add: plain_char_def)
  next
    case 4
    then have "plain_char BACKSLASH" using s by (simp add: plain_segment_def list_all_iff)
    then show False by (simp add: plain_char_def)
  qed (use s dot_segments in \<open>simp_all add: plain_segment_def\<close>)
qed

lemma join_visible:
  assumes "list_all plain_segment segs" and "c \<in> set (join ''/'' segs)"
  shows "32 < (of_char c :: nat)" and "c \<noteq> CHR ''?''" and "c \<noteq> CHR ''#''" and "c \<noteq> BACKSLASH"
proof -
  have "plain_char d" if "w \<in> set segs" "d \<in> set w" for w d
    using assms(1) that by (auto simp: list_all_iff plain_segment_def)
  then have c: "plain_char c \<or> c = CHR ''/''" using set_join [of "''/''" segs] assms(2) by auto
  show "32 < (of_char c :: nat)" using c by (rule disjE) (simp_all add: plain_char_def)
  show "c \<noteq> CHR ''?''" using c by (rule disjE) (simp_all add: plain_char_def)
  show "c \<noteq> CHR ''#''" using c by (rule disjE) (simp_all add: plain_char_def)
  show "c \<noteq> BACKSLASH" using c by (rule disjE) (simp_all add: plain_char_def)
qed

text \<open>Plain segments, up to a query or fragment mark, are what the backend sees.\<close>

lemma routed_mark:
  assumes "list_all plain_segment segs" and "segs \<noteq> []"
    and "rest = [] \<or> hd rest \<in> {CHR ''?'', CHR ''#''}" and "list_all (\<lambda>c. 32 < (of_char c :: nat)) rest"
  shows "routed_path (join ''/'' segs @ rest) = segs"
proof -
  have cut: "url_path_text (join ''/'' segs @ rest) = join ''/'' segs"
  proof -
    have "takeWhile (\<lambda>c. c \<noteq> CHR ''?'' \<and> c \<noteq> CHR ''#'') rest = []"
      using assms(3) by (cases rest) auto
    moreover have "takeWhile (\<lambda>c. c \<noteq> CHR ''?'' \<and> c \<noteq> CHR ''#'') (join ''/'' segs @ rest)
        = join ''/'' segs @ takeWhile (\<lambda>c. c \<noteq> CHR ''?'' \<and> c \<noteq> CHR ''#'') rest"
      using join_visible(2,3) [OF assms(1)] by (intro takeWhile_append2) blast
    moreover have "list_all (\<lambda>c. 32 < (of_char c :: nat)) (join ''/'' segs @ rest)"
      using join_visible(1) [OF assms(1)] assms(4) by (auto simp: list_all_iff)
    ultimately show ?thesis by (simp add: url_path_text_visible)
  qed
  have pc: "plain_char c" if "w \<in> set segs" "c \<in> set w" for w c
    using assms(1) that by (auto simp: list_all_iff plain_segment_def)
  have "map (\<lambda>c. if c = BACKSLASH then CHR ''/'' else c) (join ''/'' segs) = join ''/'' segs"
    using join_visible(4) [OF assms(1)] by (intro map_idI) auto
  moreover have "split_on (CHR ''/'') (join ''/'' segs) = segs"
    using pc by (intro split_on_join assms(2)) (auto simp: plain_char_def)
  ultimately show ?thesis
    using resolve_dots_plain [OF assms(1), of "[]"] by (simp add: routed_path_def cut)
qed

lemma routed_plain:
  assumes "list_all plain_segment segs" and "segs \<noteq> []"
  shows "routed_path (join ''/'' segs) = segs"
  using routed_mark [OF assms, of "[]"] by simp

lemma routed_cut:
  assumes "list_all plain_segment segs" and "segs \<noteq> []" and "m \<in> {CHR ''?'', CHR ''#''}"
    and "list_all (\<lambda>c. 32 < (of_char c :: nat)) rest"
  shows "routed_path (join ''/'' segs @ m # rest) = segs"
proof -
  have "list_all (\<lambda>c. 32 < (of_char c :: nat)) (m # rest)" using assms(3,4) by auto
  then show ?thesis using routed_mark [OF assms(1,2), of "m # rest"] assms(3) by auto
qed

lemma marked_not_bad:
  assumes "plain_segment a" and "list_all plain_char b" and "m \<in> {CHR ''?'', CHR ''#''}"
  shows "\<not> bad_segment (a @ m # b)"
proof -
  have "CHR ''/'' \<notin> set (a @ m # b) \<and> BACKSLASH \<notin> set (a @ m # b)"
    using assms by (auto simp: plain_segment_def list_all_iff plain_char_def)
  moreover have "a @ m # b \<noteq> ''.'' \<and> a @ m # b \<noteq> ''..''"
    using assms(3) by (auto simp: append_eq_Cons_conv)
  ultimately show ?thesis by (auto simp: bad_segment_def str_includes_char)
qed

subsection \<open>Lemmas on the handler\<close>

lemma gate_unfold:
  "gate sv q segments =
     (if list_ex bad_segment segments then
        Some (problem ''BAD_PATH'' ''That request path is not valid.'' 400)
      else if seg segments 0 \<noteq> Some ''v1'' then
        Some (problem ''NOT_PROXIED'' ''That resource is not available here.'' 404)
      else if List.member MUTATING_METHODS (q_method q) \<and> isCrossSite sv q then
        Some (problem ''CROSS_SITE_BLOCKED'' ''That request was blocked.'' 403)
      else if seg segments 1 = Some ''demo'' \<and> \<not> isAllowedDemoPath segments then
        Some (problem ''NOT_PROXIED'' ''That resource is not available here.'' 404)
      else if seg segments 1 = Some ''demo'' \<and> demoToken (sv_env sv) = [] then
        Some (problem ''DEMO_DISABLED''
          ''The demonstration surface is switched off in this deployment.'' 503)
      else None)"
  by (simp add: gate_def route_gate_def)

lemma gate_route: "gate sv q segs = None \<Longrightarrow> route_gate sv q segs = None"
  by (auto simp: gate_def split: option.splits)

lemma gate_passed:
  assumes "gate sv q segs = None"
  shows "\<not> list_ex bad_segment segs" and "seg segs 0 = Some ''v1''"
    and "\<not> (List.member MUTATING_METHODS (q_method q) \<and> isCrossSite sv q)"
    and "seg segs 1 = Some ''demo'' \<Longrightarrow> isAllowedDemoPath segs \<and> demoToken (sv_env sv) \<noteq> []"
  using assms by (auto simp: gate_unfold split: if_splits)

lemma allowed_demo_shape:
  assumes "isAllowedDemoPath segs" and "seg segs 0 = Some a" and "seg segs 1 = Some b"
  shows "\<exists>x. segs = [a, b, ''scenarios'', x]"
proof -
  have "length segs = 4" using assms(1) by (simp add: isAllowedDemoPath_def)
  then obtain p q r x where "segs = [p, q, r, x]"
    by (auto simp: length_Suc_conv eval_nat_numeral)
  with assms show ?thesis by (simp add: isAllowedDemoPath_def seg_def)
qed

lemma sent_send: "send sv q segs tok st = (r, st') \<Longrightarrow> sent st' = sent st @ [upstream_of sv q segs tok]"
  by (auto simp: send_def Let_def split: prod.splits)

lemma jar_send: "send sv q segs tok st = (r, st') \<Longrightarrow> jar st' = jar st"
  by (auto simp: send_def Let_def split: prod.splits)

lemma sent_drop [simp]: "sent (drop_session st) = sent st" "jar (drop_session st) = Some []"
  by (simp_all add: drop_session_def)

text \<open>A resolved session is the caller's cookie or a bearer minted for this request.\<close>

lemma resolve_cases:
  assumes "resolveSession sv st = (Inr ses, st')"
  shows "sent st' = sent st \<and> jar st' = Some (token ses)
    \<and> (if minted ses then jar st \<in> {None, Some []} \<and> fst (sv_mint sv (world st)) = Inr (token ses)
       else jar st = Some (token ses) \<and> token ses \<noteq> [] \<and> st' = st)"
  using assms
  by (auto simp: resolveSession_def split: option.splits list.splits prod.splits sum.splits)

lemma resolve_sent: "resolveSession sv st = (o', st') \<Longrightarrow> sent st' = sent st"
  by (auto simp: resolveSession_def split: option.splits list.splits prod.splits sum.splits)

text \<open>The upstream requests of one exchange: one, or two when the first bearer was a dead cookie.\<close>

definition exchange_log :: "'w services \<Rightarrow> http_request \<Rightarrow> string list \<Rightarrow> Session
    \<Rightarrow> upstream_request list \<Rightarrow> bool" where
  "exchange_log sv q segs ses us \<longleftrightarrow>
     us = [upstream_of sv q segs (token ses)] \<or>
     (\<not> minted ses \<and> (\<exists>w t. fst (sv_mint sv w) = Inr t
        \<and> us = [upstream_of sv q segs (token ses), upstream_of sv q segs t]))"

lemma exchange_sends:
  assumes "exchange sv q segs ses st = (o', st')"
  shows "\<exists>us. sent st' = sent st @ us \<and> exchange_log sv q segs ses us"
proof -
  obtain r st1 where s1: "send sv q segs (token ses) st = (r, st1)" by fastforce
  note log1 = sent_send [OF s1]
  show ?thesis
  proof (cases "\<exists>up. r = Some up \<and> up_status up = 401 \<and> \<not> minted ses")
    case False
    then have "st' = st1"
      using assms s1 by (auto simp: exchange_def split: option.splits if_splits)
    then show ?thesis using log1 by (simp add: exchange_log_def)
  next
    case True
    obtain o2 st2 where r2: "resolveSession sv (drop_session st1) = (o2, st2)" by fastforce
    have log2: "sent st2 = sent st1" using resolve_sent [OF r2] by simp
    show ?thesis
    proof (cases o2)
      case (Inl e)
      then have "st' = st2" using assms s1 True r2 by (auto simp: exchange_def)
      then show ?thesis using log1 log2 by (simp add: exchange_log_def)
    next
      case (Inr ses2)
      obtain r3 st3 where s3: "send sv q segs (token ses2) st2 = (r3, st3)" by fastforce
      have "st' = st3"
        using assms s1 True r2 Inr s3 by (auto simp: exchange_def split: option.splits)
      moreover have "fst (sv_mint sv (world (drop_session st1))) = Inr (token ses2)"
        using resolve_cases [OF r2 [unfolded Inr]] by (auto split: if_splits)
      ultimately show ?thesis
        using log1 log2 sent_send [OF s3] True by (fastforce simp: exchange_log_def)
    qed
  qed
qed

text \<open>The handler once the path and the body of the request are there.\<close>

lemma proxy_after:
  assumes "\<not> (route_gate sv q segs = None \<and> body_lost sv q)"
    and "segs = (case q_path q of None \<Rightarrow> [] | Some p \<Rightarrow> p)"
  shows "proxy sv q st = (case gate sv q segs of Some refusal \<Rightarrow> (refusal, st)
      | None \<Rightarrow> (case resolveSession sv st of
          (Inl e, st1) \<Rightarrow> (session_problem e, st1)
        | (Inr session, st1) \<Rightarrow> (case exchange sv q segs session st1 of
            (Inl e, st2) \<Rightarrow> (session_problem e, st2)
          | (Inr upstream, st2) \<Rightarrow> (relay sv upstream, st2))))"
  using assms(1) unfolding proxy_def assms(2) [symmetric] Let_def by (rule if_not_P)

lemma proxy_gated:
  assumes "\<not> body_lost sv q" and "q_path q = Some segs" and "gate sv q segs = None"
  shows "proxy sv q st = (case resolveSession sv st of
      (Inl e, st1) \<Rightarrow> (session_problem e, st1)
    | (Inr session, st1) \<Rightarrow> (case exchange sv q segs session st1 of
        (Inl e, st2) \<Rightarrow> (session_problem e, st2)
      | (Inr upstream, st2) \<Rightarrow> (relay sv upstream, st2)))"
proof -
  have "segs = (case q_path q of None \<Rightarrow> [] | Some p \<Rightarrow> p)" using assms(2) by simp
  from proxy_after [OF _ this, of sv st] show ?thesis using assms(1,3) by simp
qed

lemma proxy_refused:
  assumes "route_gate sv q segs = Some r" and "q_path q = Some segs"
  shows "proxy sv q st = (r, st)"
proof -
  have "segs = (case q_path q of None \<Rightarrow> [] | Some p \<Rightarrow> p)" using assms(2) by simp
  from proxy_after [OF _ this, of sv st] show ?thesis using assms(1) by (simp add: gate_def)
qed

lemma proxy_sent:
  assumes "proxy sv q st = (r, st')" and "sent st' \<noteq> sent st"
  obtains segs where "q_path q = Some segs" and "gate sv q segs = None" and "\<not> body_lost sv q"
proof -
  define segs where "segs = (case q_path q of None \<Rightarrow> [] | Some p \<Rightarrow> p)"
  have read: "\<not> (route_gate sv q segs = None \<and> body_lost sv q)"
    using assms by (auto simp: proxy_def segs_def [symmetric])
  have g: "gate sv q segs = None"
    using assms unfolding proxy_after [OF read segs_def] by (auto split: option.splits)
  then have "segs \<noteq> []" using gate_passed(2) [OF g] by (auto simp: seg_def)
  then have "q_path q = Some segs" by (auto simp: segs_def split: option.splits)
  then show thesis using that g read gate_route [OF g] by blast
qed

lemma proxy_run:
  assumes "proxy sv q st = (r, st')" and "sent st' \<noteq> sent st"
  obtains segs ses st1 us where "q_path q = Some segs" and "gate sv q segs = None"
    and "resolveSession sv st = (Inr ses, st1)" and "sent st' = sent st @ us"
    and "exchange_log sv q segs ses us"
proof -
  from proxy_sent [OF assms] obtain segs where path: "q_path q = Some segs"
    and g: "gate sv q segs = None" and read: "\<not> body_lost sv q" by blast
  note run = assms(1) [unfolded proxy_gated [OF read path g]]
  obtain o1 st1 where r1: "resolveSession sv st = (o1, st1)" by fastforce
  have "\<exists>ses. o1 = Inr ses"
    using run assms(2) r1 resolve_sent [OF r1] by (auto split: sum.splits)
  then obtain ses where ses: "o1 = Inr ses" by blast
  obtain o2 st2 where e: "exchange sv q segs ses st1 = (o2, st2)" by fastforce
  have "st' = st2" using run r1 ses e by (auto split: sum.splits)
  then show thesis
    using that [OF path g r1 [unfolded ses]] exchange_sends [OF e] resolve_sent [OF r1] by auto
qed

text \<open>An answer that is passed on is the backend's to the last request sent.\<close>

lemma exchange_answer:
  assumes "exchange sv q segs ses st = (Inr up, st')"
  shows "\<exists>w tok. sent st' \<noteq> [] \<and> last (sent st') = upstream_of sv q segs tok
    \<and> fst (sv_fetch sv w (upstream_of sv q segs tok)) = Some up"
proof -
  have one: "\<exists>w. sent t' = sent t @ [upstream_of sv q segs tok]
      \<and> fst (sv_fetch sv w (upstream_of sv q segs tok)) = r" if "send sv q segs tok t = (r, t')" for tok t t' r
    using that by (auto simp: send_def Let_def split: prod.splits intro: exI [of _ "world t"])
  obtain r st1 where s1: "send sv q segs (token ses) st = (r, st1)" by fastforce
  show ?thesis
  proof (cases "\<exists>x. r = Some x \<and> up_status x = 401 \<and> \<not> minted ses")
    case False
    then have "r = Some up" "st' = st1" using assms s1 by (auto simp: exchange_def split: option.splits if_splits)
    then show ?thesis using one [OF s1] by auto
  next
    case True
    then obtain ses2 st2 st3 where "resolveSession sv (drop_session st1) = (Inr ses2, st2)"
      "send sv q segs (token ses2) st2 = (Some up, st')"
      using assms s1 by (auto simp: exchange_def split: option.splits prod.splits sum.splits)
    then show ?thesis using one [of "token ses2" st2 "Some up" st'] by auto
  qed
qed

text \<open>
  The backend answered the request \<open>u\<close> with 401, and the mint the handler then waited for gave
  the bearer \<open>t\<close>.
\<close>

definition renewed :: "'w services \<Rightarrow> 'w edge \<Rightarrow> upstream_request \<Rightarrow> string \<Rightarrow> bool" where
  "renewed sv st u t \<longleftrightarrow> (case sv_fetch sv (world st) u of
     (Some up, w) \<Rightarrow> up_status up = 401 \<and> fst (sv_mint sv w) = Inr t | _ \<Rightarrow> False)"

lemma exchange_with_cookie:
  "let u = upstream_of sv q segs tok;
       log = sent (snd (exchange sv q segs \<lparr>token = tok, minted = False\<rparr> st))
   in if \<exists>t. renewed sv st u t
      then \<exists>t. renewed sv st u t \<and> log = sent st @ [u, upstream_of sv q segs t]
      else log = sent st @ [u]"
  by (auto simp: renewed_def exchange_def send_def drop_session_def resolveSession_def Let_def
      split: prod.splits sum.splits option.splits)

subsection \<open>Properties\<close>

text \<open>Services for the concrete runs below: a backend that has lost the caller's workspace.\<close>

definition run_services :: "nat services" where
  "run_services = \<lparr>sv_env = [''CREDENCE_DEMO_TOKEN'' \<mapsto> ''d3mo''],
     sv_url_host = (\<lambda>u. if u = ''https://app'' then Some ''app'' else None),
     sv_parse = (\<lambda>s. if s = ''{}'' then Some (JObj []) else None),
     sv_fetch = (\<lambda>w u. (Some \<lparr>up_status = (if w = 0 then 401 else 200),
        up_content_type = Some ''application/json'', up_text = ''{}''\<rparr>, Suc w)),
     sv_mint = (\<lambda>w. (Inr ''fresh'', w)), sv_body_read = (\<lambda>q. True), sv_text_read = (\<lambda>u. True)\<rparr>"

definition run_query :: http_request where
  "run_query = \<lparr>q_method = ''POST'', q_path = Some [''v1'', ''demo'', ''scenarios'', ''s1''],
     q_search = [], q_origin = Some ''https://app'', q_host = Some ''app'',
     q_content_type = None, q_body = ''{}''\<rparr>"

definition run_edge :: "nat edge" where
  "run_edge = \<lparr>world = 0, jar = Some ''dead'', out_cookie = None, sent = []\<rparr>"

definition run_requests :: "upstream_request list" where
  "run_requests = map (upstream_of run_services run_query [''v1'', ''demo'', ''scenarios'', ''s1''])
     [''dead'', ''fresh'']"

text \<open>
  C2. The surface the browser can reach is what the gate allows: every request the proxy sends
  upstream is under \<open>v1\<close>, has no dot segment and no segment with a slash or backslash, is not a
  cross-site mutation, and goes below \<open>v1/demo\<close> only to run one scenario and with a configured
  demo token; the demo token is attached to nothing else.
\<close>

theorem proxy_upstream_confined:
  assumes "proxy sv q st = (r, st')" and "sent st' = sent st @ us" and "u \<in> set us"
  shows "\<exists>segs tok. q_path q = Some segs \<and> u = upstream_of sv q segs tok
    \<and> \<not> list_ex bad_segment segs \<and> seg segs 0 = Some ''v1''
    \<and> \<not> (List.member MUTATING_METHODS (q_method q) \<and> isCrossSite sv q)
    \<and> (seg segs 1 \<noteq> Some ''demo'' \<or> (\<exists>x. segs = [''v1'', ''demo'', ''scenarios'', x]) \<and> demoToken (sv_env sv) \<noteq> [])
    \<and> (''X-Demo-Token'' \<in> fst ` set (u_headers u) \<longleftrightarrow> seg segs 1 = Some ''demo'')"
proof -
  have "sent st' \<noteq> sent st" using assms(2,3) by auto
  from proxy_run [OF assms(1) this] obtain segs ses st1 us' where
    p: "q_path q = Some segs" and g: "gate sv q segs = None" and
    us: "sent st' = sent st @ us'" and log: "exchange_log sv q segs ses us'" by metis
  from us assms(2) have "us' = us" by simp
  with log assms(3) obtain tok where u: "u = upstream_of sv q segs tok"
    by (auto simp: exchange_log_def)
  have "seg segs 1 \<noteq> Some ''demo'' \<or> (\<exists>x. segs = [''v1'', ''demo'', ''scenarios'', x]) \<and> demoToken (sv_env sv) \<noteq> []"
    using gate_passed(4) [OF g] allowed_demo_shape [OF _ gate_passed(2) [OF g]] by blast
  moreover have "''X-Demo-Token'' \<in> fst ` set (u_headers u) \<longleftrightarrow> seg segs 1 = Some ''demo''"
    by (cases "q_content_type q") (auto simp: u upstream_of_def Let_def image_iff)
  ultimately show ?thesis using p u gate_passed(1-3) [OF g] by blast
qed

text \<open>
  C18. Sessions are recovered once and never borrowed: a request without a cookie is sent once, with
  a bearer minted for it. A request with a cookie is sent with that cookie's bearer, and a second
  time, with a bearer minted after the first answer, exactly when that answer was 401 and the mint
  succeeded. Nothing else is sent.
\<close>

theorem proxy_retry_bounded:
  assumes "proxy sv q st = (r, st')" and "sent st' \<noteq> sent st"
  shows "\<exists>segs. q_path q = Some segs \<and>
    ((jar st \<in> {None, Some []} \<and> (\<exists>t. fst (sv_mint sv (world st)) = Inr t
        \<and> sent st' = sent st @ [upstream_of sv q segs t]))
     \<or> (\<exists>tok. jar st = Some tok \<and> tok \<noteq> [] \<and>
        (if \<exists>t. renewed sv st (upstream_of sv q segs tok) t
         then \<exists>t. renewed sv st (upstream_of sv q segs tok) t
           \<and> sent st' = sent st @ [upstream_of sv q segs tok, upstream_of sv q segs t]
         else sent st' = sent st @ [upstream_of sv q segs tok])))"
proof -
  from proxy_sent [OF assms] obtain segs where path: "q_path q = Some segs"
    and g: "gate sv q segs = None" and read: "\<not> body_lost sv q" by blast
  note run = assms(1) [unfolded proxy_gated [OF read path g]]
  show ?thesis
  proof (cases "jar st \<in> {None, Some []}")
    case True
    then show ?thesis
      using run assms(2) path
      by (auto simp: resolveSession_def exchange_def send_def Let_def
          split: prod.splits sum.splits option.splits)
  next
    case False
    then obtain tok where tok: "jar st = Some tok" "tok \<noteq> []" by auto
    have "resolveSession sv st = (Inr \<lparr>token = tok, minted = False\<rparr>, st)"
      using tok by (auto simp: resolveSession_def split: list.splits)
    then have "sent st' = sent (snd (exchange sv q segs \<lparr>token = tok, minted = False\<rparr> st))"
      using run by (auto split: prod.splits sum.splits)
    then show ?thesis using exchange_with_cookie [of sv q segs tok st] path tok by (simp add: Let_def)
  qed
qed

text \<open>What may reach the browser: one of the handler's own answers, word for word, \<dots>\<close>

definition FIXED_ANSWERS :: "response list" where
  "FIXED_ANSWERS = server_fault # map (\<lambda>(code, detail, status). problem code detail status)
    [(''BAD_PATH'', ''That request path is not valid.'', 400),
     (''NOT_PROXIED'', ''That resource is not available here.'', 404),
     (''CROSS_SITE_BLOCKED'', ''That request was blocked.'', 403),
     (''DEMO_DISABLED'', ''The demonstration surface is switched off in this deployment.'', 503),
     (''WORKSPACE_UNAVAILABLE'',
      ''Your sandbox workspace could not be prepared. The CredenceAI service may still be starting.'', 503),
     (''SERVICE_UNAVAILABLE'', ''The CredenceAI service is not reachable.'', 503),
     (''UPSTREAM_UNREADABLE'', ''The CredenceAI service returned an unreadable response.'', 502)]"

text \<open>
  \<dots> or an answer of the backend under its status: audio as it is, an empty answer, or the
  redaction of what the text parses to.
\<close>

definition passed_on :: "'w services \<Rightarrow> upstream_response \<Rightarrow> response \<Rightarrow> bool" where
  "passed_on sv up r \<longleftrightarrow> rs_status r = up_status up \<and>
     (case rs_body r of
        StreamBody s \<Rightarrow> s = up_text up \<and> rs_content_type r = up_content_type up
          \<and> (\<exists>ty. up_content_type up = Some ty \<and> starts_with ty ''audio/'')
          \<and> rs_cache_control r = Some ''no-store, private''
      | NoBody \<Rightarrow> up_text up = []
      | JsonBody v \<Rightarrow> (\<exists>payload. sv_parse sv (up_text up) = Some payload \<and> v = redact payload)
          \<and> secret_free v \<and> rs_cache_control r = Some ''no-store, private'')"

lemma fixed_answers: "server_fault \<in> set FIXED_ANSWERS" "session_problem e \<in> set FIXED_ANSWERS"
  "gate sv q segs = Some r \<Longrightarrow> r \<in> set FIXED_ANSWERS"
  by (auto simp: FIXED_ANSWERS_def session_problem_def gate_unfold split: session_error.split if_splits)

lemma audio_declared: "starts_with (case ty of None \<Rightarrow> [] | Some c \<Rightarrow> c) ''audio/'' \<Longrightarrow>
    \<exists>c. ty = Some c \<and> starts_with c ''audio/''"
  by (cases ty) (simp_all add: starts_with_def)

lemma relay_fixed_or_passed: "relay sv up \<in> set FIXED_ANSWERS \<or> passed_on sv up (relay sv up)"
proof (cases "starts_with (case up_content_type up of None \<Rightarrow> [] | Some c \<Rightarrow> c) ''audio/''")
  case True
  from audio_declared [OF this] obtain c where "up_content_type up = Some c" "starts_with c ''audio/''"
    by blast
  then show ?thesis by (simp add: relay_def passed_on_def)
next
  case False
  then show ?thesis
    by (auto simp: relay_def passed_on_def FIXED_ANSWERS_def redact_secret_free Let_def
        split: option.splits)
qed

lemma proxy_answer:
  "fst (proxy sv q st) \<in> set FIXED_ANSWERS \<or> (\<exists>w up. sent (snd (proxy sv q st)) \<noteq> []
     \<and> fst (sv_fetch sv w (last (sent (snd (proxy sv q st))))) = Some up
     \<and> passed_on sv up (fst (proxy sv q st)))"
proof -
  define segs where "segs = (case q_path q of None \<Rightarrow> [] | Some p \<Rightarrow> p)"
  consider (lost) "route_gate sv q segs = None" "body_lost sv q"
    | (refused) r where "\<not> (route_gate sv q segs = None \<and> body_lost sv q)" "gate sv q segs = Some r"
    | (served) "\<not> (route_gate sv q segs = None \<and> body_lost sv q)" "gate sv q segs = None"
    by fastforce
  then show ?thesis
  proof cases
    case lost
    then have "proxy sv q st = (server_fault, st)" by (simp add: proxy_def segs_def)
    then show ?thesis by (simp add: fixed_answers)
  next
    case refused
    from proxy_after [OF refused(1) segs_def] refused(2) fixed_answers(3) [OF refused(2)]
    show ?thesis by simp
  next
    case served
    note run = proxy_after [OF served(1) segs_def, of st]
    obtain o1 st1 where r1: "resolveSession sv st = (o1, st1)" by fastforce
    show ?thesis
    proof (cases o1)
      case (Inl e)
      then show ?thesis using run r1 served(2) by (simp add: fixed_answers)
    next
      case (Inr ses)
      obtain o2 st2 where e: "exchange sv q segs ses st1 = (o2, st2)" by fastforce
      show ?thesis
      proof (cases o2)
        case (Inl f)
        then show ?thesis using run r1 served(2) Inr e by (simp add: fixed_answers)
      next
        case up: (Inr up)
        have "proxy sv q st = (relay sv up, st2)" using run r1 served(2) Inr e up by simp
        then show ?thesis using relay_fixed_or_passed [of sv up] exchange_answer [OF e [unfolded up]] by auto
      qed
    qed
  qed
qed

lemma fixed_secret_free: "r \<in> set FIXED_ANSWERS \<Longrightarrow> case rs_body r of JsonBody v \<Rightarrow> secret_free v | _ \<Rightarrow> True"
proof -
  have "\<not> secret_key ''error'' \<and> \<not> secret_key ''code'' \<and> \<not> secret_key ''detail''" by code_simp
  then show "r \<in> set FIXED_ANSWERS \<Longrightarrow> ?thesis"
    by (auto simp: FIXED_ANSWERS_def problem_def server_fault_def)
qed

lemma fixed_not_streamed: "r \<in> set FIXED_ANSWERS \<Longrightarrow> rs_body r \<noteq> StreamBody s"
  by (auto simp: FIXED_ANSWERS_def problem_def server_fault_def)

lemma proxy_secret_free: "case rs_body (fst (proxy sv q st)) of JsonBody v \<Rightarrow> secret_free v
    | StreamBody _ \<Rightarrow> \<exists>ty. rs_content_type (fst (proxy sv q st)) = Some ty \<and> starts_with ty ''audio/''
    | NoBody \<Rightarrow> True"
  using proxy_answer [of sv q st]
proof
  assume "fst (proxy sv q st) \<in> set FIXED_ANSWERS"
  then show ?thesis using fixed_secret_free fixed_not_streamed by (fastforce split: body.splits)
qed (auto simp: passed_on_def split: body.splits)

text \<open>
  C11. What reaches the browser: either one of the handler's eight fixed answers, word for word, or
  the backend's answer to the last request sent, under its status: streamed unparsed and uncached
  when the backend declared it audio; empty when it was empty; otherwise what its text parses to,
  redacted, with no credential at any depth and not to be cached. Text that is not JSON is never
  forwarded, nor any part of it.
\<close>

theorem proxy_response_safe:
  "fst (proxy sv q st) \<in> set FIXED_ANSWERS \<or> (\<exists>w up. sent (snd (proxy sv q st)) \<noteq> []
     \<and> fst (sv_fetch sv w (last (sent (snd (proxy sv q st))))) = Some up
     \<and> passed_on sv up (fst (proxy sv q st)))"
  by (rule proxy_answer)

text \<open>
  A dead session heals itself: when the backend answers 401 to the caller's cookie, one
  fresh workspace is minted, the request is repeated with its bearer, the answer to the repeat is
  what the browser gets, and the fresh session replaces the dead cookie.
\<close>

theorem stale_session_recovered:
  assumes "q_path q = Some segs" and "gate sv q segs = None" and "\<not> body_lost sv q"
    and "jar st = Some dead" and "dead \<noteq> []"
    and "sv_fetch sv (world st) (upstream_of sv q segs dead) = (Some up, w1)" and "up_status up = 401"
    and "sv_mint sv w1 = (Inr fresh, w2)"
    and "sv_fetch sv w2 (upstream_of sv q segs fresh) = (Some up2, w3)"
  shows "proxy sv q st = (relay sv up2,
     \<lparr>world = w3, jar = Some fresh, out_cookie = Some (session_cookie (sv_env sv) fresh),
      sent = sent st @ [upstream_of sv q segs dead, upstream_of sv q segs fresh]\<rparr>)"
proof -
  obtain c cs where "dead = c # cs" using assms(5) by (cases dead) auto
  then show ?thesis
    using assms(4-) by (simp add: proxy_gated [OF assms(3,1,2)] resolveSession_def exchange_def
        send_def drop_session_def Let_def)
qed

text \<open>
  A refused request has no effect: a cross-site mutation, or any request the gate does not
  let through, is answered with an error status and neither mints a workspace, sets a cookie nor
  reaches the backend.
\<close>

theorem refused_without_effect:
  assumes "q_path q = Some segs"
    and "List.member MUTATING_METHODS (q_method q) \<and> isCrossSite sv q \<or> list_ex bad_segment segs
      \<or> seg segs 0 \<noteq> Some ''v1'' \<or> seg segs 1 = Some ''demo'' \<and> \<not> isAllowedDemoPath segs"
  shows "snd (proxy sv q st) = st \<and> rs_status (fst (proxy sv q st)) \<in> {400, 403, 404}"
proof -
  have "\<exists>r. route_gate sv q segs = Some r \<and> rs_status r \<in> {400, 403, 404}"
    using assms(2) by (auto simp: route_gate_def problem_def)
  then obtain r where r: "route_gate sv q segs = Some r" and "rs_status r \<in> {400, 403, 404}" by blast
  then show ?thesis using proxy_refused [OF r assms(1), of st] by simp
qed

text \<open>
  The path the backend sees is the path the gate judged: if no segment is a dot segment in
  any encoding and none holds a separator, a query or fragment mark, a space or a control
  character, then resolving the forwarded path yields exactly the gated segments, under \<open>v1\<close>.
\<close>

theorem routed_path_gated:
  assumes "gate sv q segs = None" and "list_all plain_segment segs"
  shows "routed_path (join ''/'' segs) = segs \<and> (\<exists>rest. segs = ''v1'' # rest)"
proof -
  have "seg segs 0 = Some ''v1''" using gate_passed(2) [OF assms(1)] .
  then obtain rest where "segs = ''v1'' # rest" by (cases segs) (auto simp: seg_def)
  then show ?thesis using routed_plain [OF assms(2)] by simp
qed

text \<open>
  C36. The gate's test of dot segments is literal: the segment \<open>%2e%2e\<close> passes it, and the
  forwarded path then leads out of \<open>v1\<close>, to the document the gate's comment says is not reachable.
\<close>

theorem encoded_dots_leave_v1:
  "gate sv \<lparr>q_method = ''GET'', q_path = Some [''v1'', ''%2e%2e'', ''openapi.json''], q_search = [],
      q_origin = None, q_host = None, q_content_type = None, q_body = []\<rparr>
      [''v1'', ''%2e%2e'', ''openapi.json''] = None
   \<and> routed_path (join ''/'' [''v1'', ''%2e%2e'', ''openapi.json'']) = [''openapi.json'']"
proof
  have "\<not> list_ex bad_segment [''v1'', ''%2e%2e'', ''openapi.json'']"
    and "\<not> List.member MUTATING_METHODS ''GET''" by code_simp+
  then show "gate sv \<lparr>q_method = ''GET'', q_path = Some [''v1'', ''%2e%2e'', ''openapi.json''], q_search = [],
      q_origin = None, q_host = None, q_content_type = None, q_body = []\<rparr>
      [''v1'', ''%2e%2e'', ''openapi.json''] = None"
    by (simp add: gate_unfold seg_def)
qed code_simp

subsection \<open>Runs\<close>

lemma run_fields [simp]:
  "q_path run_query = Some [''v1'', ''demo'', ''scenarios'', ''s1'']"
  "jar run_edge = Some ''dead''" "world run_edge = 0" "sent run_edge = []" "out_cookie run_edge = None"
  "sv_env run_services = [''CREDENCE_DEMO_TOKEN'' \<mapsto> ''d3mo'']"
  "sv_fetch run_services w u = (Some \<lparr>up_status = (if w = 0 then 401 else 200),
     up_content_type = Some ''application/json'', up_text = ''{}''\<rparr>, Suc w)"
  "sv_mint run_services w = (Inr ''fresh'', w)"
  "sv_body_read run_services q" "sv_text_read run_services up"
  by (simp_all add: run_query_def run_edge_def run_services_def)

lemma run_read [simp]: "\<not> body_lost run_services q"
  by (simp add: body_lost_def)

lemma run_gate: "gate run_services run_query [''v1'', ''demo'', ''scenarios'', ''s1''] = None"
  by code_simp

theorem stale_session_recovered_witness:
  "proxy run_services run_query run_edge
   = (relay run_services \<lparr>up_status = 200, up_content_type = Some ''application/json'', up_text = ''{}''\<rparr>,
      \<lparr>world = 2, jar = Some ''fresh'',
       out_cookie = Some (session_cookie [''CREDENCE_DEMO_TOKEN'' \<mapsto> ''d3mo''] ''fresh''),
       sent = run_requests\<rparr>)"
proof -
  have "proxy run_services run_query run_edge
   = (relay run_services \<lparr>up_status = 200, up_content_type = Some ''application/json'', up_text = ''{}''\<rparr>,
      \<lparr>world = Suc (Suc 0), jar = Some ''fresh'',
       out_cookie = Some (session_cookie (sv_env run_services) ''fresh''),
       sent = sent run_edge @ [upstream_of run_services run_query [''v1'', ''demo'', ''scenarios'', ''s1''] ''dead'',
         upstream_of run_services run_query [''v1'', ''demo'', ''scenarios'', ''s1''] ''fresh'']\<rparr>)"
    by (rule stale_session_recovered [OF _ run_gate run_read, where ?w1.0 = 1 and ?w2.0 = 1
          and up = "\<lparr>up_status = 401, up_content_type = Some ''application/json'', up_text = ''{}''\<rparr>"])
      simp_all
  then show ?thesis by (simp add: run_requests_def)
qed

lemma run_proxy: "\<exists>r st'. proxy run_services run_query run_edge = (r, st') \<and> sent st' = run_requests"
proof -
  have "sent (snd (proxy run_services run_query run_edge)) = run_requests"
    by (simp add: proxy_gated [OF run_read _ run_gate] resolveSession_def exchange_def send_def
        drop_session_def Let_def run_requests_def)
  then show ?thesis by (metis prod.collapse)
qed

theorem proxy_upstream_confined_witness:
  "\<exists>segs tok. q_path run_query = Some segs
    \<and> upstream_of run_services run_query [''v1'', ''demo'', ''scenarios'', ''s1''] ''fresh'' = upstream_of run_services run_query segs tok
    \<and> (\<exists>x. segs = [''v1'', ''demo'', ''scenarios'', x])"
proof -
  obtain r st' where run: "proxy run_services run_query run_edge = (r, st')" and "sent st' = run_requests"
    using run_proxy by blast
  then have "sent st' = sent run_edge @ run_requests" by simp
  from proxy_upstream_confined [OF run this,
      of "upstream_of run_services run_query [''v1'', ''demo'', ''scenarios'', ''s1''] ''fresh''"]
  show ?thesis by (force simp: run_requests_def seg_def)
qed

theorem proxy_retry_bounded_witness:
  "\<exists>segs. q_path run_query = Some segs \<and> sent (snd (proxy run_services run_query run_edge))
     = [upstream_of run_services run_query segs ''dead'', upstream_of run_services run_query segs ''fresh'']"
proof -
  obtain r st' where run: "proxy run_services run_query run_edge = (r, st')" and s: "sent st' = run_requests"
    using run_proxy by blast
  then have "sent st' \<noteq> sent run_edge" by (simp add: run_requests_def)
  from proxy_retry_bounded [OF run this] show ?thesis by (simp add: run renewed_def)
qed

theorem refused_without_effect_witness:
  "snd (proxy run_services (run_query\<lparr>q_origin := Some ''https://evil''\<rparr>) run_edge) = run_edge"
  using refused_without_effect [of "run_query\<lparr>q_origin := Some ''https://evil''\<rparr>"
      "[''v1'', ''demo'', ''scenarios'', ''s1'']" run_services run_edge]
  by (simp add: run_query_def isCrossSite_def run_services_def MUTATING_METHODS_def)

theorem routed_path_gated_witness:
  "routed_path (join ''/'' [''v1'', ''demo'', ''scenarios'', ''s1'']) = [''v1'', ''demo'', ''scenarios'', ''s1'']"
proof -
  have "list_all plain_segment [''v1'', ''demo'', ''scenarios'', ''s1'']" by code_simp
  from routed_path_gated [OF run_gate this] show ?thesis by (rule conjunct1)
qed

end
