(* ===== verification/Uri.thy ===== *)
theory Uri
  imports Prelude
begin

text \<open>
  The URL encodings of the standard library that the API client uses: \<open>encodeURIComponent\<close> and
  the \<open>application/x-www-form-urlencoded\<close> writer behind \<open>URLSearchParams\<close>, over the UTF-8 bytes
  of a string, and \<open>decodeURIComponent\<close>, which the router of the server applies to each segment and
  the breadcrumb to an id, with the inputs it throws on. The lemmas show that an encoded component
  is one path segment and that the encoding can be read back, so distinct identifiers never share a
  path.
\<close>

definition is_alnum :: "char \<Rightarrow> bool" where
  "is_alnum c \<longleftrightarrow> (let n = (of_char c :: nat) in
     (65 \<le> n \<and> n \<le> 90) \<or> (97 \<le> n \<and> n \<le> 122) \<or> (48 \<le> n \<and> n \<le> 57))"

definition unreserved :: "char \<Rightarrow> bool" where
  "unreserved c \<longleftrightarrow> is_alnum c \<or> List.member [CHR ''-'', CHR ''_'', CHR ''.'', CHR ''!'', CHR ''~'',
     CHR ''*'', APOS, CHR ''('', CHR '')''] c"

definition hex_digit :: "nat \<Rightarrow> char" where
  "hex_digit n = (if n < 10 then char_of (48 + n) else char_of (55 + n))"

definition percent_byte :: "nat \<Rightarrow> string" where
  "percent_byte b = [CHR ''%'', hex_digit (b div 16), hex_digit (b mod 16)]"

definition utf8 :: "nat \<Rightarrow> nat list" where
  "utf8 n = (if n < 0x80 then [n]
     else if n < 0x800 then [0xC0 + n div 64, 0x80 + n mod 64]
     else [0xE0 + n div 4096, 0x80 + n div 64 mod 64, 0x80 + n mod 64])"

definition encode_char :: "char \<Rightarrow> string" where
  "encode_char c = (if unreserved c then [c] else concat (map percent_byte (utf8 (code_point c))))"

definition encodeURIComponent :: "string \<Rightarrow> string" where
  "encodeURIComponent s = concat (map encode_char s)"

text \<open>\<open>new URLSearchParams(...).toString()\<close>.\<close>

definition form_char :: "char \<Rightarrow> string" where
  "form_char c = (if is_alnum c \<or> List.member [CHR ''*'', CHR ''-'', CHR ''.'', CHR ''_''] c then [c]
     else if c = CHR '' '' then ''+'' else concat (map percent_byte (utf8 (code_point c))))"

definition form_encode :: "string \<Rightarrow> string" where
  "form_encode s = concat (map form_char s)"

definition search_string :: "(string \<times> string) list \<Rightarrow> string" where
  "search_string ps = join ''&'' (map (\<lambda>(k, v). form_encode k @ ''='' @ form_encode v) ps)"

subsection \<open>Reading an encoded component back\<close>

definition hex_val :: "char \<Rightarrow> nat" where
  "hex_val c = (let n = of_char c in if n < 58 then n - 48 else if n < 91 then n - 55 else n - 87)"

fun percent_decode :: "string \<Rightarrow> nat list" where
  "percent_decode (c # a # b # s) =
     (if c = CHR ''%'' then (16 * hex_val a + hex_val b) # percent_decode s
      else code_point c # percent_decode (a # b # s))"
| "percent_decode (c # s) = code_point c # percent_decode s"
| "percent_decode [] = []"

fun utf8_decode :: "nat list \<Rightarrow> nat list" where
  "utf8_decode (b # bs) =
     (if b < 0x80 then b # utf8_decode bs
      else case bs of [] \<Rightarrow> [b]
      | b2 # bs2 \<Rightarrow>
          if b < 0xE0 then ((b - 0xC0) * 64 + (b2 - 0x80)) # utf8_decode bs2
          else (case bs2 of [] \<Rightarrow> [b, b2]
            | b3 # bs3 \<Rightarrow> ((b - 0xE0) * 4096 + (b2 - 0x80) * 64 + (b3 - 0x80)) # utf8_decode bs3))"
| "utf8_decode [] = []"

lemma hex_val_digit: "n < 16 \<Longrightarrow> hex_val (hex_digit n) = n"
  by (simp add: hex_val_def hex_digit_def Let_def)

lemma percent_decode_plain: "c \<noteq> CHR ''%'' \<Longrightarrow> percent_decode (c # s) = code_point c # percent_decode s"
  by (cases s rule: percent_decode.cases) simp_all

lemma percent_decode_byte: "b < 256 \<Longrightarrow> percent_decode (percent_byte b @ s) = b # percent_decode s"
  by (simp add: percent_byte_def hex_val_digit)

lemma percent_decode_bytes:
  "\<forall>b \<in> set bs. b < 256 \<Longrightarrow> percent_decode (concat (map percent_byte bs) @ s) = bs @ percent_decode s"
  by (induction bs) (simp_all add: percent_decode_byte)

lemma utf8_bytes: "n < 0x10000 \<Longrightarrow> \<forall>b \<in> set (utf8 n). b < 256"
proof -
  assume "n < 0x10000"
  then have "n div 4096 < 16" by simp
  moreover have "n div 64 mod 64 < 64" "n mod 64 < 64" by simp_all
  moreover have "n < 0x800 \<Longrightarrow> n div 64 < 32" by simp
  ultimately show ?thesis by (auto simp: utf8_def)
qed

lemma utf8_decode_utf8: "n < 0x10000 \<Longrightarrow> utf8_decode (utf8 n @ bs) = n # utf8_decode bs"
proof -
  assume n: "n < 0x10000"
  have split: "n = n div 4096 * 4096 + n div 64 mod 64 * 64 + n mod 64"
  proof -
    have "n = n div 64 * 64 + n mod 64" by simp
    moreover have "n div 64 = n div 64 div 64 * 64 + n div 64 mod 64" by simp
    moreover have "n div 64 div 64 = n div 4096" by (simp add: div_mult2_eq [symmetric])
    ultimately show ?thesis by linarith
  qed
  have two: "n < 0x800 \<Longrightarrow> n div 64 < 32" by simp
  have "n div 64 * 64 + n mod 64 = n" by simp
  then show ?thesis using split two by (auto simp: utf8_def)
qed

lemma of_char_neq: "256 \<le> n \<Longrightarrow> (of_char c :: nat) \<noteq> n"
  using nat_of_char_less_256 [of c] by linarith

lemma code_point_bound: "code_point c < 0x10000"
proof -
  have "(of_char c :: nat) < 0x10000" by (rule less_trans [OF nat_of_char_less_256]) simp
  then show ?thesis by (simp add: code_point_def)
qed

lemma unreserved_ascii:
  assumes "unreserved c"
  shows "code_point c < 0x80" and "c \<noteq> CHR ''%''"
proof -
  have "(of_char c :: nat) < 0x80 \<and> (of_char c :: nat) \<noteq> 37"
    using assms by (auto simp: unreserved_def is_alnum_def Let_def)
  then show "code_point c < 0x80" and "c \<noteq> CHR ''%''"
    by (auto simp: code_point_def)
qed

lemma percent_decode_char:
  "percent_decode (encode_char c @ s) = utf8 (code_point c) @ percent_decode s"
proof (cases "unreserved c")
  case True
  from unreserved_ascii [OF this] True show ?thesis
    by (simp add: encode_char_def percent_decode_plain utf8_def)
next
  case False
  then show ?thesis
    using percent_decode_bytes [OF utf8_bytes [OF code_point_bound]] by (simp add: encode_char_def)
qed

lemma decode_encode: "utf8_decode (percent_decode (encodeURIComponent s)) = map code_point s"
proof -
  have "percent_decode (encodeURIComponent s) = concat (map (\<lambda>c. utf8 (code_point c)) s)"
    by (induction s) (simp_all add: encodeURIComponent_def percent_decode_char)
  moreover have "utf8_decode (concat (map (\<lambda>c. utf8 (code_point c)) s)) = map code_point s"
    by (induction s) (simp_all add: utf8_decode_utf8 code_point_bound)
  ultimately show ?thesis by simp
qed

lemma inj_code_point: "inj code_point"
  by (rule injI) (auto simp: code_point_def of_char_neq split: if_splits)

lemma inj_encodeURIComponent: "inj encodeURIComponent"
proof (rule injI)
  fix s t assume "encodeURIComponent s = encodeURIComponent t"
  then have "map code_point s = map code_point t" using decode_encode by metis
  then show "s = t" using inj_code_point by (simp add: inj_map_eq_map)
qed

subsection \<open>An encoded component is one path segment\<close>

lemma hex_digit_alnum: "n < 16 \<Longrightarrow> is_alnum (hex_digit n)"
  by (auto simp: hex_digit_def is_alnum_def Let_def)

lemma encode_chars:
  "c \<in> set (encodeURIComponent s) \<Longrightarrow> unreserved c \<or> c = CHR ''%''"
proof -
  have bytes: "unreserved x \<or> x = CHR ''%''" if "x \<in> set (percent_byte b)" "b < 256" for x b
  proof -
    have "b div 16 < 16" "b mod 16 < 16" using that(2) by simp_all
    then have "is_alnum (hex_digit (b div 16))" "is_alnum (hex_digit (b mod 16))"
      by (simp_all add: hex_digit_alnum)
    then show ?thesis using that(1) by (auto simp: percent_byte_def unreserved_def)
  qed
  have "unreserved x \<or> x = CHR ''%''" if "x \<in> set (encode_char d)" for x d
    using that bytes utf8_bytes [OF code_point_bound] by (auto simp: encode_char_def split: if_splits)
  then show "c \<in> set (encodeURIComponent s) \<Longrightarrow> unreserved c \<or> c = CHR ''%''"
    by (auto simp: encodeURIComponent_def)
qed

subsection \<open>\<open>decodeURIComponent\<close>\<close>

definition is_hex :: "char \<Rightarrow> bool" where
  "is_hex c \<longleftrightarrow> (let n = (of_char c :: nat) in
     (48 \<le> n \<and> n \<le> 57) \<or> (65 \<le> n \<and> n \<le> 70) \<or> (97 \<le> n \<and> n \<le> 102))"

text \<open>One escape \<open>%XX\<close> at the head of the text.\<close>

fun take_escape :: "string \<Rightarrow> (nat \<times> string) option" where
  "take_escape (c # a # b # s) =
     (if c = CHR ''%'' \<and> is_hex a \<and> is_hex b then Some (16 * hex_val a + hex_val b, s) else None)"
| "take_escape _ = None"

text \<open>The \<open>k\<close> continuation bytes of a sequence, after the bits \<open>v\<close> read so far.\<close>

fun continuation :: "nat \<Rightarrow> nat \<Rightarrow> string \<Rightarrow> (nat \<times> string) option" where
  "continuation 0 v s = Some (v, s)"
| "continuation (Suc k) v s = (case take_escape s of None \<Rightarrow> None
     | Some (b, s') \<Rightarrow> if b div 64 = 2 then continuation k (v * 64 + b mod 64) s' else None)"

text \<open>The number of continuation bytes a first byte announces, its own bits, and the least point.\<close>

definition lead_byte :: "nat \<Rightarrow> (nat \<times> nat \<times> nat) option" where
  "lead_byte b = (if b < 0x80 then Some (0, b, 0) else if b < 0xC0 then None
     else if b < 0xE0 then Some (1, b - 0xC0, 0x80) else if b < 0xF0 then Some (2, b - 0xE0, 0x800)
     else if b < 0xF8 then Some (3, b - 0xF0, 0x10000) else None)"

definition escape_point :: "string \<Rightarrow> (nat \<times> string) option" where
  "escape_point s = (case take_escape s of None \<Rightarrow> None
     | Some (b, s') \<Rightarrow> (case lead_byte b of None \<Rightarrow> None
       | Some (k, v, least) \<Rightarrow> (case continuation k v s' of None \<Rightarrow> None
         | Some (p, r) \<Rightarrow> if p < least \<or> p > 0x10FFFF \<or> (0xD800 \<le> p \<and> p \<le> 0xDFFF) then None else Some (p, r))))"

lemma take_escape_length: "take_escape s = Some (b, r) \<Longrightarrow> length r < length s"
  by (cases s rule: take_escape.cases) (auto split: if_splits)

lemma continuation_length: "continuation k v s = Some (p, r) \<Longrightarrow> length r \<le> length s"
proof (induction k arbitrary: v s)
  case (Suc k)
  then obtain b s' where "take_escape s = Some (b, s')" and "continuation k (v * 64 + b mod 64) s' = Some (p, r)"
    by (auto split: option.splits if_splits)
  then show ?case using Suc.IH take_escape_length by (meson le_trans less_imp_le)
qed simp

lemma escape_point_length: "escape_point s = Some (p, r) \<Longrightarrow> length r < length s"
  by (fastforce simp: escape_point_def split: option.splits if_splits
      dest: take_escape_length continuation_length)

text \<open>The code points of the decoded text, or nothing where the function throws a \<open>URIError\<close>.\<close>

function decodeURIComponent :: "string \<Rightarrow> nat list option" where
  "decodeURIComponent [] = Some []"
| "decodeURIComponent (c # s) =
     (if c \<noteq> CHR ''%'' then map_option ((#) (code_point c)) (decodeURIComponent s)
      else case escape_point (c # s) of None \<Rightarrow> None
        | Some (p, r) \<Rightarrow> map_option ((#) p) (decodeURIComponent r))"
  by pat_completeness auto
termination
  by (relation "measure length") (auto dest: escape_point_length)

text \<open>A code point as a character of the model's page, where it has one.\<close>

definition point_char :: "nat \<Rightarrow> char option" where
  "point_char n = find (\<lambda>c. code_point c = n) (map char_of [0..<256])"

fun text_of_points :: "nat list \<Rightarrow> string option" where
  "text_of_points [] = Some []"
| "text_of_points (p # ps) = (case (point_char p, text_of_points ps) of
     (Some c, Some s) \<Rightarrow> Some (c # s) | _ \<Rightarrow> None)"

subsection \<open>Decoding undoes encoding\<close>

lemma is_hex_digit: "n < 16 \<Longrightarrow> is_hex (hex_digit n)"
  by (auto simp: is_hex_def hex_digit_def Let_def)

lemma take_escape_byte: "b < 256 \<Longrightarrow> take_escape (percent_byte b @ s) = Some (b, s)"
  by (simp add: percent_byte_def is_hex_digit hex_val_digit)

lemma code_point_plane: "code_point c < 0xD800"
proof -
  have "(of_char c :: nat) < 0xD800" by (rule less_trans [OF nat_of_char_less_256]) simp
  then show ?thesis by (simp add: code_point_def)
qed

lemma escape_point_utf8:
  assumes n: "n < 0xD800"
  shows "escape_point (concat (map percent_byte (utf8 n)) @ s) = Some (n, s)"
proof -
  have d: "n div 4096 < 14" "n div 64 mod 64 < 64" "n mod 64 < 64" using n by simp_all
  have join2: "n div 64 * 64 + n mod 64 = n" by simp
  have join3: "(n div 4096 * 64 + n div 64 mod 64) * 64 + n mod 64 = n"
  proof -
    have "n div 4096 = n div 64 div 64" by (simp add: div_mult2_eq [symmetric])
    then have "n div 4096 * 64 + n div 64 mod 64 = n div 64" by simp
    then show ?thesis using join2 by simp
  qed
  have head: "take_escape (percent_byte b @ t) = Some (b, t)" if "b < 256" for b t
    by (rule take_escape_byte [OF that])
  have tail: "0x80 + m < 256" "(0x80 + m) div 64 = 2" "(0x80 + m) mod 64 = m" if m: "m < 64" for m :: nat
  proof -
    have e: "0x80 + m = m + 2 * 64" by simp
    show "0x80 + m < 256" "(0x80 + m) div 64 = 2" using m by simp_all
    show "(0x80 + m) mod 64 = m" unfolding e using m by (simp only: mod_mult_self1 mod_less)
  qed
  note b3 = tail [OF d(3)]
  consider "n < 0x80" | "0x80 \<le> n" "n < 0x800" | "0x800 \<le> n" by linarith
  then show ?thesis
  proof cases
    case 1
    then show ?thesis by (simp add: utf8_def escape_point_def head lead_byte_def)
  next
    case 2
    then have b1: "0xC0 + n div 64 < 256" "\<not> 0xC0 + n div 64 < 0xC0" "0xC0 + n div 64 < 0xE0" by simp_all
    have lead: "lead_byte (0xC0 + n div 64) = Some (1, n div 64, 0x80)" using b1 by (simp add: lead_byte_def)
    have cont: "continuation 1 v (percent_byte (0x80 + n mod 64) @ s) = Some (v * 64 + n mod 64, s)" for v
      by (simp only: One_nat_def continuation.simps head [OF b3(1)] option.case prod.case b3(2,3) if_True refl)
    have u: "concat (map percent_byte (utf8 n)) @ s = percent_byte (0xC0 + n div 64) @ percent_byte (0x80 + n mod 64) @ s"
      using 2 by (simp add: utf8_def)
    show ?thesis unfolding u escape_point_def head [OF b1(1)] option.case prod.case lead cont join2
      using 2 by simp
  next
    case 3
    have b1: "0xE0 + n div 4096 < 256" "\<not> 0xE0 + n div 4096 < 0xE0" "0xE0 + n div 4096 < 0xF0" using d by simp_all
    note b2 = tail [OF d(2)]
    have lead: "lead_byte (0xE0 + n div 4096) = Some (2, n div 4096, 0x800)" using b1 by (simp add: lead_byte_def)
    have cont: "continuation 2 v (percent_byte (0x80 + n div 64 mod 64) @ percent_byte (0x80 + n mod 64) @ s)
        = Some ((v * 64 + n div 64 mod 64) * 64 + n mod 64, s)" for v
      by (simp only: numeral_2_eq_2 continuation.simps head [OF b2(1)] head [OF b3(1)] option.case prod.case
          b2(2,3) b3(2,3) if_True refl)
    have u: "concat (map percent_byte (utf8 n)) @ s = percent_byte (0xE0 + n div 4096)
        @ percent_byte (0x80 + n div 64 mod 64) @ percent_byte (0x80 + n mod 64) @ s"
      using 3 by (simp add: utf8_def)
    show ?thesis unfolding u escape_point_def head [OF b1(1)] option.case prod.case lead cont join3
      using n 3 by simp
  qed
qed

lemma decode_char: "decodeURIComponent (encode_char c @ s) = map_option ((#) (code_point c)) (decodeURIComponent s)"
proof (cases "unreserved c")
  case True
  then show ?thesis using unreserved_ascii by (simp add: encode_char_def)
next
  case False
  have "\<exists>t. concat (map percent_byte (utf8 n)) @ s = CHR ''%'' # t" for n
    by (simp add: utf8_def percent_byte_def)
  then obtain t where t: "concat (map percent_byte (utf8 (code_point c))) @ s = CHR ''%'' # t" by blast
  then show ?thesis
    using False escape_point_utf8 [OF code_point_plane, of c s] by (simp add: encode_char_def)
qed

lemma decode_encoded: "decodeURIComponent (encodeURIComponent s) = Some (map code_point s)"
proof (induction s)
  case (Cons c s)
  have "encodeURIComponent (c # s) = encode_char c @ encodeURIComponent s" by (simp add: encodeURIComponent_def)
  then show ?case using Cons by (simp add: decode_char)
qed (simp add: encodeURIComponent_def)

lemma point_char_code_point: "point_char (code_point c) = Some c"
proof -
  have "c = char_of (of_char c :: nat)" by simp
  then have "c \<in> set (map char_of [0..<256])" using nat_of_char_less_256 [of c]
    by (metis atLeastLessThan_upt atLeastLessThan_iff image_eqI list.set_map zero_le)
  then have "find (\<lambda>d. code_point d = code_point c) (map char_of [0..<256]) \<noteq> None"
    by (auto simp: find_None_iff)
  then obtain d where d: "find (\<lambda>d. code_point d = code_point c) (map char_of [0..<256]) = Some d" by auto
  then have "code_point d = code_point c" by (auto simp: find_Some_iff)
  then have "d = c" by (rule injD [OF inj_code_point])
  then show ?thesis using d by (simp add: point_char_def)
qed

lemma text_of_code_points: "text_of_points (map code_point s) = Some s"
  by (induction s) (simp_all add: point_char_code_point)

end
