(* ===== verification/Api.thy ===== *)
theory Api
  imports Types Uri Proxy
begin

text \<open>
  \<open>frontend/lib/api.ts\<close>: the browser's client of the API. An endpoint function is modelled by the
  \<open>call\<close> it makes (method, path below \<open>BASE\<close>, JSON body) and \<open>request\<close> by what it makes of the
  outcome of the fetch: the parsed body, or an \<open>ApiError\<close>; an answer that arrived is taken to be
  readable to its end. A request body is a record with the source's fields and its JSON object;
  \<open>stringify_value\<close> is what \<open>JSON.stringify\<close> puts on the wire.
\<close>

definition BASE :: string where "BASE = ''/api/credence''"

record ApiError =
  ae_status :: int
  ae_code :: string
  ae_detail :: string

record call =
  cl_method :: string
  cl_path :: string
  cl_headers :: "(string \<times> string) list"
  cl_json :: "json option"

datatype fetch_outcome = FetchRejected | FetchAnswer int string

definition toApiError :: "int \<Rightarrow> json \<Rightarrow> ApiError" where
  "toApiError status b =
     \<lparr>ae_status = status,
      ae_code = (case as_string (member ''code'' (member ''error'' b)) of
          Some c \<Rightarrow> c | None \<Rightarrow> ''REQUEST_FAILED''),
      ae_detail = (case as_string (member ''detail'' (member ''error'' b)) of Some d \<Rightarrow> d
        | None \<Rightarrow> (case as_string (member ''detail'' b) of Some d \<Rightarrow> d
          | None \<Rightarrow> if status = 404 then ''That record could not be found.''
              else if status = 401 \<or> status = 403 then ''This workspace is not authorised to view that.''
              else ''Something went wrong while loading this.''))\<rparr>"

definition offline :: ApiError where
  "offline = \<lparr>ae_status = 0, ae_code = ''OFFLINE'',
     ae_detail = ''Could not reach CredenceAI. Check your connection.''\<rparr>"

definition parsed_body :: "(string \<Rightarrow> json option) \<Rightarrow> string \<Rightarrow> json" where
  "parsed_body parse txt =
     (if txt = [] then JNull else case parse txt of None \<Rightarrow> JNull | Some v \<Rightarrow> v)"

fun request :: "(string \<Rightarrow> json option) \<Rightarrow> fetch_outcome \<Rightarrow> ApiError + json" where
  "request parse FetchRejected = Inl offline"
| "request parse (FetchAnswer status txt) =
     (let body = parsed_body parse txt
      in if \<not> status_ok status then Inl (toApiError status body) else Inr body)"

definition get :: "string \<Rightarrow> call" where
  "get path = \<lparr>cl_method = ''GET'', cl_path = path,
     cl_headers = [(''Accept'', ''application/json'')], cl_json = None\<rparr>"

definition post :: "string \<Rightarrow> json option \<Rightarrow> call" where
  "post path json = \<lparr>cl_method = ''POST'', cl_path = path,
     cl_headers = [(''Accept'', ''application/json'')]
       @ (if json = None then [] else [(''Content-Type'', ''application/json'')]),
     cl_json = map_option stringify_value json\<rparr>"

definition qs :: "(string \<times> string option) list \<Rightarrow> string" where
  "qs params =
     (let search = map (\<lambda>(k, v). (k, the v)) (filter (\<lambda>(k, v). v \<noteq> None \<and> v \<noteq> Some []) params);
          s = search_string search
      in if s = [] then [] else CHR ''?'' # s)"

subsection \<open>Identity\<close>

definition getMe :: call where "getMe = get ''/v1/me''"
definition listAgents :: call where "listAgents = get ''/v1/agents''"

definition getAgentProfile :: "string \<Rightarrow> call" where
  "getAgentProfile agentId = get (''/v1/agents/'' @ encodeURIComponent agentId @ ''/profile'')"

definition verifyPassport :: "string \<Rightarrow> call" where
  "verifyPassport agentId = get (''/v1/agents/'' @ encodeURIComponent agentId @ ''/passport/verify'')"

subsection \<open>Work\<close>

definition listTasks :: call where "listTasks = get ''/v1/tasks''"

definition listEvidence :: "string \<Rightarrow> call" where
  "listEvidence taskId = get (''/v1/tasks/'' @ encodeURIComponent taskId @ ''/evidence'')"

definition listCreditApplications :: call where
  "listCreditApplications = get ''/v1/credit-applications''"

definition getUnderwriting :: "string \<Rightarrow> call" where
  "getUnderwriting applicationId =
     get (''/v1/credit-applications/'' @ encodeURIComponent applicationId @ ''/underwriting'')"

definition getUnderwritingQueue :: call where
  "getUnderwritingQueue = get ''/v1/underwriting/queue''"

datatype ReviewAction = APPROVE | REDUCE | REJECT

fun action_text :: "ReviewAction \<Rightarrow> string" where
  "action_text APPROVE = ''APPROVE''"
| "action_text REDUCE = ''REDUCE''"
| "action_text REJECT = ''REJECT''"

record ReviewBody =
  rb_action :: ReviewAction
  rb_amount_minor :: "jsnum option"
  rb_notes :: "string option"

definition review_json :: "ReviewBody \<Rightarrow> json" where
  "review_json b = JObj ((''action'', JStr (action_text (rb_action b)))
     # opt_field ''amount_minor'' JNum (rb_amount_minor b) @ opt_field ''notes'' JStr (rb_notes b))"

definition reviewApplication :: "string \<Rightarrow> ReviewBody \<Rightarrow> call" where
  "reviewApplication applicationId b =
     post (''/v1/credit-applications/'' @ encodeURIComponent applicationId @ ''/review'')
       (Some (review_json b))"

subsection \<open>Onboarding\<close>

record AgentBody =
  ab_name :: string
  ab_model_provider :: string
  ab_model_name :: string
  ab_model_version_hash :: string

definition createAgent :: "AgentBody \<Rightarrow> call" where
  "createAgent b = post ''/v1/agents'' (Some (JObj [(''name'', JStr (ab_name b)),
     (''model_provider'', JStr (ab_model_provider b)), (''model_name'', JStr (ab_model_name b)),
     (''model_version_hash'', JStr (ab_model_version_hash b))]))"

record PassportBody =
  pb_purpose :: string
  pb_permitted_task_categories :: "string list"
  pb_max_borrowing_authority_minor :: jsnum
  pb_max_transaction_value_minor :: jsnum
  pb_approved_vendor_ids :: "string list option"
  pb_ttl_hours :: "jsnum option"

definition issuePassport :: "string \<Rightarrow> PassportBody \<Rightarrow> call" where
  "issuePassport agentId b =
     post (''/v1/agents/'' @ encodeURIComponent agentId @ ''/passport'') (Some (JObj
       ([(''purpose'', JStr (pb_purpose b)),
         (''permitted_task_categories'', str_array (pb_permitted_task_categories b)),
         (''max_borrowing_authority_minor'', JNum (pb_max_borrowing_authority_minor b)),
         (''max_transaction_value_minor'', JNum (pb_max_transaction_value_minor b))]
        @ opt_field ''approved_vendor_ids'' str_array (pb_approved_vendor_ids b)
        @ opt_field ''ttl_hours'' JNum (pb_ttl_hours b))))"

record TaskBody =
  tb_agent_id :: string
  tb_title :: string
  tb_description :: "string option"
  tb_category :: string
  tb_expected_revenue_minor :: jsnum
  tb_expected_cost_minor :: jsnum
  tb_currency :: "string option"

definition createTask :: "TaskBody \<Rightarrow> call" where
  "createTask b = post ''/v1/tasks'' (Some (JObj
     ([(''agent_id'', JStr (tb_agent_id b)), (''title'', JStr (tb_title b))]
      @ opt_field ''description'' JStr (tb_description b)
      @ [(''category'', JStr (tb_category b)),
         (''expected_revenue_minor'', JNum (tb_expected_revenue_minor b)),
         (''expected_cost_minor'', JNum (tb_expected_cost_minor b))]
      @ opt_field ''currency'' JStr (tb_currency b))))"

record EvidenceBody =
  eb_evidence_type :: string
  eb_content_text :: string
  eb_source :: "string option"

definition addEvidence :: "string \<Rightarrow> EvidenceBody \<Rightarrow> call" where
  "addEvidence taskId b =
     post (''/v1/tasks/'' @ encodeURIComponent taskId @ ''/evidence'') (Some (JObj
       ([(''evidence_type'', JStr (eb_evidence_type b)), (''content_text'', JStr (eb_content_text b))]
        @ opt_field ''source'' JStr (eb_source b))))"

definition createRevenueMandate :: "string \<Rightarrow> jsnum \<Rightarrow> call" where
  "createRevenueMandate taskId reserve_cap_minor =
     post (''/v1/tasks/'' @ encodeURIComponent taskId @ ''/revenue-mandate'')
       (Some (JObj [(''reserve_cap_minor'', JNum reserve_cap_minor)]))"

record ApplicationBody =
  apb_agent_id :: string
  apb_task_id :: string
  apb_requested_minor :: jsnum
  apb_requested_duration_hours :: jsnum
  apb_expected_revenue_minor :: jsnum
  apb_expected_cost_minor :: jsnum
  apb_owner_exposure_cap_minor :: jsnum
  apb_proposed_vendor_ids :: "string list"
  apb_currency :: "string option"

definition createApplication :: "ApplicationBody \<Rightarrow> call" where
  "createApplication b = post ''/v1/credit-applications'' (Some (JObj
     ([(''agent_id'', JStr (apb_agent_id b)), (''task_id'', JStr (apb_task_id b)),
       (''requested_minor'', JNum (apb_requested_minor b)),
       (''requested_duration_hours'', JNum (apb_requested_duration_hours b)),
       (''expected_revenue_minor'', JNum (apb_expected_revenue_minor b)),
       (''expected_cost_minor'', JNum (apb_expected_cost_minor b)),
       (''owner_exposure_cap_minor'', JNum (apb_owner_exposure_cap_minor b)),
       (''proposed_vendor_ids'', str_array (apb_proposed_vendor_ids b))]
      @ opt_field ''currency'' JStr (apb_currency b))))"

definition evaluateApplication :: "string \<Rightarrow> call" where
  "evaluateApplication applicationId =
     post (''/v1/credit-applications/'' @ encodeURIComponent applicationId @ ''/evaluate'') None"

definition createVault :: "string \<Rightarrow> jsnum \<Rightarrow> call" where
  "createVault application_id per_transaction_limit_minor =
     post ''/v1/vaults'' (Some (JObj [(''application_id'', JStr application_id),
       (''per_transaction_limit_minor'', JNum per_transaction_limit_minor)]))"

subsection \<open>Vaults, transactions, repayments\<close>

definition listVaults :: call where "listVaults = get ''/v1/vaults''"

definition getVaultDetail :: "string \<Rightarrow> call" where
  "getVaultDetail vaultId = get (''/v1/vaults/'' @ encodeURIComponent vaultId @ ''/detail'')"

definition freezeVault :: "string \<Rightarrow> string \<Rightarrow> call" where
  "freezeVault vaultId reason =
     post (''/v1/vaults/'' @ encodeURIComponent vaultId @ ''/freeze'')
       (Some (JObj [(''reason'', JStr reason)]))"

definition closeVault :: "string \<Rightarrow> call" where
  "closeVault vaultId = post (''/v1/vaults/'' @ encodeURIComponent vaultId @ ''/close'') None"

record TransactionFilters =
  tf_status :: "string option"
  tf_vault_id :: "string option"
  tf_agent_id :: "string option"

definition listTransactions :: "TransactionFilters \<Rightarrow> call" where
  "listTransactions filters = get (''/v1/transactions'' @
     qs [(''status'', tf_status filters), (''vault_id'', tf_vault_id filters),
         (''agent_id'', tf_agent_id filters)])"

definition getTransaction :: "string \<Rightarrow> call" where
  "getTransaction proposalId = get (''/v1/transactions/'' @ encodeURIComponent proposalId)"

definition listRepayments :: call where "listRepayments = get ''/v1/repayments''"

record RevenueBody =
  vb_amount_minor :: jsnum
  vb_external_event_id :: string
  vb_task_completed :: bool
  vb_currency :: "string option"

definition receiveRevenue :: "string \<Rightarrow> RevenueBody \<Rightarrow> call" where
  "receiveRevenue vaultId b =
     post (''/v1/vaults/'' @ encodeURIComponent vaultId @ ''/revenue'') (Some (JObj
       ([(''amount_minor'', JNum (vb_amount_minor b)),
         (''external_event_id'', JStr (vb_external_event_id b)),
         (''task_completed'', JBool (vb_task_completed b))]
        @ opt_field ''currency'' JStr (vb_currency b))))"

definition simulateFailure :: "string \<Rightarrow> call" where
  "simulateFailure vaultId =
     post (''/v1/vaults/'' @ encodeURIComponent vaultId @ ''/simulate-failure'') None"

subsection \<open>Risk, audit, dashboard, system\<close>

definition getRiskSummary :: call where "getRiskSummary = get ''/v1/risk/summary''"
definition listRiskEvents :: call where "listRiskEvents = get ''/v1/risk/events''"
definition listAuditEvents :: call where "listAuditEvents = get ''/v1/audit/events''"
definition verifyAuditChain :: call where "verifyAuditChain = get ''/v1/audit/chain/verify''"
definition getLabels :: call where "getLabels = get ''/v1/audit/labels''"
definition getDashboardSummary :: call where "getDashboardSummary = get ''/v1/dashboard/summary''"

definition getActivity :: "jsnum option \<Rightarrow> call" where
  "getActivity limit = get (''/v1/dashboard/activity''
     @ qs [(''limit'', Some (to_string (case limit of None \<Rightarrow> Fin 20 | Some n \<Rightarrow> n)))])"

definition getExposureSeries :: "jsnum option \<Rightarrow> call" where
  "getExposureSeries days = get (''/v1/dashboard/exposure-series''
     @ qs [(''days'', Some (to_string (case days of None \<Rightarrow> Fin 14 | Some n \<Rightarrow> n)))])"

definition getPolicyParameters :: call where "getPolicyParameters = get ''/v1/policy/parameters''"
definition listVendors :: call where "listVendors = get ''/v1/vendors''"
definition getReadiness :: call where "getReadiness = get ''/v1/health/ready''"
definition getEvaluationMetrics :: call where "getEvaluationMetrics = get ''/v1/metrics/evaluation''"

definition runScenario :: "ScenarioName \<Rightarrow> call" where
  "runScenario name = post (''/v1/demo/scenarios/'' @ scenario_text name) None"

definition getSystemIntelligence :: "SystemIntelligenceWindow option \<Rightarrow> call" where
  "getSystemIntelligence window = get (''/v1/system-intelligence''
     @ qs [(''window'', Some (window_text (case window of None \<Rightarrow> W_24h | Some w \<Rightarrow> w)))])"

subsection \<open>Voice\<close>

definition getVoiceStatus :: call where "getVoiceStatus = get ''/v1/voice/status''"

definition getDecisionScript :: "string \<Rightarrow> call" where
  "getDecisionScript applicationId =
     get (''/v1/voice/decisions/'' @ encodeURIComponent applicationId @ ''/script'')"

definition narration_call :: "string \<Rightarrow> call" where
  "narration_call applicationId = \<lparr>cl_method = ''POST'',
     cl_path = ''/v1/voice/decisions/'' @ encodeURIComponent applicationId,
     cl_headers = [], cl_json = None\<rparr>"

text \<open>The body of a successful narration is its bytes; \<open>response.json()\<close> rejects when it is not JSON.\<close>

fun fetchDecisionNarration :: "(string \<Rightarrow> json option) \<Rightarrow> fetch_outcome \<Rightarrow> ApiError + string" where
  "fetchDecisionNarration parse FetchRejected = Inl offline"
| "fetchDecisionNarration parse (FetchAnswer status txt) =
     (if \<not> status_ok status
      then Inl (toApiError status (case parse txt of None \<Rightarrow> JNull | Some v \<Rightarrow> v))
      else Inr txt)"

subsection \<open>The surface the client calls\<close>

text \<open>
  An identifier that the proxy can hand on: not blank, not a dot segment, without a separator, a
  query or fragment mark, a space, a control character or a percent sign. The identifiers of the
  backend's records are such; what becomes of others is \<open>escaped_ids_lost\<close>.
\<close>

definition plain_id :: "string \<Rightarrow> bool" where
  "plain_id i \<longleftrightarrow> i \<noteq> [] \<and> plain_segment i \<and> CHR ''%'' \<notin> set i"

inductive endpoint_call :: "call \<Rightarrow> bool" where
  "endpoint_call getMe"
| "endpoint_call listAgents"
| "endpoint_call listTasks"
| "endpoint_call listCreditApplications"
| "endpoint_call getUnderwritingQueue"
| "endpoint_call listVaults"
| "endpoint_call listRepayments"
| "endpoint_call getRiskSummary"
| "endpoint_call listRiskEvents"
| "endpoint_call listAuditEvents"
| "endpoint_call verifyAuditChain"
| "endpoint_call getLabels"
| "endpoint_call getDashboardSummary"
| "endpoint_call getPolicyParameters"
| "endpoint_call listVendors"
| "endpoint_call getReadiness"
| "endpoint_call getEvaluationMetrics"
| "endpoint_call getVoiceStatus"
| "endpoint_call (createAgent x)"
| "endpoint_call (createTask x)"
| "endpoint_call (createApplication x)"
| "endpoint_call (listTransactions x)"
| "endpoint_call (getActivity x)"
| "endpoint_call (getExposureSeries x)"
| "endpoint_call (runScenario x)"
| "endpoint_call (getSystemIntelligence x)"
| "endpoint_call (createVault x y)"
| "plain_id i \<Longrightarrow> endpoint_call (getAgentProfile i)"
| "plain_id i \<Longrightarrow> endpoint_call (verifyPassport i)"
| "plain_id i \<Longrightarrow> endpoint_call (listEvidence i)"
| "plain_id i \<Longrightarrow> endpoint_call (getUnderwriting i)"
| "plain_id i \<Longrightarrow> endpoint_call (evaluateApplication i)"
| "plain_id i \<Longrightarrow> endpoint_call (getVaultDetail i)"
| "plain_id i \<Longrightarrow> endpoint_call (closeVault i)"
| "plain_id i \<Longrightarrow> endpoint_call (getTransaction i)"
| "plain_id i \<Longrightarrow> endpoint_call (simulateFailure i)"
| "plain_id i \<Longrightarrow> endpoint_call (getDecisionScript i)"
| "plain_id i \<Longrightarrow> endpoint_call (narration_call i)"
| "plain_id i \<Longrightarrow> endpoint_call (addEvidence i x)"
| "plain_id i \<Longrightarrow> endpoint_call (createRevenueMandate i x)"
| "plain_id i \<Longrightarrow> endpoint_call (freezeVault i x)"
| "plain_id i \<Longrightarrow> endpoint_call (issuePassport i x)"
| "plain_id i \<Longrightarrow> endpoint_call (receiveRevenue i x)"
| "plain_id i \<Longrightarrow> endpoint_call (reviewApplication i x)"

lemmas endpoint_defs =
  getMe_def listAgents_def listTasks_def listCreditApplications_def getUnderwritingQueue_def
  listVaults_def listRepayments_def getRiskSummary_def listRiskEvents_def listAuditEvents_def
  verifyAuditChain_def getLabels_def getDashboardSummary_def getPolicyParameters_def
  listVendors_def getReadiness_def getEvaluationMetrics_def getVoiceStatus_def createAgent_def
  createTask_def createApplication_def listTransactions_def getActivity_def getExposureSeries_def
  runScenario_def getSystemIntelligence_def createVault_def getAgentProfile_def
  verifyPassport_def listEvidence_def getUnderwriting_def evaluateApplication_def
  getVaultDetail_def closeVault_def getTransaction_def simulateFailure_def getDecisionScript_def
  narration_call_def addEvidence_def createRevenueMandate_def freezeVault_def issuePassport_def
  receiveRevenue_def reviewApplication_def

text \<open>
  The segments of a call's path as the client writes them, and as the handler of the proxy gets them:
  the router decodes each parameter of a catch-all route. (A segment that does not decode, or not to
  characters of the model, stays as it is here; an encoded component always decodes.)
\<close>

definition raw_segments :: "call \<Rightarrow> string list" where
  "raw_segments c = split_on (CHR ''/'') (takeWhile (\<lambda>x. x \<noteq> CHR ''?'') (tl (cl_path c)))"

definition route_param :: "string \<Rightarrow> string" where
  "route_param s = (case decodeURIComponent s of None \<Rightarrow> s
     | Some ps \<Rightarrow> (case text_of_points ps of None \<Rightarrow> s | Some t \<Rightarrow> t))"

definition call_segments :: "call \<Rightarrow> string list" where
  "call_segments c = map route_param (raw_segments c)"

lemma plain_segment_literals:
  "plain_segment ''activity''" "plain_segment ''agents''" "plain_segment ''audit''"
  "plain_segment ''chain''" "plain_segment ''close''" "plain_segment ''credit-applications''"
  "plain_segment ''dashboard''" "plain_segment ''decisions''" "plain_segment ''demo''"
  "plain_segment ''detail''" "plain_segment ''evaluate''" "plain_segment ''evaluation''"
  "plain_segment ''events''" "plain_segment ''evidence''" "plain_segment ''exposure-series''"
  "plain_segment ''freeze''" "plain_segment ''happy-path''" "plain_segment ''health''"
  "plain_segment ''labels''" "plain_segment ''me''" "plain_segment ''metrics''" "plain_segment
  ''overspend''" "plain_segment ''parameters''" "plain_segment ''passport''" "plain_segment
  ''policy''" "plain_segment ''profile''" "plain_segment ''queue''" "plain_segment ''ready''"
  "plain_segment ''repayments''" "plain_segment ''revenue''" "plain_segment ''revenue-mandate''"
  "plain_segment ''review''" "plain_segment ''revoke-mid-task''" "plain_segment ''risk''"
  "plain_segment ''scenarios''" "plain_segment ''script''" "plain_segment ''simulate-failure''"
  "plain_segment ''split-payment''" "plain_segment ''status''" "plain_segment ''summary''"
  "plain_segment ''system-intelligence''" "plain_segment ''task-failure''" "plain_segment
  ''tasks''" "plain_segment ''transactions''" "plain_segment ''unapproved-vendor''"
  "plain_segment ''underwriting''" "plain_segment ''v1''" "plain_segment ''vaults''"
  "plain_segment ''vendors''" "plain_segment ''verify''" "plain_segment ''voice''"
  by code_simp+

lemma encoded_literals:
  "encodeURIComponent ''activity'' = ''activity''" "encodeURIComponent ''agents'' = ''agents''"
  "encodeURIComponent ''audit'' = ''audit''" "encodeURIComponent ''chain'' = ''chain''"
  "encodeURIComponent ''close'' = ''close''"
  "encodeURIComponent ''credit-applications'' = ''credit-applications''"
  "encodeURIComponent ''dashboard'' = ''dashboard''"
  "encodeURIComponent ''decisions'' = ''decisions''" "encodeURIComponent ''demo'' = ''demo''"
  "encodeURIComponent ''detail'' = ''detail''" "encodeURIComponent ''evaluate'' = ''evaluate''"
  "encodeURIComponent ''evaluation'' = ''evaluation''"
  "encodeURIComponent ''events'' = ''events''" "encodeURIComponent ''evidence'' = ''evidence''"
  "encodeURIComponent ''exposure-series'' = ''exposure-series''"
  "encodeURIComponent ''freeze'' = ''freeze''"
  "encodeURIComponent ''happy-path'' = ''happy-path''"
  "encodeURIComponent ''health'' = ''health''" "encodeURIComponent ''labels'' = ''labels''"
  "encodeURIComponent ''me'' = ''me''" "encodeURIComponent ''metrics'' = ''metrics''"
  "encodeURIComponent ''overspend'' = ''overspend''"
  "encodeURIComponent ''parameters'' = ''parameters''"
  "encodeURIComponent ''passport'' = ''passport''" "encodeURIComponent ''policy'' = ''policy''"
  "encodeURIComponent ''profile'' = ''profile''" "encodeURIComponent ''queue'' = ''queue''"
  "encodeURIComponent ''ready'' = ''ready''" "encodeURIComponent ''repayments'' = ''repayments''"
  "encodeURIComponent ''revenue'' = ''revenue''"
  "encodeURIComponent ''revenue-mandate'' = ''revenue-mandate''"
  "encodeURIComponent ''review'' = ''review''"
  "encodeURIComponent ''revoke-mid-task'' = ''revoke-mid-task''"
  "encodeURIComponent ''risk'' = ''risk''" "encodeURIComponent ''scenarios'' = ''scenarios''"
  "encodeURIComponent ''script'' = ''script''"
  "encodeURIComponent ''simulate-failure'' = ''simulate-failure''"
  "encodeURIComponent ''split-payment'' = ''split-payment''"
  "encodeURIComponent ''status'' = ''status''" "encodeURIComponent ''summary'' = ''summary''"
  "encodeURIComponent ''system-intelligence'' = ''system-intelligence''"
  "encodeURIComponent ''task-failure'' = ''task-failure''"
  "encodeURIComponent ''tasks'' = ''tasks''"
  "encodeURIComponent ''transactions'' = ''transactions''"
  "encodeURIComponent ''unapproved-vendor'' = ''unapproved-vendor''"
  "encodeURIComponent ''underwriting'' = ''underwriting''" "encodeURIComponent ''v1'' = ''v1''"
  "encodeURIComponent ''vaults'' = ''vaults''" "encodeURIComponent ''vendors'' = ''vendors''"
  "encodeURIComponent ''verify'' = ''verify''" "encodeURIComponent ''voice'' = ''voice''"
  by code_simp+

lemma route_param_encoded [simp]: "route_param (encodeURIComponent i) = i"
  by (simp add: route_param_def decode_encoded text_of_code_points)

lemma route_param_literal: "encodeURIComponent s = s \<Longrightarrow> route_param s = s"
  using route_param_encoded [of s] by simp

lemmas route_literals = encoded_literals [THEN route_param_literal]

lemma encoded_safe: "c \<in> set (encodeURIComponent i) \<Longrightarrow> plain_char c"
proof -
  assume "c \<in> set (encodeURIComponent i)"
  then have "unreserved c \<or> c = CHR ''%''" by (rule encode_chars)
  then show ?thesis
    by (auto simp: plain_char_def unreserved_def is_alnum_def Let_def)
qed

lemma plain_id_segment: "plain_id i \<Longrightarrow> plain_segment i"
  by (simp add: plain_id_def)

lemma takeWhile_encoded [simp]:
  "takeWhile (\<lambda>x. x \<noteq> CHR ''?'') (encodeURIComponent i @ s)
    = encodeURIComponent i @ takeWhile (\<lambda>x. x \<noteq> CHR ''?'') s"
  "takeWhile (\<lambda>x. x \<noteq> CHR ''?'') (encodeURIComponent i) = encodeURIComponent i"
proof -
  have "x \<noteq> CHR ''?''" if "x \<in> set (encodeURIComponent i)" for x
    using encoded_safe [OF that] by (simp add: plain_char_def)
  then show "takeWhile (\<lambda>x. x \<noteq> CHR ''?'') (encodeURIComponent i @ s)
      = encodeURIComponent i @ takeWhile (\<lambda>x. x \<noteq> CHR ''?'') s"
    "takeWhile (\<lambda>x. x \<noteq> CHR ''?'') (encodeURIComponent i) = encodeURIComponent i"
    by (simp_all add: takeWhile_eq_all_conv)
qed

lemma split_on_prefix:
  "d \<notin> set w \<Longrightarrow> split_on d (w @ s) = (w @ hd (split_on d s)) # tl (split_on d s)"
  by (induction w) (auto split: list.split)

lemma split_encoded [simp]:
  "split_on (CHR ''/'') (encodeURIComponent i @ s)
    = (encodeURIComponent i @ hd (split_on (CHR ''/'') s)) # tl (split_on (CHR ''/'') s)"
  "split_on (CHR ''/'') (encodeURIComponent i) = [encodeURIComponent i]"
proof -
  have "CHR ''/'' \<notin> set (encodeURIComponent i)"
    using encoded_safe [of "CHR ''/''" i] by (auto simp: plain_char_def)
  then show "split_on (CHR ''/'') (encodeURIComponent i @ s)
      = (encodeURIComponent i @ hd (split_on (CHR ''/'') s)) # tl (split_on (CHR ''/'') s)"
    "split_on (CHR ''/'') (encodeURIComponent i) = [encodeURIComponent i]"
    by (simp_all add: split_on_prefix split_on_no_sep)
qed

lemma takeWhile_qs [simp]: "takeWhile (\<lambda>x. x \<noteq> CHR ''?'') (qs ps) = []"
  by (simp add: qs_def Let_def)

text \<open>What the gate asks of a path.\<close>

definition served_path :: "string list \<Rightarrow> bool" where
  "served_path segs \<longleftrightarrow> list_all plain_segment segs \<and> seg segs 0 = Some ''v1''
     \<and> (seg segs 1 = Some ''demo'' \<longrightarrow> isAllowedDemoPath segs)"

lemma served_literal:
  "list_all plain_segment rest \<Longrightarrow> plain_segment a \<Longrightarrow> a \<noteq> ''demo'' \<Longrightarrow> served_path (''v1'' # a # rest)"
  by (simp add: served_path_def seg_def plain_segment_literals)

lemma served_scenario:
  "plain_segment x \<Longrightarrow> served_path [''v1'', ''demo'', ''scenarios'', x]"
  by (simp add: served_path_def seg_def isAllowedDemoPath_def plain_segment_literals)

lemma endpoint_served: "endpoint_call c \<Longrightarrow> served_path (call_segments c)"
proof (induction rule: endpoint_call.induct)
  case (25 x)
  then show ?case
    by (cases x) (simp_all add: call_segments_def raw_segments_def runScenario_def post_def
        served_scenario plain_segment_literals route_literals)
qed (simp_all add: call_segments_def raw_segments_def endpoint_defs get_def post_def served_literal
      plain_segment_literals route_literals plain_id_segment)

text \<open>Encoding what the handler got gives back what the client wrote.\<close>

lemma endpoint_encoded: "endpoint_call c \<Longrightarrow> map encodeURIComponent (call_segments c) = raw_segments c"
proof (induction rule: endpoint_call.induct)
  case (25 x)
  then show ?case
    by (cases x) (simp_all add: call_segments_def raw_segments_def runScenario_def post_def
        encoded_literals route_literals)
qed (simp_all add: call_segments_def raw_segments_def endpoint_defs get_def post_def
      encoded_literals route_literals)

lemma served_gate:
  assumes "served_path segs" and "\<not> isCrossSite sv q" and "demoToken (sv_env sv) \<noteq> []"
  shows "gate sv q segs = None"
proof -
  have "\<not> list_ex bad_segment segs"
    using assms(1) plain_not_bad by (auto simp: served_path_def list_all_iff list_ex_iff)
  then show ?thesis using assms by (auto simp: gate_unfold served_path_def)
qed

subsection \<open>Properties\<close>

text \<open>
  C22. The client and the proxy agree on the surface: every call an endpoint function makes, for any
  plain identifier, passes the proxy's gate on a same-site request with the demo surface on, once
  the router has decoded its segments; the path the backend then sees is exactly those segments, and
  encoding them gives back the path the client wrote.
\<close>

theorem api_calls_pass_gate:
  assumes "endpoint_call c" and "\<not> isCrossSite sv q" and "demoToken (sv_env sv) \<noteq> []"
  shows "gate sv q (call_segments c) = None
    \<and> routed_path (join ''/'' (call_segments c)) = call_segments c
    \<and> map encodeURIComponent (call_segments c) = raw_segments c"
proof -
  note served = endpoint_served [OF assms(1)]
  then have "list_all plain_segment (call_segments c)" "call_segments c \<noteq> []"
    by (auto simp: served_path_def seg_def)
  then show ?thesis
    using served_gate [OF served assms(2,3)] routed_plain endpoint_encoded [OF assms(1)] by blast
qed

theorem api_calls_pass_gate_witness:
  "gate run_services run_query (call_segments (freezeVault ''vault:7(b)'' ''why'')) = None
    \<and> routed_path (join ''/'' (call_segments (freezeVault ''vault:7(b)'' ''why'')))
      = call_segments (freezeVault ''vault:7(b)'' ''why'')
    \<and> raw_segments (freezeVault ''vault:7(b)'' ''why'') = [''v1'', ''vaults'', ''vault%3A7(b)'', ''freeze'']"
proof -
  have "plain_id ''vault:7(b)''" by code_simp
  then have "endpoint_call (freezeVault ''vault:7(b)'' ''why'')" by (rule endpoint_call.intros)
  moreover have "\<not> isCrossSite run_services run_query"
    by (simp add: isCrossSite_def run_query_def run_services_def)
  moreover have "raw_segments (freezeVault ''vault:7(b)'' ''why'')
      = [''v1'', ''vaults'', ''vault%3A7(b)'', ''freeze'']" by code_simp
  ultimately show ?thesis
    using api_calls_pass_gate [of "freezeVault ''vault:7(b)'' ''why''" run_services run_query]
    by (simp add: demoToken_def)
qed

text \<open>
  C39. Escaping an identifier does not survive the proxy: the client encodes it, the router decodes
  it, and the handler joins the decoded segments into the target without encoding them again. A vault
  whose identifier has a slash or a backslash can be neither read nor frozen, since the proxy
  refuses the decoded segment; and with a question or number sign in it, the reading and the freeze
  of the vault \<open>a?b\<close> pass the gate and go to the path of \<open>a\<close>, without \<open>detail\<close> or \<open>freeze\<close>.
\<close>

theorem escaped_ids_lost:
  assumes "CHR ''/'' \<in> set i \<or> BACKSLASH \<in> set i"
    and "plain_segment a" and "list_all plain_char b" and "m \<in> {CHR ''?'', CHR ''#''}"
    and "\<not> isCrossSite sv q"
  shows "gate sv q (call_segments (getVaultDetail i))
        = Some (problem ''BAD_PATH'' ''That request path is not valid.'' 400)
    \<and> gate sv q (call_segments (freezeVault i reason))
        = Some (problem ''BAD_PATH'' ''That request path is not valid.'' 400)
    \<and> gate sv q (call_segments (getVaultDetail (a @ m # b))) = None
    \<and> routed_path (join ''/'' (call_segments (getVaultDetail (a @ m # b)))) = [''v1'', ''vaults'', a]
    \<and> gate sv q (call_segments (freezeVault (a @ m # b) reason)) = None
    \<and> routed_path (join ''/'' (call_segments (freezeVault (a @ m # b) reason))) = [''v1'', ''vaults'', a]"
proof -
  have segs: "call_segments (getVaultDetail x) = [''v1'', ''vaults'', x, ''detail'']"
    "call_segments (freezeVault x reason) = [''v1'', ''vaults'', x, ''freeze'']" for x
    by (simp_all add: call_segments_def raw_segments_def getVaultDetail_def freezeVault_def get_def post_def
        route_literals)
  have "gate sv q [''v1'', ''vaults'', i, z] = Some (problem ''BAD_PATH'' ''That request path is not valid.'' 400)" for z
    using assms(1) by (auto simp: gate_unfold bad_segment_def str_includes_char)
  moreover have "gate sv q [''v1'', ''vaults'', a @ m # b, z] = None" if "plain_segment z" for z
  proof -
    have "\<not> bad_segment (a @ m # b)" using marked_not_bad [OF assms(2-4)] .
    then show ?thesis
      using assms(5) plain_not_bad [OF that] plain_not_bad [OF plain_segment_literals(47)] plain_not_bad [OF plain_segment_literals(48)]
      by (simp add: gate_unfold seg_def)
  qed
  moreover have "routed_path (join ''/'' [''v1'', ''vaults'', a @ m # b, z]) = [''v1'', ''vaults'', a]"
    if "plain_segment z" for z
  proof -
    have "list_all plain_segment [''v1'', ''vaults'', a]"
      using assms(2) by (simp add: plain_segment_literals)
    moreover have "list_all (\<lambda>c. 32 < (of_char c :: nat)) (b @ ''/'' @ z)"
      using assms(3) that by (auto simp: plain_segment_def list_all_iff plain_char_def)
    ultimately have "routed_path (join ''/'' [''v1'', ''vaults'', a] @ m # b @ ''/'' @ z) = [''v1'', ''vaults'', a]"
      by (intro routed_cut assms(4)) simp_all
    then show ?thesis by simp
  qed
  ultimately show ?thesis by (simp add: segs plain_segment_literals)
qed

theorem escaped_ids_lost_witness:
  "gate run_services run_query (call_segments (freezeVault ''team/7'' ''why''))
      = Some (problem ''BAD_PATH'' ''That request path is not valid.'' 400)
    \<and> routed_path (join ''/'' (call_segments (freezeVault ''v1?b'' ''why''))) = [''v1'', ''vaults'', ''v1'']"
proof -
  have "plain_segment ''v1''" "list_all plain_char ''b''" "CHR ''/'' \<in> set ''team/7'' \<or> BACKSLASH \<in> set ''team/7''"
    by code_simp+
  moreover have "\<not> isCrossSite run_services run_query"
    by (simp add: isCrossSite_def run_query_def run_services_def)
  ultimately show ?thesis
    using escaped_ids_lost [of "''team/7''" "''v1''" "''b''" "CHR ''?''" run_services run_query "''why''"] by simp
qed

text \<open>
  An identifier keeps its identity in a path: the encoded component decodes to the
  identifier, two identifiers share an encoding only if they are equal, and the encoding holds no
  separator, query or fragment mark, so it cannot add a segment or a parameter.
\<close>

theorem encodeURIComponent_faithful:
  "utf8_decode (percent_decode (encodeURIComponent i)) = map code_point i
   \<and> (encodeURIComponent i = encodeURIComponent j \<longleftrightarrow> i = j)
   \<and> set (encodeURIComponent i) \<inter> {CHR ''/'', CHR ''?'', CHR ''#'', BACKSLASH, CHR '' ''} = {}"
proof -
  have "d \<notin> set (encodeURIComponent i)"
    if "d \<in> {CHR ''/'', CHR ''?'', CHR ''#'', BACKSLASH, CHR '' ''}" for d
    using encoded_safe [of d i] that by (auto simp: plain_char_def)
  then show ?thesis using decode_encode inj_encodeURIComponent by (auto dest: injD)
qed

text \<open>
  The proxy's refusals are what the user reads: a \<open>problem\<close> with an error status, once on
  the wire and parsed, is the \<open>ApiError\<close> with exactly its status, code and sentence.
\<close>

theorem problem_reaches_user:
  assumes "\<not> status_ok status" and "txt \<noteq> []"
    and "parse txt = Some v" and "rs_body (problem code detail status) = JsonBody v"
  shows "request parse (FetchAnswer (rs_status (problem code detail status)) txt)
    = Inl \<lparr>ae_status = status, ae_code = code, ae_detail = detail\<rparr>"
proof -
  have "v = JObj [(''error'', JObj [(''code'', JStr code), (''detail'', JStr detail)])]"
    using assms(4) by (simp add: problem_def)
  then show ?thesis
    using assms(1-3) by (simp add: toApiError_def parsed_body_def Let_def problem_def)
qed

theorem problem_reaches_user_witness:
  "request (\<lambda>_. Some (JObj [(''error'', JObj [(''code'', JStr ''BAD_PATH''), (''detail'', JStr ''no'')])]))
     (FetchAnswer 400 ''x'') = Inl \<lparr>ae_status = 400, ae_code = ''BAD_PATH'', ae_detail = ''no''\<rparr>"
  using problem_reaches_user [of 400 "''x''"
      "\<lambda>_. Some (JObj [(''error'', JObj [(''code'', JStr ''BAD_PATH''), (''detail'', JStr ''no'')])])"
      _ "''BAD_PATH''" "''no''", OF _ _ refl]
  by (simp add: status_ok_def problem_def)

text \<open>
  A failure never shows raw backend output: when the body of an error answer is not JSON, or
  carries no string sentence, the error has one of three fixed sentences and the generic code; and
  a call fails exactly when the fetch is rejected or the status is not a success.
\<close>

theorem request_errors:
  "(request parse out = Inl e \<longrightarrow> as_string (member ''detail'' (member ''error'' (parsed_body parse
       (case out of FetchRejected \<Rightarrow> [] | FetchAnswer _ t \<Rightarrow> t)))) \<noteq> Some (ae_detail e) \<longrightarrow>
     as_string (member ''detail'' (parsed_body parse
       (case out of FetchRejected \<Rightarrow> [] | FetchAnswer _ t \<Rightarrow> t))) \<noteq> Some (ae_detail e) \<longrightarrow>
     ae_detail e \<in> {''Could not reach CredenceAI. Check your connection.'',
       ''That record could not be found.'', ''This workspace is not authorised to view that.'',
       ''Something went wrong while loading this.''})
   \<and> ((\<exists>e. request parse out = Inl e) \<longleftrightarrow>
       (case out of FetchRejected \<Rightarrow> True | FetchAnswer status _ \<Rightarrow> \<not> status_ok status))"
  by (cases out) (auto simp: offline_def toApiError_def Let_def split: option.splits)

theorem request_errors_witness:
  "\<exists>e. request (\<lambda>_. None) (FetchAnswer 502 ''<html>'') = Inl e
     \<and> ae_detail e = ''Something went wrong while loading this.''"
  using request_errors [of "\<lambda>_. None" "FetchAnswer 502 ''<html>''"
      "toApiError 502 JNull"]
  by (auto simp: status_ok_def parsed_body_def toApiError_def Let_def)

end
