(* ===== verification/Queries.thy ===== *)
theory Queries
  imports Api
begin

text \<open>
  \<open>frontend/lib/queries.ts\<close> and the query client of \<open>frontend/lib/providers.tsx\<close>: the hierarchical
  cache keys, one query per hook (its key, the call that fills it, when it runs, how long it is
  fresh, whether it retries), and the areas each mutation invalidates. The cache is TanStack
  Query's; which cached keys an invalidation filter matches is the parameter \<open>matches\<close>, of which the
  code relies on the documented rule that a filter key matches the keys it is a prefix of
  (\<open>prefix_matching\<close>). A key is a list of JSON values.
\<close>

type_synonym key = "json list"

definition keys_me :: key where "keys_me = [JStr ''me'']"
definition keys_agents :: key where "keys_agents = [JStr ''agents'']"
definition keys_agent :: "string \<Rightarrow> key" where "keys_agent agentId = [JStr ''agents'', JStr agentId]"
definition keys_tasks :: key where "keys_tasks = [JStr ''tasks'']"
definition keys_applications :: key where "keys_applications = [JStr ''credit-applications'']"
definition keys_underwriting :: "string \<Rightarrow> key" where
  "keys_underwriting applicationId = [JStr ''credit-applications'', JStr applicationId, JStr ''underwriting'']"
definition keys_underwritingQueue :: key where
  "keys_underwritingQueue = [JStr ''underwriting'', JStr ''queue'']"
definition keys_vaults :: key where "keys_vaults = [JStr ''vaults'']"
definition keys_vault :: "string \<Rightarrow> key" where "keys_vault vaultId = [JStr ''vaults'', JStr vaultId]"

definition filters_json :: "TransactionFilters \<Rightarrow> json" where
  "filters_json f = JObj (opt_field ''status'' JStr (tf_status f)
     @ opt_field ''vault_id'' JStr (tf_vault_id f) @ opt_field ''agent_id'' JStr (tf_agent_id f))"

definition keys_transactions :: "TransactionFilters \<Rightarrow> key" where
  "keys_transactions filters = [JStr ''transactions'', filters_json filters]"
definition keys_transaction :: "string \<Rightarrow> key" where
  "keys_transaction proposalId = [JStr ''transactions'', JStr proposalId]"
definition keys_repayments :: key where "keys_repayments = [JStr ''repayments'']"
definition keys_riskSummary :: key where "keys_riskSummary = [JStr ''risk'', JStr ''summary'']"
definition keys_riskEvents :: key where "keys_riskEvents = [JStr ''risk'', JStr ''events'']"
definition keys_auditEvents :: key where "keys_auditEvents = [JStr ''audit'', JStr ''events'']"
definition keys_auditChain :: key where "keys_auditChain = [JStr ''audit'', JStr ''chain'']"
definition keys_labels :: key where "keys_labels = [JStr ''audit'', JStr ''labels'']"
definition keys_dashboard :: key where "keys_dashboard = [JStr ''dashboard'', JStr ''summary'']"
definition keys_activity :: "jsnum \<Rightarrow> key" where
  "keys_activity limit = [JStr ''dashboard'', JStr ''activity'', JNum limit]"
definition keys_exposure :: "jsnum \<Rightarrow> key" where
  "keys_exposure days = [JStr ''dashboard'', JStr ''exposure'', JNum days]"
definition keys_policy :: key where "keys_policy = [JStr ''policy'', JStr ''parameters'']"
definition keys_vendors :: key where "keys_vendors = [JStr ''vendors'']"
definition keys_readiness :: key where "keys_readiness = [JStr ''health'', JStr ''ready'']"
definition keys_evaluation :: key where "keys_evaluation = [JStr ''metrics'', JStr ''evaluation'']"
definition systemIntelligenceKey :: "SystemIntelligenceWindow \<Rightarrow> key" where
  "systemIntelligenceKey window = [JStr ''system-intelligence'', JStr (window_text window)]"
definition voiceKeys_status :: key where "voiceKeys_status = [JStr ''voice'', JStr ''status'']"
definition voiceKeys_script :: "string \<Rightarrow> key" where
  "voiceKeys_script applicationId = [JStr ''voice'', JStr ''script'', JStr applicationId]"

subsection \<open>The query client\<close>

record query =
  qy_key :: key
  qy_call :: call
  qy_enabled :: bool
  qy_staleTime :: jsnum
  qy_retry :: "int \<Rightarrow> ApiError option \<Rightarrow> bool"
  qy_refetchInterval :: "jsnum option"

text \<open>The retry rule of \<open>makeClient\<close>; \<open>None\<close> stands for an error that is not an \<open>ApiError\<close>.\<close>

definition client_retry :: "int \<Rightarrow> ApiError option \<Rightarrow> bool" where
  "client_retry failureCount error =
     (case error of
        Some e \<Rightarrow> if ae_status e \<ge> 400 \<and> ae_status e < 500 then False else failureCount < 2
      | None \<Rightarrow> failureCount < 2)"

definition client_staleTime :: jsnum where "client_staleTime = Fin 30000"

definition useQuery :: "key \<Rightarrow> call \<Rightarrow> query" where
  "useQuery k c = \<lparr>qy_key = k, qy_call = c, qy_enabled = True, qy_staleTime = client_staleTime,
     qy_retry = client_retry, qy_refetchInterval = None\<rparr>"

text \<open>The options a caller may pass, spread over the hook's own.\<close>

record Opts =
  o_enabled :: "bool option"
  o_refetchInterval :: "jsnum option"

definition no_opts :: Opts where "no_opts = \<lparr>o_enabled = None, o_refetchInterval = None\<rparr>"

definition with_opts :: "Opts \<Rightarrow> query \<Rightarrow> query" where
  "with_opts opts q = q\<lparr>qy_enabled := (case o_enabled opts of None \<Rightarrow> qy_enabled q | Some e \<Rightarrow> e),
     qy_refetchInterval := (case o_refetchInterval opts of None \<Rightarrow> qy_refetchInterval q | i \<Rightarrow> i)\<rparr>"

subsection \<open>The query hooks\<close>

definition useMe :: "Opts \<Rightarrow> query" where
  "useMe opts = with_opts opts ((useQuery keys_me getMe)\<lparr>qy_staleTime := Fin 300000\<rparr>)"

definition useAgents :: "Opts \<Rightarrow> query" where
  "useAgents opts = with_opts opts (useQuery keys_agents listAgents)"

definition useAgent :: "string \<Rightarrow> Opts \<Rightarrow> query" where
  "useAgent agentId opts = with_opts opts
     ((useQuery (keys_agent agentId) (getAgentProfile agentId))\<lparr>qy_enabled := (agentId \<noteq> [])\<rparr>)"

definition useTasks :: "Opts \<Rightarrow> query" where
  "useTasks opts = with_opts opts (useQuery keys_tasks listTasks)"

definition useApplications :: "Opts \<Rightarrow> query" where
  "useApplications opts = with_opts opts (useQuery keys_applications listCreditApplications)"

definition useUnderwriting :: "string \<Rightarrow> Opts \<Rightarrow> query" where
  "useUnderwriting applicationId opts = with_opts opts
     ((useQuery (keys_underwriting applicationId) (getUnderwriting applicationId))\<lparr>qy_enabled := (applicationId \<noteq> [])\<rparr>)"

definition useUnderwritingQueue :: "Opts \<Rightarrow> query" where
  "useUnderwritingQueue opts = with_opts opts (useQuery keys_underwritingQueue getUnderwritingQueue)"

definition useVaults :: "Opts \<Rightarrow> query" where
  "useVaults opts = with_opts opts (useQuery keys_vaults listVaults)"

definition useVault :: "string \<Rightarrow> Opts \<Rightarrow> query" where
  "useVault vaultId opts = with_opts opts
     ((useQuery (keys_vault vaultId) (getVaultDetail vaultId))\<lparr>qy_enabled := (vaultId \<noteq> [])\<rparr>)"

definition useTransactions :: "TransactionFilters \<Rightarrow> Opts \<Rightarrow> query" where
  "useTransactions filters opts = with_opts opts (useQuery (keys_transactions filters) (listTransactions filters))"

definition useTransaction :: "string \<Rightarrow> Opts \<Rightarrow> query" where
  "useTransaction proposalId opts = with_opts opts
     ((useQuery (keys_transaction proposalId) (getTransaction proposalId))\<lparr>qy_enabled := (proposalId \<noteq> [])\<rparr>)"

definition useRepayments :: "Opts \<Rightarrow> query" where
  "useRepayments opts = with_opts opts (useQuery keys_repayments listRepayments)"

definition useRiskSummary :: "Opts \<Rightarrow> query" where
  "useRiskSummary opts = with_opts opts (useQuery keys_riskSummary getRiskSummary)"

definition useRiskEvents :: "Opts \<Rightarrow> query" where
  "useRiskEvents opts = with_opts opts (useQuery keys_riskEvents listRiskEvents)"

definition useAuditEvents :: "Opts \<Rightarrow> query" where
  "useAuditEvents opts = with_opts opts (useQuery keys_auditEvents listAuditEvents)"

definition useAuditChain :: "Opts \<Rightarrow> query" where
  "useAuditChain opts = with_opts opts (useQuery keys_auditChain verifyAuditChain)"

definition useLabels :: "Opts \<Rightarrow> query" where
  "useLabels opts = with_opts opts ((useQuery keys_labels getLabels)\<lparr>qy_staleTime := PosInf\<rparr>)"

definition useDashboard :: "Opts \<Rightarrow> query" where
  "useDashboard opts = with_opts opts (useQuery keys_dashboard getDashboardSummary)"

definition useActivity :: "jsnum \<Rightarrow> Opts \<Rightarrow> query" where
  "useActivity limit opts = with_opts opts (useQuery (keys_activity limit) (getActivity (Some limit)))"

definition useExposureSeries :: "jsnum \<Rightarrow> Opts \<Rightarrow> query" where
  "useExposureSeries days opts = with_opts opts (useQuery (keys_exposure days) (getExposureSeries (Some days)))"

definition usePolicyParameters :: "Opts \<Rightarrow> query" where
  "usePolicyParameters opts = with_opts opts ((useQuery keys_policy getPolicyParameters)\<lparr>qy_staleTime := Fin 600000\<rparr>)"

definition useVendors :: "Opts \<Rightarrow> query" where
  "useVendors opts = with_opts opts ((useQuery keys_vendors listVendors)\<lparr>qy_staleTime := Fin 600000\<rparr>)"

definition useReadiness :: "Opts \<Rightarrow> query" where
  "useReadiness opts = with_opts opts (useQuery keys_readiness getReadiness)"

definition useEvaluationMetrics :: "Opts \<Rightarrow> query" where
  "useEvaluationMetrics opts = with_opts opts (useQuery keys_evaluation getEvaluationMetrics)"

definition useSystemIntelligence :: "SystemIntelligenceWindow \<Rightarrow> Opts \<Rightarrow> query" where
  "useSystemIntelligence window opts = with_opts opts (useQuery (systemIntelligenceKey window) (getSystemIntelligence (Some window)))"

definition useVoiceStatus :: "Opts \<Rightarrow> query" where
  "useVoiceStatus opts = with_opts opts ((useQuery voiceKeys_status getVoiceStatus)\<lparr>qy_staleTime := Fin 600000, qy_retry := (\<lambda>_ _. False)\<rparr>)"

definition useDecisionScript :: "string \<Rightarrow> Opts \<Rightarrow> query" where
  "useDecisionScript applicationId opts = with_opts opts
     ((useQuery (voiceKeys_script applicationId) (getDecisionScript applicationId))\<lparr>qy_enabled := (applicationId \<noteq> []), qy_retry := (\<lambda>_ _. False)\<rparr>)"

subsection \<open>Mutations\<close>

text \<open>
  What a mutation invalidates on success: the listed areas, or the whole cache. An entry of the
  cache is a key with its stale mark; an invalidated entry refetches.
\<close>

datatype invalidation = Areas "key list" | Everything

record mutation =
  mu_call :: call
  mu_success :: invalidation

record cache_entry =
  ce_key :: key
  ce_stale :: bool

definition hits :: "(key \<Rightarrow> key \<Rightarrow> bool) \<Rightarrow> invalidation \<Rightarrow> key \<Rightarrow> bool" where
  "hits matches what k = (case what of Everything \<Rightarrow> True | Areas areas \<Rightarrow> list_ex (\<lambda>area. matches area k) areas)"

definition invalidate :: "(key \<Rightarrow> key \<Rightarrow> bool) \<Rightarrow> invalidation \<Rightarrow> cache_entry list \<Rightarrow> cache_entry list" where
  "invalidate matches what cache =
     map (\<lambda>e. if hits matches what (ce_key e) then e\<lparr>ce_stale := True\<rparr> else e) cache"

definition useReviewApplication :: "string \<Rightarrow> ReviewBody \<Rightarrow> mutation" where
  "useReviewApplication applicationId b = \<lparr>mu_call = reviewApplication applicationId b,
     mu_success = Areas [keys_applications, keys_underwriting applicationId, keys_underwritingQueue,
       keys_vaults, keys_auditEvents, keys_auditChain, keys_dashboard, [JStr ''dashboard''],
       keys_riskSummary]\<rparr>"

definition useFreezeVault :: "string \<Rightarrow> string \<Rightarrow> mutation" where
  "useFreezeVault vaultId reason = \<lparr>mu_call = freezeVault vaultId reason,
     mu_success = Areas [keys_vault vaultId, keys_vaults, keys_riskEvents, keys_riskSummary,
       keys_auditEvents, keys_auditChain, [JStr ''dashboard'']]\<rparr>"

definition useCloseVault :: "string \<Rightarrow> mutation" where
  "useCloseVault vaultId = \<lparr>mu_call = closeVault vaultId,
     mu_success = Areas [keys_vault vaultId, keys_vaults, keys_repayments, keys_auditEvents,
       keys_auditChain, [JStr ''dashboard'']]\<rparr>"

definition useRunScenario :: "ScenarioName \<Rightarrow> mutation" where
  "useRunScenario name = \<lparr>mu_call = runScenario name, mu_success = Everything\<rparr>"

definition useInvalidateWorkspace :: invalidation where "useInvalidateWorkspace = Everything"

definition useReceiveRevenue :: "string \<Rightarrow> RevenueBody \<Rightarrow> mutation" where
  "useReceiveRevenue vaultId b = \<lparr>mu_call = receiveRevenue vaultId b,
     mu_success = Areas [keys_vaults, keys_vault vaultId, keys_repayments, keys_dashboard,
       keys_riskSummary, keys_auditEvents, keys_auditChain]\<rparr>"

definition useSimulateFailure :: "string \<Rightarrow> mutation" where
  "useSimulateFailure vaultId = \<lparr>mu_call = simulateFailure vaultId,
     mu_success = Areas [keys_vaults, keys_vault vaultId, keys_repayments, keys_dashboard,
       keys_riskSummary, keys_auditEvents, keys_auditChain]\<rparr>"

subsection \<open>Lemmas\<close>

definition text_key :: "key \<Rightarrow> bool" where
  "text_key k \<longleftrightarrow> list_all (\<lambda>v. as_string v \<noteq> None) k"

text \<open>The documented matching rule, for filter keys made of strings (all that the code uses).\<close>

definition prefix_matching :: "(key \<Rightarrow> key \<Rightarrow> bool) \<Rightarrow> bool" where
  "prefix_matching matches \<longleftrightarrow>
     (\<forall>area k. text_key area \<longrightarrow> (matches area k \<longleftrightarrow> take (length area) k = area))"

lemma prefix_matchingD: "prefix_matching m \<Longrightarrow> text_key a \<Longrightarrow> m a k \<longleftrightarrow> take (length a) k = a"
  by (simp add: prefix_matching_def)

lemma prefix_matching_take: "prefix_matching (\<lambda>a k. take (length a) k = a)"
  by (simp add: prefix_matching_def)

lemmas key_defs = keys_me_def keys_agents_def keys_agent_def keys_tasks_def keys_applications_def
  keys_underwriting_def keys_underwritingQueue_def keys_vaults_def keys_vault_def
  keys_transactions_def keys_transaction_def keys_repayments_def keys_riskSummary_def
  keys_riskEvents_def keys_auditEvents_def keys_auditChain_def keys_labels_def keys_dashboard_def
  keys_activity_def keys_exposure_def keys_policy_def keys_vendors_def keys_readiness_def
  keys_evaluation_def systemIntelligenceKey_def voiceKeys_status_def voiceKeys_script_def

lemmas hook_defs = useMe_def useAgents_def useAgent_def useTasks_def useApplications_def
  useUnderwriting_def useUnderwritingQueue_def useVaults_def useVault_def useTransactions_def
  useTransaction_def useRepayments_def useRiskSummary_def useRiskEvents_def useAuditEvents_def
  useAuditChain_def useLabels_def useDashboard_def useActivity_def useExposureSeries_def
  usePolicyParameters_def useVendors_def useReadiness_def useEvaluationMetrics_def
  useSystemIntelligence_def useVoiceStatus_def useDecisionScript_def

text \<open>The hooks the components call.\<close>

inductive hook_query :: "query \<Rightarrow> bool" where
  "hook_query (useMe o')" | "hook_query (useAgents o')" | "hook_query (useAgent i o')"
| "hook_query (useTasks o')" | "hook_query (useApplications o')" | "hook_query (useUnderwriting i o')"
| "hook_query (useUnderwritingQueue o')" | "hook_query (useVaults o')" | "hook_query (useVault i o')"
| "hook_query (useTransactions f o')" | "hook_query (useTransaction i o')"
| "hook_query (useRepayments o')" | "hook_query (useRiskSummary o')" | "hook_query (useRiskEvents o')"
| "hook_query (useAuditEvents o')" | "hook_query (useAuditChain o')" | "hook_query (useLabels o')"
| "hook_query (useDashboard o')" | "hook_query (useActivity n o')" | "hook_query (useExposureSeries n o')"
| "hook_query (usePolicyParameters o')" | "hook_query (useVendors o')" | "hook_query (useReadiness o')"
| "hook_query (useEvaluationMetrics o')" | "hook_query (useSystemIntelligence w o')"
| "hook_query (useVoiceStatus o')" | "hook_query (useDecisionScript i o')"

text \<open>The call a key stands for.\<close>

definition filters_of :: "json \<Rightarrow> TransactionFilters" where
  "filters_of v = \<lparr>tf_status = as_string (member ''status'' v), tf_vault_id = as_string (member ''vault_id'' v),
     tf_agent_id = as_string (member ''agent_id'' v)\<rparr>"

lemma filters_of_json [simp]: "filters_of (filters_json f) = f"
  by (cases "tf_status f"; cases "tf_vault_id f"; cases "tf_agent_id f")
    (simp_all add: filters_of_def filters_json_def opt_field_def)

definition window_of :: "string \<Rightarrow> SystemIntelligenceWindow" where
  "window_of s = (if s = ''1h'' then W_1h else if s = ''24h'' then W_24h else if s = ''7d'' then W_7d else W_30d)"

lemma window_of_text [simp]: "window_of (window_text w) = w"
  by (cases w) (simp_all add: window_of_def)

definition call_of_key1 :: "string \<Rightarrow> call" where
  "call_of_key1 s = (if s = ''me'' then getMe else if s = ''agents'' then listAgents
     else if s = ''tasks'' then listTasks else if s = ''credit-applications'' then listCreditApplications
     else if s = ''vaults'' then listVaults else if s = ''repayments'' then listRepayments else listVendors)"

definition call_of_key2 :: "string \<Rightarrow> string \<Rightarrow> call" where
  "call_of_key2 s i = (if s = ''agents'' then getAgentProfile i else if s = ''vaults'' then getVaultDetail i
     else if s = ''transactions'' then getTransaction i else if s = ''underwriting'' then getUnderwritingQueue
     else if s = ''risk'' then (if i = ''summary'' then getRiskSummary else listRiskEvents)
     else if s = ''audit'' then (if i = ''events'' then listAuditEvents else if i = ''chain'' then verifyAuditChain else getLabels)
     else if s = ''dashboard'' then getDashboardSummary else if s = ''policy'' then getPolicyParameters
     else if s = ''health'' then getReadiness else if s = ''metrics'' then getEvaluationMetrics
     else if s = ''voice'' then getVoiceStatus else getSystemIntelligence (Some (window_of i)))"

fun call_of_key :: "key \<Rightarrow> call" where
  "call_of_key [JStr s] = call_of_key1 s"
| "call_of_key [JStr s, JStr i] = call_of_key2 s i"
| "call_of_key [JStr s, JObj f] = listTransactions (filters_of (JObj f))"
| "call_of_key [JStr s, JStr i, JStr x] =
     (if s = ''voice'' then getDecisionScript x else getUnderwriting i)"
| "call_of_key [JStr s, JStr i, JNum n] =
     (if i = ''activity'' then getActivity (Some n) else getExposureSeries (Some n))"
| "call_of_key _ = getMe"

lemma call_of_key_filters [simp]: "call_of_key [JStr s, filters_json f] = listTransactions f"
proof -
  obtain kvs where "filters_json f = JObj kvs" by (simp add: filters_json_def)
  then show ?thesis using filters_of_json [of f] by simp
qed

lemma hook_call: "hook_query q \<Longrightarrow> qy_call q = call_of_key (qy_key q)"
  by (induction rule: hook_query.induct)
    (simp_all add: hook_defs with_opts_def useQuery_def key_defs call_of_key1_def call_of_key2_def)

lemma hook_reads: "hook_query q \<Longrightarrow> cl_method (qy_call q) = ''GET''"
  by (induction rule: hook_query.induct)
    (simp_all add: hook_defs with_opts_def useQuery_def endpoint_defs get_def)

text \<open>The attempts made against a backend that keeps failing, one error per attempt.\<close>

fun attempts :: "(int \<Rightarrow> ApiError option \<Rightarrow> bool) \<Rightarrow> int \<Rightarrow> ApiError option list \<Rightarrow> nat" where
  "attempts retry n [] = 0"
| "attempts retry n (e # es) = Suc (if retry n e then attempts retry (n + 1) es else 0)"

definition decided :: "ApiError option \<Rightarrow> bool" where
  "decided e \<longleftrightarrow> (case e of None \<Rightarrow> False | Some a \<Rightarrow> 400 \<le> ae_status a \<and> ae_status a < 500)"

lemma client_retry_iff: "client_retry n e \<longleftrightarrow> \<not> decided e \<and> n < 2"
  by (auto simp: client_retry_def decided_def split: option.split)

subsection \<open>Properties\<close>

text \<open>
  The cache is keyed soundly: two hooks that share a cache entry make the same call, so no
  screen is ever shown the answer to another question; and no hook writes.
\<close>

theorem cache_keys_sound:
  assumes "hook_query q" and "hook_query q'" and "qy_key q = qy_key q'"
  shows "qy_call q = qy_call q' \<and> cl_method (qy_call q) = ''GET''"
  using hook_call [OF assms(1)] hook_call [OF assms(2)] hook_reads [OF assms(1)] assms(3) by simp

theorem cache_keys_sound_witness:
  "qy_call (useAgent ''a1'' no_opts) = qy_call (useAgent ''a1'' \<lparr>o_enabled = Some False, o_refetchInterval = None\<rparr>)"
  using cache_keys_sound [of "useAgent ''a1'' no_opts"
      "useAgent ''a1'' \<lparr>o_enabled = Some False, o_refetchInterval = None\<rparr>"]
  by (simp add: hook_query.intros useAgent_def with_opts_def no_opts_def useQuery_def)

text \<open>
  After a review decision the affected screens refetch: under the documented prefix
  matching, every application and underwriting view, the review queue, every vault, the audit
  events and chain, all three dashboard queries and the risk summary are stale, and the entries
  of agents, tasks, transactions, repayments, labels and policy are left alone.
\<close>

theorem review_invalidates:
  assumes "prefix_matching matches"
  shows "list_all (hits matches (mu_success (useReviewApplication a b)))
      [keys_applications, keys_underwriting i, keys_underwritingQueue, keys_vaults, keys_vault i,
       keys_auditEvents, keys_auditChain, keys_dashboard, keys_activity n, keys_exposure n,
       keys_riskSummary]
    \<and> \<not> list_ex (hits matches (mu_success (useReviewApplication a b)))
      [keys_me, keys_agents, keys_agent i, keys_tasks, keys_transactions f, keys_transaction i,
       keys_repayments, keys_riskEvents, keys_labels, keys_policy, keys_vendors]"
  by (simp add: useReviewApplication_def hits_def key_defs prefix_matchingD [OF assms] text_key_def)

theorem review_invalidates_witness:
  "hits (\<lambda>a k. take (length a) k = a)
     (mu_success (useReviewApplication ''a'' \<lparr>rb_action = APPROVE, rb_amount_minor = None, rb_notes = None\<rparr>))
     (keys_exposure (Fin 14))"
  using review_invalidates [OF prefix_matching_take, where n = "Fin 14"] by simp

text \<open>
  C40. Recording revenue or simulating a failure leaves screens stale: both write to the ledger, yet of
  the dashboard they invalidate only the summary, so the activity feed and the exposure series of
  every length keep their old data, which closing or freezing the same vault would refresh; a
  simulated failure leaves the list of risk events as it was besides.
\<close>

theorem revenue_leaves_stale:
  assumes "prefix_matching matches"
  shows "\<not> hits matches (mu_success (useReceiveRevenue v b)) (keys_activity n)
    \<and> \<not> hits matches (mu_success (useReceiveRevenue v b)) (keys_exposure n)
    \<and> \<not> hits matches (mu_success (useSimulateFailure v)) (keys_activity n)
    \<and> \<not> hits matches (mu_success (useSimulateFailure v)) (keys_exposure n)
    \<and> \<not> hits matches (mu_success (useSimulateFailure v)) (keys_riskEvents)
    \<and> hits matches (mu_success (useReceiveRevenue v b)) keys_dashboard
    \<and> hits matches (mu_success (useSimulateFailure v)) keys_dashboard
    \<and> hits matches (mu_success (useCloseVault v)) (keys_activity n)
    \<and> hits matches (mu_success (useCloseVault v)) (keys_exposure n)
    \<and> hits matches (mu_success (useFreezeVault v r)) (keys_activity n)
    \<and> hits matches (mu_success (useFreezeVault v r)) (keys_exposure n)"
  by (simp add: useReceiveRevenue_def useSimulateFailure_def useCloseVault_def useFreezeVault_def
      hits_def key_defs prefix_matchingD [OF assms] text_key_def)

theorem revenue_leaves_stale_witness:
  "\<not> hits (\<lambda>a k. take (length a) k = a) (mu_success (useSimulateFailure ''v'')) (keys_exposure (Fin 20))"
  using revenue_leaves_stale [OF prefix_matching_take, where n = "Fin 20"] by blast

text \<open>
  The retry schedule: a backend that keeps failing is asked three times, unless an answer in
  the 400s, which is a decision, ends it at once.
\<close>

theorem retry_schedule:
  "attempts client_retry 0 (e1 # e2 # e3 # es)
   = (if decided e1 then 1 else if decided e2 then 2 else 3)"
  by (simp add: client_retry_iff)

end
