(* ===== verification/Nav.thy ===== *)
theory Nav
  imports Prelude
begin

text \<open>
  \<open>frontend/components/shell/nav-config.ts\<close>: the product's navigation and which item of it owns
  a path. An icon is named by its import.
\<close>

record NavItem =
  ni_href :: string
  ni_label :: string
  ni_icon :: string
  ni_summary :: string
  ni_match :: "string list option"

record NavGroup =
  ng_label :: string
  ng_items :: "NavItem list"

definition nav_item :: "string \<Rightarrow> string \<Rightarrow> string \<Rightarrow> string \<Rightarrow> NavItem" where
  "nav_item href label icon summary =
     \<lparr>ni_href = href, ni_label = label, ni_icon = icon, ni_summary = summary, ni_match = None\<rparr>"

definition NAV :: "NavGroup list" where
  "NAV = [
    \<lparr>ng_label = ''Operations'', ng_items = [
      nav_item ''/start'' ''Start here'' ''Sparkles'' ''Register an agent and request credit, step by step'',
      nav_item ''/dashboard'' ''Overview'' ''LayoutDashboard'' ''Portfolio exposure, live vaults and recent decisions'',
      nav_item ''/agents'' ''AI Agents'' ''Bot'' ''Registered agents, passports and trust scores'',
      nav_item ''/credit-applications'' ''Credit Applications'' ''FileText'' ''Requests for task-backed working capital'',
      nav_item ''/underwriting'' ''Underwriting'' ''Scale'' ''Decision comparison and the human review queue'',
      nav_item ''/vaults'' ''Credit Vaults'' ''Vault'' ''Restricted spending facilities and their controls'',
      nav_item ''/transactions'' ''Transactions'' ''ArrowLeftRight'' ''Every spend attempt, allowed or blocked'',
      nav_item ''/repayments'' ''Repayments'' ''ScrollText'' ''Revenue collection and the repayment waterfall'']\<rparr>,
    \<lparr>ng_label = ''Risk & Compliance'', ng_items = [
      nav_item ''/risk'' ''Risk Monitoring'' ''ShieldAlert'' ''Control breaches, freezes and exposure concentration'',
      nav_item ''/audit'' ''Audit Trail'' ''Activity'' ''Tamper-evident hash chain of every financial event'',
      nav_item ''/system-intelligence'' ''System Intelligence'' ''Gauge'' ''Live pipeline health, model assurance and policy enforcement'']\<rparr>,
    \<lparr>ng_label = ''Demonstration'', ng_items = [
      nav_item ''/judge-demo'' ''Judge Demo'' ''PlayCircle'' ''Run the six evaluation scenarios end to end'']\<rparr>,
    \<lparr>ng_label = ''Administration'', ng_items = [
      nav_item ''/settings'' ''Settings'' ''Settings'' ''Policy parameters, vendors and workspace'']\<rparr>]"

definition NAV_ITEMS :: "NavItem list" where
  "NAV_ITEMS = concat (map ng_items NAV)"

definition owns :: "string \<Rightarrow> string \<Rightarrow> bool" where
  "owns pathname candidate \<longleftrightarrow> pathname = candidate \<or> starts_with pathname (candidate @ ''/'')"

definition candidates :: "NavItem \<Rightarrow> string list" where
  "candidates i = ni_href i # (case ni_match i of None \<Rightarrow> [] | Some m \<Rightarrow> m)"

definition consider_candidate :: "string \<Rightarrow> NavItem \<Rightarrow> string option \<Rightarrow> string \<Rightarrow> string option" where
  "consider_candidate pathname i best candidate =
     (if owns pathname candidate
         \<and> (case best of None \<Rightarrow> True | Some b \<Rightarrow> length candidate > length b)
      then Some (ni_href i) else best)"

definition activeHref :: "string \<Rightarrow> string option" where
  "activeHref pathname =
     foldl (\<lambda>best i. foldl (consider_candidate pathname i) best (candidates i)) None NAV_ITEMS"

subsection \<open>Which item owns a path\<close>

definition first_segment :: "string \<Rightarrow> string" where
  "first_segment p = takeWhile (\<lambda>c. c \<noteq> CHR ''/'') (tl p)"

lemma owns_first_segment:
  "owns p h \<Longrightarrow> first_segment h = tl h \<Longrightarrow> h \<noteq> [] \<Longrightarrow> first_segment p = tl h"
proof -
  assume "owns p h" and h: "first_segment h = tl h" "h \<noteq> []"
  then consider "p = h" | "take (length h + 1) p = h @ ''/''"
    by (auto simp: owns_def starts_with_def)
  then show ?thesis
  proof cases
    case 2
    then obtain r where "p = h @ CHR ''/'' # r"
      by (metis append_take_drop_id append_Cons append_Nil append_assoc)
    moreover obtain c t where "h = c # t" using h(2) by (cases h) auto
    moreover have "\<forall>x \<in> set t. x \<noteq> CHR ''/''"
      using h(1) \<open>h = c # t\<close> by (simp add: first_segment_def takeWhile_eq_all_conv)
    ultimately show ?thesis by (simp add: first_segment_def takeWhile_append)
  qed (use h in simp)
qed

lemma nav_hrefs: "map ni_href NAV_ITEMS = [''/start'', ''/dashboard'', ''/agents'',
    ''/credit-applications'', ''/underwriting'', ''/vaults'', ''/transactions'', ''/repayments'',
    ''/risk'', ''/audit'', ''/system-intelligence'', ''/judge-demo'', ''/settings'']"
  by (simp add: NAV_ITEMS_def NAV_def nav_item_def)

lemma nav_plain: "i \<in> set NAV_ITEMS \<Longrightarrow> ni_match i = None"
  by (auto simp: NAV_ITEMS_def NAV_def nav_item_def)

lemma nav_segments: "h \<in> ni_href ` set NAV_ITEMS \<Longrightarrow> first_segment h = tl h \<and> h \<noteq> [] \<and> hd h = CHR ''/''"
proof -
  assume "h \<in> ni_href ` set NAV_ITEMS"
  then have "h \<in> set (map ni_href NAV_ITEMS)" by simp
  then show ?thesis unfolding nav_hrefs by (auto simp: first_segment_def)
qed

lemma nav_unique:
  assumes "g \<in> ni_href ` set NAV_ITEMS" and "h \<in> ni_href ` set NAV_ITEMS" and "owns p g" and "owns p h"
  shows "g = h"
proof -
  have "tl g = tl h"
    using owns_first_segment [OF assms(3)] owns_first_segment [OF assms(4)]
      nav_segments [OF assms(1)] nav_segments [OF assms(2)] by simp
  then show ?thesis
    using nav_segments [OF assms(1)] nav_segments [OF assms(2)] by (metis list.collapse)
qed

text \<open>With no two owners and no further candidates, the loop finds the owner if there is one.\<close>

lemma active_loop:
  assumes "\<forall>i \<in> set is. ni_match i = None"
    and "\<forall>i \<in> set is. \<forall>j \<in> set is. owns p (ni_href i) \<longrightarrow> owns p (ni_href j) \<longrightarrow> ni_href i = ni_href j"
    and "best = None \<or> (\<exists>b. best = Some b \<and> (\<forall>i \<in> set is. owns p (ni_href i) \<longrightarrow> ni_href i = b))"
  shows "foldl (\<lambda>best i. foldl (consider_candidate p i) best (candidates i)) best is
    = (case best of Some b \<Rightarrow> Some b | None \<Rightarrow> map_option ni_href (find (\<lambda>i. owns p (ni_href i)) is))"
  using assms
proof (induction "is" arbitrary: best)
  case (Cons i "is")
  have step: "foldl (consider_candidate p i) best (candidates i)
      = (if owns p (ni_href i) then (case best of None \<Rightarrow> Some (ni_href i) | Some b \<Rightarrow> Some b) else best)"
    using Cons.prems by (auto simp: candidates_def consider_candidate_def split: option.splits)
  show ?case
  proof (cases "owns p (ni_href i)")
    case True
    then show ?thesis
      using Cons.prems by (subst foldl_Cons, subst step) (subst Cons.IH; auto split: option.splits)
  next
    case False
    then show ?thesis
      using Cons.prems by (subst foldl_Cons, subst step) (subst Cons.IH; auto split: option.splits)
  qed
qed (auto split: option.splits)

lemma active_find: "activeHref p = map_option ni_href (find (\<lambda>i. owns p (ni_href i)) NAV_ITEMS)"
proof -
  have "\<forall>i \<in> set NAV_ITEMS. \<forall>j \<in> set NAV_ITEMS.
      owns p (ni_href i) \<longrightarrow> owns p (ni_href j) \<longrightarrow> ni_href i = ni_href j"
    using nav_unique by blast
  then show ?thesis
    unfolding activeHref_def using nav_plain by (subst active_loop) auto
qed

text \<open>
  The sidebar highlights the page's owner: an item is active exactly when the path is its own
  or lies below it, at most one item owns a path, and a path no item owns highlights nothing.
\<close>

theorem activeHref_owner:
  "(activeHref p = Some h \<longleftrightarrow> h \<in> ni_href ` set NAV_ITEMS \<and> owns p h)
   \<and> (activeHref p = None \<longleftrightarrow> (\<nexists>g. g \<in> ni_href ` set NAV_ITEMS \<and> owns p g))"
proof -
  have some: "activeHref p = Some h \<longleftrightarrow> h \<in> ni_href ` set NAV_ITEMS \<and> owns p h" for h
  proof
    assume "activeHref p = Some h"
    then show "h \<in> ni_href ` set NAV_ITEMS \<and> owns p h"
      by (auto simp: active_find find_Some_iff)
  next
    assume h: "h \<in> ni_href ` set NAV_ITEMS \<and> owns p h"
    then have "find (\<lambda>i. owns p (ni_href i)) NAV_ITEMS \<noteq> None"
      by (auto simp: find_None_iff)
    then obtain i where i: "find (\<lambda>i. owns p (ni_href i)) NAV_ITEMS = Some i" by auto
    then have "i \<in> set NAV_ITEMS" "owns p (ni_href i)" by (auto simp: find_Some_iff)
    then show "activeHref p = Some h" using nav_unique h i by (auto simp: active_find)
  qed
  then show ?thesis by (metis not_None_eq)
qed

end
