(* ===== verification/Orb.thy ===== *)
theory Orb
  imports Session
begin

text \<open>
  The page assistant: \<open>frontend/lib/orb-knowledge.ts\<close> (the reviewed facts, the prompt built from
  them, the canned replies and the fact fallback) and its route \<open>frontend/app/api/orb/route.ts\<close>.
  The chat service is the parameter \<open>chat\<close> of \<open>POST\<close>, from the request body it is sent to what it
  answers; the requests sent to it are returned beside the response.
\<close>

record fact =
  topic_of :: string
  fact_text :: string

definition FACTS :: "fact list" where
  "FACTS = [
    \<lparr>topic_of = ''what it is'', fact_text =
      ''CredenceAI gives verified autonomous agents task-specific working capital through re'' @
      ''stricted credit vaults, with repayment taken automatically from the revenue the task'' @
      '' earns.''\<rparr>,
    \<lparr>topic_of = ''sandbox'', fact_text =
      ''This is a hackathon sandbox. Balances and limits are test credits, nothing is redeem'' @
      ''able, no payment rail exists behind the vault, and a settled transaction is a ledger'' @
      '' entry rather than a transfer. CredenceAI is not a licensed lender and nothing here '' @
      ''is an offer of credit or financial advice.''\<rparr>,
    \<lparr>topic_of = ''passport'', fact_text =
      ''An agent passport is the agent'' @ [APOS] @
      ''s verified identity. It is signed, and a spend is refused if the identity is invalid'' @
      '' or its authorisation window has expired.''\<rparr>,
    \<lparr>topic_of = ''vault'', fact_text =
      ''A vault is restricted credit scoped to one task. It carries a total limit, a per-tra'' @
      ''nsaction limit, and an allow-list of vendors the agent may pay. A spend outside any '' @
      ''of those is denied.''\<rparr>,
    \<lparr>topic_of = ''policy'', fact_text =
      ''Every spend attempt is authorised against a versioned Rego rule set (credence.credit'' @
      ''/v1) before it can settle. The evaluator that runs is an in-process mirror of that b'' @
      ''undle sharing OPA'' @ [APOS] @
      ''s input-document shape, and the decision it records reports engine=\"local\". Missing '' @
      ''or malformed policy input denies the spend '' @ [EM_DASH] @
      '' there is no permissive default.''\<rparr>,
    \<lparr>topic_of = ''repayment'', fact_text =
      ''Revenue from the task is applied in a fixed order: outstanding principal first, then'' @
      '' the fee, then replenishing any reserve that was drawn, and whatever survives goes t'' @
      ''o the owner. The arithmetic is in integer minor units, so nothing is lost to roundin'' @
      ''g.''\<rparr>,
    \<lparr>topic_of = ''ai role'', fact_text =
      ''The models are advisory only. They read evidence and raise flags; they never decide '' @
      ''an amount. Every figure comes from the deterministic engine, and a model failure nev'' @
      ''er produces an automatic approval '' @ [EM_DASH] @ '' it produces a human review.''\<rparr>,
    \<lparr>topic_of = ''model'', fact_text =
      ''The deployed analyst model is mistral-small3.2:24b-instruct-2506-q4_K_M, served on a'' @
      '' single NVIDIA L4 that scales to zero when idle. This chat assistant is a separate, '' @
      ''much smaller model and has no access to any account, vault, or ledger data.''\<rparr>,
    \<lparr>topic_of = ''audit'', fact_text =
      ''Actions are written to an append-only audit chain, so a decision can be traced back '' @
      ''to the rules and evidence that produced it.''\<rparr>,
    \<lparr>topic_of = ''limits'', fact_text =
      ''The system is honest about what it has not shown. Two of its accuracy metrics rest o'' @
      ''n only three cases each, and it reports a metric as unavailable rather than as zero '' @
      ''when it could not be evaluated.''\<rparr>]"

definition SECTIONS :: "(string \<times> string) list" where
  "SECTIONS = [
    (''How it works'', ''#how-it-works''),
    (''Products'', ''#products''),
    (''Safety'', ''#safety''),
    (''Deployment'', ''#deployment''),
    (''Sandbox disclosure'', ''#sandbox''),
    (''Console'', ''/console'')]"

definition RULES :: string where
  "RULES =
      ''You are the assistant orb on the CredenceAI website. You help visitors understand wh'' @
      ''at this page is about.'' @ [NEWLINE] @ [NEWLINE] @
      ''Answer ONLY from the facts below. If a question is not covered by them, say plainly '' @
      ''that you do not know and point the visitor at the relevant section of the page. Neve'' @
      ''r invent a feature, a number, a partner, a customer, a price, or a compliance claim.'' @
      [NEWLINE] @ [NEWLINE] @
      ''Never say CredenceAI is production ready, fully secure, guaranteed, or 100% accurate'' @
      ''. Never state that Open Policy Agent authorises spends '' @ [EM_DASH] @
      '' the deployed evaluator is an in-process mirror of the Rego bundle. Never offer fina'' @
      ''ncial or investment advice. If asked for account, balance, or personal data, explain'' @
      '' you have no access to any of it.'' @ [NEWLINE] @ [NEWLINE] @
      ''Keep replies to two or three sentences. Be warm and direct. Plain text only '' @ [EM_DASH] @
      '' no markdown, no bullet points, no headings.''"

subsection \<open>The prompt\<close>

text \<open>\<open>s.split(/\W+/)\<close>: the maximal runs of word characters, with an empty piece at either end that
  a separator touches.\<close>

fun split_words :: "string \<Rightarrow> string list" where
  "split_words [] = [[]]"
| "split_words (c # s) =
     (if is_word c then (c # hd (split_words s)) # tl (split_words s)
      else [] # (if s \<noteq> [] \<and> \<not> is_word (hd s) then tl (split_words s) else split_words s))"

definition fact_score :: "string \<Rightarrow> fact \<Rightarrow> nat" where
  "fact_score q f = length (filter (\<lambda>w. length w > 4 \<and> str_includes q w)
     (split_on (CHR '' '') (topic_of f) @ split_words (to_lower (fact_text f))))"

definition chosen_facts :: "string \<Rightarrow> fact list" where
  "chosen_facts message =
     (let q = to_lower message;
          scored = filter (\<lambda>f. fact_score q f > 0) FACTS
      in take 4 (sort_key (\<lambda>f. - int (fact_score q f)) scored))"

definition pinned_fact :: fact where
  "pinned_fact = the (find (\<lambda>f. topic_of f = ''sandbox'') FACTS)"

definition prompt_facts :: "string \<Rightarrow> fact list" where
  "prompt_facts message =
     (let chosen = chosen_facts message;
          base = (if chosen \<noteq> [] then chosen else [FACTS ! 0, FACTS ! 6])
      in if List.member base pinned_fact then base else base @ [pinned_fact])"

definition prompt_of :: "fact list \<Rightarrow> string" where
  "prompt_of facts = RULES @ [NEWLINE, NEWLINE] @ ''FACTS:'' @ [NEWLINE]
     @ join [NEWLINE] (map (\<lambda>f. ''- '' @ topic_of f @ '': '' @ fact_text f) facts)
     @ [NEWLINE, NEWLINE] @ ''PAGE SECTIONS you may point to: ''
     @ join '', '' (map (\<lambda>(l, h). l @ '' ('' @ h @ '')'') SECTIONS)"

definition buildPrompt :: "string \<Rightarrow> string" where
  "buildPrompt message = prompt_of (prompt_facts message)"

definition SYSTEM_PROMPT :: string where "SYSTEM_PROMPT = prompt_of FACTS"

subsection \<open>Canned replies\<close>

text \<open>
  The first three patterns are \<open>^\s*(a|b|...)\b[\s!.,]*$\<close> with the flag \<open>i\<close>; the words end in a
  word character and what follows holds none, so the boundary always holds. The last is a
  disjunction of phrases between word boundaries, anywhere in the message.
\<close>

definition greeting_tail :: "char \<Rightarrow> bool" where
  "greeting_tail c \<longleftrightarrow> is_space c \<or> c = CHR ''!'' \<or> c = CHR ''.'' \<or> c = CHR '',''"

definition whole_phrase :: "string list \<Rightarrow> string \<Rightarrow> bool" where
  "whole_phrase alts s =
     (let r = to_lower (dropWhile is_space s)
      in list_ex (\<lambda>a. starts_with r a \<and> list_all greeting_tail (drop (length a) r)) alts)"

fun phrase_within :: "bool \<Rightarrow> string \<Rightarrow> string \<Rightarrow> bool" where
  "phrase_within after_word p [] \<longleftrightarrow> False"
| "phrase_within after_word p (c # s) \<longleftrightarrow>
     \<not> after_word \<and> starts_with (c # s) p
        \<and> (case drop (length p) (c # s) of [] \<Rightarrow> True | d # _ \<Rightarrow> \<not> is_word d)
     \<or> phrase_within (is_word c) p s"

definition CANNED :: "((string \<Rightarrow> bool) \<times> string) list" where
  "CANNED = [
    (whole_phrase [''hi'', ''hey'', ''hello'', ''yo'', ''hiya'', ''howdy'', ''hi there'', ''hey there'',
       ''good morning'', ''good afternoon'', ''good evening''],
      ''Hi! I'' @ [APOS] @
      ''m the CredenceAI orb. This page is about task-backed credit for autonomous agents '' @
      [EM_DASH] @
      '' verified passports, restricted vaults, automatic repayment. Ask me anything about i'' @
      ''t.''),
    (whole_phrase [''thanks'', ''thank you'', ''ty'', ''cheers'', ''nice'', ''cool'', ''great'', ''awesome''],
      ''Glad that helped. Anything else you want to know about the page?''),
    (whole_phrase [''bye'', ''goodbye'', ''see ya'', ''see you'', ''later''],
      ''Take care. The sandbox disclosure section is worth a read before you go.''),
    ((\<lambda>s. list_ex (\<lambda>p. phrase_within False p (to_lower s))
       [''who are you'', ''what are you'', ''what can you do'', ''your name'']),
      ''I'' @ [APOS] @
      ''m a small assistant that answers questions about this page. I run on a compact local'' @
      '' model, I only speak from what this site actually states, and I have no access to an'' @
      ''y account or vault data.'')]"

subsection \<open>The fact fallback\<close>

definition fact_topic :: "string \<Rightarrow> string" where
  "fact_topic name = fact_text (the (find (\<lambda>f. topic_of f = name) FACTS))"

definition factFallback :: "string \<Rightarrow> string option" where
  "factFallback message =
     (let q = to_lower message; hit = (\<lambda>ws. list_ex (str_includes q) ws) in
      if hit [''repay'', ''waterfall'', ''revenue'', ''principal''] then Some (fact_topic ''repayment'')
      else if hit [''vault'', ''limit'', ''vendor'', ''spend''] then Some (fact_topic ''vault'')
      else if hit [''passport'', ''identity'', ''verif''] then Some (fact_topic ''passport'')
      else if hit [''policy'', ''rego'', ''opa'', ''authoris'', ''authoriz''] then Some (fact_topic ''policy'')
      else if hit [''model'', ''llm'', ''mistral'', ''ai '', ''hallucinat''] then Some (fact_topic ''ai role'')
      else if hit [''audit'', ''trace'', ''ledger'', ''chain''] then Some (fact_topic ''audit'')
      else if hit [''sandbox'', ''real money'', ''licens'', ''regulat'', ''legal'', ''safe'', ''risk'', ''lose'']
        then Some (fact_topic ''sandbox'')
      else if hit [''accur'', ''metric'', ''how good'', ''reliab''] then Some (fact_topic ''limits'')
      else if hit [''what'', ''who'', ''explain'', ''about'', ''credence'', ''do''] then Some (fact_topic ''what it is'')
      else None)"

subsection \<open>The route\<close>

definition DEFAULT_MODEL :: string where "DEFAULT_MODEL = ''gemma3:4b''"
definition KEEP_ALIVE :: string where "KEEP_ALIVE = ''30m''"
definition MAX_MESSAGE_CHARS :: nat where "MAX_MESSAGE_CHARS = 600"

datatype Source = Canned | Model | Facts

record orb_reply =
  or_text :: string
  or_source :: Source
  or_status :: int
  or_cache_control :: string

definition reply :: "string \<Rightarrow> Source \<Rightarrow> int \<Rightarrow> orb_reply" where
  "reply t source status = \<lparr>or_text = t, or_source = source, or_status = status,
     or_cache_control = ''no-store, private''\<rparr>"

definition orbModel :: "env \<Rightarrow> string" where
  "orbModel env = (case env ''CREDENCE_ORB_MODEL'' of None \<Rightarrow> DEFAULT_MODEL | Some m \<Rightarrow> m)"

definition ollamaBase :: "env \<Rightarrow> string option" where
  "ollamaBase env =
     (case env ''CREDENCE_ORB_OLLAMA_URL'' of
        None \<Rightarrow> None
      | Some raw \<Rightarrow> if trim raw = [] then None else Some (strip_slashes raw))"

text \<open>What the chat service does: no answer in time, or a status and the parsed body, if it parses.\<close>

datatype chat_outcome = ChatSilent | ChatAnswer int "json option"

record chat_request =
  ch_url :: string
  ch_model :: string
  ch_keep_alive :: string
  ch_messages :: "(string \<times> string) list"
  ch_stream :: bool
  ch_temperature :: rat
  ch_num_predict :: int
  ch_num_ctx :: int

definition chat_request_for :: "env \<Rightarrow> string \<Rightarrow> string \<Rightarrow> chat_request" where
  "chat_request_for env base message = \<lparr>ch_url = base @ ''/api/chat'', ch_model = orbModel env,
     ch_keep_alive = KEEP_ALIVE,
     ch_messages = [(''system'', buildPrompt message), (''user'', message)],
     ch_stream = False, ch_temperature = 3 / 10, ch_num_predict = 140, ch_num_ctx = 4096\<rparr>"

definition strip_markdown :: "string \<Rightarrow> string" where
  "strip_markdown s = filter (\<lambda>c. c \<noteq> CHR ''*'' \<and> c \<noteq> CHR ''_'' \<and> c \<noteq> CHR 0x60 \<and> c \<noteq> CHR ''#'') s"

fun model_text :: "chat_outcome \<Rightarrow> string option" where
  "model_text ChatSilent = None"
| "model_text (ChatAnswer status payload) =
     (if \<not> status_ok status then None
      else case payload of None \<Rightarrow> None
      | Some v \<Rightarrow> (case member ''content'' (member ''message'' v) of
            JStr content \<Rightarrow> (let cleaned = trim (strip_markdown content)
               in if cleaned = [] then None else Some cleaned)
          | _ \<Rightarrow> None))"

definition askModel :: "env \<Rightarrow> (chat_request \<Rightarrow> chat_outcome) \<Rightarrow> string
    \<Rightarrow> string option \<times> chat_request list" where
  "askModel env chat message =
     (case ollamaBase env of
        None \<Rightarrow> (None, [])
      | Some base \<Rightarrow> (let r = chat_request_for env base message in (model_text (chat r), [r])))"

definition POST :: "env \<Rightarrow> (chat_request \<Rightarrow> chat_outcome) \<Rightarrow> json option
    \<Rightarrow> orb_reply \<times> chat_request list" where
  "POST env chat body =
     (case body of
        None \<Rightarrow> (reply ''I could not read that. Try typing it again?'' Facts 400, [])
      | Some b \<Rightarrow> (case as_string (member ''message'' b) of
          None \<Rightarrow> (reply (''Ask me something about this page and I'' @ [APOS] @ ''ll do my best.'') Facts 400, [])
        | Some message \<Rightarrow>
            if trim message = [] then
              (reply (''Ask me something about this page and I'' @ [APOS] @ ''ll do my best.'') Facts 400, [])
            else if length message > MAX_MESSAGE_CHARS then
              (reply (''That'' @ [APOS] @ ''s a bit long for me. Could you ask it in a sentence or two?'') Facts 413, [])
            else (let trimmed = trim message in
              case find (\<lambda>(m, _). m trimmed) CANNED of
                Some (_, r) \<Rightarrow> (reply r Canned 200, [])
              | None \<Rightarrow> (case askModel env chat trimmed of
                  (Some answered, calls) \<Rightarrow> (reply answered Model 200, calls)
                | (None, calls) \<Rightarrow> (case factFallback trimmed of
                    Some fallback \<Rightarrow> (reply fallback Facts 200, calls)
                  | None \<Rightarrow> (reply
                      (''I don'' @ [APOS] @ ''t know that one '' @ [EM_DASH] @
                      '' I only answer from what this page states. Try asking about the vault, the repayment'' @
                      '' order, the agent passport, or the sandbox disclosure.'')
                      Facts 200, calls))))))"

subsection \<open>Lemmas\<close>

lemma pinned_in_facts: "pinned_fact \<in> set FACTS" "topic_of pinned_fact = ''sandbox''"
  by (simp_all add: pinned_fact_def FACTS_def)

lemma find_in: "find P xs = Some x \<Longrightarrow> x \<in> set xs"
  by (auto simp: find_Some_iff)

lemma fact_topic_in:
  "list_all (\<lambda>n. fact_topic n \<in> fact_text ` set FACTS) [''repayment'', ''vault'', ''passport'', ''policy'',
     ''ai role'', ''audit'', ''sandbox'', ''limits'', ''what it is'']"
proof -
  have "fact_topic n \<in> fact_text ` set FACTS" if "list_ex (\<lambda>f. topic_of f = n) FACTS" for n
  proof -
    from that obtain f where f: "find (\<lambda>f. topic_of f = n) FACTS = Some f"
      by (cases "find (\<lambda>f. topic_of f = n) FACTS") (auto simp: find_None_iff list_ex_iff)
    then have "f \<in> set FACTS" by (auto simp: find_Some_iff)
    then show ?thesis by (simp add: fact_topic_def f)
  qed
  then show ?thesis by (simp add: FACTS_def)
qed

lemma fallback_in: "factFallback m = Some t \<Longrightarrow> t \<in> fact_text ` set FACTS"
  using fact_topic_in by (auto simp: factFallback_def Let_def split: if_splits)

lemma distinct_facts: "distinct FACTS"
proof -
  have "distinct (map topic_of FACTS)" by (simp add: FACTS_def)
  then show ?thesis by (simp add: distinct_map)
qed

lemma chosen_facts_in: "set (chosen_facts m) \<subseteq> set FACTS" "distinct (chosen_facts m)" "length (chosen_facts m) \<le> 4"
  using distinct_facts set_take_subset [of 4] by (auto simp: chosen_facts_def Let_def dest!: in_set_takeD)

lemma base_facts: "FACTS ! 0 \<in> set FACTS" "FACTS ! 6 \<in> set FACTS" "FACTS ! 0 \<noteq> FACTS ! 6"
  by (simp_all add: FACTS_def)

lemma prompt_facts_in:
  "set (prompt_facts m) \<subseteq> set FACTS \<and> pinned_fact \<in> set (prompt_facts m) \<and> distinct (prompt_facts m)
   \<and> length (prompt_facts m) \<le> 5"
proof -
  define base where "base = (if chosen_facts m \<noteq> [] then chosen_facts m else [FACTS ! 0, FACTS ! 6])"
  have "set base \<subseteq> set FACTS" "distinct base" "length base \<le> 4"
    using chosen_facts_in [of m] base_facts by (auto simp: base_def)
  moreover have "prompt_facts m = (if List.member base pinned_fact then base else base @ [pinned_fact])"
    by (simp add: prompt_facts_def base_def Let_def)
  ultimately show ?thesis using pinned_in_facts by auto
qed

lemma trim_no: "c \<notin> set s \<Longrightarrow> c \<notin> set (trim s)"
  by (auto simp: trim_def dest!: set_dropWhileD)

lemma model_text_clean:
  assumes "model_text out = Some t"
  shows "t \<noteq> [] \<and> set t \<inter> {CHR ''*'', CHR ''_'', CHR 0x60, CHR ''#''} = {}"
proof -
  obtain content where t: "t = trim (strip_markdown content)" "t \<noteq> []"
    using assms by (cases out rule: model_text.cases)
      (auto simp: Let_def split: if_splits option.splits json.splits)
  have "c \<notin> set t" if "c \<in> {CHR ''*'', CHR ''_'', CHR 0x60, CHR ''#''}" for c
    unfolding t(1) using that by (intro trim_no) (auto simp: strip_markdown_def)
  then show ?thesis using t(2) by blast
qed

subsection \<open>Properties\<close>

text \<open>
  Every prompt is grounded: whatever is asked, the prompt starts with the rules and states
  only reviewed facts, each once and at most five, always including the sandbox disclosure; the
  visitor's words select facts but are never part of it.
\<close>

theorem prompt_grounded:
  "\<exists>facts. buildPrompt m = prompt_of facts \<and> starts_with (buildPrompt m) RULES
     \<and> set facts \<subseteq> set FACTS \<and> distinct facts \<and> length facts \<le> 5
     \<and> pinned_fact \<in> set facts \<and> topic_of pinned_fact = ''sandbox''"
  using prompt_facts_in [of m] pinned_in_facts(2)
  by (intro exI [of _ "prompt_facts m"]) (simp add: buildPrompt_def prompt_of_def starts_with_def)

text \<open>A question of 1 to 600 characters is accepted, however it is then answered.\<close>

lemma POST_accepts:
  assumes "as_string (member ''message'' b) = Some m" and "trim m \<noteq> []" and "length m \<le> MAX_MESSAGE_CHARS"
  shows "or_status (fst (POST env chat (Some b))) = 200"
  using assms by (simp add: POST_def reply_def Let_def split: option.split prod.split)

text \<open>The sentences of the route itself.\<close>

definition route_sentences :: "string list" where
  "route_sentences = [''I could not read that. Try typing it again?'',
     ''Ask me something about this page and I'' @ [APOS] @ ''ll do my best.'',
     ''That'' @ [APOS] @ ''s a bit long for me. Could you ask it in a sentence or two?'',
     ''I don'' @ [APOS] @ ''t know that one '' @ [EM_DASH] @
     '' I only answer from what this page states. Try asking about the vault, the repayment'' @
     '' order, the agent passport, or the sandbox disclosure.'']"

lemma orb_replies_vouched:
  "case or_source (fst (POST env chat body)) of
      Canned \<Rightarrow> or_text (fst (POST env chat body)) \<in> snd ` set CANNED
    | Facts \<Rightarrow> or_text (fst (POST env chat body)) \<in> fact_text ` set FACTS \<union> set route_sentences
    | Model \<Rightarrow> \<exists>r. snd (POST env chat body) = [r] \<and> model_text (chat r) = Some (or_text (fst (POST env chat body)))
        \<and> or_text (fst (POST env chat body)) \<noteq> []
        \<and> set (or_text (fst (POST env chat body))) \<inter> {CHR ''*'', CHR ''_'', CHR 0x60, CHR ''#''} = {}"
proof (cases "body = None \<or> (\<exists>b. body = Some b \<and> (as_string (member ''message'' b) = None
    \<or> (\<exists>m. as_string (member ''message'' b) = Some m \<and> (trim m = [] \<or> length m > MAX_MESSAGE_CHARS))))")
  case True
  then show ?thesis by (auto simp: POST_def reply_def route_sentences_def)
next
  case False
  then obtain b m where bm: "body = Some b" "as_string (member ''message'' b) = Some m"
    "trim m \<noteq> []" "\<not> length m > MAX_MESSAGE_CHARS" by auto
  show ?thesis
  proof (cases "find (\<lambda>(c, _). c (trim m)) CANNED")
    case (Some p)
    then have "snd p \<in> snd ` set CANNED" using find_in by fastforce
    then show ?thesis using bm Some by (cases p) (simp add: POST_def reply_def)
  next
    case None
    obtain ans calls where ask: "askModel env chat (trim m) = (ans, calls)" by fastforce
    show ?thesis
    proof (cases ans)
      case (Some t)
      then obtain r where "calls = [r]" "model_text (chat r) = Some t"
        using ask by (auto simp: askModel_def Let_def split: option.splits)
      moreover from model_text_clean [OF this(2)]
      have "t \<noteq> []" "set t \<inter> {CHR ''*'', CHR ''_'', CHR 0x60, CHR ''#''} = {}" by simp_all
      ultimately show ?thesis using bm None ask Some by (simp add: POST_def reply_def Let_def)
    next
      case none: None
      then show ?thesis
        using bm None ask fallback_in [of "trim m"]
        by (auto simp: POST_def reply_def Let_def route_sentences_def split: option.split)
    qed
  qed
qed

text \<open>
  The orb says which tier answered and each tier says only its own words: a canned answer is
  one of the canned replies, a factual one is a reviewed fact or a sentence of the route, and
  text labelled as the model's is what the chat service returned, stripped of markdown.
\<close>

theorem orb_source_truthful:
  "case or_source (fst (POST env chat body)) of
      Canned \<Rightarrow> or_text (fst (POST env chat body)) \<in> snd ` set CANNED
    | Facts \<Rightarrow> or_text (fst (POST env chat body)) \<in> fact_text ` set FACTS \<union> set route_sentences
    | Model \<Rightarrow> \<exists>r. snd (POST env chat body) = [r] \<and> model_text (chat r) = Some (or_text (fst (POST env chat body)))
        \<and> or_text (fst (POST env chat body)) \<noteq> []
        \<and> set (or_text (fst (POST env chat body))) \<inter> {CHR ''*'', CHR ''_'', CHR 0x60, CHR ''#''} = {}"
  by (rule orb_replies_vouched)

text \<open>
  The chat service is reached only with a configured address, only by a message of 1 to 600
  characters that is no greeting, at most once, and is given the grounded prompt and that message.
\<close>

theorem orb_model_gate:
  assumes "r \<in> set (snd (POST env chat body))"
  shows "\<exists>base b m. ollamaBase env = Some base \<and> body = Some b \<and> member ''message'' b = JStr m
    \<and> trim m \<noteq> [] \<and> length m \<le> MAX_MESSAGE_CHARS \<and> find (\<lambda>(c, _). c (trim m)) CANNED = None
    \<and> r = chat_request_for env base (trim m) \<and> snd (POST env chat body) = [r]"
proof -
  obtain b where b: "body = Some b" using assms by (cases body) (auto simp: POST_def)
  obtain m where m: "as_string (member ''message'' b) = Some m"
    using assms b by (cases "as_string (member ''message'' b)") (auto simp: POST_def)
  have jm: "member ''message'' b = JStr m" using m by (cases "member ''message'' b") auto
  have ok: "trim m \<noteq> []" "\<not> length m > MAX_MESSAGE_CHARS"
    using assms b m by (auto simp: POST_def split: if_splits)
  have nc: "find (\<lambda>(c, _). c (trim m)) CANNED = None"
    using assms b m ok by (auto simp: POST_def Let_def split: option.splits prod.splits)
  obtain base where base: "ollamaBase env = Some base"
    using assms b m ok nc
    by (cases "ollamaBase env") (auto simp: POST_def Let_def askModel_def split: option.splits)
  have "snd (POST env chat body) = [chat_request_for env base (trim m)]"
    using b m ok nc base by (simp add: POST_def Let_def askModel_def split: option.splits)
  then show ?thesis using assms b jm ok nc base by auto
qed

text \<open>A visitor's question, with a chat service that answers in markdown.\<close>

theorem orb_model_gate_witness:
  "\<exists>r. snd (POST [''CREDENCE_ORB_OLLAMA_URL'' \<mapsto> ''http://o/''] (\<lambda>_. ChatSilent)
       (Some (JObj [(''message'', JStr ''Tell'')]))) = [r] \<and> ch_url r = ''http://o/api/chat''"
proof -
  let ?env = "[''CREDENCE_ORB_OLLAMA_URL'' \<mapsto> ''http://o/''] :: env"
  let ?body = "Some (JObj [(''message'', JStr ''Tell'')])"
  have nc: "find (\<lambda>(c, _). c ''Tell'') CANNED = None"
    by code_simp
  have base: "ollamaBase ?env = Some ''http://o''" by code_simp
  have trim: "trim ''Tell'' = ''Tell''" by code_simp
  have ask: "askModel ?env (\<lambda>_. ChatSilent) ''Tell'' = (None, [chat_request_for ?env ''http://o'' ''Tell''])"
    by (simp only: askModel_def base Let_def option.case model_text.simps)
  have len: "\<not> length ''Tell'' > MAX_MESSAGE_CHARS" by (simp add: MAX_MESSAGE_CHARS_def)
  have "snd (POST ?env (\<lambda>_. ChatSilent) ?body) = [chat_request_for ?env ''http://o'' ''Tell'']"
    using len by (simp add: POST_def Let_def trim nc ask split: option.split)
  then have mem: "chat_request_for ?env ''http://o'' ''Tell'' \<in> set (snd (POST ?env (\<lambda>_. ChatSilent) ?body))"
    by (simp only: list.set insertI1)
  have "snd (POST ?env (\<lambda>_. ChatSilent) ?body) = [chat_request_for ?env ''http://o'' ''Tell'']"
    using orb_model_gate [OF mem] by metis
  moreover have "ch_url (chat_request_for ?env ''http://o'' ''Tell'') = ''http://o/api/chat''"
    by (simp add: chat_request_for_def)
  ultimately show ?thesis by blast
qed

end
