(* ===== verification/View.thy ===== *)
theory View
  imports Format
begin

text \<open>
  What a React component renders: a tree of elements, text and event handlers. A handler is the
  event it sends to its component (\<open>'e\<close>), so a view is a pure function of props and state. Only
  what a reader sees, reads out or can act on is kept: styling (\<open>className\<close>, \<open>data-slot\<close>, layout
  wrappers that only carry a class) is not modelled, and an icon is an \<open>icon\<close> element. An element
  with \<open>Disabled\<close> fires no handler, its own or, for a \<open>fieldset\<close>, a descendant's.
\<close>

datatype 'e attr =
    Attr string string
  | Disabled
  | OnClick 'e
  | OnInput "string \<Rightarrow> 'e"
  | OnCheck "bool \<Rightarrow> 'e"

datatype 'e node = Txt string | El string "'e attr list" "'e node list"

fun is_disabled :: "'e attr \<Rightarrow> bool" where
  "is_disabled Disabled \<longleftrightarrow> True"
| "is_disabled _ \<longleftrightarrow> False"

fun attr_clicks :: "'e attr \<Rightarrow> 'e list" where
  "attr_clicks (OnClick e) = [e]"
| "attr_clicks _ = []"

fun attr_inputs :: "'e attr \<Rightarrow> (string \<Rightarrow> 'e) list" where
  "attr_inputs (OnInput f) = [f]"
| "attr_inputs _ = []"

fun attr_checks :: "'e attr \<Rightarrow> (bool \<Rightarrow> 'e) list" where
  "attr_checks (OnCheck f) = [f]"
| "attr_checks _ = []"

text \<open>The handlers a user can reach.\<close>

fun clicks :: "'e node \<Rightarrow> 'e list" where
  "clicks (Txt s) = []"
| "clicks (El tag as ks) =
     (if list_ex is_disabled as then [] else concat (map attr_clicks as) @ concat (map clicks ks))"

fun inputs :: "'e node \<Rightarrow> (string \<Rightarrow> 'e) list" where
  "inputs (Txt s) = []"
| "inputs (El tag as ks) =
     (if list_ex is_disabled as then [] else concat (map attr_inputs as) @ concat (map inputs ks))"

fun checks :: "'e node \<Rightarrow> (bool \<Rightarrow> 'e) list" where
  "checks (Txt s) = []"
| "checks (El tag as ks) =
     (if list_ex is_disabled as then [] else concat (map attr_checks as) @ concat (map checks ks))"

text \<open>Every event a user can cause: clicks, any text typed, any box ticked.\<close>

definition events :: "'e node \<Rightarrow> 'e set" where
  "events n = set (clicks n) \<union> (\<Union>f \<in> set (inputs n). range f) \<union> (\<Union>f \<in> set (checks n). range f)"

text \<open>The text of a tree, in document order.\<close>

fun shown :: "'e node \<Rightarrow> string" where
  "shown (Txt s) = s"
| "shown (El tag as ks) = concat (map shown ks)"

definition clicks_of :: "'e node list \<Rightarrow> 'e list" where
  "clicks_of ns = concat (map clicks ns)"

lemma events_Txt [simp]: "events (Txt s) = {}"
  by (simp add: events_def)

lemma events_disabled [simp]: "list_ex is_disabled as \<Longrightarrow> events (El tag as ks) = {}"
  by (simp add: events_def)

text \<open>A tree of plain content: no handlers of its own besides its children's.\<close>

lemma events_plain [simp]: "events (El tag [] ks) = (\<Union>k \<in> set ks. events k)"
  by (simp add: events_def UN_Un_distrib)

lemma events_attr [simp]:
  "events (El tag (Attr k v # as) ks) = events (El tag as ks)"
  by (simp add: events_def)

lemma events_click [simp]:
  "events (El tag (OnClick e # as) ks) = (if list_ex is_disabled as then {} else insert e (events (El tag as ks)))"
  by (auto simp: events_def)

lemma events_input [simp]:
  "events (El tag (OnInput f # as) ks) = (if list_ex is_disabled as then {} else range f \<union> events (El tag as ks))"
  by (auto simp: events_def)

lemma events_check [simp]:
  "events (El tag (OnCheck f # as) ks) = (if list_ex is_disabled as then {} else range f \<union> events (El tag as ks))"
  by (auto simp: events_def)

lemma events_Disabled [simp]: "events (El tag (Disabled # as) ks) = {}"
  by (simp add: events_def)

text \<open>
  A component inside another: its events become events of its parent (\<open>map_node g\<close>).
\<close>

lemma is_disabled_map [simp]: "is_disabled (map_attr g a) = is_disabled a"
  by (cases a) simp_all

lemma attr_clicks_map [simp]: "attr_clicks (map_attr g a) = map g (attr_clicks a)"
  by (cases a) simp_all

lemma attr_inputs_map [simp]: "attr_inputs (map_attr g a) = map ((\<circ>) g) (attr_inputs a)"
  by (cases a) simp_all

lemma attr_checks_map [simp]: "attr_checks (map_attr g a) = map ((\<circ>) g) (attr_checks a)"
  by (cases a) simp_all

lemma clicks_map: "clicks (map_node g n) = map g (clicks n)"
  by (induction n) (simp_all add: list_ex_iff map_concat comp_def cong: map_cong)

lemma inputs_map: "inputs (map_node g n) = map ((\<circ>) g) (inputs n)"
  by (induction n) (simp_all add: list_ex_iff map_concat comp_def cong: map_cong)

lemma checks_map: "checks (map_node g n) = map ((\<circ>) g) (checks n)"
  by (induction n) (simp_all add: list_ex_iff map_concat comp_def cong: map_cong)

lemma events_map [simp]: "events (map_node g n) = g ` events n"
  by (simp add: events_def clicks_map inputs_map checks_map image_Un image_UN image_comp comp_def)

subsection \<open>Building views\<close>

text \<open>\<open>{b && <.../>}\<close>.\<close>

definition show_if :: "bool \<Rightarrow> 'e node list \<Rightarrow> 'e node list" where
  "show_if b ns = (if b then ns else [])"

definition some_node :: "('a \<Rightarrow> 'e node list) \<Rightarrow> 'a option \<Rightarrow> 'e node list" where
  "some_node f v = (case v of None \<Rightarrow> [] | Some x \<Rightarrow> f x)"

definition disabled_if :: "bool \<Rightarrow> 'e attr list" where
  "disabled_if b = (if b then [Disabled] else [])"

definition bool_text :: "bool \<Rightarrow> string" where
  "bool_text b = (if b then ''true'' else ''false'')"

definition icon :: "string \<Rightarrow> 'e node" where
  "icon name = El ''icon'' [Attr ''name'' name] []"

definition para :: "string \<Rightarrow> 'e node" where
  "para s = El ''p'' [] [Txt s]"

lemma set_show_if [simp]: "set (show_if b ns) = (if b then set ns else {})"
  by (simp add: show_if_def)

lemma UN_if [simp]: "(\<Union>k \<in> (if b then A else B). f k) = (if b then \<Union>k \<in> A. f k else (\<Union>k \<in> B. f k))"
  by simp

lemma events_icon [simp]: "events (icon n) = {}"
  by (simp add: icon_def)

lemma events_para [simp]: "events (para s) = {}"
  by (simp add: para_def)

lemma list_ex_disabled_if [simp]: "list_ex is_disabled (disabled_if b) = b"
  by (simp add: disabled_if_def)

lemma events_disabled_if [simp]:
  "events (El tag (disabled_if b @ as) ks) = (if b then {} else events (El tag as ks))"
  by (simp add: disabled_if_def)

lemma events_disabled_alone [simp]:
  "events (El tag (disabled_if b) ks) = (if b then {} else \<Union>k \<in> set ks. events k)"
  by (simp add: disabled_if_def)

lemma set_some_node: "set (some_node f v) = (case v of None \<Rightarrow> {} | Some x \<Rightarrow> set (f x))"
  by (simp add: some_node_def split: option.split)

lemma some_node_simps [simp]: "some_node f None = []" "some_node f (Some x) = f x"
  by (simp_all add: some_node_def)

end
