(* ===== verification/Ui.thy ===== *)
theory Ui
  imports View
begin

text \<open>
  The shared controls: \<open>frontend/components/ui/button.tsx\<close>, \<open>badge.tsx\<close>, \<open>field.tsx\<close>, \<open>card.tsx\<close>,
  \<open>tooltip.tsx\<close>, \<open>meter.tsx\<close> and \<open>sheet.tsx\<close>. A variant, tone or size picks styling only; a
  button's variant and a badge's tone are kept as attributes because they carry meaning.
\<close>

subsection \<open>Buttons and badges\<close>

datatype button_variant = Primary | Secondary | Subtle | Ghost | Danger | LinkVariant

fun variant_text :: "button_variant \<Rightarrow> string" where
  "variant_text Primary = ''primary''"
| "variant_text Secondary = ''secondary''"
| "variant_text Subtle = ''subtle''"
| "variant_text Ghost = ''ghost''"
| "variant_text Danger = ''danger''"
| "variant_text LinkVariant = ''link''"

definition Button :: "button_variant \<Rightarrow> bool \<Rightarrow> 'e \<Rightarrow> 'e node list \<Rightarrow> 'e node" where
  "Button variant disabled on_click children =
     El ''button'' (Attr ''type'' ''button'' # Attr ''variant'' (variant_text variant)
       # disabled_if disabled @ [OnClick on_click]) children"

datatype BadgeTone = neutral | positive | caution | critical | info | outline

fun tone_text :: "BadgeTone \<Rightarrow> string" where
  "tone_text neutral = ''neutral''"
| "tone_text positive = ''positive''"
| "tone_text caution = ''caution''"
| "tone_text critical = ''critical''"
| "tone_text info = ''info''"
| "tone_text outline = ''outline''"

definition Badge :: "BadgeTone \<Rightarrow> 'e node list \<Rightarrow> 'e node" where
  "Badge tone children = El ''span'' [Attr ''tone'' (tone_text tone)] children"

definition Dot :: "BadgeTone \<Rightarrow> 'e node" where
  "Dot tone = El ''span'' [Attr ''aria-hidden'' ''true'', Attr ''tone'' (tone_text tone)] []"

subsection \<open>Form controls\<close>

text \<open>The attributes a caller passes come before the handler; \<open>disabled\<close> is the caller's.\<close>

definition Input :: "'e attr list \<Rightarrow> string \<Rightarrow> bool \<Rightarrow> (string \<Rightarrow> 'e) \<Rightarrow> 'e node" where
  "Input as v disabled f = El ''input'' (disabled_if disabled @ as @ [Attr ''value'' v, OnInput f]) []"

definition ReadOnlyInput :: "string \<Rightarrow> 'e node" where
  "ReadOnlyInput v = El ''input'' [Attr ''value'' v, Attr ''readonly'' ''true''] []"

definition Textarea :: "'e attr list \<Rightarrow> string \<Rightarrow> (string \<Rightarrow> 'e) \<Rightarrow> 'e node" where
  "Textarea as v f = El ''textarea'' (as @ [Attr ''value'' v, OnInput f]) []"

text \<open>A select reports the value of the chosen option; its options are pairs of value and label.\<close>

definition Select :: "'e attr list \<Rightarrow> string \<Rightarrow> (string \<Rightarrow> 'e) \<Rightarrow> (string \<times> string) list \<Rightarrow> 'e node" where
  "Select as v f opts = El ''select'' (as @ [Attr ''value'' v, OnInput f])
     (map (\<lambda>(ov, ol). El ''option'' [Attr ''value'' ov] [Txt ol]) opts)"

definition Label :: "string option \<Rightarrow> string \<Rightarrow> 'e node" where
  "Label htmlFor label = El ''label'' (case htmlFor of None \<Rightarrow> [] | Some i \<Rightarrow> [Attr ''for'' i]) [Txt label]"

definition Field :: "string \<Rightarrow> string option \<Rightarrow> string option \<Rightarrow> 'e node list \<Rightarrow> 'e node" where
  "Field label hint htmlFor children =
     El ''div'' [] (Label htmlFor label # children @ some_node (\<lambda>h. [para h]) hint)"

subsection \<open>Cards, tooltips, meters\<close>

definition Card :: "'e node list \<Rightarrow> 'e node" where "Card children = El ''div'' [] children"
definition CardHeader :: "'e node list \<Rightarrow> 'e node" where "CardHeader children = El ''div'' [] children"
definition CardContent :: "'e node list \<Rightarrow> 'e node" where "CardContent children = El ''div'' [] children"
definition CardDescription :: "'e node list \<Rightarrow> 'e node" where "CardDescription children = El ''p'' [] children"
definition CardFooter :: "'e node list \<Rightarrow> 'e node" where "CardFooter children = El ''div'' [] children"
definition CardTitle :: "'e node list \<Rightarrow> 'e node" where "CardTitle children = El ''h3'' [] children"

definition Tooltip :: "string \<Rightarrow> 'e node list \<Rightarrow> 'e node" where
  "Tooltip content children =
     El ''span'' [] (children @ [El ''span'' [Attr ''role'' ''tooltip''] [Txt content]])"

definition meter_known :: "jsnum option \<Rightarrow> jsnum option \<Rightarrow> bool" where
  "meter_known value mx \<longleftrightarrow> value \<noteq> None \<and> mx \<noteq> None \<and> is_finite_num (the value)
     \<and> is_finite_num (the mx) \<and> num_lt (Fin 0) (the mx)"

text \<open>\<open>Math.min(100, Math.max(0, x))\<close>.\<close>

definition clamp_100 :: "jsnum \<Rightarrow> jsnum" where
  "clamp_100 x = (case x of NaN \<Rightarrow> NaN
     | _ \<Rightarrow> if num_le (Fin 100) x then Fin 100 else if num_le x (Fin 0) then Fin 0 else x)"

definition meter_pct :: "jsnum \<Rightarrow> jsnum \<Rightarrow> jsnum" where
  "meter_pct value mx = clamp_100 (num_mul (num_div value mx) (Fin 100))"

definition Meter :: "jsnum option \<Rightarrow> jsnum option \<Rightarrow> string option \<Rightarrow> 'e node" where
  "Meter value mx label =
     (let lab = (case label of None \<Rightarrow> [] | Some l \<Rightarrow> [Attr ''aria-label'' l]) in
      if \<not> meter_known value mx then El ''div'' lab [El ''span'' [] [Txt NO_VALUE]]
      else let pct = meter_pct (the value) (the mx) in
        El ''div'' (Attr ''role'' ''meter'' # lab @ [Attr ''aria-valuenow'' (to_string (math_round pct)),
          Attr ''aria-valuemin'' ''0'', Attr ''aria-valuemax'' ''100''])
          [El ''div'' [Attr ''width'' (to_string pct @ ''%'')] []])"

subsection \<open>The sheet\<close>

text \<open>\<open>mounted\<close> is false on the server and true in the browser.\<close>

definition Sheet :: "bool \<Rightarrow> bool \<Rightarrow> 'e \<Rightarrow> string \<Rightarrow> 'e node list option \<Rightarrow> 'e node list \<Rightarrow> 'e node list
    \<Rightarrow> 'e node list" where
  "Sheet mounted is_open on_close title subtitle footer children =
     (if \<not> mounted \<or> \<not> is_open then []
      else [El ''div'' [] [
        El ''button'' [Attr ''type'' ''button'', Attr ''aria-label'' ''Close panel'', OnClick on_close] [],
        El ''div'' [Attr ''role'' ''dialog'', Attr ''aria-modal'' ''true'', Attr ''aria-label'' title]
          ([El ''header'' [] [
              El ''div'' [] (El ''h2'' [] [Txt title] # some_node (\<lambda>s. [El ''div'' [] s]) subtitle),
              El ''button'' [Attr ''type'' ''button'', OnClick on_close, Attr ''aria-label'' ''Close''] [icon ''X'']],
            El ''div'' [] children]
           @ (if footer = [] then [] else [El ''footer'' [] footer]))]])"

text \<open>
  The keyboard contract of an open sheet. Focus is on the panel itself (\<open>Panel\<close>), on the \<open>k\<close>-th of
  its \<open>n\<close> focusable elements or elsewhere; a key is answered by closing, by moving focus, or by
  leaving it to the browser, which then moves it to the next or previous element.
\<close>

datatype focus = Panel | Item nat | Elsewhere

datatype key_action = CloseSheet | MoveTo focus | Browser

datatype sheet_key = Escape | Tab bool | OtherKey

fun sheet_key_down :: "nat \<Rightarrow> focus \<Rightarrow> sheet_key \<Rightarrow> key_action" where
  "sheet_key_down n active Escape = CloseSheet"
| "sheet_key_down n active (Tab shift) =
     (if n = 0 then MoveTo Panel
      else if shift \<and> (active = Item 0 \<or> active = Panel) then MoveTo (Item (n - 1))
      else if \<not> shift \<and> active = Item (n - 1) then MoveTo (Item 0)
      else Browser)"
| "sheet_key_down n active OtherKey = Browser"

subsection \<open>Events of the controls\<close>

lemma events_Button [simp]:
  "events (Button v d e ks) = (if d then {} else insert e (\<Union>k \<in> set ks. events k))"
  by (simp add: Button_def)

lemma events_Badge [simp]: "events (Badge t ks) = (\<Union>k \<in> set ks. events k)"
  by (simp add: Badge_def)

lemma events_Dot [simp]: "events (Dot t) = {}"
  by (simp add: Dot_def)

lemma events_Label [simp]: "events (Label h l) = {}"
  by (simp add: Label_def split: option.split)

lemma events_Field [simp]: "events (Field l h i ks) = (\<Union>k \<in> set ks. events k)"
  by (cases h) (auto simp: Field_def)

lemma events_Input [simp]:
  "\<forall>a \<in> set as. \<exists>k v. a = Attr k v \<Longrightarrow> events (Input as v d f) = (if d then {} else range f)"
proof -
  assume "\<forall>a \<in> set as. \<exists>k v. a = Attr k v"
  then have "events (El ''input'' (as @ [Attr ''value'' v, OnInput f]) []) = range f"
    by (induction as) (auto simp del: events_attr simp: events_attr)
  then show ?thesis by (simp add: Input_def)
qed

lemma events_ReadOnly [simp]: "events (ReadOnlyInput v) = {}"
  by (simp add: ReadOnlyInput_def)

lemma events_Textarea [simp]:
  "\<forall>a \<in> set as. \<exists>k v. a = Attr k v \<Longrightarrow> events (Textarea as v f) = range f"
  unfolding Textarea_def by (induction as) auto

lemma events_Select [simp]:
  "\<forall>a \<in> set as. \<exists>k v. a = Attr k v \<Longrightarrow> events (Select as v f opts) = range f"
proof -
  assume "\<forall>a \<in> set as. \<exists>k v. a = Attr k v"
  then have "events (El ''select'' (as @ [Attr ''value'' v, OnInput f]) ks) = range f"
    if "\<forall>k \<in> set ks. events k = {}" for ks
    using that by (induction as) auto
  then show ?thesis unfolding Select_def by (auto split: prod.splits)
qed

lemma events_Card [simp]:
  "events (Card ks) = (\<Union>k \<in> set ks. events k)" "events (CardHeader ks) = (\<Union>k \<in> set ks. events k)"
  "events (CardContent ks) = (\<Union>k \<in> set ks. events k)" "events (CardDescription ks) = (\<Union>k \<in> set ks. events k)"
  "events (CardFooter ks) = (\<Union>k \<in> set ks. events k)" "events (CardTitle ks) = (\<Union>k \<in> set ks. events k)"
  by (simp_all add: Card_def CardHeader_def CardContent_def CardTitle_def
      CardDescription_def CardFooter_def)

lemma events_Tooltip [simp]: "events (Tooltip c ks) = (\<Union>k \<in> set ks. events k)"
  by (auto simp: Tooltip_def)

lemma events_Sheet:
  "(\<Union>n \<in> set (Sheet m b e t s f ks). events n) =
     (if m \<and> b then insert e ((\<Union>k \<in> set ks. events k) \<union> (\<Union>k \<in> set f. events k)
        \<union> (\<Union>l \<in> set_option s. \<Union>k \<in> set l. events k)) else {})"
  by (cases s) (auto simp: Sheet_def)

subsection \<open>The focus trap\<close>

text \<open>
  Focus after a series of keys in an open sheet, \<open>None\<close> once it was closed; \<open>browser\<close> is where the
  browser moves focus for a Tab (shifted or not) the sheet leaves to it.
\<close>

fun sheet_focus :: "(bool \<Rightarrow> focus \<Rightarrow> focus) \<Rightarrow> nat \<Rightarrow> focus \<Rightarrow> sheet_key list \<Rightarrow> focus option" where
  "sheet_focus browser n active [] = Some active"
| "sheet_focus browser n active (k # ks) = (case sheet_key_down n active k of
     CloseSheet \<Rightarrow> None
   | MoveTo f \<Rightarrow> sheet_focus browser n f ks
   | Browser \<Rightarrow> sheet_focus browser n (case k of Tab shift \<Rightarrow> browser shift active | _ \<Rightarrow> active) ks)"

definition inside :: "nat \<Rightarrow> focus \<Rightarrow> bool" where
  "inside n f \<longleftrightarrow> f = Panel \<or> (\<exists>i < n. f = Item i)"

text \<open>
  The focus trap holds: in a browser that tabs through the focusable elements of the panel in
  order, no series of keys moves focus out of an open sheet, and it closes exactly on Escape.
\<close>

theorem focus_stays_inside:
  assumes "\<And>i. Suc i < n \<Longrightarrow> browser False (Item i) = Item (Suc i)"
    and "\<And>i. Suc i < n \<Longrightarrow> browser True (Item (Suc i)) = Item i"
    and "0 < n \<Longrightarrow> browser False Panel = Item 0"
  shows "(sheet_focus browser n Panel ks = None \<longleftrightarrow> Escape \<in> set ks)
    \<and> (\<forall>f. sheet_focus browser n Panel ks = Some f \<longrightarrow> inside n f)"
proof -
  have step: "case sheet_key_down n a k of CloseSheet \<Rightarrow> k = Escape
      | MoveTo f \<Rightarrow> k \<noteq> Escape \<and> inside n f
      | Browser \<Rightarrow> k \<noteq> Escape \<and> inside n (case k of Tab shift \<Rightarrow> browser shift a | _ \<Rightarrow> a)"
    if a: "inside n a" for a k
  proof (cases k)
    case (Tab shift)
    show ?thesis
    proof (cases a)
      case (Item i)
      then have "i < n" using a by (simp add: inside_def)
      then show ?thesis using Tab Item assms by (cases i; cases shift) (auto simp: inside_def)
    qed (use a Tab assms in \<open>auto simp: inside_def\<close>)
  qed (use a in simp_all)
  have "(sheet_focus browser n a ks = None \<longleftrightarrow> Escape \<in> set ks)
    \<and> (\<forall>f. sheet_focus browser n a ks = Some f \<longrightarrow> inside n f)" if "inside n a" for a
    using that
  proof (induction ks arbitrary: a)
    case (Cons k ks)
    then show ?case using step [OF Cons.prems, of k] by (cases "sheet_key_down n a k") auto
  qed simp
  moreover have "inside n Panel" by (simp add: inside_def)
  ultimately show ?thesis by blast
qed

text \<open>A browser that walks through three elements.\<close>

fun three_items :: "bool \<Rightarrow> focus \<Rightarrow> focus" where
  "three_items False Panel = Item 0"
| "three_items False (Item i) = (if i < 2 then Item (Suc i) else Elsewhere)"
| "three_items True (Item (Suc i)) = Item i"
| "three_items _ _ = Elsewhere"

theorem focus_stays_inside_witness:
  "sheet_focus three_items 3 Panel [Tab True, Tab False, Tab True, Tab True] = Some (Item 1)
   \<and> inside 3 (Item 1)"
proof -
  have r: "sheet_focus three_items 3 Panel [Tab True, Tab False, Tab True, Tab True] = Some (Item 1)"
    by code_simp
  show ?thesis
    using focus_stays_inside [of 3 three_items "[Tab True, Tab False, Tab True, Tab True]"] r by auto
qed

end
