(* ===== verification/Data.thy ===== *)
theory Data
  imports Ui Types
begin

text \<open>
  The renderers of \<open>frontend/components/data\<close>: \<open>states.tsx\<close> (absence, loading, empty and error
  states), \<open>value.tsx\<close> (figures that decide between a value and an absence), \<open>status.tsx\<close> (status
  vocabulary), \<open>section.tsx\<close> (page furniture), \<open>trust.tsx\<close>, and the repayment waterfall of
  \<open>frontend/components/vaults/waterfall.tsx\<close>.
\<close>

subsection \<open>The clock\<close>

text \<open>What a rendering reads of the host: the \<open>Intl\<close> date formats and \<open>Date.now()\<close>.\<close>

record clock =
  ck_host :: host
  ck_now :: int

definition ago :: "clock \<Rightarrow> Timestamp option \<Rightarrow> string" where
  "ago ck ts = relativeTime (ck_host ck) ts (ck_now ck)"

definition stamp :: "clock \<Rightarrow> Timestamp option \<Rightarrow> string" where
  "stamp ck ts = dateTimeOf (ck_host ck) ts"

subsection \<open>Absence\<close>

datatype AbsenceReason = NotAvailable | NotEvaluated | NotConnected | Insufficient | NotApplicable

fun absence_text :: "AbsenceReason \<Rightarrow> string" where
  "absence_text NotAvailable = ''unavailable''"
| "absence_text NotEvaluated = ''not-evaluated''"
| "absence_text NotConnected = ''not-connected''"
| "absence_text Insufficient = ''insufficient''"
| "absence_text NotApplicable = ''not-applicable''"

text \<open>\<open>ABSENCE_COPY\<close>: the short form and the explanation of each reason.\<close>

fun ABSENCE_COPY :: "AbsenceReason \<Rightarrow> string \<times> string" where
  "ABSENCE_COPY NotAvailable = (''Not available'',
     ''No value has been recorded for this yet. This is not a zero.'')"
| "ABSENCE_COPY NotEvaluated = (''Not evaluated'',
     ''The evaluation suite has not scored this metric. A score will appear after an evaluation run completes.'')"
| "ABSENCE_COPY NotConnected = (''Not connected'',
     ''The upstream source for this figure is not configured in this deployment, so no value can be reported.'')"
| "ABSENCE_COPY Insufficient = (''Insufficient sample'',
     ''There are too few cases to state a rate honestly. The figure will appear once the sample is large enough.'')"
| "ABSENCE_COPY NotApplicable = (''Not applicable'',
     ''This measure does not apply in the current state.'')"

definition Unavailable :: "AbsenceReason \<Rightarrow> string option \<Rightarrow> bool \<Rightarrow> 'e node" where
  "Unavailable reason detail label =
     Tooltip (case detail of Some d \<Rightarrow> d | None \<Rightarrow> snd (ABSENCE_COPY reason))
       [El ''span'' [Attr ''data-reason'' (absence_text reason)]
         [Txt (if label then fst (ABSENCE_COPY reason) else NO_VALUE)]]"

definition absenceLabel :: "AbsenceReason \<Rightarrow> string" where
  "absenceLabel reason = fst (ABSENCE_COPY reason)"

definition LoadingBlock :: "nat \<Rightarrow> 'e node" where
  "LoadingBlock rows = El ''div'' [Attr ''role'' ''status'', Attr ''aria-label'' ''Loading'']
     (replicate rows (El ''div'' [Attr ''aria-hidden'' ''true''] []))"

definition EmptyState :: "string \<Rightarrow> string option \<Rightarrow> string \<Rightarrow> 'e node list \<Rightarrow> 'e node" where
  "EmptyState title body icon_name action =
     El ''div'' [] ([icon icon_name, para title] @ some_node (\<lambda>b. [para b]) body
       @ (if action = [] then [] else [El ''div'' [] action]))"

definition ErrorState :: "string option \<Rightarrow> string option \<Rightarrow> 'e option \<Rightarrow> 'e node" where
  "ErrorState title detail onRetry =
     El ''div'' [] ([icon ''AlertTriangle'',
         para (case title of Some t \<Rightarrow> t | None \<Rightarrow> ''This could not be loaded''),
         para (''The figures on this panel are unknown right now '' @ [EM_DASH] @ '' they are not zero.'')]
       @ some_node (\<lambda>d. show_if (d \<noteq> []) [El ''details'' []
           [El ''summary'' [] [Txt ''Technical details''], para d]]) detail
       @ some_node (\<lambda>e. [Button Secondary False e [icon ''RefreshCw'', Txt ''Try again'']]) onRetry)"

subsection \<open>Values\<close>

definition MoneyValue :: "Money option \<Rightarrow> bool \<Rightarrow> AbsenceReason \<Rightarrow> 'e node" where
  "MoneyValue minor compactly reason =
     (case minor of None \<Rightarrow> Unavailable reason None False
      | Some m \<Rightarrow> El ''span'' [] [Txt (if compactly then moneyCompact (Some m) else money (Some m))])"

definition PercentValue :: "Ppm option \<Rightarrow> nat \<Rightarrow> AbsenceReason \<Rightarrow> 'e node" where
  "PercentValue ppm digits reason =
     (case ppm of None \<Rightarrow> Unavailable reason None False
      | Some p \<Rightarrow> El ''span'' [] [Txt (percent (Some p) digits)])"

definition CountValue :: "jsnum option \<Rightarrow> AbsenceReason \<Rightarrow> 'e node" where
  "CountValue value reason =
     (case value of None \<Rightarrow> Unavailable reason None False
      | Some n \<Rightarrow> El ''span'' [] [Txt (count (Some n))])"

definition InfoHint :: "string \<Rightarrow> 'e node" where
  "InfoHint content = Tooltip content
     [El ''button'' [Attr ''type'' ''button'', Attr ''aria-label'' ''What this means''] [icon ''Info'']]"

definition Metric :: "string \<Rightarrow> 'e node list \<Rightarrow> string option \<Rightarrow> 'e node list
    \<Rightarrow> (AbsenceReason \<times> string option) option \<Rightarrow> 'e node" where
  "Metric label value hint sub absent =
     El ''div'' [] ([El ''div'' [] (El ''span'' [] [Txt label] # some_node (\<lambda>h. [InfoHint h]) hint),
       El ''div'' [] (case absent of Some (reason, detail) \<Rightarrow> [Unavailable reason detail True] | None \<Rightarrow> value)]
       @ (if sub = [] then [] else [El ''div'' [] sub]))"

definition Row :: "string \<Rightarrow> string option \<Rightarrow> 'e node list \<Rightarrow> 'e node" where
  "Row label hint children = El ''div'' []
     [El ''dt'' [] (Txt label # some_node (\<lambda>h. [InfoHint h]) hint), El ''dd'' [] children]"

definition Rows :: "'e node list \<Rightarrow> 'e node" where "Rows children = El ''dl'' [] children"
definition Mono :: "'e node list \<Rightarrow> 'e node" where "Mono children = El ''span'' [] children"

subsection \<open>Statuses\<close>

definition TONES :: "(string \<times> BadgeTone) list" where
  "TONES = [
     (''ACTIVE'', positive), (''FROZEN'', caution), (''REVOKED'', critical),
     (''DRAFT'', neutral), (''IDENTITY_VERIFIED'', info), (''EVIDENCE_READY'', info),
     (''UNDERWRITING'', info), (''POLICY_EVALUATED'', info),
     (''HUMAN_REVIEW_REQUIRED'', caution), (''APPROVED'', positive), (''REJECTED'', critical),
     (''VAULT_CREATED'', positive), (''DISBURSEMENT_ENABLED'', positive), (''CREATED'', info),
     (''SPENDING'', info), (''EXPIRED'', caution), (''TASK_COMPLETED'', positive),
     (''TASK_FAILED'', critical), (''REVENUE_RECEIVED'', info), (''REPAID'', positive),
     (''PARTIALLY_REPAID'', caution), (''DEFAULTED'', critical), (''CLOSED'', neutral),
     (''PROPOSED'', neutral), (''EXECUTED'', positive), (''DENIED'', critical),
     (''ALLOW'', positive), (''DENY'', critical), (''SETTLED'', positive),
     (''PENDING'', neutral), (''OPEN'', info)]"

definition LABELS :: "(string \<times> string) list" where
  "LABELS = [
     (''HUMAN_REVIEW_REQUIRED'', ''Human review''),
     (''DISBURSEMENT_ENABLED'', ''Disbursement enabled''),
     (''IDENTITY_VERIFIED'', ''Identity verified''),
     (''EVIDENCE_READY'', ''Evidence ready''),
     (''POLICY_EVALUATED'', ''Policy evaluated''),
     (''VAULT_CREATED'', ''Vault created''),
     (''REVENUE_RECEIVED'', ''Revenue received''),
     (''PARTIALLY_REPAID'', ''Partly repaid''),
     (''TASK_COMPLETED'', ''Task completed''),
     (''TASK_FAILED'', ''Task failed''),
     (''ALLOW'', ''Allowed''),
     (''DENY'', ''Denied''),
     (''PROMPT_INJECTION_SUSPECTED'', ''Prompt injection suspected''),
     (''PROMPT_INJECTION_SUSPECTED_UNCORROBORATED'', ''Prompt injection '' @ [EM_DASH] @ '' model only, unconfirmed''),
     (''INSTRUCTION_IN_EVIDENCE'', ''Instruction in evidence''),
     (''INSTRUCTION_IN_EVIDENCE_UNCORROBORATED'', ''Instruction in evidence '' @ [EM_DASH] @ '' unconfirmed'')]"

definition statusTone :: "string option \<Rightarrow> BadgeTone" where
  "statusTone status =
     (if falsy_string status then neutral
      else case map_of TONES (to_upper (the status)) of Some t \<Rightarrow> t | None \<Rightarrow> neutral)"

definition statusLabel :: "string option \<Rightarrow> string" where
  "statusLabel status =
     (if falsy_string status then ''Unknown''
      else let key = to_upper (the status) in
        case map_of LABELS key of Some l \<Rightarrow> l | None \<Rightarrow> humanise (Some key))"

definition StatusBadge :: "string option \<Rightarrow> bool \<Rightarrow> 'e node" where
  "StatusBadge status showDot =
     (let tone = statusTone status in
      Badge tone (show_if showDot [Dot tone] @ [Txt (statusLabel status)]))"

fun TIER_TONE :: "RiskTier \<Rightarrow> BadgeTone" where
  "TIER_TONE LOW = positive"
| "TIER_TONE MEDIUM = caution"
| "TIER_TONE HIGH = critical"

fun tier_text :: "RiskTier \<Rightarrow> string" where
  "tier_text LOW = ''LOW''"
| "tier_text MEDIUM = ''MEDIUM''"
| "tier_text HIGH = ''HIGH''"

definition RiskTierBadge :: "RiskTier option \<Rightarrow> 'e node" where
  "RiskTierBadge tier =
     (case tier of None \<Rightarrow> Badge outline [Txt ''Not scored'']
      | Some t \<Rightarrow> Badge (TIER_TONE t) [Txt (tier_text t), Txt '' risk''])"

subsection \<open>Page furniture\<close>

definition PageHeader :: "string \<Rightarrow> 'e node list option \<Rightarrow> 'e node list \<Rightarrow> 'e node" where
  "PageHeader title description actions =
     El ''div'' [] ([El ''div'' [] (El ''h1'' [] [Txt title] # some_node (\<lambda>d. [El ''p'' [] d]) description)]
       @ (if actions = [] then [] else [El ''div'' [] actions]))"

definition Section :: "string option \<Rightarrow> string option \<Rightarrow> string option \<Rightarrow> 'e node list \<Rightarrow> 'e node list
    \<Rightarrow> 'e node" where
  "Section id_attr title description actions children =
     El ''section'' (case id_attr of None \<Rightarrow> [] | Some i \<Rightarrow> [Attr ''id'' i])
       (show_if (title \<noteq> None \<or> actions \<noteq> [])
          [El ''div'' [] (El ''div'' [] (some_node (\<lambda>t. [El ''h2'' [] [Txt t]]) title
               @ some_node (\<lambda>d. [para d]) description)
             # (if actions = [] then [] else [El ''div'' [] actions]))]
        @ children)"

definition AuthorityNote :: "'e node" where
  "AuthorityNote = El ''span'' []
     [Txt ''The AI recommends. Deterministic systems decide. Financial controls enforce.'']"

subsection \<open>The repayment waterfall\<close>

record StepMeta =
  sm_label :: string
  sm_tone :: BadgeTone
  sm_explain :: string

definition STEP_META :: "(string \<times> StepMeta) list" where
  "STEP_META = [
    (''REPAY_PRINCIPAL'', \<lparr>sm_label = ''Principal repaid'', sm_tone = info,
       sm_explain = ''Returns the drawn credit to the pool first.''\<rparr>),
    (''PAY_FEE'', \<lparr>sm_label = ''Credit fee'', sm_tone = neutral,
       sm_explain = ''The platform'' @ [APOS] @ ''s charge for extending the credit.''\<rparr>),
    (''REPLENISH_RESERVE'', \<lparr>sm_label = ''Reserve'', sm_tone = caution,
       sm_explain = ''Held back as a buffer against future shortfalls, up to the mandate'' @ [APOS] @ ''s cap.''\<rparr>),
    (''APPLY_REVENUE'', \<lparr>sm_label = ''Revenue applied'', sm_tone = info,
       sm_explain = ''Incoming task revenue applied to the facility during recovery.''\<rparr>),
    (''RELEASE_TO_OWNER'', \<lparr>sm_label = ''Owner proceeds'', sm_tone = positive,
       sm_explain = ''What the agent'' @ [APOS] @ ''s owner actually receives, paid last.''\<rparr>),
    (''SWEEP_UNSPENT'', \<lparr>sm_label = ''Unspent funds swept'', sm_tone = info,
       sm_explain = ''Undrawn credit returned to the pool during recovery.''\<rparr>),
    (''DRAW_RESERVE_CAPPED'', \<lparr>sm_label = ''Reserve drawn'', sm_tone = caution,
       sm_explain = ''The buffer applied against the shortfall, up to its cap.''\<rparr>),
    (''SIMULATED_LOSS'', \<lparr>sm_label = ''Recognised loss (simulated)'', sm_tone = critical,
       sm_explain = ''Booked explicitly after sweeping unspent funds and drawing the reserve. Sandbox: simulated, no real funds.''\<rparr>),
    (''DEFAULT_LOSS'', \<lparr>sm_label = ''Recognised loss'', sm_tone = critical,
       sm_explain = ''Booked explicitly after sweeping unspent funds and drawing the reserve.''\<rparr>),
    (''LOSS_DEFAULT'', \<lparr>sm_label = ''Recognised loss'', sm_tone = critical,
       sm_explain = ''Booked explicitly after sweeping unspent funds and drawing the reserve.''\<rparr>)]"

definition step_meta :: "string \<Rightarrow> StepMeta" where
  "step_meta s = (case map_of STEP_META (to_upper s) of Some m \<Rightarrow> m
     | None \<Rightarrow> \<lparr>sm_label = s, sm_tone = neutral, sm_explain = []\<rparr>)"

definition waterfall_steps :: "RepaymentRecord \<Rightarrow> WaterfallAllocation list" where
  "waterfall_steps r = filter (\<lambda>a. \<not> num_eq (wa_amount_minor a) (Fin 0)) (rr_allocations r)"

definition waterfall_total :: "WaterfallAllocation list \<Rightarrow> jsnum" where
  "waterfall_total steps = foldl (\<lambda>sum a. num_add sum (math_abs (wa_amount_minor a))) (Fin 0) steps"

definition waterfall_share :: "jsnum \<Rightarrow> WaterfallAllocation \<Rightarrow> jsnum" where
  "waterfall_share tot a = (if num_eq tot (Fin 0) then Fin 0
     else num_mul (num_div (math_abs (wa_amount_minor a)) tot) (Fin 100))"

text \<open>\<open>Math.max(share, 4)\<close>.\<close>

definition max4 :: "jsnum \<Rightarrow> jsnum" where
  "max4 x = (if x = NaN then NaN else if num_le (Fin 4) x then x else Fin 4)"

definition Waterfall :: "RepaymentRecord \<Rightarrow> 'e node" where
  "Waterfall repayment =
     (let steps = waterfall_steps repayment; tot = waterfall_total steps in
      if steps = [] then para ''This repayment allocated no funds.''
      else El ''div'' []
        (concat (map (\<lambda>(index, a). let meta = step_meta (wa_step a) in
             show_if (index > 0) [icon ''ArrowDown'']
             @ [El ''div'' [] [
                 El ''div'' [] [para (sm_label meta)],
                 El ''div'' [] [El ''div''
                   [Attr ''tone'' (tone_text (sm_tone meta)),
                    Attr ''width'' (to_string (max4 (waterfall_share tot a)) @ ''%''),
                    Attr ''title'' (sm_explain meta)]
                   [El ''span'' [] [Txt (money (Some (wa_amount_minor a)))]]]]])
           (enumerate 0 steps))
         @ [para (''Waterfall order is fixed: principal '' @ [ARROW] @ '' fee '' @ [ARROW] @ '' reserve '' @ [ARROW] @ '' owner. The owner is paid only from what remains.'')]))"

subsection \<open>Lemmas\<close>

lemma events_Unavailable [simp]: "events (Unavailable r d l) = {}"
  by (simp add: Unavailable_def)

lemma events_values [simp]:
  "events (MoneyValue m b r) = {}" "events (PercentValue p n r) = {}" "events (CountValue v r) = {}"
  "events (InfoHint c) = {}"
  by (simp_all add: MoneyValue_def PercentValue_def CountValue_def InfoHint_def split: option.split)

lemma events_states [simp]:
  "events (LoadingBlock n) = {}" "events (EmptyState t b i ks) = (\<Union>k \<in> set ks. events k)"
  "events (ErrorState t' d r) = set_option r"
  by (auto simp: LoadingBlock_def EmptyState_def ErrorState_def set_some_node split: option.splits)

lemma events_rows [simp]:
  "events (Metric l ks h sub a) = (if a = None then (\<Union>k \<in> set ks. events k) else {}) \<union> (\<Union>k \<in> set sub. events k)"
  "events (Row l h ks) = (\<Union>k \<in> set ks. events k)" "events (Rows ks) = (\<Union>k \<in> set ks. events k)"
  "events (Mono ks) = (\<Union>k \<in> set ks. events k)"
  by (auto simp: Metric_def Row_def Rows_def Mono_def set_some_node split: option.splits)

lemma events_statuses [simp]: "events (StatusBadge s d) = {}" "events (RiskTierBadge t) = {}"
  by (simp_all add: StatusBadge_def RiskTierBadge_def Let_def split: option.split)

lemma events_furniture [simp]:
  "events (PageHeader t d ks) = (\<Union>n \<in> set_option d. \<Union>k \<in> set n. events k) \<union> (\<Union>k \<in> set ks. events k)"
  "events (Section i t' d' as ks) = (\<Union>k \<in> set as. events k) \<union> (\<Union>k \<in> set ks. events k)"
  "events AuthorityNote = {}"
  by (cases i; auto simp: PageHeader_def Section_def AuthorityNote_def set_some_node split: option.splits)+

lemma shown_El: "shown (El t as ks) = concat (map shown ks)"
  by simp

lemma shown_icon [simp]: "shown (icon n) = []"
  by (simp add: icon_def)

lemma shown_para [simp]: "shown (para s) = s"
  by (simp add: para_def)

lemma concat_enumerate:
  "concat (map shown (concat (map (\<lambda>(i, a). show_if (P i) [icon n] @ [g a]) (enumerate k xs))))
    = concat (map (\<lambda>a. shown (g a)) xs)"
  by (induction xs arbitrary: k) (simp_all add: show_if_def)

definition order_note :: string where
  "order_note = ''Waterfall order is fixed: principal '' @ [ARROW] @ '' fee '' @ [ARROW] @ '' reserve '' @ [ARROW] @ '' owner. The owner is paid only from what remains.''"

lemma absence_no_digit: "filter is_digit (shown (Unavailable reason None label :: 'e node)) = []"
proof -
  have "list_all (\<lambda>r. list_all (\<lambda>c. \<not> is_digit c) (fst (ABSENCE_COPY r) @ NO_VALUE @ snd (ABSENCE_COPY r)))
      [NotAvailable, NotEvaluated, NotConnected, Insufficient, NotApplicable]"
    by code_simp
  then have "list_all (\<lambda>c. \<not> is_digit c) (fst (ABSENCE_COPY reason) @ NO_VALUE @ snd (ABSENCE_COPY reason))"
    by (cases reason) simp_all
  then show ?thesis
    by (auto simp: Unavailable_def Tooltip_def list_all_iff filter_empty_conv)
qed

subsection \<open>Properties\<close>

text \<open>
  An absence is never a figure: whatever the reason, what is shown has no digit, each reason is
  explained by a sentence of its own, and the value renderers show an absence exactly for a
  missing value, else the formatter's text.
\<close>

theorem absence_is_a_sentence:
  "filter is_digit (shown (Unavailable reason None label :: 'e node)) = []
   \<and> (snd (ABSENCE_COPY reason) = snd (ABSENCE_COPY reason') \<longleftrightarrow> reason = reason')
   \<and> (shown (MoneyValue m False reason :: 'e node) =
       (case m of None \<Rightarrow> shown (Unavailable reason None False :: 'e node) | Some v \<Rightarrow> money (Some v)))
   \<and> (shown (PercentValue p d reason :: 'e node) =
       (case p of None \<Rightarrow> shown (Unavailable reason None False :: 'e node) | Some v \<Rightarrow> percent (Some v) d))"
proof (intro conjI)
  show "filter is_digit (shown (Unavailable reason None label :: 'e node)) = []"
    by (rule absence_no_digit)
  show "snd (ABSENCE_COPY reason) = snd (ABSENCE_COPY reason') \<longleftrightarrow> reason = reason'"
    by (cases reason; cases reason') simp_all
qed (simp_all add: MoneyValue_def PercentValue_def split: option.split)

text \<open>
  A status always reads as words: its label never shows the code's underscores, and the labels
  of the known statuses are distinct, with the one exception that a denied policy result and a
  denied transaction read alike.
\<close>

theorem status_reads_as_words:
  "CHR ''_'' \<notin> set (statusLabel s)
   \<and> distinct (map (\<lambda>(k, _). statusLabel (Some k)) (filter (\<lambda>(k, _). k \<noteq> ''DENY'') TONES))
   \<and> statusLabel (Some ''DENY'') = statusLabel (Some ''DENIED'')"
proof (intro conjI)
  have "list_all (\<lambda>(k, l). CHR ''_'' \<notin> set l) LABELS"
    by (simp add: LABELS_def)
  then have "CHR ''_'' \<notin> set l" if "map_of LABELS k = Some l" for k l
    using map_of_SomeD [OF that] by (auto simp: list_all_iff)
  moreover have "CHR ''_'' \<notin> set (humanise c)" for c
    using humanise_no_separators [of c] by blast
  ultimately show "CHR ''_'' \<notin> set (statusLabel s)"
    by (auto simp: statusLabel_def Let_def split: option.split)
  show "distinct (map (\<lambda>(k, _). statusLabel (Some k)) (filter (\<lambda>(k, _). k \<noteq> ''DENY'') TONES))"
    by code_simp
  show "statusLabel (Some ''DENY'') = statusLabel (Some ''DENIED'')"
    by code_simp
qed

text \<open>
  The waterfall is the ledger's allocation, line for line: every nonzero allocation appears
  once, in the ledger's order, with its label and its exact amount; zero ones do not appear; and a
  repayment with none says so.
\<close>

theorem waterfall_lines:
  "shown (Waterfall r :: 'e node) =
     (if waterfall_steps r = [] then ''This repayment allocated no funds.''
      else concat (map (\<lambda>a. sm_label (step_meta (wa_step a)) @ money (Some (wa_amount_minor a)))
             (waterfall_steps r)) @ order_note)"
proof -
  have body: "concat (map shown (concat (map (\<lambda>(index, a). let meta = step_meta (wa_step a) in
             show_if (index > 0) [icon ''ArrowDown'']
             @ [El ''div'' [] [
                 El ''div'' [] [para (sm_label meta)],
                 El ''div'' [] [El ''div''
                   [Attr ''tone'' (tone_text (sm_tone meta)),
                    Attr ''width'' (to_string (max4 (waterfall_share (waterfall_total (waterfall_steps r)) a)) @ ''%''),
                    Attr ''title'' (sm_explain meta)]
                   [El ''span'' [] [Txt (money (Some (wa_amount_minor a)))]]]]])
           (enumerate 0 steps)) :: 'e node list))
      = concat (map (\<lambda>a. sm_label (step_meta (wa_step a)) @ money (Some (wa_amount_minor a))) steps)" for steps
    unfolding Let_def by (subst concat_enumerate) simp
  show ?thesis
    unfolding Waterfall_def Let_def [of "waterfall_steps r"] Let_def [of "waterfall_total (waterfall_steps r)"]
    using body [of "waterfall_steps r"] by (simp add: order_note_def)
qed

end
