(* ===== verification/Forms.thy ===== *)
theory Forms
  imports Data Onboarding Queries "HOL-Library.Multiset"
begin

text \<open>
  What the forms of the product share: the result of a query hook as a component reads it, the
  write a form sends through the API client, the step list of
  \<open>frontend/components/onboarding/steps.tsx\<close>, the chips and the vendor picker of
  \<open>register-agent.tsx\<close>, and the life of a form that submits, as a step relation driven by the
  events its view offers. The locale \<open>submitting_form\<close> states what such a form owes its user.
\<close>

subsection \<open>Queries and writes, as a component sees them\<close>

text \<open>What a query or a write failed with: an \<open>ApiError\<close> of the client or any other \<open>Error\<close>.\<close>

datatype failure = ApiFailure ApiError | OtherFailure string

fun error_message :: "failure \<Rightarrow> string" where
  "error_message (ApiFailure e) = ae_detail e"
| "error_message (OtherFailure m) = m"

record 'a query_result =
  qr_data :: "'a option"
  qr_pending :: bool
  qr_error :: "failure option"
  qr_fetching :: bool

definition loading_result :: "'a query_result" where
  "loading_result = \<lparr>qr_data = None, qr_pending = True, qr_error = None, qr_fetching = True\<rparr>"

text \<open>
  A run of writes: the backend's state, the calls made so far, and what the closures of the
  steps keep. \<open>api\<close> answers one call with the parsed body or what the client threw.
\<close>

type_synonym 'w api = "'w \<Rightarrow> call \<Rightarrow> (thrown + json) \<times> 'w"

record 'w run =
  rn_world :: 'w
  rn_log :: "call list"

definition send_call :: "'w api \<Rightarrow> call \<Rightarrow> ('w, 'x) run_scheme \<Rightarrow> (thrown + json) \<times> ('w, 'x) run_scheme" where
  "send_call api c r = (case api (rn_world r) c of
     (out, w) \<Rightarrow> (out, r\<lparr>rn_world := w, rn_log := rn_log r @ [c]\<rparr>))"

text \<open>Reading a declared string field of an answer; a \<open>null\<close> answer makes the read throw.\<close>

definition read_id :: "string \<Rightarrow> json \<Rightarrow> thrown + string" where
  "read_id k v =
     (if is_nullish v then Inl (Error (''Cannot read properties of null (reading '' @ [APOS] @ k @ [APOS] @ '')''))
      else case as_string (member k v) of Some s \<Rightarrow> Inr s | None \<Rightarrow> Inr ''undefined'')"

lemma read_id_Inr: "read_id k v = Inr i \<longleftrightarrow> \<not> is_nullish v
    \<and> i = (case as_string (member k v) of Some s \<Rightarrow> s | None \<Rightarrow> ''undefined'')"
  by (auto simp: read_id_def split: option.splits)

lemma send_call_log: "send_call api c r = (out, r') \<Longrightarrow> rn_log r' = rn_log r @ [c]"
  by (auto simp: send_call_def split: prod.splits)

lemma send_call_more: "send_call api c r = (out, r') \<Longrightarrow> run.more r' = run.more r"
  by (auto simp: send_call_def split: prod.splits)

subsection \<open>Checked fields\<close>

definition whole_between :: "int \<Rightarrow> jsnum \<Rightarrow> int \<Rightarrow> bool" where
  "whole_between a n b \<longleftrightarrow> \<not> (\<not> is_integer_num n \<or> num_lt n (num_of_int a) \<or> num_lt (num_of_int b) n)"

text \<open>The \<open>problems\<close> object as the list of its assignments; a later one to a key overrides.\<close>

definition flag :: "bool \<Rightarrow> string \<Rightarrow> string \<Rightarrow> (string \<times> string) list" where
  "flag b k m = (if b then [(k, m)] else [])"

definition problem_of :: "(string \<times> string) list \<Rightarrow> string \<Rightarrow> string option" where
  "problem_of ps k = map_of (rev ps) k"

definition checked_input :: "string \<Rightarrow> string \<Rightarrow> (string \<times> string) list \<Rightarrow> string \<Rightarrow> (string \<Rightarrow> 'e) \<Rightarrow> 'e node" where
  "checked_input i v ps k f =
     Input [Attr ''id'' i, Attr ''aria-invalid'' (bool_text (problem_of ps k \<noteq> None))] v False f"

text \<open>\<open>problems.k ?? "..."\<close>.\<close>

definition problem_or :: "(string \<times> string) list \<Rightarrow> string \<Rightarrow> string \<Rightarrow> string option" where
  "problem_or ps k d = Some (case problem_of ps k of Some m \<Rightarrow> m | None \<Rightarrow> d)"

lemma events_checked_input [simp]: "events (checked_input i v ps k f) = range f"
  by (simp add: checked_input_def)

lemma flag_empty [simp]: "flag b k m = [] \<longleftrightarrow> \<not> b"
  by (simp add: flag_def)

subsection \<open>The step list\<close>

fun status_icon :: "step_status \<Rightarrow> 'e node" where
  "status_icon Done = El ''icon'' [Attr ''name'' ''Check'', Attr ''aria-label'' ''done''] []"
| "status_icon Running = El ''icon'' [Attr ''name'' ''Loader2'', Attr ''aria-label'' ''running''] []"
| "status_icon Failed = El ''icon'' [Attr ''name'' ''AlertCircle'', Attr ''aria-label'' ''failed''] []"
| "status_icon Pending = El ''icon'' [Attr ''name'' ''Circle'', Attr ''aria-hidden'' ''true''] []"

definition StepList :: "StepState list \<Rightarrow> 'e node list" where
  "StepList steps =
     (if steps = [] then []
      else [El ''ol'' [Attr ''aria-live'' ''polite''] (map (\<lambda>s. El ''li'' []
        [status_icon (ss_status s),
         El ''div'' [] ([para (ss_label s)]
           @ some_node (\<lambda>d. [Mono [Txt d]]) (ss_detail s)
           @ some_node (\<lambda>e. [para e]) (ss_error s))]) steps)])"

definition progress_panel :: "StepState list \<Rightarrow> 'e node list" where
  "progress_panel steps = show_if (steps \<noteq> []) [El ''div'' [] (StepList steps)]"

subsection \<open>Choice chips and the vendor picker\<close>

definition ChoiceChips :: "(string \<times> string) list \<Rightarrow> string list \<Rightarrow> (string \<Rightarrow> 'e) \<Rightarrow> 'e node" where
  "ChoiceChips options selected onToggle =
     El ''div'' [] (map (\<lambda>(v, l). El ''button'' [Attr ''type'' ''button'',
       Attr ''aria-pressed'' (bool_text (List.member selected v)), OnClick (onToggle v)] [Txt l]) options)"

text \<open>\<open>groups\<close>: a \<open>Map\<close> from category to vendors, in insertion order.\<close>

fun add_vendor :: "Vendor \<Rightarrow> (string \<times> Vendor list) list \<Rightarrow> (string \<times> Vendor list) list" where
  "add_vendor v [] = [(vn_category v, [v])]"
| "add_vendor v ((c, vs) # gs) =
     (if c = vn_category v then (c, vs @ [v]) # gs else (c, vs) # add_vendor v gs)"

text \<open>The stable sort by \<open>localeCompare\<close>; \<open>collate a b\<close> holds when \<open>a\<close> does not come after \<open>b\<close>.\<close>

fun insert_by :: "('a \<Rightarrow> 'a \<Rightarrow> bool) \<Rightarrow> 'a \<Rightarrow> 'a list \<Rightarrow> 'a list" where
  "insert_by le x [] = [x]"
| "insert_by le x (y # ys) = (if le x y then x # y # ys else y # insert_by le x ys)"

definition sort_by :: "('a \<Rightarrow> 'a \<Rightarrow> bool) \<Rightarrow> 'a list \<Rightarrow> 'a list" where
  "sort_by le xs = foldr (insert_by le) xs []"

definition byCategory :: "(string \<Rightarrow> string \<Rightarrow> bool) \<Rightarrow> Vendor list \<Rightarrow> (string \<times> Vendor list) list" where
  "byCategory collate vendors =
     sort_by (\<lambda>(a, _) (b, _). collate a b) (fold add_vendor vendors [])"

definition VendorPicker :: "(string \<Rightarrow> string \<Rightarrow> bool) \<Rightarrow> Vendor list \<Rightarrow> string list \<Rightarrow> (string \<Rightarrow> 'e)
    \<Rightarrow> 'e node" where
  "VendorPicker collate vendors selected onToggle =
     (if vendors = [] then para (''No vendors on the platform allowlist yet. An application can still be '' @
        ''submitted; it will simply name no vendors.'')
      else El ''div'' [] (map (\<lambda>(category, vs). El ''div'' []
        [para (humanise (Some category)),
         ChoiceChips (map (\<lambda>v. (vn_vendor_id v, vn_name v)) vs) selected onToggle])
        (byCategory collate vendors)))"

text \<open>How the two forms that use the picker show the vendors query.\<close>

definition vendor_field :: "(string \<Rightarrow> string \<Rightarrow> bool) \<Rightarrow> Vendor list query_result \<Rightarrow> string list
    \<Rightarrow> (string \<Rightarrow> 'e) \<Rightarrow> 'e node list" where
  "vendor_field collate vendors selected onToggle =
     (if qr_pending vendors then [para (''Loading vendors'' @ [ELLIPSIS])]
      else case qr_error vendors of Some e \<Rightarrow> [para (error_message e)]
      | None \<Rightarrow> [VendorPicker collate (case qr_data vendors of Some vs \<Rightarrow> vs | None \<Rightarrow> []) selected onToggle])"

lemma events_status_icon [simp]: "events (status_icon s) = {}"
  by (cases s) simp_all

lemma events_StepList [simp]: "n \<in> set (StepList steps) \<Longrightarrow> events n = {}"
  by (auto simp: StepList_def some_node_def split: if_splits option.splits)

lemma events_progress [simp]: "n \<in> set (progress_panel steps) \<Longrightarrow> events n = {}"
  by (auto simp: progress_panel_def split: if_splits)

lemma events_ChoiceChips [simp]: "events (ChoiceChips opts sel f) = f ` fst ` set opts"
  by (force simp: ChoiceChips_def split: prod.splits)

lemma mset_insert_by: "mset (insert_by le x xs) = {#x#} + mset xs"
  by (induction xs) auto

lemma mset_sort_by [simp]: "mset (sort_by le xs) = mset xs"
  by (induction xs) (simp_all add: sort_by_def mset_insert_by)

lemma add_vendor_all:
  "mset (concat (map snd (add_vendor v gs))) = {#v#} + mset (concat (map snd gs))"
  by (induction v gs rule: add_vendor.induct) auto

lemma mset_concat_image: "mset (concat (map f xs)) = sum_mset (image_mset (mset \<circ> f) (mset xs))"
  by (induction xs) simp_all

lemma mset_concat_map: "mset xs = mset ys \<Longrightarrow> mset (concat (map f xs)) = mset (concat (map f ys))"
  by (simp add: mset_concat_image)

lemma byCategory_all: "mset (concat (map snd (byCategory collate vs))) = mset vs"
proof -
  have "mset (concat (map snd (fold add_vendor vs gs))) = mset vs + mset (concat (map snd gs))" for gs
    by (induction vs arbitrary: gs) (simp_all add: add_vendor_all)
  from this [of "[]"] show ?thesis
    unfolding byCategory_def using mset_concat_map [OF mset_sort_by] by (metis (no_types) add.right_neutral concat.simps(1) list.map(1) mset.simps(1))
qed

text \<open>Every vendor of the allowlist is offered exactly once, whatever the categories.\<close>

lemma clicks_concat: "clicks_of (concat (map f xs)) = concat (map (\<lambda>x. clicks_of (f x)) xs)"
  by (induction xs) (simp_all add: clicks_of_def)

lemma clicks_ChoiceChips: "clicks (ChoiceChips opts sel f) = map (\<lambda>(v, l). f v) opts"
proof -
  have "concat (map clicks (map (\<lambda>(v, l). El ''button'' [Attr ''type'' ''button'',
       Attr ''aria-pressed'' (bool_text (List.member sel v)), OnClick (f v)] [Txt l]) opts))
      = map (\<lambda>(v, l). f v) opts"
    by (induction opts) auto
  then show ?thesis by (simp add: ChoiceChips_def)
qed

lemma clicks_VendorPicker:
  "mset (clicks (VendorPicker collate vs sel f)) = image_mset (\<lambda>v. f (vn_vendor_id v)) (mset vs)"
proof (cases "vs = []")
  case True
  then show ?thesis by (simp add: VendorPicker_def para_def)
next
  case False
  let ?gs = "byCategory collate vs"
  have "clicks (VendorPicker collate vs sel f) = concat (map (\<lambda>(c, us). map (\<lambda>v. f (vn_vendor_id v)) us) ?gs)"
  proof -
    have "concat (map clicks (map (\<lambda>(category, us). El ''div'' [] [para (humanise (Some category)),
        ChoiceChips (map (\<lambda>v. (vn_vendor_id v, vn_name v)) us) sel f]) gs))
        = concat (map (\<lambda>(c, us). map (\<lambda>v. f (vn_vendor_id v)) us) gs)" for gs
      by (induction gs) (auto simp: clicks_ChoiceChips para_def comp_def)
    from this [of ?gs] False show ?thesis by (simp add: VendorPicker_def)
  qed
  also have "mset \<dots> = image_mset (\<lambda>v. f (vn_vendor_id v)) (mset (concat (map snd ?gs)))"
  proof -
    have "mset (concat (map (\<lambda>(c, us). map (\<lambda>v. f (vn_vendor_id v)) us) gs))
        = image_mset (\<lambda>v. f (vn_vendor_id v)) (mset (concat (map snd gs)))" for gs :: "(string \<times> Vendor list) list"
      by (induction gs) auto
    then show ?thesis .
  qed
  finally show ?thesis by (simp only: byCategory_all)
qed

subsection \<open>The life of a form that submits\<close>

text \<open>
  A form is its initial states, the events its view offers in a state, the events that start a
  submission there, and what a state becomes when an event is handled, while a submission runs
  (\<open>f_progress\<close>), when it ends (\<open>f_settle\<close>) and when the form is merely rendered again, with
  whatever its hooks and props then hold (\<open>f_rerender\<close>). \<open>form_run F s n\<close>: a user can bring form \<open>F\<close> into state \<open>s\<close> with \<open>n\<close> submissions
  in flight.
\<close>

record ('s, 'e, 'p, 'o) form =
  f_initial :: "'s \<Rightarrow> bool"
  f_offers :: "'s \<Rightarrow> 'e set"
  f_starts :: "'s \<Rightarrow> 'e \<Rightarrow> bool"
  f_handle :: "'e \<Rightarrow> 's \<Rightarrow> 's"
  f_progress :: "'p \<Rightarrow> 's \<Rightarrow> 's"
  f_settle :: "'o \<Rightarrow> 's \<Rightarrow> 's"
  f_rerender :: "'s \<Rightarrow> 's \<Rightarrow> bool"

inductive form_run :: "('s, 'e, 'p, 'o) form \<Rightarrow> 's \<Rightarrow> nat \<Rightarrow> bool" for F where
  init: "f_initial F s \<Longrightarrow> form_run F s 0"
| edit: "form_run F s n \<Longrightarrow> e \<in> f_offers F s \<Longrightarrow> \<not> f_starts F s e \<Longrightarrow> form_run F (f_handle F e s) n"
| submit: "form_run F s n \<Longrightarrow> e \<in> f_offers F s \<Longrightarrow> f_starts F s e \<Longrightarrow> form_run F (f_handle F e s) (Suc n)"
| progress: "form_run F s (Suc n) \<Longrightarrow> form_run F (f_progress F p s) (Suc n)"
| settle: "form_run F s (Suc n) \<Longrightarrow> form_run F (f_settle F out s) n"
| rerender: "form_run F s n \<Longrightarrow> f_rerender F s s' \<Longrightarrow> form_run F s' n"

text \<open>
  The contract, for \<open>pending s\<close> writes under way in a state: one can only be started from the view
  of a form with none, starting it makes that one, its end takes it away, and nothing else
  changes the number.
\<close>

locale submitting_form =
  fixes F :: "('s, 'e, 'p, 'o) form"
    and pending :: "'s \<Rightarrow> nat"
  assumes initially_idle: "f_initial F s \<Longrightarrow> pending s = 0"
    and guarded: "e \<in> f_offers F s \<Longrightarrow> f_starts F s e \<Longrightarrow> pending s = 0"
    and begins: "e \<in> f_offers F s \<Longrightarrow> f_starts F s e \<Longrightarrow> pending (f_handle F e s) = 1"
    and edits: "e \<in> f_offers F s \<Longrightarrow> \<not> f_starts F s e \<Longrightarrow> pending (f_handle F e s) = pending s"
    and progresses: "pending (f_progress F p s) = pending s"
    and settles: "pending (f_settle F out s) = pending s - 1"
    and rerenders: "f_rerender F s s' \<Longrightarrow> pending s' = pending s"
begin

lemma pending_flight: "form_run F s n \<Longrightarrow> n = pending s \<and> n \<le> 1"
proof (induction rule: form_run.induct)
  case (submit s n e)
  then show ?case using guarded begins by simp
qed (auto simp: initially_idle edits progresses settles rerenders)

end

text \<open>A form whose state also keeps an invariant.\<close>

locale sound_form = submitting_form F pending
  for F :: "('s, 'e, 'p, 'o) form" and pending :: "'s \<Rightarrow> nat" +
  fixes sound :: "'s \<Rightarrow> bool"
  assumes initially_sound: "f_initial F s \<Longrightarrow> sound s"
    and handle_sound: "sound s \<Longrightarrow> e \<in> f_offers F s \<Longrightarrow> sound (f_handle F e s)"
    and progress_sound: "sound s \<Longrightarrow> sound (f_progress F p s)"
    and settle_sound: "sound s \<Longrightarrow> sound (f_settle F out s)"
    and rerender_sound: "sound s \<Longrightarrow> f_rerender F s s' \<Longrightarrow> sound s'"
begin

lemma always_sound: "form_run F s n \<Longrightarrow> sound s"
  by (induction rule: form_run.induct)
    (simp_all add: initially_sound handle_sound progress_sound settle_sound rerender_sound)

end

subsection \<open>Mutations\<close>

text \<open>
  A TanStack mutation as a component reads it; sending again clears the previous answer.
\<close>

record 'a mutation_result =
  mu_pending :: bool
  mu_error :: "failure option"
  mu_data :: "'a option"

definition mu_idle :: "'a mutation_result" where
  "mu_idle = \<lparr>mu_pending = False, mu_error = None, mu_data = None\<rparr>"

definition mu_sent :: "'a mutation_result" where
  "mu_sent = \<lparr>mu_pending = True, mu_error = None, mu_data = None\<rparr>"

definition mu_settled :: "failure + 'a \<Rightarrow> 'a mutation_result" where
  "mu_settled out = (case out of
     Inl e \<Rightarrow> \<lparr>mu_pending = False, mu_error = Some e, mu_data = None\<rparr>
   | Inr v \<Rightarrow> \<lparr>mu_pending = False, mu_error = None, mu_data = Some v\<rparr>)"

text \<open>\<open>error instanceof ApiError ? error.detail : fallback\<close>.\<close>

fun failure_text :: "string \<Rightarrow> failure \<Rightarrow> string" where
  "failure_text fallback (ApiFailure e) = ae_detail e"
| "failure_text fallback (OtherFailure m) = fallback"

lemma mutation_simps [simp]:
  "\<not> mu_pending mu_idle" "mu_pending mu_sent" "\<not> mu_pending (mu_settled out)"
  by (simp_all add: mu_idle_def mu_sent_def mu_settled_def split: sum.split)

end
