(* ===== verification/NewApplication.thy ===== *)
theory NewApplication
  imports Forms
begin

text \<open>
  \<open>frontend/components/onboarding/new-application.tsx\<close>: the sheet that requests credit against a
  new task. Its React state is the record \<open>na_form\<close>, what it reads from hooks and props is
  \<open>na_ctx\<close>, its handlers are the constructors of \<open>na_event\<close>, and \<open>na_handle\<close>, \<open>na_steps\<close> and \<open>na_view\<close>
  are the handlers, the submission and the rendering. The module's counter of draft keys, which
  every render advances, is the field \<open>na_seq\<close>.
\<close>

definition MAX_DURATION_HOURS :: int where "MAX_DURATION_HOURS = 720"
definition MAX_EVIDENCE_CHARS :: nat where "MAX_EVIDENCE_CHARS = 20000"

subsection \<open>State\<close>

record EvidenceDraft =
  ed_key :: nat
  ed_evidence_type :: string
  ed_content_text :: string

text \<open>A key \<open>e1\<close>, \<open>e2\<close>, ... is modelled by its number.\<close>

definition newDraft :: "nat \<Rightarrow> string \<Rightarrow> EvidenceDraft" where
  "newDraft seq ty = \<lparr>ed_key = Suc seq, ed_evidence_type = ty, ed_content_text = template_of ty\<rparr>"

record na_form =
  na_chosenAgentId :: string
  na_title :: string
  na_description :: string
  na_category :: string
  na_requested :: string
  na_expectedCost :: string
  na_expectedRevenue :: string
  na_durationHoursText :: string
  na_reserveCap :: string
  na_ownerCap :: string
  na_ownerAuthorised :: bool
  na_vendorIds :: "string list"
  na_drafts :: "EvidenceDraft list"
  na_step_states :: "StepState list"
  na_busy :: bool
  na_receipts :: "EvidenceReceipt list"
  na_applicationId :: "string option"
  na_seq :: nat

definition na_initial :: "nat \<Rightarrow> na_form" where
  "na_initial seq = \<lparr>na_chosenAgentId = [], na_title = [], na_description = [],
     na_category = ch_value (hd TASK_CATEGORIES), na_requested = ''2500'', na_expectedCost = ''2400'',
     na_expectedRevenue = ''4000'', na_durationHoursText = ''24'', na_reserveCap = ''500'',
     na_ownerCap = ''10000'', na_ownerAuthorised = False, na_vendorIds = [],
     na_drafts = [newDraft seq ''TASK_ORDER''], na_step_states = [], na_busy = False,
     na_receipts = [], na_applicationId = None, na_seq = Suc seq\<rparr>"

record na_ctx =
  nx_mounted :: bool
  nx_open :: bool
  nx_presetAgentId :: "string option"
  nx_agents :: "AgentSummary list query_result"
  nx_vendors :: "Vendor list query_result"
  nx_collate :: "string \<Rightarrow> string \<Rightarrow> bool"

subsection \<open>Derived values\<close>

definition na_eligible :: "na_ctx \<Rightarrow> AgentSummary list" where
  "na_eligible cx = filter (\<lambda>a. as_has_passport a \<and> as_status a = ''ACTIVE'')
     (case qr_data (nx_agents cx) of None \<Rightarrow> [] | Some l \<Rightarrow> l)"

definition na_agentId :: "na_ctx \<Rightarrow> na_form \<Rightarrow> string" where
  "na_agentId cx s =
     (if na_chosenAgentId s \<noteq> [] then na_chosenAgentId s
      else case nx_presetAgentId cx of Some p \<Rightarrow> p
      | None \<Rightarrow> (case na_eligible cx of a # _ \<Rightarrow> as_agent_id a | [] \<Rightarrow> []))"

definition na_durationHours :: "na_form \<Rightarrow> jsnum" where
  "na_durationHours s = parse_int (na_durationHoursText s)"

definition na_problems :: "na_ctx \<Rightarrow> na_form \<Rightarrow> (string \<times> string) list" where
  "na_problems cx s =
     flag (na_agentId cx s = []) ''agentId'' ''Choose an agent holding a verified passport.''
   @ flag (length (trim (na_title s)) < 3) ''title'' ''Give the task a title.''
   @ flag (rupeeInputToMinor (na_requested s) = None) ''requested'' ''Enter the amount in rupees, above zero.''
   @ flag (rupeeInputToMinor (na_expectedCost s) = None) ''expectedCost'' ''Enter the expected cost in rupees.''
   @ flag (rupeeInputToMinor (na_expectedRevenue s) = None) ''expectedRevenue'' ''Enter the expected revenue in rupees.''
   @ flag (rupeeInputToMinor (na_reserveCap s) = None) ''reserveCap'' ''Enter the reserve cap in rupees.''
   @ flag (rupeeInputToMinor (na_ownerCap s) = None) ''ownerCap''
       (''Enter the owner'' @ [APOS] @ ''s exposure cap in rupees.'')
   @ flag (\<not> whole_between 1 (na_durationHours s) MAX_DURATION_HOURS) ''duration''
       (''Between 1 and '' @ show_int MAX_DURATION_HOURS @ '' hours.'')
   @ flag (\<not> na_ownerAuthorised s) ''ownerAuthorised'' ''The owner must authorise this request.''
   @ flag (na_drafts s = []) ''evidence'' ''Attach at least one piece of evidence.''
   @ flag (list_ex (\<lambda>d. trim (ed_content_text d) = []) (na_drafts s)) ''evidence''
       ''Every evidence entry needs text, or remove it.''
   @ flag (list_ex (\<lambda>d. length (ed_content_text d) > MAX_EVIDENCE_CHARS) (na_drafts s)) ''evidence''
       (''Evidence is limited to '' @ counts (num_of_int (int MAX_EVIDENCE_CHARS)) @ '' characters each.'')"

definition na_ready :: "na_ctx \<Rightarrow> na_form \<Rightarrow> bool" where
  "na_ready cx s \<longleftrightarrow> na_problems cx s = []"

definition na_margin :: "na_form \<Rightarrow> Money option" where
  "na_margin s = (case (rupeeInputToMinor (na_expectedRevenue s), rupeeInputToMinor (na_expectedCost s)) of
     (Some r, Some c) \<Rightarrow> Some (num_sub r c) | _ \<Rightarrow> None)"

definition na_submitted :: "na_form \<Rightarrow> bool" where
  "na_submitted s \<longleftrightarrow> na_applicationId s \<noteq> None"

subsection \<open>Handlers\<close>

datatype na_event =
    SetChosenAgentId string
  | SetTitle string
  | SetDescription string
  | SetCategory string
  | SetRequested string
  | SetExpectedCost string
  | SetExpectedRevenue string
  | SetDurationHoursText string
  | SetReserveCap string
  | SetOwnerCap string
  | SetOwnerAuthorised bool
  | ToggleVendor string
  | AddDraft
  | SetDraftType nat string
  | SetDraftText nat string
  | RemoveDraft nat
  | Submit
  | Close
  | OpenApplication string

text \<open>Choosing another type replaces the text only while it is blank or still the old template.\<close>

definition retype_draft :: "string \<Rightarrow> EvidenceDraft \<Rightarrow> EvidenceDraft" where
  "retype_draft nextType d = d\<lparr>ed_evidence_type := nextType,
     ed_content_text := (if trim (ed_content_text d) = []
         \<or> map_of EVIDENCE_TEMPLATES (ed_evidence_type d) = Some (ed_content_text d)
       then template_of nextType else ed_content_text d)\<rparr>"

definition map_draft :: "nat \<Rightarrow> (EvidenceDraft \<Rightarrow> EvidenceDraft) \<Rightarrow> EvidenceDraft list \<Rightarrow> EvidenceDraft list" where
  "map_draft k f ds = map (\<lambda>d. if ed_key d = k then f d else d) ds"

text \<open>
  What handling an event makes of the state. Closing and opening the application are the
  parent's and the router's business; \<open>Submit\<close> is the part of \<open>submit\<close> up to its first await.
\<close>

fun na_handle :: "na_ctx \<Rightarrow> na_event \<Rightarrow> na_form \<Rightarrow> na_form" where
  "na_handle cx (SetChosenAgentId v) s = s\<lparr>na_chosenAgentId := v\<rparr>"
| "na_handle cx (SetTitle v) s = s\<lparr>na_title := v\<rparr>"
| "na_handle cx (SetDescription v) s = s\<lparr>na_description := v\<rparr>"
| "na_handle cx (SetCategory v) s = s\<lparr>na_category := v\<rparr>"
| "na_handle cx (SetRequested v) s = s\<lparr>na_requested := v\<rparr>"
| "na_handle cx (SetExpectedCost v) s = s\<lparr>na_expectedCost := v\<rparr>"
| "na_handle cx (SetExpectedRevenue v) s = s\<lparr>na_expectedRevenue := v\<rparr>"
| "na_handle cx (SetDurationHoursText v) s = s\<lparr>na_durationHoursText := v\<rparr>"
| "na_handle cx (SetReserveCap v) s = s\<lparr>na_reserveCap := v\<rparr>"
| "na_handle cx (SetOwnerCap v) s = s\<lparr>na_ownerCap := v\<rparr>"
| "na_handle cx (SetOwnerAuthorised b) s = s\<lparr>na_ownerAuthorised := b\<rparr>"
| "na_handle cx (ToggleVendor i) s = s\<lparr>na_vendorIds := toggle i (na_vendorIds s)\<rparr>"
| "na_handle cx AddDraft s =
     s\<lparr>na_drafts := na_drafts s @ [newDraft (na_seq s) ''PRIOR_TASK_OUTCOME''], na_seq := Suc (na_seq s)\<rparr>"
| "na_handle cx (SetDraftType k ty) s = s\<lparr>na_drafts := map_draft k (retype_draft ty) (na_drafts s)\<rparr>"
| "na_handle cx (SetDraftText k v) s =
     s\<lparr>na_drafts := map_draft k (\<lambda>d. d\<lparr>ed_content_text := v\<rparr>) (na_drafts s)\<rparr>"
| "na_handle cx (RemoveDraft k) s = s\<lparr>na_drafts := filter (\<lambda>d. ed_key d \<noteq> k) (na_drafts s)\<rparr>"
| "na_handle cx Submit s = (if na_ready cx s then s\<lparr>na_busy := True, na_receipts := []\<rparr> else s)"
| "na_handle cx Close s = s"
| "na_handle cx (OpenApplication i) s = s"

subsection \<open>The submission\<close>

text \<open>The values the closure of one \<open>submit\<close> holds on to.\<close>

record na_args =
  aa_agent_id :: string
  aa_title :: string
  aa_description :: string
  aa_category :: string
  aa_requested_minor :: Money
  aa_cost_minor :: Money
  aa_revenue_minor :: Money
  aa_reserve_minor :: Money
  aa_owner_cap_minor :: Money
  aa_duration_hours :: jsnum
  aa_vendor_ids :: "string list"
  aa_drafts :: "EvidenceDraft list"

definition na_submit_args :: "na_ctx \<Rightarrow> na_form \<Rightarrow> na_args option" where
  "na_submit_args cx s =
     (if \<not> na_ready cx s then None
      else case (rupeeInputToMinor (na_requested s), rupeeInputToMinor (na_expectedCost s),
          rupeeInputToMinor (na_expectedRevenue s), rupeeInputToMinor (na_reserveCap s),
          rupeeInputToMinor (na_ownerCap s)) of
        (Some req, Some cost, Some revn, Some res, Some cap) \<Rightarrow> Some \<lparr>aa_agent_id = na_agentId cx s,
          aa_title = trim (na_title s), aa_description = trim (na_description s),
          aa_category = na_category s, aa_requested_minor = req, aa_cost_minor = cost,
          aa_revenue_minor = revn, aa_reserve_minor = res, aa_owner_cap_minor = cap,
          aa_duration_hours = na_durationHours s, aa_vendor_ids = na_vendorIds s,
          aa_drafts = na_drafts s\<rparr>
      | _ \<Rightarrow> None)"

text \<open>What the steps' closures write besides the backend.\<close>

record 'w na_run = "'w run" +
  nr_taskId :: string
  nr_applicationId :: string
  nr_receipts :: "json list option"

definition na_run_start :: "'w \<Rightarrow> 'w na_run" where
  "na_run_start w = \<lparr>rn_world = w, rn_log = [], nr_taskId = [], nr_applicationId = [], nr_receipts = None\<rparr>"

definition task_call :: "na_args \<Rightarrow> call" where
  "task_call a = createTask \<lparr>tb_agent_id = aa_agent_id a, tb_title = aa_title a,
     tb_description = Some (aa_description a), tb_category = aa_category a,
     tb_expected_revenue_minor = aa_revenue_minor a, tb_expected_cost_minor = aa_cost_minor a,
     tb_currency = None\<rparr>"

definition evidence_call :: "string \<Rightarrow> EvidenceDraft \<Rightarrow> call" where
  "evidence_call taskId d = addEvidence taskId \<lparr>eb_evidence_type = ed_evidence_type d,
     eb_content_text = trim (ed_content_text d), eb_source = Some ''web-form''\<rparr>"

definition application_call :: "na_args \<Rightarrow> string \<Rightarrow> call" where
  "application_call a taskId = createApplication \<lparr>apb_agent_id = aa_agent_id a, apb_task_id = taskId,
     apb_requested_minor = aa_requested_minor a, apb_requested_duration_hours = aa_duration_hours a,
     apb_expected_revenue_minor = aa_revenue_minor a, apb_expected_cost_minor = aa_cost_minor a,
     apb_owner_exposure_cap_minor = aa_owner_cap_minor a, apb_proposed_vendor_ids = aa_vendor_ids a,
     apb_currency = None\<rparr>"

text \<open>The loop over the drafts: it stops at the first that fails.\<close>

fun store_evidence :: "'w api \<Rightarrow> EvidenceDraft list \<Rightarrow> json list \<Rightarrow> 'w na_run
    \<Rightarrow> (thrown + json list) \<times> 'w na_run" where
  "store_evidence api [] stored r = (Inr stored, r)"
| "store_evidence api (d # ds) stored r =
     (case send_call api (evidence_call (nr_taskId r) d) r of
        (Inl e, r') \<Rightarrow> (Inl e, r')
      | (Inr v, r') \<Rightarrow> store_evidence api ds (stored @ [v]) r')"

definition task_step :: "'w api \<Rightarrow> na_args \<Rightarrow> 'w na_run \<Rightarrow> (thrown + json) \<times> 'w na_run" where
  "task_step api a r = (case send_call api (task_call a) r of
     (Inl e, r') \<Rightarrow> (Inl e, r')
   | (Inr v, r') \<Rightarrow> (case read_id ''task_id'' v of
        Inl e \<Rightarrow> (Inl e, r') | Inr i \<Rightarrow> (Inr v, r'\<lparr>nr_taskId := i\<rparr>)))"

definition evidence_step :: "'w api \<Rightarrow> na_args \<Rightarrow> 'w na_run \<Rightarrow> (thrown + json) \<times> 'w na_run" where
  "evidence_step api a r = (case store_evidence api (aa_drafts a) [] r of
     (Inl e, r') \<Rightarrow> (Inl e, r')
   | (Inr stored, r') \<Rightarrow> (Inr (if stored = [] then JUndef else last stored), r'\<lparr>nr_receipts := Some stored\<rparr>))"

definition mandate_step :: "'w api \<Rightarrow> na_args \<Rightarrow> 'w na_run \<Rightarrow> (thrown + json) \<times> 'w na_run" where
  "mandate_step api a r = send_call api (createRevenueMandate (nr_taskId r) (aa_reserve_minor a)) r"

definition application_step :: "'w api \<Rightarrow> na_args \<Rightarrow> 'w na_run \<Rightarrow> (thrown + json) \<times> 'w na_run" where
  "application_step api a r = (case send_call api (application_call a (nr_taskId r)) r of
     (Inl e, r') \<Rightarrow> (Inl e, r')
   | (Inr v, r') \<Rightarrow> (case read_id ''application_id'' v of
        Inl e \<Rightarrow> (Inl e, r') | Inr i \<Rightarrow> (Inr v, r'\<lparr>nr_applicationId := i\<rparr>)))"

definition na_steps :: "'w api \<Rightarrow> na_args \<Rightarrow> 'w na_run Step list" where
  "na_steps api a =
     [\<lparr>step_label = ''Create the task'', step_run = task_step api a\<rparr>,
      \<lparr>step_label = ''Store evidence ('' @ show_nat (length (aa_drafts a)) @ '')'', step_run = evidence_step api a\<rparr>,
      \<lparr>step_label = ''Lock the revenue mandate'', step_run = mandate_step api a\<rparr>,
      \<lparr>step_label = ''Submit the credit application'', step_run = application_step api a\<rparr>]"

definition na_submission :: "'w api \<Rightarrow> na_args \<Rightarrow> 'w \<Rightarrow> 'w na_run outcome" where
  "na_submission api a w = runSteps (na_steps api a) (na_run_start w)"

text \<open>While it runs: a frame of \<open>onProgress\<close>, or the receipts of the stored evidence.\<close>

datatype na_progress = Frame "StepState list" | Receipts "EvidenceReceipt list"

fun na_on_progress :: "na_progress \<Rightarrow> na_form \<Rightarrow> na_form" where
  "na_on_progress (Frame fr) s = s\<lparr>na_step_states := fr\<rparr>"
| "na_on_progress (Receipts rs) s = s\<lparr>na_receipts := rs\<rparr>"

text \<open>After the run: \<open>Some i\<close> when it succeeded with application \<open>i\<close>.\<close>

definition na_settle :: "string option \<Rightarrow> na_form \<Rightarrow> na_form" where
  "na_settle out s = (let s1 = s\<lparr>na_busy := False\<rparr> in
     case out of None \<Rightarrow> s1 | Some i \<Rightarrow> s1\<lparr>na_applicationId := Some i\<rparr>)"

definition na_rerender :: "na_form \<Rightarrow> na_form" where
  "na_rerender s = s\<lparr>na_seq := Suc (na_seq s)\<rparr>"

subsection \<open>The view\<close>

definition na_agent_fields :: "na_ctx \<Rightarrow> na_form \<Rightarrow> na_event node list" where
  "na_agent_fields cx s = (let ps = na_problems cx s in
     [Field ''Agent'' (problem_of ps ''agentId'') (Some ''app-agent'')
        [Select [Attr ''id'' ''app-agent'', Attr ''aria-invalid'' (bool_text (problem_of ps ''agentId'' \<noteq> None))]
           (na_agentId cx s) SetChosenAgentId
           (([], ''Select an agent'' @ [ELLIPSIS]) # map (\<lambda>a. (as_agent_id a, as_name a)) (na_eligible cx))],
      Field ''Task category''
        (Some (''Must sit inside the agent'' @ [APOS] @ ''s permitted categories, or the passport scope check fails.''))
        (Some ''app-category'')
        [Select [Attr ''id'' ''app-category''] (na_category s) SetCategory
           (map (\<lambda>c. (ch_value c, ch_label c)) TASK_CATEGORIES)]])"

definition na_task_fields :: "na_ctx \<Rightarrow> na_form \<Rightarrow> na_event node list" where
  "na_task_fields cx s = (let ps = na_problems cx s in
     [Field ''Task title'' (problem_of ps ''title'') (Some ''app-title'')
        [checked_input ''app-title'' (na_title s) ps ''title'' SetTitle],
      Field ''Task description''
        (Some ''Read by the analyst model as untrusted input. It is not a place to give instructions.'')
        (Some ''app-description'')
        [Textarea [Attr ''id'' ''app-description''] (na_description s) SetDescription]])"

definition na_money_fields :: "na_ctx \<Rightarrow> na_form \<Rightarrow> na_event node list" where
  "na_money_fields cx s = (let ps = na_problems cx s in
     [Field (''Requested credit ('' @ [RUPEE] @ '')'') (problem_of ps ''requested'') (Some ''app-requested'')
        [checked_input ''app-requested'' (na_requested s) ps ''requested'' SetRequested],
      Field (''Expected cost ('' @ [RUPEE] @ '')'') (problem_of ps ''expectedCost'') (Some ''app-cost'')
        [checked_input ''app-cost'' (na_expectedCost s) ps ''expectedCost'' SetExpectedCost],
      Field (''Expected revenue ('' @ [RUPEE] @ '')'') (problem_of ps ''expectedRevenue'') (Some ''app-revenue'')
        [checked_input ''app-revenue'' (na_expectedRevenue s) ps ''expectedRevenue'' SetExpectedRevenue]])"

definition na_margin_note :: "na_form \<Rightarrow> na_event node list" where
  "na_margin_note s = some_node (\<lambda>m. [para (''Expected margin '' @ money (Some m) @ ''. '' @
     (if num_le m (Fin 0)
      then ''A task that does not cover its own cost has nothing to repay from '' @ [EM_DASH]
         @ '' expect this to be reduced or refused.''
      else ''The deterministic engine caps the advance against this, not against the amount requested.''))])
     (na_margin s)"

definition na_terms_fields :: "na_ctx \<Rightarrow> na_form \<Rightarrow> na_event node list" where
  "na_terms_fields cx s = (let ps = na_problems cx s in
     [Field ''Requested duration (hours)''
        (problem_or ps ''duration'' (''How long the credit is needed for. The task is expected to complete, '' @
           ''and revenue to arrive, inside this window.''))
        (Some ''app-duration'')
        [checked_input ''app-duration'' (na_durationHoursText s) ps ''duration'' SetDurationHoursText],
      Field (''Repayment reserve cap ('' @ [RUPEE] @ '')'')
        (problem_or ps ''reserveCap'' ''How much task revenue is held back against failure.'')
        (Some ''app-reserve'')
        [checked_input ''app-reserve'' (na_reserveCap s) ps ''reserveCap'' SetReserveCap],
      Field ''Repayment source''
        (Some (''Task revenue is contractually routed to the platform escrow account before anyone is paid. '' @
           ''This is what makes the credit self-repaying, and it is the only repayment route the product supports.''))
        None
        [ReadOnlyInput (''Revenue mandate '' @ [EM_DASH] @ '' REVENUE_ESCROW'')]])"

definition na_vendor_fields :: "na_ctx \<Rightarrow> na_form \<Rightarrow> na_event node list" where
  "na_vendor_fields cx s =
     [Field ''Approved vendors for this task''
        (Some ''The vault will block a payment to anyone not named here.'') None
        (vendor_field (nx_collate cx) (nx_vendors cx) (na_vendorIds s) ToggleVendor)]"

definition draft_view :: "nat \<Rightarrow> nat \<Rightarrow> EvidenceDraft \<Rightarrow> na_event node" where
  "draft_view n index draft =
     El ''div'' [] [
       El ''div'' [] ([
         Select [Attr ''aria-label'' (''Evidence '' @ show_nat (Suc index) @ '' type'')]
           (ed_evidence_type draft) (SetDraftType (ed_key draft))
           (map (\<lambda>t. (ch_value t, ch_label t)) EVIDENCE_TYPES),
         El ''span'' [] (some_node (\<lambda>h. [Txt h])
           (case find (\<lambda>t. ch_value t = ed_evidence_type draft) EVIDENCE_TYPES of
              None \<Rightarrow> None | Some t \<Rightarrow> ch_hint t))]
         @ show_if (n > 1) [El ''button'' [Attr ''type'' ''button'',
             Attr ''aria-label'' (''Remove evidence '' @ show_nat (Suc index)),
             OnClick (RemoveDraft (ed_key draft))] [icon ''Trash2'']]),
       Textarea [Attr ''aria-label'' (''Evidence '' @ show_nat (Suc index) @ '' content''),
           Attr ''maxLength'' (show_nat MAX_EVIDENCE_CHARS)]
         (ed_content_text draft) (SetDraftText (ed_key draft)),
       para (counts (num_of_int (int (length (ed_content_text draft)))) @ '' / ''
         @ counts (num_of_int (int MAX_EVIDENCE_CHARS)))]"

definition na_evidence_fields :: "na_ctx \<Rightarrow> na_form \<Rightarrow> na_event node list" where
  "na_evidence_fields cx s =
     [El ''div'' [] [
        El ''div'' [] [Label None ''Evidence'',
          para (''Every entry is stored with its own ID, type, source, timestamp, tenant and task, and is '' @
            ''content-hashed on arrival. Recognised identifiers '' @ [EM_DASH] @ '' PAN, Aadhaar, IFSC, card and '' @
            ''account numbers, phone, e-mail '' @ [EM_DASH] @ '' are stripped before storage. Use synthetic '' @
            ''material only.'')],
        Button Secondary False AddDraft [icon ''Plus'', Txt '' Add'']]]
     @ some_node (\<lambda>m. [para m]) (problem_of (na_problems cx s) ''evidence'')
     @ [El ''div'' [] (map (\<lambda>(i, d). draft_view (length (na_drafts s)) i d) (enumerate 0 (na_drafts s)))]"

definition na_owner_fields :: "na_ctx \<Rightarrow> na_form \<Rightarrow> na_event node list" where
  "na_owner_fields cx s = (let ps = na_problems cx s in
     [Field (''Owner exposure cap ('' @ [RUPEE] @ '')'')
        (problem_or ps ''ownerCap'' (''The most this owner allows across all their agents at once. '' @
           ''The engine will not approve past it.''))
        (Some ''app-owner-cap'')
        [checked_input ''app-owner-cap'' (na_ownerCap s) ps ''ownerCap'' SetOwnerCap],
      El ''label'' [] [
        El ''input'' [Attr ''type'' ''checkbox'', Attr ''checked'' (bool_text (na_ownerAuthorised s)),
          OnCheck SetOwnerAuthorised] [],
        El ''span'' [] (Txt (''As owner, I authorise this agent to borrow against this task, up to '' @
            ''the exposure cap above.'')
          # some_node (\<lambda>m. [El ''span'' [] [Txt m]]) (problem_of ps ''ownerAuthorised''))]])"

definition IntakeNotices :: "EvidenceReceipt list \<Rightarrow> 'e node list" where
  "IntakeNotices receipts =
     (let redacted = filter (\<lambda>r. length (er_redactions r) > 0) receipts;
          flagged = filter er_injection_signature receipts in
      if redacted = [] \<and> flagged = [] then []
      else [El ''div'' [] (
        show_if (redacted \<noteq> []) [El ''div'' [] [
          para ''Identifiers were removed before storage'',
          El ''ul'' [] (map (\<lambda>r. El ''li'' [] (El ''span'' [] [Txt (ev_evidence_id r)]
            # map (\<lambda>kind. Badge info [Txt kind]) (er_redactions r))) redacted)]]
        @ show_if (flagged \<noteq> []) [El ''div'' [] [
          El ''p'' [] [icon ''AlertTriangle'', Txt ''Evidence matched a prompt-injection signature''],
          para (''It was stored anyway, and the analyst is instructed to treat instructions inside evidence '' @
            ''as a concern rather than follow them. Every claim the model makes is re-checked against '' @
            ''evidence IDs before any amount is set.''),
          para (join '', '' (map ev_evidence_id flagged))]])])"

definition na_footer :: "na_ctx \<Rightarrow> na_form \<Rightarrow> na_event node list" where
  "na_footer cx s = (case na_applicationId s of
     Some i \<Rightarrow> [Button Secondary False Close [Txt ''Close''],
       Button Primary False (OpenApplication i) [Txt ''Open the application'']]
   | None \<Rightarrow> [Button Secondary (na_busy s) Close [Txt ''Cancel''],
       Button Primary (\<not> na_ready cx s \<or> na_busy s) Submit
         [Txt (if na_busy s then ''Submitting'' @ [ELLIPSIS] else ''Submit application'')]])"

definition na_view :: "na_ctx \<Rightarrow> na_form \<Rightarrow> na_event node list" where
  "na_view cx s = Sheet (nx_mounted cx) (nx_open cx) Close ''New credit application''
     (Some [Txt ''Task-backed working capital. Amounts are in rupees; the sandbox issues test credits only.''])
     (na_footer cx s)
     (show_if (na_eligible cx = [] \<and> \<not> qr_pending (nx_agents cx))
        [para (''No agent in this workspace holds a verified passport. Register one first '' @ [EM_DASH]
           @ '' credit is only ever extended to an agent that has one.'')]
      @ [El ''fieldset'' (disabled_if (na_busy s \<or> na_submitted s))
          (na_agent_fields cx s @ na_task_fields cx s @ na_money_fields cx s @ na_margin_note s
           @ na_terms_fields cx s @ na_vendor_fields cx s @ na_evidence_fields cx s @ [El ''hr'' [] []]
           @ na_owner_fields cx s)]
      @ progress_panel (na_step_states s)
      @ IntakeNotices (na_receipts s)
      @ show_if (na_submitted s)
          [para (''The application is submitted and sits in the queue. Open it to run underwriting '' @ [EM_DASH]
             @ '' the model advises, the deterministic engine sets the amount.'')])"

text \<open>The form as a whole; what its hooks and props hold may change at any render.\<close>

definition na_spec :: "(na_ctx \<times> na_form, na_event, na_progress, string option) form" where
  "na_spec = \<lparr>
     f_initial = (\<lambda>(cx, s). s = na_initial (na_seq s - 1) \<and> 0 < na_seq s),
     f_offers = (\<lambda>(cx, s). \<Union>v \<in> set (na_view cx s). events v),
     f_starts = (\<lambda>(cx, s) e. e = Submit \<and> na_submit_args cx s \<noteq> None),
     f_handle = (\<lambda>e (cx, s). (cx, na_handle cx e s)),
     f_progress = (\<lambda>p (cx, s). (cx, na_on_progress p s)),
     f_settle = (\<lambda>out (cx, s). (cx, na_settle out s)),
     f_rerender = (\<lambda>(cx, s) (cx', s'). s' = na_rerender s)\<rparr>"

subsection \<open>What the view lets a user do\<close>

fun na_edit :: "na_event \<Rightarrow> bool" where
  "na_edit Submit = False"
| "na_edit Close = False"
| "na_edit (OpenApplication i) = False"
| "na_edit _ = True"

lemma events_hint [simp]: "v \<in> set (some_node (\<lambda>m. [para (f m)]) x) \<Longrightarrow> events v = {}"
  by (auto simp: set_some_node split: option.splits)

lemma events_VendorPicker:
  "e \<in> events (VendorPicker collate vs sel f) \<Longrightarrow> \<exists>i. e = f i"
  by (auto simp: VendorPicker_def split: if_splits)

lemma events_vendor_field:
  "v \<in> set (vendor_field collate q sel f) \<Longrightarrow> e \<in> events v \<Longrightarrow> \<exists>i. e = f i"
  by (auto simp: vendor_field_def split: if_splits option.splits dest!: events_VendorPicker)

lemma events_fields:
  "v \<in> set (na_agent_fields cx s @ na_task_fields cx s @ na_money_fields cx s @ na_terms_fields cx s
     @ na_owner_fields cx s) \<Longrightarrow> e \<in> events v \<Longrightarrow> na_edit e \<and> (\<forall>k. e \<noteq> RemoveDraft k)"
  by (auto simp: na_agent_fields_def na_task_fields_def na_money_fields_def na_terms_fields_def
      na_owner_fields_def Let_def set_some_node split: option.splits)

lemma events_na_vendors:
  "v \<in> set (na_vendor_fields cx s) \<Longrightarrow> e \<in> events v \<Longrightarrow> na_edit e \<and> (\<forall>k. e \<noteq> RemoveDraft k)"
  by (auto simp: na_vendor_fields_def dest!: events_vendor_field)

lemma events_draft:
  "e \<in> events (draft_view n i d) \<Longrightarrow> na_edit e \<and> (\<forall>k. e = RemoveDraft k \<longrightarrow> 1 < n)"
  by (auto simp: draft_view_def set_some_node split: option.splits if_splits)

lemma events_evidence:
  assumes "v \<in> set (na_evidence_fields cx s)" "e \<in> events v"
  shows "na_edit e \<and> (\<forall>k. e = RemoveDraft k \<longrightarrow> 1 < length (na_drafts s))"
  using assms events_draft
  by (auto simp: na_evidence_fields_def split: if_splits dest!: events_draft)

lemma events_margin: "v \<in> set (na_margin_note s) \<Longrightarrow> events v = {}"
  by (auto simp: na_margin_note_def set_some_node split: option.splits)

lemma events_IntakeNotices: "v \<in> set (IntakeNotices rs) \<Longrightarrow> events v = {}"
  by (auto simp: IntakeNotices_def Let_def split: if_splits)

lemma events_na_footer:
  "v \<in> set (na_footer cx s) \<Longrightarrow> e \<in> events v \<Longrightarrow>
     e = Close \<or> (\<exists>i. e = OpenApplication i \<and> na_applicationId s = Some i)
     \<or> e = Submit \<and> na_ready cx s \<and> \<not> na_busy s \<and> \<not> na_submitted s"
  by (auto simp: na_footer_def na_submitted_def split: option.splits if_splits)

lemma na_offers:
  assumes "e \<in> f_offers na_spec (cx, s)"
  shows "e = Close \<or> (\<exists>i. e = OpenApplication i \<and> na_applicationId s = Some i)
     \<or> e = Submit \<and> na_ready cx s \<and> \<not> na_busy s \<and> \<not> na_submitted s
     \<or> na_edit e \<and> \<not> na_busy s \<and> \<not> na_submitted s
         \<and> (\<forall>k. e = RemoveDraft k \<longrightarrow> 1 < length (na_drafts s))"
proof -
  from assms consider "e = Close" | v where "v \<in> set (na_footer cx s)" "e \<in> events v"
    | v where "\<not> na_busy s" "\<not> na_submitted s" "e \<in> events v"
        "v \<in> set (na_agent_fields cx s @ na_task_fields cx s @ na_money_fields cx s @ na_terms_fields cx s
           @ na_owner_fields cx s) \<union> set (na_vendor_fields cx s) \<union> set (na_evidence_fields cx s)"
    by (auto simp: na_spec_def na_view_def events_Sheet events_margin events_IntakeNotices split: if_splits)
  then show ?thesis
  proof cases
    case 2
    then show ?thesis using events_na_footer by blast
  next
    case 3
    then show ?thesis using events_fields events_na_vendors events_evidence by (metis Un_iff)
  qed simp
qed

lemma ready_args: "na_ready cx s \<longleftrightarrow> na_submit_args cx s \<noteq> None"
  by (auto simp: na_submit_args_def na_ready_def na_problems_def split: option.splits)

lemma ready_busy: "na_ready cx s \<Longrightarrow> na_busy (na_handle cx Submit s)"
  by simp

lemma edit_keeps:
  "na_edit e \<Longrightarrow> na_busy (na_handle cx e s) = na_busy s"
  "na_edit e \<Longrightarrow> na_applicationId (na_handle cx e s) = na_applicationId s"
  by (cases e; simp)+

text \<open>The drafts are never empty, have distinct keys below the counter, and success ends the form.\<close>

definition na_sound :: "na_form \<Rightarrow> bool" where
  "na_sound s \<longleftrightarrow> na_drafts s \<noteq> [] \<and> distinct (map ed_key (na_drafts s))
     \<and> (\<forall>d \<in> set (na_drafts s). ed_key d \<le> na_seq s) \<and> (na_submitted s \<longrightarrow> \<not> na_busy s)"

lemma retype_key [simp]: "ed_key (retype_draft ty d) = ed_key d"
  by (simp add: retype_draft_def)

lemma map_draft_keys: "(\<And>d. ed_key (f d) = ed_key d) \<Longrightarrow> map ed_key (map_draft k f ds) = map ed_key ds"
  by (induction ds) (auto simp: map_draft_def)

lemma na_sound_drafts:
  assumes "na_sound s" and keys: "map ed_key ds = map ed_key (na_drafts s)"
  shows "na_sound (s\<lparr>na_drafts := ds\<rparr>)"
proof -
  have "ds \<noteq> [] \<longleftrightarrow> na_drafts s \<noteq> []" using keys by (metis map_is_Nil_conv)
  moreover have "(\<forall>d \<in> set ds. ed_key d \<le> b) \<longleftrightarrow> (\<forall>d \<in> set (na_drafts s). ed_key d \<le> b)" for b
    using arg_cong [OF keys, of "\<lambda>l. list_all (\<lambda>k. k \<le> b) l"] by (simp add: list_all_iff)
  ultimately show ?thesis using assms by (simp add: na_sound_def na_submitted_def)
qed

lemma na_sound_handle:
  assumes "na_sound s" and off: "e \<in> f_offers na_spec (cx, s)"
  shows "na_sound (na_handle cx e s)"
proof (cases e)
  case AddDraft
  then show ?thesis using assms by (force simp: na_sound_def na_submitted_def newDraft_def)
next
  case (SetDraftType k ty)
  then show ?thesis using na_sound_drafts [OF assms(1)] by (simp add: map_draft_keys)
next
  case (SetDraftText k v)
  then show ?thesis using na_sound_drafts [OF assms(1)] by (simp add: map_draft_keys)
next
  case (RemoveDraft k)
  then have "1 < length (na_drafts s)" using na_offers [OF off] by auto
  then obtain d1 d2 ds where ds: "na_drafts s = d1 # d2 # ds"
    by (cases "na_drafts s"; cases "tl (na_drafts s)") auto
  then show ?thesis using assms(1) RemoveDraft
    by (auto simp: na_sound_def na_submitted_def distinct_map_filter)
next
  case Submit
  then show ?thesis using assms(1) na_offers [OF off] by (auto simp: na_sound_def na_submitted_def)
qed (use assms(1) in \<open>simp_all add: na_sound_def na_submitted_def\<close>)

definition na_pending :: "na_ctx \<times> na_form \<Rightarrow> nat" where
  "na_pending p = of_bool (na_busy (snd p))"

interpretation na: sound_form na_spec na_pending "\<lambda>(cx, s). na_sound s"
proof unfold_locales
  fix p :: "na_ctx \<times> na_form" assume "f_initial na_spec p"
  then obtain cx n where "p = (cx, na_initial n)" by (auto simp: na_pending_def na_spec_def split: prod.splits)
  then show "na_pending p = 0" "case p of (cx, s) \<Rightarrow> na_sound s"
    by (simp_all add: na_pending_def na_initial_def na_sound_def na_submitted_def newDraft_def)
next
  fix e and p :: "na_ctx \<times> na_form"
  assume off: "e \<in> f_offers na_spec p"
  obtain cx s where p: "p = (cx, s)" by (cases p)
  note offers = na_offers [OF off [unfolded p]]
  show "na_pending p = 0" if "f_starts na_spec p e"
    using offers that by (auto simp: p na_pending_def na_spec_def)
  show "na_pending (f_handle na_spec e p) = 1" if "f_starts na_spec p e"
    using that by (auto simp: p na_pending_def na_spec_def ready_args)
  show "na_pending (f_handle na_spec e p) = na_pending p"
    if "\<not> f_starts na_spec p e"
    using offers that by (auto simp: p na_pending_def na_spec_def ready_args edit_keeps)
  show "case f_handle na_spec e p of (cx, s) \<Rightarrow> na_sound s" if "case p of (cx, s) \<Rightarrow> na_sound s"
    using na_sound_handle off that by (simp add: p na_pending_def na_spec_def)
next
  fix p :: "na_ctx \<times> na_form" and q
  show "na_pending (f_progress na_spec q p) = na_pending p"
    by (cases q) (auto simp: na_pending_def na_spec_def split: prod.splits)
  show "case f_progress na_spec q p of (cx, s) \<Rightarrow> na_sound s" if "case p of (cx, s) \<Rightarrow> na_sound s"
    using that by (cases q) (auto simp: na_pending_def na_spec_def na_sound_def na_submitted_def split: prod.splits)
next
  fix p :: "na_ctx \<times> na_form" and out
  show "na_pending (f_settle na_spec out p) = na_pending p - 1"
    by (auto simp: na_pending_def na_spec_def na_settle_def Let_def split: prod.splits option.splits)
  show "case f_settle na_spec out p of (cx, s) \<Rightarrow> na_sound s" if "case p of (cx, s) \<Rightarrow> na_sound s"
    using that by (auto simp: na_pending_def na_spec_def na_settle_def na_sound_def na_submitted_def Let_def
        split: prod.splits option.splits)
next
  fix p p' :: "na_ctx \<times> na_form" assume r: "f_rerender na_spec p p'"
  show "na_pending p' = na_pending p"
    using r by (auto simp: na_pending_def na_spec_def na_rerender_def split: prod.splits)
  show "case p' of (cx, s) \<Rightarrow> na_sound s" if "case p of (cx, s) \<Rightarrow> na_sound s"
    using that r by (force simp: na_pending_def na_spec_def na_rerender_def na_sound_def na_submitted_def split: prod.splits)
qed

subsection \<open>What a submission sends\<close>

text \<open>The calls of a complete submission, in order, for the task the backend created.\<close>

definition intended_calls :: "na_args \<Rightarrow> string \<Rightarrow> call list" where
  "intended_calls a taskId =
     [task_call a] @ map (evidence_call taskId) (aa_drafts a)
     @ [createRevenueMandate taskId (aa_reserve_minor a), application_call a taskId]"

lemma send_keeps [simp]:
  "send_call api c r = (out, r') \<Longrightarrow> nr_taskId r' = nr_taskId r"
  "send_call api c r = (out, r') \<Longrightarrow> nr_receipts r' = nr_receipts r"
  "send_call api c r = (out, r') \<Longrightarrow> nr_applicationId r' = nr_applicationId r"
  by (auto simp: send_call_def split: prod.splits)

lemma store_evidence_log:
  assumes "store_evidence api ds st r = (out, r')"
  shows "nr_taskId r' = nr_taskId r \<and> nr_receipts r' = nr_receipts r
    \<and> (\<exists>k \<le> length ds. rn_log r' = rn_log r @ take k (map (evidence_call (nr_taskId r)) ds))
    \<and> (\<forall>v. out = Inr v \<longrightarrow> length v = length st + length ds
        \<and> rn_log r' = rn_log r @ map (evidence_call (nr_taskId r)) ds)"
  using assms
proof (induction ds arbitrary: st r)
  case (Cons d ds)
  obtain o1 r1 where s: "send_call api (evidence_call (nr_taskId r) d) r = (o1, r1)" by fastforce
  have t: "nr_taskId r1 = nr_taskId r" "nr_receipts r1 = nr_receipts r" using s by simp_all
  have l: "rn_log r1 = rn_log r @ [evidence_call (nr_taskId r) d]" by (rule send_call_log [OF s])
  show ?case
  proof (cases o1)
    case (Inl e)
    then have "r' = r1" "out = Inl e" using Cons.prems s by simp_all
    then show ?thesis using t l by (auto intro!: exI [of _ 1])
  next
    case (Inr v)
    then have "store_evidence api ds (st @ [v]) r1 = (out, r')" using Cons.prems s by simp
    note ih = Cons.IH [OF this, unfolded t]
    then obtain k where k: "k \<le> length ds"
      "rn_log r' = rn_log r1 @ take k (map (evidence_call (nr_taskId r)) ds)" by blast
    have "\<exists>k' \<le> length (d # ds). rn_log r' = rn_log r @ take k' (map (evidence_call (nr_taskId r)) (d # ds))"
      using k l by (intro exI [of _ "Suc k"]) simp
    then show ?thesis using ih l by auto
  qed
qed auto

lemma task_step_log: "task_step api a r = (out, r') \<Longrightarrow>
    rn_log r' = rn_log r @ [task_call a] \<and> nr_receipts r' = nr_receipts r"
  by (auto simp: task_step_def split: prod.splits sum.splits dest: send_call_log)

lemma task_step_created:
  assumes "task_step api a r = (Inr x, r')"
  shows "\<exists>v. fst (api (rn_world r) (task_call a)) = Inr v \<and> read_id ''task_id'' v = Inr (nr_taskId r')"
  using assms by (auto simp: task_step_def send_call_def split: prod.splits sum.splits)

lemma evidence_step_log:
  assumes "evidence_step api a r = (out, r')"
  shows "nr_taskId r' = nr_taskId r
    \<and> (\<exists>k \<le> length (aa_drafts a). rn_log r' = rn_log r @ take k (map (evidence_call (nr_taskId r)) (aa_drafts a)))
    \<and> (\<forall>e. out = Inl e \<longrightarrow> nr_receipts r' = nr_receipts r)
    \<and> (\<forall>v. out = Inr v \<longrightarrow> (\<exists>rs. nr_receipts r' = Some rs \<and> length rs = length (aa_drafts a))
        \<and> rn_log r' = rn_log r @ map (evidence_call (nr_taskId r)) (aa_drafts a))"
proof -
  obtain o1 r1 where s: "store_evidence api (aa_drafts a) [] r = (o1, r1)" by fastforce
  note L = store_evidence_log [OF s]
  show ?thesis
  proof (cases o1)
    case (Inl e)
    then have "r' = r1" "out = Inl e" using assms s by (simp_all add: evidence_step_def)
    then show ?thesis using L by simp
  next
    case (Inr st)
    then have "r' = r1\<lparr>nr_receipts := Some st\<rparr>" "\<exists>v. out = Inr v"
      using assms s by (auto simp: evidence_step_def)
    then show ?thesis using L Inr by auto
  qed
qed

lemma mandate_step_log: "mandate_step api a r = (out, r') \<Longrightarrow>
    rn_log r' = rn_log r @ [createRevenueMandate (nr_taskId r) (aa_reserve_minor a)]
    \<and> nr_taskId r' = nr_taskId r \<and> nr_receipts r' = nr_receipts r"
  by (auto simp: mandate_step_def dest: send_call_log)

lemma application_step_log: "application_step api a r = (out, r') \<Longrightarrow>
    rn_log r' = rn_log r @ [application_call a (nr_taskId r)]
    \<and> nr_taskId r' = nr_taskId r \<and> nr_receipts r' = nr_receipts r"
  by (auto simp: application_step_def split: prod.splits sum.splits dest: send_call_log)

lemma intended_take:
  "k \<le> length (aa_drafts a) \<Longrightarrow> [task_call a] @ take k (map (evidence_call t) (aa_drafts a))
     = take (Suc k) (intended_calls a t)"
  by (simp add: intended_calls_def)

lemma intended_mandate:
  "[task_call a] @ map (evidence_call t) (aa_drafts a) @ [createRevenueMandate t (aa_reserve_minor a)]
     = take (length (aa_drafts a) + 2) (intended_calls a t)"
  by (simp add: intended_calls_def)

lemma na_exec:
  assumes "exec (na_steps api a) (na_run_start w) = (rs, e, r)"
  shows "\<exists>k \<ge> 1. rn_log r = take k (intended_calls a (nr_taskId r))
    \<and> (k = 1 \<or> (\<exists>v. fst (api w (task_call a)) = Inr v \<and> read_id ''task_id'' v = Inr (nr_taskId r)))
    \<and> (e = None \<longrightarrow> k = length (aa_drafts a) + 3)
    \<and> (nr_receipts r = None \<longleftrightarrow> k \<le> length (aa_drafts a) + 1)"
proof -
  obtain o1 r1 where s1: "task_step api a (na_run_start w) = (o1, r1)" by fastforce
  have l1: "rn_log r1 = [task_call a]" and n1: "nr_receipts r1 = None"
    using task_step_log [OF s1] by (simp_all add: na_run_start_def)
  have made: "\<exists>v. fst (api w (task_call a)) = Inr v \<and> read_id ''task_id'' v = Inr (nr_taskId r1)" if "o1 = Inr x" for x
    using task_step_created [OF s1 [unfolded that]] by (simp add: na_run_start_def)
  obtain o2 r2 where s2: "evidence_step api a r1 = (o2, r2)" by fastforce
  note l2 = evidence_step_log [OF s2, unfolded l1]
  obtain o3 r3 where s3: "mandate_step api a r2 = (o3, r3)" by fastforce
  note l3 = mandate_step_log [OF s3]
  obtain o4 r4 where s4: "application_step api a r3 = (o4, r4)" by fastforce
  note l4 = application_step_log [OF s4]
  consider (one) x where "o1 = Inl x" | (two) x y where "o1 = Inr x" "o2 = Inl y"
    | (three) x y z where "o1 = Inr x" "o2 = Inr y" "o3 = Inl z"
    | (four) x y z where "o1 = Inr x" "o2 = Inr y" "o3 = Inr z"
    by (cases o1; cases o2; cases o3) auto
  then show ?thesis
  proof cases
    case one
    then have "r = r1" "e \<noteq> None" using assms s1 by (auto simp: na_steps_def)
    then show ?thesis using l1 n1 by (auto simp: intended_calls_def intro!: exI [of _ 1])
  next
    case two
    then have r: "r = r2" "e \<noteq> None" using assms s1 s2 by (auto simp: na_steps_def)
    from l2 obtain k where k: "k \<le> length (aa_drafts a)"
      "rn_log r2 = [task_call a] @ take k (map (evidence_call (nr_taskId r2)) (aa_drafts a))" by auto
    moreover have "nr_receipts r2 = None" using two l2 n1 by auto
    ultimately show ?thesis using r k intended_take [OF k(1)] made [OF two(1)] l2
      by (intro exI [of _ "Suc k"]) simp
  next
    case three
    then have r: "r = r3" "e \<noteq> None" using assms s1 s2 s3 by (auto simp: na_steps_def)
    have "rn_log r3 = take (length (aa_drafts a) + 2) (intended_calls a (nr_taskId r3))"
      unfolding intended_mandate [symmetric] using three l2 l3 by simp
    moreover have "nr_receipts r3 \<noteq> None" using three l2 l3 by auto
    ultimately show ?thesis using r made [OF three(1)] l2 l3
      by (intro exI [of _ "length (aa_drafts a) + 2"]) simp
  next
    case four
    then have r: "r = r4" using assms s1 s2 s3 s4 by (auto simp: na_steps_def split: sum.splits)
    have "rn_log r4 = take (length (aa_drafts a) + 3) (intended_calls a (nr_taskId r4))"
      using four l2 l3 l4 by (simp add: intended_calls_def)
    moreover have "nr_receipts r4 \<noteq> None" using four l2 l3 l4 by auto
    ultimately show ?thesis using r made [OF four(1)] l2 l3 l4
      by (intro exI [of _ "length (aa_drafts a) + 3"]) simp
  qed
qed

subsection \<open>Properties\<close>

lemma na_ready_iff:
  "na_ready cx s \<longleftrightarrow> na_agentId cx s \<noteq> [] \<and> \<not> length (trim (na_title s)) < 3
    \<and> rupeeInputToMinor (na_requested s) \<noteq> None \<and> rupeeInputToMinor (na_expectedCost s) \<noteq> None
    \<and> rupeeInputToMinor (na_expectedRevenue s) \<noteq> None \<and> rupeeInputToMinor (na_reserveCap s) \<noteq> None
    \<and> rupeeInputToMinor (na_ownerCap s) \<noteq> None
    \<and> whole_between 1 (na_durationHours s) 720 \<and> na_ownerAuthorised s \<and> na_drafts s \<noteq> []
    \<and> \<not> list_ex (\<lambda>d. trim (ed_content_text d) = []) (na_drafts s)
    \<and> \<not> list_ex (\<lambda>d. 20000 < length (ed_content_text d)) (na_drafts s)"
  by (simp only: na_ready_def na_problems_def append_is_Nil_conv flag_empty MAX_DURATION_HOURS_def
      MAX_EVIDENCE_CHARS_def not_not)

text \<open>What an amount field can give: a whole number of paise, or infinity for text like \<open>1e308\<close>.\<close>

lemma amount_shape: "rupeeInputToMinor txt = Some n \<Longrightarrow> n = PosInf \<or> (\<exists>m \<ge> 0. n = num_of_int m)"
  by (drule rupeeInputToMinor_shape) auto

text \<open>
  C7. A submission is a prefix of one fixed sequence of calls: the task, every piece of evidence in
  the order of the form, the revenue mandate and the application; it is the whole sequence when it
  succeeds. Everything after the first call is for one task, the one whose id is in the backend's
  answer to that call. The receipts, and with them the notices of redaction and injection, are there
  exactly when the mandate was attempted: evidence stored before a failing entry is never reported.
\<close>

theorem submission_ordered:
  "\<exists>k t. 1 \<le> k \<and> rn_log (oc_world (na_submission api a w)) = take k (intended_calls a t)
     \<and> (k = 1 \<or> (\<exists>v. fst (api w (task_call a)) = Inr v \<and> \<not> is_nullish v
          \<and> t = (case as_string (member ''task_id'' v) of Some i \<Rightarrow> i | None \<Rightarrow> ''undefined'')))
     \<and> (oc_ok (na_submission api a w) \<longrightarrow> k = length (aa_drafts a) + 3)
     \<and> (nr_receipts (oc_world (na_submission api a w)) = None \<longleftrightarrow> k \<le> length (aa_drafts a) + 1)"
proof -
  obtain rs e r where x: "exec (na_steps api a) (na_run_start w) = (rs, e, r)" by (cases "exec (na_steps api a) (na_run_start w)")
  have "oc_world (na_submission api a w) = r" "oc_ok (na_submission api a w) \<longleftrightarrow> e = None"
    using runSteps_run [OF x] by (simp_all add: na_submission_def)
  then show ?thesis using na_exec [OF x] unfolding read_id_Inr by metis
qed

definition broken_evidence_args :: na_args where
  "broken_evidence_args = \<lparr>aa_agent_id = ''a1'', aa_title = ''Task'', aa_description = [],
     aa_category = ''DATA'', aa_requested_minor = Fin 100, aa_cost_minor = Fin 100,
     aa_revenue_minor = Fin 200, aa_reserve_minor = Fin 0, aa_owner_cap_minor = Fin 500,
     aa_duration_hours = Fin 24, aa_vendor_ids = [],
     aa_drafts = [newDraft 0 ''TASK_ORDER'', newDraft 1 ''TASK_ORDER'']\<rparr>"

text \<open>A backend that answers its first two calls and then refuses.\<close>

definition two_calls :: "nat api" where
  "two_calls n c = ((if n < 2 then Inr (JObj [(''task_id'', JStr ''t1''), (''evidence_id'', JStr ''e1'')])
     else Inl (Error ''down'')), Suc n)"

theorem submission_ordered_witness:
  "rn_log (oc_world (na_submission two_calls broken_evidence_args 0))
       = take 3 (intended_calls broken_evidence_args ''t1'')
     \<and> nr_receipts (oc_world (na_submission two_calls broken_evidence_args 0)) = None"
proof -
  let ?out = "na_submission two_calls broken_evidence_args 0"
  have n: "length (rn_log (oc_world ?out)) = 3" by code_simp
  obtain k t where k: "rn_log (oc_world ?out) = take k (intended_calls broken_evidence_args t)"
    "k = 1 \<or> t = ''t1''"
    "nr_receipts (oc_world ?out) = None \<longleftrightarrow> k \<le> length (aa_drafts broken_evidence_args) + 1"
    using submission_ordered [of two_calls broken_evidence_args 0]
    by (auto simp: two_calls_def)
  have l: "length (intended_calls broken_evidence_args t) = 5" for t
    by (simp add: intended_calls_def broken_evidence_args_def)
  have "k = 3" using n unfolding k(1) by (simp add: l)
  then show ?thesis using k by (simp add: broken_evidence_args_def)
qed

text \<open>
  C9. At most one submission of the form is ever in flight, in every sequence of edits, submissions,
  renders with other data, progress frames and endings a user and the network can cause: while
  one runs, and after one succeeded, submitting is not on offer; and the form never reaches a
  state without evidence or with two entries that an edit would confuse.
\<close>

theorem one_submission_per_form:
  assumes "form_run na_spec (cx, s) n"
  shows "n = (if na_busy s then 1 else 0)
    \<and> (Submit \<in> f_offers na_spec (cx, s) \<longrightarrow>
         n = 0 \<and> na_applicationId s = None \<and> na_submit_args cx s \<noteq> None)
    \<and> na_drafts s \<noteq> [] \<and> distinct (map ed_key (na_drafts s))"
proof -
  have n: "n = (if na_busy s then 1 else 0)" using na.pending_flight [OF assms] by (simp add: na_pending_def)
  have "na_sound s" using na.always_sound [OF assms] by simp
  moreover have "n = 0 \<and> na_applicationId s = None \<and> na_submit_args cx s \<noteq> None"
    if "Submit \<in> f_offers na_spec (cx, s)"
    using na_offers [OF that] ready_args n by (auto simp: na_submitted_def)
  ultimately show ?thesis using n by (auto simp: na_sound_def)
qed

definition idle_ctx :: na_ctx where
  "idle_ctx = \<lparr>nx_mounted = True, nx_open = True, nx_presetAgentId = None, nx_agents = loading_result,
     nx_vendors = loading_result, nx_collate = (\<lambda>a b. True)\<rparr>"

theorem one_submission_per_form_witness:
  "form_run na_spec (idle_ctx, na_rerender (na_initial 0)) 0
   \<and> (0::nat) = (if na_busy (na_rerender (na_initial 0)) then 1 else 0)
   \<and> distinct (map ed_key (na_drafts (na_rerender (na_initial 0))))"
proof -
  have "form_run na_spec (idle_ctx, na_initial 0) 0"
    by (rule form_run.init) (simp add: na_spec_def na_initial_def)
  then have r: "form_run na_spec (idle_ctx, na_rerender (na_initial 0)) 0"
    by (rule form_run.rerender) (simp add: na_spec_def)
  show ?thesis using r one_submission_per_form [OF r] by blast
qed

text \<open>
  C25. What is submitted was checked: an agent is named, the title has at least three characters, the
  duration is a whole number of hours from 1 to 720, the owner authorised the request, and there is
  evidence, none of it blank and none longer than 20,000 characters. Every amount is what its own
  field says in paise: a whole number from zero, or infinity, which the checks let through (the
  field \<open>1e308\<close>).
\<close>

theorem submitted_values_checked:
  assumes "na_submit_args cx s = Some a"
  shows "aa_agent_id a \<noteq> [] \<and> 3 \<le> length (aa_title a)
    \<and> is_integer_num (aa_duration_hours a) \<and> num_le (Fin 1) (aa_duration_hours a)
    \<and> num_le (aa_duration_hours a) (Fin 720)
    \<and> list_all (\<lambda>(txt, n). rupeeInputToMinor txt = Some n \<and> (n = PosInf \<or> (\<exists>m. 0 \<le> m \<and> n = num_of_int m)))
        [(na_requested s, aa_requested_minor a), (na_expectedCost s, aa_cost_minor a),
         (na_expectedRevenue s, aa_revenue_minor a), (na_reserveCap s, aa_reserve_minor a),
         (na_ownerCap s, aa_owner_cap_minor a)]
    \<and> na_ownerAuthorised s \<and> aa_drafts a = na_drafts s \<and> aa_drafts a \<noteq> []
    \<and> list_all (\<lambda>d. trim (ed_content_text d) \<noteq> [] \<and> length (ed_content_text d) \<le> 20000) (aa_drafts a)"
proof -
  from assms have r: "na_ready cx s" by (auto simp: na_submit_args_def split: if_splits)
  then have ps: "na_agentId cx s \<noteq> []" "3 \<le> length (trim (na_title s))"
    "whole_between 1 (na_durationHours s) 720" "na_ownerAuthorised s" "na_drafts s \<noteq> []"
    "list_all (\<lambda>d. trim (ed_content_text d) \<noteq> [] \<and> length (ed_content_text d) \<le> 20000) (na_drafts s)"
    by (simp_all add: na_ready_iff list_all_iff list_ex_iff not_less)
  moreover from assms r have "aa_agent_id a = na_agentId cx s" "aa_title a = trim (na_title s)"
    "aa_duration_hours a = na_durationHours s" "aa_drafts a = na_drafts s"
    by (auto simp: na_submit_args_def split: option.splits)
  moreover from assms r have "rupeeInputToMinor (na_requested s) = Some (aa_requested_minor a)"
    "rupeeInputToMinor (na_expectedCost s) = Some (aa_cost_minor a)"
    "rupeeInputToMinor (na_expectedRevenue s) = Some (aa_revenue_minor a)"
    "rupeeInputToMinor (na_reserveCap s) = Some (aa_reserve_minor a)"
    "rupeeInputToMinor (na_ownerCap s) = Some (aa_owner_cap_minor a)"
    by (auto simp: na_submit_args_def split: option.splits)
  moreover have "is_integer_num n \<and> num_le (Fin 1) n \<and> num_le n (Fin 720)" if "whole_between 1 n 720" for n
    using that by (cases n) (auto simp: whole_between_def num_lt_def num_of_int_def is_integer_num_def)
  ultimately show ?thesis using amount_shape by simp
qed

definition preset_ctx :: na_ctx where
  "preset_ctx = idle_ctx\<lparr>nx_presetAgentId := Some ''a1''\<rparr>"

definition filled_form :: na_form where
  "filled_form = (na_initial 0)\<lparr>na_title := ''Listing task'', na_ownerAuthorised := True\<rparr>"

lemma filled_ready: "na_ready preset_ctx filled_form"
proof -
  have "rupeeInputToMinor ''2500'' \<noteq> None" "rupeeInputToMinor ''2400'' \<noteq> None" "rupeeInputToMinor ''4000'' \<noteq> None"
    "rupeeInputToMinor ''500'' \<noteq> None" "rupeeInputToMinor ''10000'' \<noteq> None" by code_simp+
  moreover have "whole_between 1 (parse_int ''24'') 720" "\<not> length (trim ''Listing task'') < 3"
    "trim (template_of ''TASK_ORDER'') \<noteq> []" by code_simp+
  moreover have "length (template_of ''TASK_ORDER'') \<le> 20000"
    by (simp add: template_of_def EVIDENCE_TEMPLATES_def)
  ultimately show ?thesis
    unfolding na_ready_iff na_agentId_def na_durationHours_def filled_form_def preset_ctx_def na_initial_def
    by (simp add: idle_ctx_def newDraft_def)
qed

theorem submitted_values_checked_witness:
  "\<exists>a. na_submit_args preset_ctx filled_form = Some a \<and> 3 \<le> length (aa_title a)
     \<and> num_le (aa_duration_hours a) (Fin 720) \<and> aa_drafts a \<noteq> []"
proof -
  obtain a where a: "na_submit_args preset_ctx filled_form = Some a"
    using filled_ready ready_args by auto
  then show ?thesis using submitted_values_checked [OF a] by blast
qed

lemma ready_busy_apart:
  "na_ready cx (s\<lparr>na_busy := b\<rparr>) = na_ready cx s" "na_ready cx (s\<lparr>na_receipts := rs\<rparr>) = na_ready cx s"
  by (cases s; simp add: na_ready_iff na_agentId_def na_durationHours_def)+

lemma na_view_offers:
  assumes "nx_mounted cx" "nx_open cx" "\<not> na_busy s" "\<not> na_submitted s"
  shows "SetTitle v \<in> f_offers na_spec (cx, s)" "SetOwnerAuthorised b \<in> f_offers na_spec (cx, s)"
    and "Submit \<in> f_offers na_spec (cx, s) \<longleftrightarrow> na_ready cx s"
proof -
  show "SetTitle v \<in> f_offers na_spec (cx, s)" "SetOwnerAuthorised b \<in> f_offers na_spec (cx, s)"
    using assms by (auto simp: na_spec_def na_view_def events_Sheet na_task_fields_def na_owner_fields_def Let_def)
  have "Submit \<in> f_offers na_spec (cx, s)" if "na_ready cx s"
    using assms that by (auto simp: na_spec_def na_view_def events_Sheet na_footer_def na_submitted_def)
  then show "Submit \<in> f_offers na_spec (cx, s) \<longleftrightarrow> na_ready cx s"
    using na_offers [of Submit cx s] by auto
qed

text \<open>
  C26. A submission that fails leaves the form usable: it is idle again with everything that was
  typed, and submitting is on offer once more exactly when the sheet is shown and the form still
  has no problems.
\<close>

theorem failed_submission_can_be_retried:
  assumes "form_run na_spec (cx, s) 1"
  shows "form_run na_spec (cx, na_settle None s) 0
    \<and> na_settle None s = s\<lparr>na_busy := False\<rparr>
    \<and> (Submit \<in> f_offers na_spec (cx, na_settle None s) \<longleftrightarrow> nx_mounted cx \<and> nx_open cx \<and> na_ready cx s)"
proof -
  have st: "na_settle None s = s\<lparr>na_busy := False\<rparr>" by (simp add: na_settle_def)
  have "na_busy s" using na.pending_flight [OF assms] by (cases "na_busy s") (simp_all add: na_pending_def)
  moreover have "na_sound s" using na.always_sound [OF assms] by simp
  ultimately have sub: "\<not> na_submitted (s\<lparr>na_busy := False\<rparr>)" by (simp add: na_sound_def na_submitted_def)
  have run: "form_run na_spec (cx, na_settle None s) 0"
    using form_run.settle [of na_spec "(cx, s)" 0 None] assms by (simp add: na_spec_def)
  note ready = ready_busy_apart(1)
  have "Submit \<in> f_offers na_spec (cx, s\<lparr>na_busy := False\<rparr>) \<longleftrightarrow> nx_mounted cx \<and> nx_open cx \<and> na_ready cx s"
  proof (cases "nx_mounted cx \<and> nx_open cx")
    case True
    then show ?thesis using na_view_offers(3) [OF _ _ _ sub] ready by simp
  next
    case False
    then show ?thesis by (auto simp: na_spec_def na_view_def events_Sheet)
  qed
  then show ?thesis using st run by simp
qed

theorem failed_submission_can_be_retried_witness:
  "form_run na_spec (preset_ctx, na_handle preset_ctx Submit filled_form) 1
   \<and> Submit \<in> f_offers na_spec (preset_ctx, na_settle None (na_handle preset_ctx Submit filled_form))"
proof -
  have o: "nx_mounted preset_ctx" "nx_open preset_ctx" by (simp_all add: preset_ctx_def idle_ctx_def)
  have i: "\<not> na_busy (na_initial 0)" "\<not> na_submitted (na_initial 0)"
    by (simp_all add: na_initial_def na_submitted_def)
  have "form_run na_spec (preset_ctx, na_initial 0) 0"
    by (rule form_run.init) (simp add: na_spec_def na_initial_def)
  from form_run.edit [OF this na_view_offers(1) [OF o i, of "''Listing task''"]]
  have "form_run na_spec (preset_ctx, (na_initial 0)\<lparr>na_title := ''Listing task''\<rparr>) 0"
    by (simp add: na_spec_def)
  from form_run.edit [OF this na_view_offers(2) [OF o, of _ True]] i
  have f: "form_run na_spec (preset_ctx, filled_form) 0"
    by (simp add: na_spec_def filled_form_def na_submitted_def)
  note ready = filled_ready
  have sub: "\<not> na_busy filled_form" "\<not> na_submitted filled_form"
    using i by (simp_all add: filled_form_def na_submitted_def)
  have "Submit \<in> f_offers na_spec (preset_ctx, filled_form)"
    using na_view_offers(3) [OF o sub] ready by simp
  from form_run.submit [OF f this] have r: "form_run na_spec (preset_ctx, na_handle preset_ctx Submit filled_form) 1"
    using ready by (simp add: na_spec_def ready_args)
  moreover have "na_ready preset_ctx (na_handle preset_ctx Submit filled_form)"
    using ready by (simp add: ready_busy_apart)
  ultimately show ?thesis using failed_submission_can_be_retried [OF r] o by blast
qed

end
