(* ===== verification/RegisterAgent.thy ===== *)
theory RegisterAgent
  imports NewApplication
begin

text \<open>
  \<open>RegisterAgentSheet\<close> and \<open>PassportResult\<close> of \<open>frontend/components/onboarding/register-agent.tsx\<close>:
  the sheet that registers an agent, issues its passport and re-verifies it. State, handlers,
  submission and view as in \<open>NewApplication\<close>; its chips and vendor picker are in \<open>Forms\<close>.
\<close>

definition MAX_TTL_HOURS :: int where "MAX_TTL_HOURS = 24"

subsection \<open>State\<close>

record ra_form =
  ra_name :: string
  ra_provider :: string
  ra_modelName :: string
  ra_versionHash :: string
  ra_purpose :: string
  ra_categories :: "string list"
  ra_borrowingLimit :: string
  ra_perTransaction :: string
  ra_vendorIds :: "string list"
  ra_ttlHours :: string
  ra_step_states :: "StepState list"
  ra_busy :: bool
  ra_verification :: "PassportVerification option"
  ra_agentId :: "string option"

definition ra_initial :: ra_form where
  "ra_initial = \<lparr>ra_name = [], ra_provider = ch_value (hd MODEL_PROVIDERS), ra_modelName = [],
     ra_versionHash = [], ra_purpose = [], ra_categories = [''COMPUTE''], ra_borrowingLimit = ''5000'',
     ra_perTransaction = ''600'', ra_vendorIds = [], ra_ttlHours = ''12'', ra_step_states = [],
     ra_busy = False, ra_verification = None, ra_agentId = None\<rparr>"

record ra_ctx =
  rx_mounted :: bool
  rx_open :: bool
  rx_me :: "Me option"
  rx_vendors :: "Vendor list query_result"
  rx_collate :: "string \<Rightarrow> string \<Rightarrow> bool"

definition ra_ttl :: "ra_form \<Rightarrow> jsnum" where "ra_ttl s = parse_int (ra_ttlHours s)"

definition ra_problems :: "ra_form \<Rightarrow> (string \<times> string) list" where
  "ra_problems s = (let borrowing = rupeeInputToMinor (ra_borrowingLimit s);
                        single = rupeeInputToMinor (ra_perTransaction s) in
     flag (length (trim (ra_name s)) < 2) ''name'' ''Give the agent a name of at least two characters.''
   @ flag (trim (ra_modelName s) = []) ''modelName'' ''Name the model this agent runs on.''
   @ flag (trim (ra_versionHash s) = []) ''versionHash''
       ''Record the pinned version. This is what the passport binds to.''
   @ flag (length (trim (ra_purpose s)) < 4) ''purpose'' ''Say in one line what this agent is for.''
   @ flag (ra_categories s = []) ''categories'' ''Pick at least one permitted category.''
   @ flag (borrowing = None) ''borrowingLimit'' ''Enter an amount in rupees, above zero.''
   @ flag (single = None) ''perTransaction'' ''Enter an amount in rupees, above zero.''
   @ flag (borrowing \<noteq> None \<and> single \<noteq> None \<and> num_lt (the borrowing) (the single)) ''perTransaction''
       ''A single payment cannot exceed the total borrowing authority.''
   @ flag (\<not> whole_between 1 (ra_ttl s) MAX_TTL_HOURS) ''ttlHours''
       (''Between 1 and '' @ show_int MAX_TTL_HOURS @ '' hours.''))"

definition ra_ready :: "ra_form \<Rightarrow> bool" where "ra_ready s \<longleftrightarrow> ra_problems s = []"

definition ra_done :: "ra_form \<Rightarrow> bool" where "ra_done s \<longleftrightarrow> ra_agentId s \<noteq> None"

subsection \<open>Handlers\<close>

datatype ra_event =
    SetName string
  | SetProvider string
  | SetModelName string
  | SetVersionHash string
  | SetPurpose string
  | ToggleCategory string
  | SetBorrowingLimit string
  | SetPerTransaction string
  | ToggleApprovedVendor string
  | SetTtlHours string
  | SubmitAgent
  | CloseSheetEvent

fun ra_handle :: "ra_event \<Rightarrow> ra_form \<Rightarrow> ra_form" where
  "ra_handle (SetName v) s = s\<lparr>ra_name := v\<rparr>"
| "ra_handle (SetProvider v) s = s\<lparr>ra_provider := v\<rparr>"
| "ra_handle (SetModelName v) s = s\<lparr>ra_modelName := v\<rparr>"
| "ra_handle (SetVersionHash v) s = s\<lparr>ra_versionHash := v\<rparr>"
| "ra_handle (SetPurpose v) s = s\<lparr>ra_purpose := v\<rparr>"
| "ra_handle (ToggleCategory v) s = s\<lparr>ra_categories := toggle v (ra_categories s)\<rparr>"
| "ra_handle (SetBorrowingLimit v) s = s\<lparr>ra_borrowingLimit := v\<rparr>"
| "ra_handle (SetPerTransaction v) s = s\<lparr>ra_perTransaction := v\<rparr>"
| "ra_handle (ToggleApprovedVendor v) s = s\<lparr>ra_vendorIds := toggle v (ra_vendorIds s)\<rparr>"
| "ra_handle (SetTtlHours v) s = s\<lparr>ra_ttlHours := v\<rparr>"
| "ra_handle SubmitAgent s = (if ra_ready s then s\<lparr>ra_busy := True, ra_verification := None\<rparr> else s)"
| "ra_handle CloseSheetEvent s = s"

subsection \<open>The submission\<close>

text \<open>The bodies of the two writes, fixed when the submission starts.\<close>

definition ra_submit_args :: "ra_form \<Rightarrow> (AgentBody \<times> PassportBody) option" where
  "ra_submit_args s =
     (if \<not> ra_ready s then None
      else case (rupeeInputToMinor (ra_borrowingLimit s), rupeeInputToMinor (ra_perTransaction s)) of
        (Some borrowing, Some single) \<Rightarrow> Some
          (\<lparr>ab_name = trim (ra_name s), ab_model_provider = ra_provider s,
            ab_model_name = trim (ra_modelName s), ab_model_version_hash = trim (ra_versionHash s)\<rparr>,
           \<lparr>pb_purpose = trim (ra_purpose s), pb_permitted_task_categories = ra_categories s,
            pb_max_borrowing_authority_minor = borrowing, pb_max_transaction_value_minor = single,
            pb_approved_vendor_ids = Some (ra_vendorIds s), pb_ttl_hours = Some (ra_ttl s)\<rparr>)
      | _ \<Rightarrow> None)"

record 'w ra_run = "'w run" +
  rr_createdAgentId :: string
  rr_verification :: "json option"

definition ra_run_start :: "'w \<Rightarrow> 'w ra_run" where
  "ra_run_start w = \<lparr>rn_world = w, rn_log = [], rr_createdAgentId = [], rr_verification = None\<rparr>"

definition register_step :: "'w api \<Rightarrow> AgentBody \<Rightarrow> 'w ra_run \<Rightarrow> (thrown + json) \<times> 'w ra_run" where
  "register_step api b r = (case send_call api (createAgent b) r of
     (Inl e, r') \<Rightarrow> (Inl e, r')
   | (Inr v, r') \<Rightarrow> (case read_id ''agent_id'' v of
        Inl e \<Rightarrow> (Inl e, r') | Inr i \<Rightarrow> (Inr v, r'\<lparr>rr_createdAgentId := i\<rparr>)))"

definition passport_step :: "'w api \<Rightarrow> PassportBody \<Rightarrow> 'w ra_run \<Rightarrow> (thrown + json) \<times> 'w ra_run" where
  "passport_step api b r = send_call api (issuePassport (rr_createdAgentId r) b) r"

text \<open>\<open>result.reason_codes.map(humanise)\<close>, throwing as it does when there is no list of strings.\<close>

fun code_texts :: "json list \<Rightarrow> string list option" where
  "code_texts [] = Some []"
| "code_texts (v # vs) =
     (if \<not> truthy v then map_option (Cons (humanise None)) (code_texts vs)
      else case as_string v of None \<Rightarrow> None
        | Some s \<Rightarrow> map_option (Cons (humanise (Some s))) (code_texts vs))"

definition refused_passport :: "json \<Rightarrow> thrown" where
  "refused_passport result = (case member ''reason_codes'' result of
     JArr vs \<Rightarrow> (case code_texts vs of
         Some ts \<Rightarrow> Error (''The passport did not verify: '' @ join '', '' ts)
       | None \<Rightarrow> Error ''code.replace is not a function'')
   | _ \<Rightarrow> Error ''result.reason_codes.map is not a function'')"

definition verify_step :: "'w api \<Rightarrow> 'w ra_run \<Rightarrow> (thrown + json) \<times> 'w ra_run" where
  "verify_step api r = (case send_call api (verifyPassport (rr_createdAgentId r)) r of
     (Inl e, r') \<Rightarrow> (Inl e, r')
   | (Inr result, r') \<Rightarrow>
       (let r2 = r'\<lparr>rr_verification := Some result\<rparr> in
        case read_id ''valid'' result of
          Inl e \<Rightarrow> (Inl e, r2)
        | Inr _ \<Rightarrow> if \<not> truthy (member ''valid'' result) then (Inl (refused_passport result), r2)
                    else (Inr result, r2)))"

definition ra_steps :: "'w api \<Rightarrow> AgentBody \<Rightarrow> PassportBody \<Rightarrow> 'w ra_run Step list" where
  "ra_steps api b p =
     [\<lparr>step_label = ''Register the agent'', step_run = register_step api b\<rparr>,
      \<lparr>step_label = ''Issue the agent passport'', step_run = passport_step api p\<rparr>,
      \<lparr>step_label = ''Re-verify the passport (issuer, audience, window, revocation, scope, replay)'',
       step_run = verify_step api\<rparr>]"

definition ra_submission :: "'w api \<Rightarrow> AgentBody \<Rightarrow> PassportBody \<Rightarrow> 'w \<Rightarrow> 'w ra_run outcome" where
  "ra_submission api b p w = runSteps (ra_steps api b p) (ra_run_start w)"

datatype ra_progress = AgentFrame "StepState list" | Verified PassportVerification

fun ra_on_progress :: "ra_progress \<Rightarrow> ra_form \<Rightarrow> ra_form" where
  "ra_on_progress (AgentFrame fr) s = s\<lparr>ra_step_states := fr\<rparr>"
| "ra_on_progress (Verified v) s = s\<lparr>ra_verification := Some v\<rparr>"

definition ra_settle :: "string option \<Rightarrow> ra_form \<Rightarrow> ra_form" where
  "ra_settle out s = (let s1 = s\<lparr>ra_busy := False\<rparr> in
     case out of None \<Rightarrow> s1 | Some i \<Rightarrow> s1\<lparr>ra_agentId := Some i\<rparr>)"

subsection \<open>The view\<close>

definition PassportResult :: "PassportVerification \<Rightarrow> 'e node" where
  "PassportResult v = El ''div'' [] (
     [El ''p'' [] [icon (if pver_valid v then ''ShieldCheck'' else ''ShieldX''),
        Txt (if pver_valid v then ''Passport verified'' else ''Passport failed verification'')],
      para (''Signature and trusted issuer, audience, validity window, revocation, permitted scope and '' @
        ''replay nonce '' @ [EM_DASH] @ '' all six re-checked against the stored passport just now.'')]
     @ show_if (pver_reason_codes v \<noteq> [])
         [El ''div'' [] (map (\<lambda>code. Badge critical [Txt code]) (pver_reason_codes v))]
     @ [Mono [Txt (pver_agent_id v)]])"

definition ra_identity_fields :: "ra_ctx \<Rightarrow> ra_form \<Rightarrow> ra_event node list" where
  "ra_identity_fields cx s = (let ps = ra_problems s in
     [Field ''Organization''
        (Some (''Agents are created inside the workspace you are signed into. There is one tenant per '' @
           ''workspace, so this is not a choice.'')) None
        [ReadOnlyInput (case rx_me cx of Some m \<Rightarrow> me_name m | None \<Rightarrow> [])],
      Field ''Agent name'' (problem_of ps ''name'') (Some ''agent-name'')
        [checked_input ''agent-name'' (ra_name s) ps ''name'' SetName],
      Field ''Agent type''
        (Some (''Recorded as the agent'' @ [APOS] @ ''s model provider '' @ [EM_DASH] @ '' the field the profile page shows.''))
        (Some ''agent-provider'')
        [Select [Attr ''id'' ''agent-provider''] (ra_provider s) SetProvider
           (map (\<lambda>c. (ch_value c, ch_label c)) MODEL_PROVIDERS)],
      Field ''Model'' (problem_of ps ''modelName'') (Some ''agent-model'')
        [checked_input ''agent-model'' (ra_modelName s) ps ''modelName'' SetModelName],
      Field ''Pinned model version''
        (problem_or ps ''versionHash'' (''Doubles as the agent'' @ [APOS] @ ''s external identifier: it is the string that '' @
           ''ties this agent to a specific build, and it is what the passport is issued against.''))
        (Some ''agent-version'')
        [checked_input ''agent-version'' (ra_versionHash s) ps ''versionHash'' SetVersionHash],
      Field ''Owner''
        (Some (''The passport is issued to the signed-in owner. Credit is never extended to an agent '' @
           ''without one.'')) None
        [ReadOnlyInput (case rx_me cx of Some m \<Rightarrow> me_user_email (me_user m) | None \<Rightarrow> [])]])"

definition ra_passport_fields :: "ra_ctx \<Rightarrow> ra_form \<Rightarrow> ra_event node list" where
  "ra_passport_fields cx s = (let ps = ra_problems s in
     [Field ''Purpose'' (problem_of ps ''purpose'') (Some ''agent-purpose'')
        [checked_input ''agent-purpose'' (ra_purpose s) ps ''purpose'' SetPurpose],
      Field ''Permitted task categories''
        (problem_or ps ''categories'' ''A task outside these categories fails the passport scope check at underwriting.'')
        None
        [ChoiceChips (map (\<lambda>c. (ch_value c, ch_label c)) TASK_CATEGORIES) (ra_categories s) ToggleCategory],
      Field (''Maximum task-credit limit ('' @ [RUPEE] @ '')'')
        (problem_or ps ''borrowingLimit'' ''The most this agent may borrow at once.'') (Some ''agent-borrowing'')
        [checked_input ''agent-borrowing'' (ra_borrowingLimit s) ps ''borrowingLimit'' SetBorrowingLimit],
      Field (''Maximum single payment ('' @ [RUPEE] @ '')'')
        (problem_or ps ''perTransaction'' ''Ceiling on any one vendor payment.'') (Some ''agent-per-transaction'')
        [checked_input ''agent-per-transaction'' (ra_perTransaction s) ps ''perTransaction'' SetPerTransaction],
      Field ''Authorization window (hours)''
        (problem_or ps ''ttlHours'' (''Starts when the passport is issued. The server stamps the expiry; after it, '' @
           ''the validity-window check fails closed until a new passport is issued.''))
        (Some ''agent-ttl'')
        [checked_input ''agent-ttl'' (ra_ttlHours s) ps ''ttlHours'' SetTtlHours],
      Field ''Approved vendors''
        (Some (''Grouped by category. A payment to anyone not selected here is blocked by the vault, not '' @
           ''merely flagged.'')) None
        (vendor_field (rx_collate cx) (rx_vendors cx) (ra_vendorIds s) ToggleApprovedVendor)])"

definition ra_footer :: "ra_form \<Rightarrow> ra_event node list" where
  "ra_footer s =
     (if ra_done s then [Button Primary False CloseSheetEvent [Txt ''Done'']]
      else [Button Secondary (ra_busy s) CloseSheetEvent [Txt ''Cancel''],
        Button Primary (\<not> ra_ready s \<or> ra_busy s) SubmitAgent
          [Txt (if ra_busy s then ''Registering'' @ [ELLIPSIS] else ''Register agent'')]])"

definition ra_view :: "ra_ctx \<Rightarrow> ra_form \<Rightarrow> ra_event node list" where
  "ra_view cx s = Sheet (rx_mounted cx) (rx_open cx) CloseSheetEvent ''Register an AI agent''
     (Some [Txt (case rx_me cx of None \<Rightarrow> ''Loading workspace'' @ [ELLIPSIS]
        | Some m \<Rightarrow> ''Into '' @ me_name m @ '' '' @ [MIDDOT] @ '' '' @ me_organization_id m)])
     (ra_footer s)
     ([para (''Registering creates the agent, issues its passport and then re-runs the six passport '' @
        ''checks against what was stored. Sandbox workspace: test credits only.''),
       El ''fieldset'' (disabled_if (ra_busy s \<or> ra_done s))
         (ra_identity_fields cx s @ [El ''hr'' [] []] @ ra_passport_fields cx s)]
      @ progress_panel (ra_step_states s)
      @ some_node (\<lambda>v. [PassportResult v]) (ra_verification s)
      @ some_node (\<lambda>borrowing. show_if (ra_done s)
          [para (trim (ra_name s) @ '' can now borrow up to '' @ money (Some borrowing) @ '' against work in '' @
             join '', '' (ra_categories s) @ ''. Create a credit application to put that to use.'')])
          (rupeeInputToMinor (ra_borrowingLimit s)))"

definition ra_spec :: "(ra_ctx \<times> ra_form, ra_event, ra_progress, string option) form" where
  "ra_spec = \<lparr>
     f_initial = (\<lambda>(cx, s). s = ra_initial),
     f_offers = (\<lambda>(cx, s). \<Union>v \<in> set (ra_view cx s). events v),
     f_starts = (\<lambda>(cx, s) e. e = SubmitAgent \<and> ra_submit_args s \<noteq> None),
     f_handle = (\<lambda>e (cx, s). (cx, ra_handle e s)),
     f_progress = (\<lambda>p (cx, s). (cx, ra_on_progress p s)),
     f_settle = (\<lambda>out (cx, s). (cx, ra_settle out s)),
     f_rerender = (\<lambda>(cx, s) (cx', s'). s' = s)\<rparr>"

subsection \<open>What the view lets a user do\<close>

lemma ra_fields_events:
  "v \<in> set (ra_identity_fields cx s @ ra_passport_fields cx s) \<Longrightarrow> e \<in> events v \<Longrightarrow>
     e \<noteq> SubmitAgent \<and> e \<noteq> CloseSheetEvent"
  by (auto simp: ra_identity_fields_def ra_passport_fields_def Let_def split: option.splits
      dest!: events_vendor_field)

lemma events_PassportResult [simp]: "events (PassportResult v) = {}"
  by (auto simp: PassportResult_def)

lemma ra_offers:
  assumes "e \<in> f_offers ra_spec (cx, s)"
  shows "e = CloseSheetEvent \<or> e = SubmitAgent \<and> ra_ready s \<and> \<not> ra_busy s \<and> \<not> ra_done s
     \<or> e \<noteq> SubmitAgent \<and> e \<noteq> CloseSheetEvent \<and> \<not> ra_busy s \<and> \<not> ra_done s"
proof -
  from assms consider "e = CloseSheetEvent" | v where "v \<in> set (ra_footer s)" "e \<in> events v"
    | v where "\<not> ra_busy s" "\<not> ra_done s" "e \<in> events v"
        "v \<in> set (ra_identity_fields cx s @ ra_passport_fields cx s)"
    by (auto simp: ra_spec_def ra_view_def events_Sheet set_some_node split: if_splits option.splits)
  then show ?thesis
  proof cases
    case 2
    then show ?thesis by (auto simp: ra_footer_def split: if_splits)
  next
    case 3
    then show ?thesis using ra_fields_events by blast
  qed simp
qed

lemma ra_ready_iff:
  "ra_ready s \<longleftrightarrow> \<not> length (trim (ra_name s)) < 2 \<and> trim (ra_modelName s) \<noteq> []
    \<and> trim (ra_versionHash s) \<noteq> [] \<and> \<not> length (trim (ra_purpose s)) < 4 \<and> ra_categories s \<noteq> []
    \<and> rupeeInputToMinor (ra_borrowingLimit s) \<noteq> None \<and> rupeeInputToMinor (ra_perTransaction s) \<noteq> None
    \<and> \<not> (rupeeInputToMinor (ra_borrowingLimit s) \<noteq> None \<and> rupeeInputToMinor (ra_perTransaction s) \<noteq> None
        \<and> num_lt (the (rupeeInputToMinor (ra_borrowingLimit s))) (the (rupeeInputToMinor (ra_perTransaction s))))
    \<and> whole_between 1 (ra_ttl s) 24"
  by (simp only: ra_ready_def ra_problems_def Let_def append_is_Nil_conv flag_empty MAX_TTL_HOURS_def not_not)

lemma ra_ready_args: "ra_ready s \<longleftrightarrow> ra_submit_args s \<noteq> None"
  by (auto simp: ra_submit_args_def ra_ready_iff split: option.splits)

lemma ra_edit_keeps:
  "e \<noteq> SubmitAgent \<Longrightarrow> ra_busy (ra_handle e s) = ra_busy s"
  "ra_agentId (ra_handle e s) = ra_agentId s"
  by (cases e; simp)+

definition ra_sound :: "ra_form \<Rightarrow> bool" where
  "ra_sound s \<longleftrightarrow> (ra_done s \<longrightarrow> \<not> ra_busy s)"

definition ra_pending :: "ra_ctx \<times> ra_form \<Rightarrow> nat" where
  "ra_pending p = of_bool (ra_busy (snd p))"

interpretation ra: sound_form ra_spec ra_pending "\<lambda>(cx, s). ra_sound s"
proof unfold_locales
  fix p :: "ra_ctx \<times> ra_form" assume "f_initial ra_spec p"
  then obtain cx where "p = (cx, ra_initial)" by (auto simp: ra_pending_def ra_spec_def split: prod.splits)
  then show "ra_pending p = 0" "case p of (cx, s) \<Rightarrow> ra_sound s"
    by (simp_all add: ra_pending_def ra_initial_def ra_sound_def)
next
  fix e and p :: "ra_ctx \<times> ra_form"
  assume off: "e \<in> f_offers ra_spec p"
  obtain cx s where p: "p = (cx, s)" by (cases p)
  note offers = ra_offers [OF off [unfolded p]]
  show "ra_pending p = 0" if "f_starts ra_spec p e"
    using offers that by (auto simp: p ra_pending_def ra_spec_def)
  show "ra_pending (f_handle ra_spec e p) = 1" if "f_starts ra_spec p e"
    using that by (auto simp: p ra_pending_def ra_spec_def ra_ready_args)
  show "ra_pending (f_handle ra_spec e p) = ra_pending p"
    if "\<not> f_starts ra_spec p e"
    using offers that by (auto simp: p ra_pending_def ra_spec_def ra_ready_args ra_edit_keeps)
  show "case f_handle ra_spec e p of (cx, s) \<Rightarrow> ra_sound s" if "case p of (cx, s) \<Rightarrow> ra_sound s"
    using offers that by (auto simp: p ra_pending_def ra_spec_def ra_sound_def ra_done_def ra_edit_keeps)
next
  fix p :: "ra_ctx \<times> ra_form" and q
  show "ra_pending (f_progress ra_spec q p) = ra_pending p"
    by (cases q) (auto simp: ra_pending_def ra_spec_def split: prod.splits)
  show "case f_progress ra_spec q p of (cx, s) \<Rightarrow> ra_sound s" if "case p of (cx, s) \<Rightarrow> ra_sound s"
    using that by (cases q) (auto simp: ra_pending_def ra_spec_def ra_sound_def ra_done_def split: prod.splits)
next
  fix p :: "ra_ctx \<times> ra_form" and out
  show "ra_pending (f_settle ra_spec out p) = ra_pending p - 1"
    by (auto simp: ra_pending_def ra_spec_def ra_settle_def Let_def split: prod.splits option.splits)
  show "case f_settle ra_spec out p of (cx, s) \<Rightarrow> ra_sound s"
    by (auto simp: ra_pending_def ra_spec_def ra_settle_def ra_sound_def Let_def split: prod.splits option.splits)
next
  fix p p' :: "ra_ctx \<times> ra_form" assume r: "f_rerender ra_spec p p'"
  show "ra_pending p' = ra_pending p"
    using r by (auto simp: ra_pending_def ra_spec_def split: prod.splits)
  show "case p' of (cx, s) \<Rightarrow> ra_sound s" if "case p of (cx, s) \<Rightarrow> ra_sound s"
    using that r by (auto simp: ra_pending_def ra_spec_def split: prod.splits)
qed

subsection \<open>Properties\<close>

lemma ra_send_keeps [simp]:
  "send_call api c r = (out, r') \<Longrightarrow> rr_createdAgentId r' = rr_createdAgentId r"
  "send_call api c r = (out, r') \<Longrightarrow> rr_verification r' = rr_verification r"
  by (auto simp: send_call_def split: prod.splits)

definition registration_calls :: "AgentBody \<Rightarrow> PassportBody \<Rightarrow> string \<Rightarrow> call list" where
  "registration_calls b p i = [createAgent b, issuePassport i p, verifyPassport i]"

lemma register_log:
  "register_step api b r = (out, r') \<Longrightarrow> rn_log r' = rn_log r @ [createAgent b]
    \<and> rr_verification r' = rr_verification r"
  by (auto simp: register_step_def split: prod.splits sum.splits dest: send_call_log)

lemma passport_log:
  "passport_step api p r = (out, r') \<Longrightarrow> rn_log r' = rn_log r @ [issuePassport (rr_createdAgentId r) p]
    \<and> rr_verification r' = rr_verification r \<and> rr_createdAgentId r' = rr_createdAgentId r"
  by (auto simp: passport_step_def dest: send_call_log)

lemma verify_log:
  "verify_step api r = (out, r') \<Longrightarrow> rn_log r' = rn_log r @ [verifyPassport (rr_createdAgentId r)]
    \<and> rr_createdAgentId r' = rr_createdAgentId r
    \<and> (\<forall>v. out = Inr v \<longrightarrow> rr_verification r' = Some v \<and> truthy (member ''valid'' v))"
  by (auto simp: verify_step_def Let_def split: prod.splits sum.splits if_splits dest: send_call_log)

text \<open>The agent's id in the answer to the first call, and the answer to the third.\<close>

lemma register_step_created:
  assumes "register_step api b r = (Inr x, r')"
  shows "\<exists>v. fst (api (rn_world r) (createAgent b)) = Inr v \<and> read_id ''agent_id'' v = Inr (rr_createdAgentId r')"
    and "rn_world r' = snd (api (rn_world r) (createAgent b))"
  using assms by (auto simp: register_step_def send_call_def split: prod.splits sum.splits)

lemma passport_world:
  "passport_step api p r = (out, r') \<Longrightarrow> rn_world r' = snd (api (rn_world r) (issuePassport (rr_createdAgentId r) p))"
  by (auto simp: passport_step_def send_call_def split: prod.splits)

lemma verify_step_answer:
  assumes "verify_step api r = (Inr x, r')"
  shows "\<exists>v. fst (api (rn_world r) (verifyPassport (rr_createdAgentId r))) = Inr v
    \<and> rr_verification r' = Some v \<and> truthy (member ''valid'' v)"
  using assms
  by (auto simp: verify_step_def send_call_def Let_def split: prod.splits sum.splits if_splits)

lemma ra_exec:
  assumes "exec (ra_steps api b p) (ra_run_start w) = (rs, e, r)"
  shows "\<exists>k \<ge> 1. rn_log r = take k (registration_calls b p (rr_createdAgentId r))
    \<and> (k = 1 \<or> (\<exists>v. fst (api w (createAgent b)) = Inr v \<and> read_id ''agent_id'' v = Inr (rr_createdAgentId r)))
    \<and> (e = None \<longrightarrow> k = 3 \<and> (\<exists>v. rr_verification r = Some v \<and> truthy (member ''valid'' v)
        \<and> fst (api (snd (api (snd (api w (createAgent b))) (issuePassport (rr_createdAgentId r) p)))
            (verifyPassport (rr_createdAgentId r))) = Inr v))"
proof -
  obtain o1 r1 where s1: "register_step api b (ra_run_start w) = (o1, r1)" by fastforce
  have l1: "rn_log r1 = [createAgent b]" using register_log [OF s1] by (simp add: ra_run_start_def)
  have made: "(\<exists>v. fst (api w (createAgent b)) = Inr v \<and> read_id ''agent_id'' v = Inr (rr_createdAgentId r1))
      \<and> rn_world r1 = snd (api w (createAgent b))" if "o1 = Inr x" for x
    using register_step_created [OF s1 [unfolded that]] by (simp add: ra_run_start_def)
  obtain o2 r2 where s2: "passport_step api p r1 = (o2, r2)" by fastforce
  note l2 = passport_log [OF s2]
  obtain o3 r3 where s3: "verify_step api r2 = (o3, r3)" by fastforce
  note l3 = verify_log [OF s3]
  consider (one) x where "o1 = Inl x" | (two) x y where "o1 = Inr x" "o2 = Inl y"
    | (three) x y where "o1 = Inr x" "o2 = Inr y"
    by (cases o1; cases o2) auto
  then show ?thesis
  proof cases
    case one
    then have "r = r1" "e \<noteq> None" using assms s1 by (auto simp: ra_steps_def)
    then show ?thesis using l1 by (intro exI [of _ 1]) (simp add: registration_calls_def)
  next
    case two
    then have "r = r2" "e \<noteq> None" using assms s1 s2 by (auto simp: ra_steps_def)
    then show ?thesis using l1 l2 made [OF two(1)]
      by (intro exI [of _ 2]) (simp add: registration_calls_def)
  next
    case three
    then have r: "r = r3" "e = None \<longleftrightarrow> (\<exists>v. o3 = Inr v)"
      using assms s1 s2 s3 by (auto simp: ra_steps_def split: sum.splits)
    have "\<exists>v. rr_verification r3 = Some v \<and> truthy (member ''valid'' v)
        \<and> fst (api (snd (api (snd (api w (createAgent b))) (issuePassport (rr_createdAgentId r3) p)))
            (verifyPassport (rr_createdAgentId r3))) = Inr v" if "o3 = Inr z" for z
      using verify_step_answer [OF s3 [unfolded that]] passport_world [OF s2] made [OF three(1)] l2 l3
      by auto
    then show ?thesis using r l1 l2 l3 made [OF three(1)]
      by (intro exI [of _ 3]) (auto simp: registration_calls_def)
  qed
qed

text \<open>
  C15. An agent is reported as registered only with a passport that was re-verified: whatever the
  backend answers, the calls are a prefix of creating the agent, issuing its passport and verifying
  it, and everything after the first call is for one agent, the one whose id is in the backend's
  answer to that call. The run succeeds only when all three were made and the answer to the third,
  which is the verification shown, says that this agent's passport is valid.
\<close>

theorem registration_verified:
  "\<exists>k i. 1 \<le> k \<and> rn_log (oc_world (ra_submission api b p w)) = take k (registration_calls b p i)
     \<and> (k = 1 \<or> (\<exists>v. fst (api w (createAgent b)) = Inr v \<and> \<not> is_nullish v
          \<and> i = (case as_string (member ''agent_id'' v) of Some s \<Rightarrow> s | None \<Rightarrow> ''undefined'')))
     \<and> (oc_ok (ra_submission api b p w) \<longrightarrow> k = 3
         \<and> (\<exists>v. rr_verification (oc_world (ra_submission api b p w)) = Some v \<and> truthy (member ''valid'' v)
              \<and> fst (api (snd (api (snd (api w (createAgent b))) (issuePassport i p))) (verifyPassport i)) = Inr v))"
proof -
  obtain rs e r where x: "exec (ra_steps api b p) (ra_run_start w) = (rs, e, r)"
    by (cases "exec (ra_steps api b p) (ra_run_start w)")
  have "oc_world (ra_submission api b p w) = r" "oc_ok (ra_submission api b p w) \<longleftrightarrow> e = None"
    using runSteps_run [OF x] by (simp_all add: ra_submission_def)
  then show ?thesis using ra_exec [OF x] unfolding read_id_Inr by metis
qed

definition all_good :: "nat api" where
  "all_good n c = (Inr (JObj [(''agent_id'', JStr ''a1''), (''valid'', JBool True)]), Suc n)"

definition sample_agent :: AgentBody where
  "sample_agent = \<lparr>ab_name = ''Bot'', ab_model_provider = ''ollama'', ab_model_name = ''m'',
     ab_model_version_hash = ''h''\<rparr>"

definition sample_passport :: PassportBody where
  "sample_passport = \<lparr>pb_purpose = ''work'', pb_permitted_task_categories = [''DATA''],
     pb_max_borrowing_authority_minor = Fin 500, pb_max_transaction_value_minor = Fin 60,
     pb_approved_vendor_ids = None, pb_ttl_hours = Some (Fin 12)\<rparr>"

theorem registration_verified_witness:
  "oc_ok (ra_submission all_good sample_agent sample_passport 0)
   \<and> rn_log (oc_world (ra_submission all_good sample_agent sample_passport 0))
      = [createAgent sample_agent, issuePassport ''a1'' sample_passport, verifyPassport ''a1'']"
proof -
  let ?out = "ra_submission all_good sample_agent sample_passport 0"
  have ok: "oc_ok ?out" by code_simp
  obtain k i where k: "rn_log (oc_world ?out) = take k (registration_calls sample_agent sample_passport i)"
    and made: "k = 1 \<or> (\<exists>v. fst (all_good 0 (createAgent sample_agent)) = Inr v \<and> \<not> is_nullish v
        \<and> i = (case as_string (member ''agent_id'' v) of Some s \<Rightarrow> s | None \<Rightarrow> ''undefined''))"
    and fin: "oc_ok ?out \<longrightarrow> k = 3 \<and> (\<exists>v. rr_verification (oc_world ?out) = Some v \<and> truthy (member ''valid'' v)
        \<and> fst (all_good (snd (all_good (snd (all_good 0 (createAgent sample_agent))) (issuePassport i sample_passport)))
            (verifyPassport i)) = Inr v)"
    using registration_verified [of all_good sample_agent sample_passport 0] by (elim exE conjE) (rule that)
  have "k = 3" using ok fin by blast
  moreover have "i = ''a1''" using made \<open>k = 3\<close> by (simp add: all_good_def)
  ultimately show ?thesis using ok k by (simp add: registration_calls_def)
qed

text \<open>
  The registration sheet never has two submissions in flight, offers none while one runs or once
  it is done, and what it submits keeps a single payment within the borrowing authority and the
  window within 24 hours.
\<close>

theorem one_registration_per_form:
  assumes "form_run ra_spec (cx, s) n"
  shows "n = (if ra_busy s then 1 else 0)
    \<and> (SubmitAgent \<in> f_offers ra_spec (cx, s) \<longrightarrow> n = 0 \<and> ra_agentId s = None
        \<and> (\<exists>b p. ra_submit_args s = Some (b, p)
            \<and> \<not> num_lt (pb_max_borrowing_authority_minor p) (pb_max_transaction_value_minor p)
            \<and> whole_between 1 (the (pb_ttl_hours p)) 24 \<and> pb_permitted_task_categories p \<noteq> []))"
proof -
  have n: "n = (if ra_busy s then 1 else 0)" using ra.pending_flight [OF assms] by (simp add: ra_pending_def)
  moreover have "n = 0 \<and> ra_agentId s = None \<and> (\<exists>b p. ra_submit_args s = Some (b, p)
      \<and> \<not> num_lt (pb_max_borrowing_authority_minor p) (pb_max_transaction_value_minor p)
      \<and> whole_between 1 (the (pb_ttl_hours p)) 24 \<and> pb_permitted_task_categories p \<noteq> [])"
    if "SubmitAgent \<in> f_offers ra_spec (cx, s)"
    using ra_offers [OF that] n by (auto simp: ra_done_def ra_submit_args_def ra_ready_iff)
  ultimately show ?thesis by blast
qed

definition idle_ra_ctx :: ra_ctx where
  "idle_ra_ctx = \<lparr>rx_mounted = True, rx_open = True, rx_me = None, rx_vendors = loading_result,
     rx_collate = (\<lambda>a b. True)\<rparr>"

lemma ra_view_offers:
  assumes "rx_mounted cx" "rx_open cx" "\<not> ra_busy s" "\<not> ra_done s"
  shows "SetName v \<in> f_offers ra_spec (cx, s)" "SetModelName v \<in> f_offers ra_spec (cx, s)"
    and "SetVersionHash v \<in> f_offers ra_spec (cx, s)" "SetPurpose v \<in> f_offers ra_spec (cx, s)"
    and "ra_ready s \<Longrightarrow> SubmitAgent \<in> f_offers ra_spec (cx, s)"
  using assms
  by (auto simp: ra_spec_def ra_view_def events_Sheet ra_identity_fields_def ra_passport_fields_def
      ra_footer_def Let_def)

definition filled_agent :: ra_form where
  "filled_agent = ra_initial\<lparr>ra_name := ''Bot'', ra_modelName := ''m'', ra_versionHash := ''h'',
     ra_purpose := ''work''\<rparr>"

lemma filled_agent_ready: "ra_ready filled_agent"
proof -
  have "rupeeInputToMinor ''5000'' = Some (num_of_int 500000)" "rupeeInputToMinor ''600'' = Some (num_of_int 60000)"
    by code_simp+
  moreover have "whole_between 1 (parse_int ''12'') 24" "\<not> length (trim ''Bot'') < 2" "trim ''m'' \<noteq> []"
    "trim ''h'' \<noteq> []" "\<not> length (trim ''work'') < 4" by code_simp+
  ultimately show ?thesis
    unfolding ra_ready_iff ra_ttl_def filled_agent_def ra_initial_def
    by (simp add: num_of_int_def num_lt_def)
qed

theorem one_registration_per_form_witness:
  "form_run ra_spec (idle_ra_ctx, filled_agent) 0 \<and> SubmitAgent \<in> f_offers ra_spec (idle_ra_ctx, filled_agent)
   \<and> ra_submit_args filled_agent \<noteq> None"
proof -
  have o: "rx_mounted idle_ra_ctx" "rx_open idle_ra_ctx" by (simp_all add: idle_ra_ctx_def)
  have i: "\<not> ra_busy ra_initial" "\<not> ra_done ra_initial" by (simp_all add: ra_initial_def ra_done_def)
  have "form_run ra_spec (idle_ra_ctx, ra_initial) 0"
    by (rule form_run.init) (simp add: ra_spec_def)
  from form_run.edit [OF this ra_view_offers(1) [OF o i, of "''Bot''"]]
  have "form_run ra_spec (idle_ra_ctx, ra_initial\<lparr>ra_name := ''Bot''\<rparr>) 0" by (simp add: ra_spec_def)
  from form_run.edit [OF this ra_view_offers(2) [OF o, of _ "''m''"]] i
  have "form_run ra_spec (idle_ra_ctx, ra_initial\<lparr>ra_name := ''Bot'', ra_modelName := ''m''\<rparr>) 0"
    by (simp add: ra_spec_def ra_done_def)
  from form_run.edit [OF this ra_view_offers(3) [OF o, of _ "''h''"]] i
  have "form_run ra_spec (idle_ra_ctx, ra_initial\<lparr>ra_name := ''Bot'', ra_modelName := ''m'',
      ra_versionHash := ''h''\<rparr>) 0"
    by (simp add: ra_spec_def ra_done_def)
  from form_run.edit [OF this ra_view_offers(4) [OF o, of _ "''work''"]] i
  have f: "form_run ra_spec (idle_ra_ctx, filled_agent) 0"
    by (simp add: ra_spec_def ra_done_def filled_agent_def)
  have "SubmitAgent \<in> f_offers ra_spec (idle_ra_ctx, filled_agent)"
    using ra_view_offers(5) [OF o _ _ filled_agent_ready] i by (simp add: filled_agent_def ra_done_def)
  then show ?thesis using f one_registration_per_form [OF f] by blast
qed

end
