(* ===== verification/Review.thy ===== *)
theory Review
  imports Forms
begin

text \<open>
  The underwriting review: \<open>frontend/components/underwriting/review-controls.tsx\<close> (the human
  decision), \<open>frontend/components/onboarding/underwriting-summary.tsx\<close> (running an application,
  funding it, and the decision on one line each) and
  \<open>frontend/components/underwriting/decision-panels.tsx\<close> (model, engine and verifier side by side).
\<close>

subsection \<open>The human decision\<close>

record rc_ctx =
  rc_applicationId :: string
  rc_requestedMinor :: Money
  rc_engineLimitMinor :: "Money option"

record rc_form =
  rc_amount :: string
  rc_notes :: string
  rc_review :: "json mutation_result"

definition rc_defaultRupees :: "rc_ctx \<Rightarrow> string" where
  "rc_defaultRupees cx = rupeeInputValue
     (Some (case rc_engineLimitMinor cx of Some l \<Rightarrow> l | None \<Rightarrow> rc_requestedMinor cx))"

definition rc_initial :: "rc_ctx \<Rightarrow> rc_form" where
  "rc_initial cx = \<lparr>rc_amount = rc_defaultRupees cx, rc_notes = [], rc_review = mu_idle\<rparr>"

definition rc_amountMinor :: "rc_form \<Rightarrow> Money option" where
  "rc_amountMinor s = rupeeInputToMinor (rc_amount s)"

datatype rc_event = SetReviewAmount string | SetNotes string | Decide bool

text \<open>\<open>decide\<close>: the body of the review for the intent to approve (\<open>True\<close>) or to reject.\<close>

definition decide :: "rc_ctx \<Rightarrow> bool \<Rightarrow> rc_form \<Rightarrow> ReviewBody" where
  "decide cx approve s =
     (let notesPart = (if trim (rc_notes s) \<noteq> [] then Some (trim (rc_notes s)) else None) in
      if \<not> approve then \<lparr>rb_action = REJECT, rb_amount_minor = None, rb_notes = notesPart\<rparr>
      else let unchanged = (case rc_engineLimitMinor cx of None \<Rightarrow> True
             | Some l \<Rightarrow> (case rc_amountMinor s of None \<Rightarrow> False | Some m \<Rightarrow> num_eq m l)) in
        if unchanged then \<lparr>rb_action = APPROVE, rb_amount_minor = None, rb_notes = notesPart\<rparr>
        else \<lparr>rb_action = REDUCE, rb_amount_minor = rc_amountMinor s, rb_notes = notesPart\<rparr>)"

fun rc_handle :: "rc_event \<Rightarrow> rc_form \<Rightarrow> rc_form" where
  "rc_handle (SetReviewAmount v) s = s\<lparr>rc_amount := v\<rparr>"
| "rc_handle (SetNotes v) s = s\<lparr>rc_notes := v\<rparr>"
| "rc_handle (Decide approve) s = s\<lparr>rc_review := mu_sent\<rparr>"

definition rc_view :: "rc_ctx \<Rightarrow> rc_form \<Rightarrow> rc_event node" where
  "rc_view cx s = (let busy = mu_pending (rc_review s); amountValid = rc_amountMinor s \<noteq> None in
     Card [CardContent (
       [Field (''Approved limit ('' @ [RUPEE] @ '')'')
          (Some (case rc_engineLimitMinor cx of
             Some l \<Rightarrow> ''Engine decided '' @ money (Some l) @ '' '' @ [MIDDOT] @ '' requested ''
               @ money (Some (rc_requestedMinor cx))
           | None \<Rightarrow> ''Requested '' @ money (Some (rc_requestedMinor cx))))
          (Some ''review-amount'')
          [Input [Attr ''id'' ''review-amount'', Attr ''aria-invalid'' (bool_text (\<not> amountValid))]
             (rc_amount s) False SetReviewAmount],
        Field ''Notes'' (Some ''Recorded in the audit chain with the decision.'') (Some ''review-notes'')
          [Textarea [Attr ''id'' ''review-notes''] (rc_notes s) SetNotes],
        Button Primary (busy \<or> \<not> amountValid) (Decide True) [icon ''Check'', Txt ''Approve''],
        Button Danger busy (Decide False) [icon ''X'', Txt ''Reject'']]
       @ some_node (\<lambda>e. [para (failure_text ''The decision could not be recorded. Nothing was changed.'' e)])
           (mu_error (rc_review s))
       @ some_node (\<lambda>d. [para ''Decision recorded and anchored in the audit chain.''])
           (mu_data (rc_review s)))])"

definition rc_spec :: "(rc_ctx \<times> rc_form, rc_event, unit, failure + json) form" where
  "rc_spec = \<lparr>
     f_initial = (\<lambda>(cx, s). s = rc_initial cx),
     f_offers = (\<lambda>(cx, s). events (rc_view cx s)),
     f_starts = (\<lambda>(cx, s) e. \<exists>a. e = Decide a),
     f_handle = (\<lambda>e (cx, s). (cx, rc_handle e s)),
     f_progress = (\<lambda>p (cx, s). (cx, s)),
     f_settle = (\<lambda>out (cx, s). (cx, if mu_pending (rc_review s) then s\<lparr>rc_review := mu_settled out\<rparr> else s)),
     f_rerender = (\<lambda>(cx, s) (cx', s'). s' = s)\<rparr>"

lemma rc_offers:
  "e \<in> f_offers rc_spec (cx, s) \<Longrightarrow>
     (case e of Decide a \<Rightarrow> \<not> mu_pending (rc_review s) \<and> (a \<longrightarrow> rc_amountMinor s \<noteq> None) | _ \<Rightarrow> True)"
  by (auto simp: rc_spec_def rc_view_def Let_def set_some_node split: if_splits option.splits)

definition rc_pending :: "rc_ctx \<times> rc_form \<Rightarrow> nat" where
  "rc_pending p = of_bool (mu_pending (rc_review (snd p)))"

interpretation rc: submitting_form rc_spec rc_pending
proof unfold_locales
  fix e and p :: "rc_ctx \<times> rc_form" assume off: "e \<in> f_offers rc_spec p"
  obtain cx s where p: "p = (cx, s)" by (cases p)
  note offers = rc_offers [OF off [unfolded p]]
  show "rc_pending p = 0" if "f_starts rc_spec p e"
    using offers that by (auto simp: p rc_pending_def rc_spec_def)
  show "rc_pending (f_handle rc_spec e p) = 1" if "f_starts rc_spec p e"
    using that by (auto simp: p rc_pending_def rc_spec_def)
  show "rc_pending (f_handle rc_spec e p) = rc_pending p" if "\<not> f_starts rc_spec p e"
    using that by (cases e) (auto simp: p rc_pending_def rc_spec_def)
qed (auto simp: rc_pending_def rc_spec_def rc_initial_def split: prod.splits)

subsection \<open>Running and funding an application\<close>

definition RUNNABLE :: "string list" where
  "RUNNABLE = [''DRAFT'', ''IDENTITY_VERIFIED'', ''EVIDENCE_READY'', ''UNDERWRITING'']"

definition APPROVED_STATUSES :: "string list" where
  "APPROVED_STATUSES = [''APPROVED'', ''VAULT_CREATED'', ''DISBURSEMENT_ENABLED'']"

datatype us_op = Evaluate | CreateVault

record us_form =
  us_busy :: "us_op option"
  us_error :: "string option"
  us_perTransaction :: string

definition us_initial :: us_form where
  "us_initial = \<lparr>us_busy = None, us_error = None, us_perTransaction = ''600''\<rparr>"

definition us_status :: "UnderwritingView \<Rightarrow> string" where
  "us_status view = uv_appl_status (uv_application view)"

definition us_canRun :: "UnderwritingView \<Rightarrow> bool" where
  "us_canRun view \<longleftrightarrow> List.member RUNNABLE (us_status view)"

definition us_canFund :: "UnderwritingView \<Rightarrow> bool" where
  "us_canFund view \<longleftrightarrow> us_status view = ''APPROVED''"

datatype us_event = Run | Fund | SetPerPayment string

definition us_run :: "us_form \<Rightarrow> us_form" where
  "us_run s = s\<lparr>us_busy := Some Evaluate, us_error := None\<rparr>"

definition us_fund :: "us_form \<Rightarrow> us_form" where
  "us_fund s = (if rupeeInputToMinor (us_perTransaction s) = None
     then s\<lparr>us_error := Some ''Enter a per-payment ceiling in rupees, above zero.''\<rparr>
     else s\<lparr>us_busy := Some CreateVault, us_error := None\<rparr>)"

fun us_handle :: "us_event \<Rightarrow> us_form \<Rightarrow> us_form" where
  "us_handle Run s = us_run s"
| "us_handle Fund s = us_fund s"
| "us_handle (SetPerPayment v) s = s\<lparr>us_perTransaction := v\<rparr>"

text \<open>The write an event sends.\<close>

definition us_call :: "UnderwritingView \<Rightarrow> us_form \<Rightarrow> us_event \<Rightarrow> call option" where
  "us_call view s e = (let i = uv_appl_application_id (uv_application view) in
     case e of Run \<Rightarrow> Some (evaluateApplication i)
     | Fund \<Rightarrow> map_option (createVault i) (rupeeInputToMinor (us_perTransaction s))
     | SetPerPayment v \<Rightarrow> None)"

text \<open>What happens outside the component when the write answers.\<close>

datatype effect = InvalidateWorkspace | Refetch | Push string

fun us_effects :: "us_op \<Rightarrow> failure + json \<Rightarrow> effect list" where
  "us_effects op (Inl e) = []"
| "us_effects Evaluate (Inr v) = [InvalidateWorkspace, Refetch]"
| "us_effects CreateVault (Inr v) =
     (case read_id ''vault_id'' v of Inl e \<Rightarrow> [InvalidateWorkspace]
      | Inr i \<Rightarrow> [InvalidateWorkspace, Push (''/vaults/'' @ i)])"

fun us_fallback :: "us_op \<Rightarrow> string" where
  "us_fallback Evaluate = ''Underwriting could not be run for this application.''"
| "us_fallback CreateVault = ''The credit vault could not be created.''"

text \<open>An answer without a vault makes the read throw inside the \<open>try\<close>.\<close>

fun us_failure :: "us_op \<Rightarrow> failure + json \<Rightarrow> failure option" where
  "us_failure op (Inl e) = Some e"
| "us_failure Evaluate (Inr v) = None"
| "us_failure CreateVault (Inr v) = (case read_id ''vault_id'' v of Inl (Error m) \<Rightarrow> Some (OtherFailure m) | _ \<Rightarrow> None)"

definition us_settle :: "failure + json \<Rightarrow> us_form \<Rightarrow> us_form" where
  "us_settle out s = (case us_busy s of None \<Rightarrow> s
     | Some op \<Rightarrow> (case us_failure op out of
         None \<Rightarrow> s\<lparr>us_busy := None\<rparr>
       | Some e \<Rightarrow> s\<lparr>us_busy := None, us_error := Some (failure_text (us_fallback op) e)\<rparr>))"

subsection \<open>The decision, one line each\<close>

definition cap_entries :: "DeterministicEngine_caps \<Rightarrow> (string \<times> Money) list" where
  "cap_entries caps =
     [(''the amount requested'', de_caps_requested_minor caps),
      (''remaining owner exposure'', de_caps_available_exposure_minor caps),
      (''the revenue advance cap'', de_caps_revenue_advance_cap_minor caps),
      (''the task cost cap'', de_caps_task_cost_cap_minor caps),
      (''the policy cap'', de_caps_policy_cap_minor caps)]"

definition lowest_entry :: "(string \<times> Money) list \<Rightarrow> string \<times> Money" where
  "lowest_entry entries =
     foldl (\<lambda>lowest entry. if num_lt (snd entry) (snd lowest) then entry else lowest) (hd entries) (tl entries)"

definition us_binding :: "DeterministicEngine option \<Rightarrow> (string \<times> Money) option" where
  "us_binding engine = map_option (\<lambda>e. lowest_entry (cap_entries (de_caps e))) engine"

definition us_policy :: "UnderwritingView \<Rightarrow> PolicyDecisionRecord option" where
  "us_policy view = (if uv_policy_decisions view = [] then None else Some (last (uv_policy_decisions view)))"

definition SummaryRow :: "string \<Rightarrow> string option \<Rightarrow> 'e node list \<Rightarrow> 'e node" where
  "SummaryRow label hint children = El ''div'' []
     [El ''dt'' [] (El ''span'' [] [Txt label] # some_node (\<lambda>h. [El ''span'' [] [Txt h]]) hint),
      El ''dd'' [] children]"

definition decisionTone :: "string \<Rightarrow> BadgeTone" where
  "decisionTone status = (if List.member APPROVED_STATUSES status then positive
     else if status = ''REJECTED'' then critical
     else if status = ''HUMAN_REVIEW_REQUIRED'' then caution else outline)"

definition us_evidence_rows :: "UnderwritingView \<Rightarrow> 'e node list" where
  "us_evidence_rows view =
     [SummaryRow ''Requested'' None [Txt (money (Some (uv_appl_requested_minor (uv_application view))))],
      SummaryRow ''Evidence retrieved'' None
        [if uv_evidence view = []
         then Unavailable NotAvailable (Some ''No evidence is stored against this task, so nothing was retrieved.'') False
         else El ''span'' [] [Txt (Format.count (Some (num_of_int (int (length (uv_evidence view))))) @
           '' records, content-hashed on arrival'')]],
      SummaryRow ''Retrieval method'' (Some ''What actually ran, not what a retrieval pipeline usually implies.'')
        [El ''span'' [] [Txt ''Tenant-scoped selection on the task'']],
      SummaryRow ''Embedding and reranking'' None
        [Unavailable NotApplicable (Some (''This service embeds nothing and ranks nothing. Evidence for an '' @
           ''application is every record stored against its task, scoped to the tenant. There is no vector '' @
           ''index and no reranker to report a status for.'')) True],
      SummaryRow ''Analyst model'' None
        [case uv_ai_recommendation view of
           None \<Rightarrow> Unavailable NotAvailable (Some ''No model analysis is recorded against this application.'') False
         | Some ai \<Rightarrow> El ''span'' []
             [Badge (if ai_schema_valid ai then info else critical)
                [Txt (if ai_schema_valid ai then ''Advisory, schema valid'' else ''Advisory, schema invalid'')],
              Mono [Txt (ai_model_profile ai)]]]]"

definition us_engine_rows :: "UnderwritingView \<Rightarrow> 'e node list" where
  "us_engine_rows view = (let engine = uv_deterministic_engine view in
     [SummaryRow ''Deterministic maximum'' (Some ''The lowest of the five caps. It is the one that bound.'')
        [case engine of
           None \<Rightarrow> Unavailable NotAvailable (Some ''The engine has not evaluated this application yet.'') False
         | Some e \<Rightarrow> El ''span'' [] (El ''span'' [] [Txt (money (Some (de_approved_limit_minor e)))]
             # some_node (\<lambda>(name, amount). [El ''span'' []
                 [Txt (''bound by '' @ name @ '' at '' @ money (Some amount))]]) (us_binding engine))],
      SummaryRow ''Policy decision'' (Some ''Recorded with the engine that produced it.'')
        [case us_policy view of
           None \<Rightarrow> Unavailable NotAvailable (Some ''No policy decision has been recorded for this application.'') False
         | Some p \<Rightarrow> El ''span'' []
             [Badge (if pd_allow p then positive else critical) [Txt (if pd_allow p then ''Allowed'' else ''Denied'')],
              Mono [Txt (pd_engine p @ (case pd_policy_version p of None \<Rightarrow> []
                | Some v \<Rightarrow> '' '' @ [MIDDOT] @ '' '' @ v))]]],
      SummaryRow ''Final decision'' None
        [El ''span'' [] (Badge (decisionTone (us_status view)) [Txt (statusLabel (Some (us_status view)))]
           # some_node (\<lambda>e. show_if (de_decision e \<noteq> us_status view)
               [Mono [Txt (''engine: '' @ de_decision e)]]) engine)],
      SummaryRow ''Reason codes'' None
        [if engine = None \<or> de_reason_codes (the engine) = []
         then Unavailable NotAvailable (Some ''No reason codes are recorded against this decision yet.'') False
         else El ''span'' [] (map (\<lambda>code. Badge outline [Txt code]) (de_reason_codes (the engine)))],
      SummaryRow ''Audit receipt''
        (Some ''Hash of the decision inputs and outputs, chained into the audit trail.'')
        [if engine = None \<or> de_receipt_hash (the engine) = None
         then Unavailable NotAvailable
           (Some ''No decision receipt exists until the engine has evaluated this application.'') False
         else Mono [Txt (shortHash (de_receipt_hash (the engine)))]]])"

definition us_fund_panel :: "UnderwritingView \<Rightarrow> us_form \<Rightarrow> us_event node list" where
  "us_fund_panel view s =
     (let limit = (case uv_deterministic_engine view of Some e \<Rightarrow> de_approved_limit_minor e | None \<Rightarrow> Fin 0) in
      [El ''div'' [] [para ''Fund this application'',
         para (''Opens a credit vault holding '' @ money (Some limit) @ ''. The vault, not this application, is '' @
           ''what money is spent from '' @ [EM_DASH] @ '' every payment out of it is checked against the '' @
           ''per-payment ceiling and the vendor allowlist first.''),
         Field (''Per-payment ceiling ('' @ [RUPEE] @ '')'') None (Some ''vault-per-transaction'')
           [Input [Attr ''id'' ''vault-per-transaction''] (us_perTransaction s) (us_busy s \<noteq> None) SetPerPayment],
         Button Primary (us_busy s \<noteq> None) Fund [icon ''Vault'',
           Txt (if us_busy s = Some CreateVault then ''Creating'' @ [ELLIPSIS] else ''Create credit vault'')]]])"

definition us_view :: "UnderwritingView \<Rightarrow> us_form \<Rightarrow> us_event node" where
  "us_view view s = Card [
     CardHeader ([CardTitle [Txt ''Underwriting result''],
       para (''The model advises. The deterministic engine sets the amount. Neither this page nor the model '' @
         ''can change what is recorded below.'')]
       @ show_if (us_canRun view) [Button Primary (us_busy s \<noteq> None) Run [icon ''Play'',
           Txt (if us_busy s = Some Evaluate then ''Running'' @ [ELLIPSIS] else ''Run underwriting'')]]),
     CardContent ([El ''dl'' [] (us_evidence_rows view @ us_engine_rows view)]
       @ show_if (us_canFund view) (us_fund_panel view s)
       @ show_if (List.member APPROVED_STATUSES (us_status view) \<and> \<not> us_canFund view)
           [para (''This application is funded. Its vault holds the granted limit and enforces the spend controls.'')]
       @ some_node (\<lambda>e. [para e]) (us_error s))]"

definition us_spec :: "(UnderwritingView \<times> us_form, us_event, unit, failure + json) form" where
  "us_spec = \<lparr>
     f_initial = (\<lambda>(view, s). s = us_initial),
     f_offers = (\<lambda>(view, s). events (us_view view s)),
     f_starts = (\<lambda>(view, s) e. us_call view s e \<noteq> None),
     f_handle = (\<lambda>e (view, s). (view, us_handle e s)),
     f_progress = (\<lambda>p (view, s). (view, s)),
     f_settle = (\<lambda>out (view, s). (view, us_settle out s)),
     f_rerender = (\<lambda>(view, s) (view', s'). s' = s)\<rparr>"

lemma events_SummaryRow [simp]: "events (SummaryRow l h ks) = (\<Union>k \<in> set ks. events k)"
  by (cases h) (simp_all add: SummaryRow_def)

lemma us_evidence_events: "(\<Union>v \<in> set (us_evidence_rows view). events v) = {}"
  by (cases "uv_ai_recommendation view") (simp_all add: us_evidence_rows_def)

lemma us_engine_events: "(\<Union>v \<in> set (us_engine_rows view). events v) = {}"
proof (cases "uv_deterministic_engine view")
  case None
  then show ?thesis by (cases "us_policy view") (simp_all add: us_engine_rows_def Let_def)
next
  case (Some e)
  obtain n a where "us_binding (Some e) = Some (n, a)" by (cases "lowest_entry (cap_entries (de_caps e))") (simp add: us_binding_def)
  then show ?thesis
    using Some by (cases "us_policy view") (simp_all add: us_engine_rows_def Let_def)
qed

lemma us_offers:
  "f_offers us_spec (view, s) =
     (if us_busy s \<noteq> None then {}
      else (if us_canRun view then {Run} else {}) \<union> (if us_canFund view then insert Fund (range SetPerPayment) else {}))"
  by (cases "us_error s")
    (auto simp: us_spec_def us_view_def us_fund_panel_def Let_def us_evidence_events us_engine_events UN_Un)

definition us_pending :: "UnderwritingView \<times> us_form \<Rightarrow> nat" where
  "us_pending p = of_bool (us_busy (snd p) \<noteq> None)"

interpretation us: submitting_form us_spec us_pending
proof unfold_locales
  fix e and p :: "UnderwritingView \<times> us_form" assume off: "e \<in> f_offers us_spec p"
  obtain view s where p: "p = (view, s)" by (cases p)
  have idle: "us_busy s = None" using off by (auto simp: p us_offers split: if_splits)
  then show "us_pending p = 0" by (simp add: p us_pending_def)
  show "us_pending (f_handle us_spec e p) = 1" if "f_starts us_spec p e"
    using that idle by (cases e) (auto simp: p us_pending_def us_spec_def us_call_def us_run_def us_fund_def)
  show "us_pending (f_handle us_spec e p) = us_pending p" if "\<not> f_starts us_spec p e"
    using that idle by (cases e) (auto simp: p us_pending_def us_spec_def us_call_def us_fund_def Let_def)
qed (auto simp: us_pending_def us_spec_def us_initial_def us_settle_def split: prod.splits option.splits)

subsection \<open>The three panels\<close>

definition PanelHeading :: "string \<Rightarrow> string \<Rightarrow> string \<Rightarrow> 'e node list \<Rightarrow> 'e node" where
  "PanelHeading icon_name title subtitle badge =
     CardHeader ([El ''div'' [] [icon icon_name, CardTitle [Txt title], para subtitle]] @ badge)"

definition badge_group :: "string \<Rightarrow> 'e node list \<Rightarrow> 'e node" where
  "badge_group title badges = El ''div'' [] [para title, El ''div'' [] badges]"

definition short_id :: "string \<Rightarrow> string" where
  "short_id i = (if length i > 14 then take 12 i @ [ELLIPSIS] else i)"

definition AiPanel :: "AiRecommendation option \<Rightarrow> 'e node" where
  "AiPanel ai = Card [
     PanelHeading ''Brain'' ''AI Recommendation'' (''Advisory only '' @ [EM_DASH] @ '' proposes no amount'')
       (some_node (\<lambda>a. [Badge (if ai_schema_valid a then info else caution)
          [Txt (if ai_schema_valid a then ''Schema valid'' else ''Schema invalid'')]]) ai),
     CardContent (case ai of
       None \<Rightarrow> [El ''div'' [] [Unavailable NotAvailable (Some (''No model analysis ran for this application. The '' @
           ''deterministic engine decided without one '' @ [EM_DASH] @ '' the pipeline does not depend on the model.'')) True]]
     | Some a \<Rightarrow>
         [para (ai_summary a)]
         @ show_if (ai_claims a \<noteq> []) [El ''div'' []
             [para (''Claims '' @ [MIDDOT] @ '' each cites evidence''),
              El ''ul'' [] (map (\<lambda>c. El ''li'' [] [para (ai_clai_text c),
                El ''p'' [] (map (\<lambda>i. Badge outline [Txt (short_id i)]) (ai_clai_evidence_ids c))]) (ai_claims a))]]
         @ show_if (ai_risk_flags a \<noteq> []) [badge_group ''Risk flags''
             (map (\<lambda>f. Badge caution [Txt (statusLabel (Some f))]) (ai_risk_flags a))]
         @ show_if (ai_missing_evidence a \<noteq> []) [badge_group ''Evidence the model said it lacked''
             (map (\<lambda>i. Badge outline [Txt (statusLabel (Some i))]) (ai_missing_evidence a))]
         @ [para (ai_model_profile a @ '' '' @ [MIDDOT] @ '' '' @ ai_role a)])]"

definition cap_rows :: "DeterministicEngine_caps \<Rightarrow> (string \<times> Money) list" where
  "cap_rows caps =
     [(''Requested'', de_caps_requested_minor caps), (''Available exposure'', de_caps_available_exposure_minor caps),
      (''Revenue advance cap'', de_caps_revenue_advance_cap_minor caps),
      (''Task cost cap'', de_caps_task_cost_cap_minor caps), (''Policy cap'', de_caps_policy_cap_minor caps)]"

text \<open>\<open>Math.min\<close> of a list: \<open>NaN\<close> as soon as there is one.\<close>

definition math_min :: "jsnum list \<Rightarrow> jsnum" where
  "math_min xs = (if List.member xs NaN then NaN
     else foldl (\<lambda>m x. if num_lt x m then x else m) PosInf xs)"

definition isBinding :: "DeterministicEngine_caps \<Rightarrow> Money \<Rightarrow> Money \<Rightarrow> bool" where
  "isBinding caps approved v \<longleftrightarrow> num_eq v (math_min (map snd (cap_rows caps))) \<and> num_eq v approved"

definition CapRows :: "DeterministicEngine_caps \<Rightarrow> Money \<Rightarrow> 'e node" where
  "CapRows caps approved = El ''div'' [] [para ''The five caps'',
     El ''ul'' [] (map (\<lambda>(label, v). El ''li'' []
       [El ''span'' [] (Txt label # show_if (isBinding caps approved v) [El ''span'' [] [Txt ''binding'']]),
        El ''span'' [] [Txt (money (Some v))]]) (cap_rows caps))]"

definition engine_approved :: "DeterministicEngine \<Rightarrow> bool" where
  "engine_approved e \<longleftrightarrow> de_decision e = ''APPROVED'' \<or> de_decision e = ''APPROVE''"

definition EnginePanel :: "DeterministicEngine option \<Rightarrow> 'e node" where
  "EnginePanel engine = Card [
     PanelHeading ''Calculator'' ''Deterministic Credit Engine'' ''The decision of record''
       (some_node (\<lambda>e. [Badge (if engine_approved e then positive else critical)
          [Txt (statusLabel (Some (de_decision e)))]]) engine),
     CardContent (case engine of
       None \<Rightarrow> [El ''div'' [] [Unavailable NotAvailable (Some (''The engine has not produced a decision yet '' @
           [EM_DASH] @ '' the application is still earlier in the pipeline.'')) True]]
     | Some e \<Rightarrow>
         [El ''div'' [] [para ''Approved limit'', para (money (Some (de_approved_limit_minor e))),
            El ''p'' [] [Txt ''the minimum of the five caps below'',
              InfoHint (''approved_limit = min(requested, available exposure, revenue advance cap, task cost cap, '' @
                ''policy cap). The binding cap is the smallest row.'')]],
          CapRows (de_caps e) (de_approved_limit_minor e),
          Rows ([
            Row ''Probability of default''
              (Some ''From the versioned integer-arithmetic scorecard, in parts-per-million.'')
              [Txt (percent (Some (de_pd_ppm e)) 2)],
            Row ''Loss given default'' None [Txt (percent (Some (de_lgd_ppm e)) 1)],
            Row ''Exposure at default'' None [Txt (money (Some (de_ead_minor e)))],
            Row ''Expected loss'' (Some (''PD '' @ [CHR 0xD7] @ '' LGD '' @ [CHR 0xD7] @ '' EAD, computed in integer arithmetic.''))
              [Txt (money (Some (de_expected_loss_minor e)))],
            Row ''Scorecard'' None [Mono [Txt (de_model_name e)]]]
            @ some_node (\<lambda>h. [Row ''Decision receipt''
                (Some ''Hash of the decision inputs and outputs, anchored in the audit chain.'')
                [Mono [Txt (shortHash (Some h))]]]) (de_receipt_hash e))]
         @ show_if (de_reason_codes e \<noteq> []) [badge_group ''Reason codes''
             (map (\<lambda>code. Badge (if engine_approved e then neutral else critical) [Txt code]) (de_reason_codes e))])]"

fun VERDICT_COPY :: "IndependentVerifier_verdict \<Rightarrow> BadgeTone \<times> string" where
  "VERDICT_COPY I_CLAIMS_TRACE_TO_EVIDENCE = (positive, ''Claims trace to evidence'')"
| "VERDICT_COPY I_CONTRADICTIONS_FOUND = (critical, ''Contradictions found'')"
| "VERDICT_COPY I_NO_MODEL_ANALYSIS = (neutral, ''No model analysis to verify'')"

definition VerifierPanel :: "IndependentVerifier \<Rightarrow> 'e node" where
  "VerifierPanel v = (let verdict = VERDICT_COPY (iv_verdict v) in Card [
     PanelHeading ''ShieldQuestion'' ''Independent Risk Verifier'' ''Re-checks every model claim against stored evidence''
       [Badge (fst verdict) [Txt (snd verdict)]],
     CardContent (
       [Rows [
          Row ''Claims checked'' None [Txt (Format.count (Some (iv_claims_total v)))],
          Row ''Supported by evidence'' None [icon ''CheckCircle2'', Txt (Format.count (Some (iv_claims_supported v)))],
          Row ''Unsupported'' None (show_if (num_lt (Fin 0) (iv_claims_unsupported v)) [icon ''XCircle'']
            @ [Txt (Format.count (Some (iv_claims_unsupported v)))]),
          Row ''Model influenced amounts''
            (Some (''Whether any model output reached a financial figure. The architecture makes this structurally '' @
              ''false: amounts come only from the deterministic engine.''))
            [Txt (if iv_model_influenced_amounts v then ''Yes '' @ [EM_DASH] @ '' investigate'' else ''No'')],
          Row ''Output schema'' None [Txt (if iv_model_output_schema_valid v then ''Valid'' else ''Invalid'')]]]
       @ show_if (iv_unsupported v \<noteq> []) [El ''div'' [] [para ''Unsupported claims'',
           El ''ul'' [] (map (\<lambda>c. El ''li'' [] (para (vc_text c)
             # show_if (vc_unknown_evidence_ids c \<noteq> [])
                 [para (''cites unknown evidence: '' @ join '', '' (vc_unknown_evidence_ids c))])) (iv_unsupported v))]]
       @ show_if (iv_analyst_risk_flags_unverified v \<noteq> []) [El ''div'' []
           [para (''Analyst flags '' @ [EM_DASH] @ '' echoed, not verified''),
            para (''The same flags the analyst raised above. The verifier checks claims against stored '' @
              ''evidence IDs; a flag cites none, so there is nothing here it can independently confirm or contradict.''),
            El ''div'' [] (map (\<lambda>f. Badge caution [Txt (statusLabel (Some f))]) (iv_analyst_risk_flags_unverified v))]]
       @ [para (iv_note v)])])"

definition DecisionPanels :: "AiRecommendation option \<Rightarrow> DeterministicEngine option \<Rightarrow> IndependentVerifier \<Rightarrow> 'e node" where
  "DecisionPanels ai engine verifier =
     El ''div'' [] [El ''div'' [] [AiPanel ai, EnginePanel engine, VerifierPanel verifier], AuthorityNote]"

subsection \<open>Properties\<close>

lemma num_of_int_order [simp]:
  "num_lt (num_of_int i) (num_of_int j) \<longleftrightarrow> i < j"
  "num_eq (num_of_int i) (num_of_int j) \<longleftrightarrow> i = j"
  by (auto simp: num_lt_def num_eq_def num_of_int_def)

lemma num_eq_refl: "m \<noteq> NaN \<Longrightarrow> num_eq m m"
  by (cases m) (simp_all add: num_eq_def)

text \<open>The amount a review asks the API to grant, given the limit on record.\<close>

definition asked :: "Money option \<Rightarrow> ReviewBody \<Rightarrow> Money option" where
  "asked limit b = (case rb_action b of APPROVE \<Rightarrow> limit | REDUCE \<Rightarrow> rb_amount_minor b | REJECT \<Rightarrow> None)"

text \<open>
  C12. What a reviewer types is what is decided: with an engine limit on record, the amount the API is
  asked to grant (the limit for an approval, the amount sent for a reduction) equals the amount
  in the field, and rejecting sends no amount. Without an engine limit, every approval goes
  without the amount typed.
\<close>

theorem review_means_what_was_typed:
  assumes "rc_amountMinor s = Some m"
  shows "(\<forall>l. rc_engineLimitMinor cx = Some l \<longrightarrow>
       (\<exists>v. asked (Some l) (decide cx True s) = Some v \<and> num_eq m v))
    \<and> rb_amount_minor (decide cx False s) = None \<and> rb_action (decide cx False s) = REJECT
    \<and> (rc_engineLimitMinor cx = None \<longrightarrow>
         rb_action (decide cx True s) = APPROVE \<and> rb_amount_minor (decide cx True s) = None)"
proof -
  have "m \<noteq> NaN" using assms by (auto simp: rc_amountMinor_def num_of_int_def dest!: rupeeInputToMinor_shape)
  then show ?thesis
    using assms num_eq_refl [of m] by (auto simp: decide_def asked_def Let_def)
qed

theorem review_means_what_was_typed_witness:
  "asked (Some (num_of_int 50000)) (decide \<lparr>rc_applicationId = ''a'', rc_requestedMinor = num_of_int 90000,
      rc_engineLimitMinor = Some (num_of_int 50000)\<rparr> True
      \<lparr>rc_amount = ''300'', rc_notes = [], rc_review = mu_idle\<rparr>) = Some (num_of_int 30000)"
proof -
  let ?s = "\<lparr>rc_amount = ''300'', rc_notes = [], rc_review = mu_idle\<rparr>"
  let ?cx = "\<lparr>rc_applicationId = ''a'', rc_requestedMinor = num_of_int 90000,
      rc_engineLimitMinor = Some (num_of_int 50000)\<rparr>"
  have "rupeeInputToMinor ''300'' = Some (num_of_int 30000)" by code_simp
  then have h: "rc_amountMinor ?s = Some (num_of_int 30000)" by (simp add: rc_amountMinor_def)
  then obtain v where "asked (Some (num_of_int 50000)) (decide ?cx True ?s) = Some v" "num_eq (num_of_int 30000) v"
    using review_means_what_was_typed [OF h, of ?cx] by auto
  then show ?thesis using h by (auto simp: decide_def asked_def Let_def)
qed

text \<open>
  Left alone, the form approves exactly the engine's limit, whatever positive number of paise
  it is: the default in the field reads back as that limit, so nothing is sent as a reduction.
\<close>

theorem untouched_review_approves:
  assumes "rc_engineLimitMinor cx = Some (num_of_int l)" and "0 < l" and "safe_minor l"
  shows "rb_action (decide cx True (rc_initial cx)) = APPROVE
    \<and> asked (Some (num_of_int l)) (decide cx True (rc_initial cx)) = Some (num_of_int l)"
proof -
  have "rc_amountMinor (rc_initial cx) = Some (num_of_int l)"
    using rupee_field.read_back [of "num_of_int l"] assms
    by (auto simp: rc_amountMinor_def rc_initial_def rc_defaultRupees_def payable_def)
  then show ?thesis using assms(1) by (simp add: decide_def asked_def Let_def)
qed

theorem untouched_review_approves_witness:
  "rb_action (decide \<lparr>rc_applicationId = ''a'', rc_requestedMinor = num_of_int 500,
      rc_engineLimitMinor = Some (num_of_int 123456789)\<rparr> True
     (rc_initial \<lparr>rc_applicationId = ''a'', rc_requestedMinor = num_of_int 500,
      rc_engineLimitMinor = Some (num_of_int 123456789)\<rparr>)) = APPROVE"
  by (rule untouched_review_approves [THEN conjunct1, of _ 123456789]) (simp_all add: safe_minor_def)

text \<open>
  Running and funding: at most one of the two writes is in flight, both are on offer only while
  none is, running only for an application that can still be evaluated and funding only for an
  approved one, and never both; and a failure leaves the panel idle with a sentence.
\<close>

theorem underwriting_actions:
  assumes "form_run us_spec (view, s) n"
  shows "n = (if us_busy s = None then 0 else 1)
    \<and> (Run \<in> f_offers us_spec (view, s) \<longleftrightarrow> us_busy s = None \<and> List.member RUNNABLE (us_status view))
    \<and> (Fund \<in> f_offers us_spec (view, s) \<longleftrightarrow> us_busy s = None \<and> us_status view = ''APPROVED'')
    \<and> \<not> {Run, Fund} \<subseteq> f_offers us_spec (view, s)
    \<and> us_busy (us_settle (Inl e) s) = None
    \<and> (us_busy s \<noteq> None \<longrightarrow> us_error (us_settle (Inl e) s) = Some (failure_text (us_fallback (the (us_busy s))) e))"
proof -
  have "n = (if us_busy s = None then 0 else 1)"
    using us.pending_flight [OF assms] by (auto simp: us_pending_def)
  moreover have "\<not> (us_canRun view \<and> us_canFund view)"
    by (auto simp: us_canRun_def us_canFund_def RUNNABLE_def)
  ultimately show ?thesis
    by (auto simp: us_offers us_canRun_def us_canFund_def us_settle_def split: option.splits)
qed

definition sample_view :: UnderwritingView where
  "sample_view = \<lparr>
     uv_application = \<lparr>uv_appl_application_id = ''app1'', uv_appl_status = ''DRAFT'', uv_appl_currency = ''INR'',
       uv_appl_requested_minor = Fin 250000, uv_appl_requested_duration_hours = Fin 24,
       uv_appl_expected_revenue_minor = Fin 400000, uv_appl_expected_cost_minor = Fin 240000,
       uv_appl_expected_margin_minor = Fin 160000, uv_appl_owner_exposure_cap_minor = Fin 1000000,
       uv_appl_proposed_vendor_ids = [], uv_appl_created_at = None\<rparr>,
     uv_agent = \<lparr>uv_agen_agent_id = ''a1'', uv_agen_name = ''Bot'', uv_agen_status = ''ACTIVE'',
       uv_agen_model_name = ''m''\<rparr>,
     uv_task = \<lparr>uv_task_task_id = ''t1'', uv_task_title = ''Task'', uv_task_description = [],
       uv_task_category = ''DATA'', uv_task_status = ''OPEN''\<rparr>,
     uv_revenue_mandate = None, uv_evidence = [], uv_ai_recommendation = None,
     uv_deterministic_engine = None,
     uv_verifier = \<lparr>iv_claims_total = Fin 0, iv_claims_supported = Fin 0, iv_claims_unsupported = Fin 0,
       iv_supported = [], iv_unsupported = [], iv_analyst_risk_flags_unverified = [],
       iv_model_output_schema_valid = True, iv_model_influenced_amounts = False,
       iv_verdict = I_NO_MODEL_ANALYSIS, iv_note = []\<rparr>,
     uv_policy_decisions = [], uv_human_reviews = []\<rparr>"

theorem underwriting_actions_witness:
  "form_run us_spec (sample_view, us_run us_initial) 1
   \<and> Run \<in> f_offers us_spec (sample_view, us_initial)
   \<and> Run \<notin> f_offers us_spec (sample_view, us_run us_initial)"
proof -
  have i: "form_run us_spec (sample_view, us_initial) 0"
    by (rule form_run.init) (simp add: us_spec_def)
  have o: "Run \<in> f_offers us_spec (sample_view, us_initial)"
    using underwriting_actions [OF i] by (simp add: us_initial_def us_status_def sample_view_def RUNNABLE_def)
  have "form_run us_spec (f_handle us_spec Run (sample_view, us_initial)) (Suc 0)"
    by (rule form_run.submit [OF i o]) (simp add: us_spec_def us_call_def)
  then have r: "form_run us_spec (sample_view, us_run us_initial) 1" by (simp add: us_spec_def)
  show ?thesis using r o underwriting_actions [OF r] by (simp add: us_run_def)
qed

lemma low_Min:
  fixes e :: "string \<times> int"
  defines "low \<equiv> foldl (\<lambda>l x. if snd x < snd l then x else l)"
  shows "low e es \<in> set (e # es) \<and> (\<forall>x \<in> set (e # es). snd (low e es) \<le> snd x)"
proof (induction es arbitrary: e)
  case (Cons x es)
  let ?n = "if snd x < snd e then x else e"
  have "low ?n es \<in> set (?n # es) \<and> (\<forall>y \<in> set (?n # es). snd (low ?n es) \<le> snd y)" by (rule Cons)
  then have "low e (x # es) \<in> set (?n # es)" "\<forall>y \<in> set (?n # es). snd (low e (x # es)) \<le> snd y"
    by (simp_all add: low_def)
  moreover have "snd ?n \<le> snd x" "snd ?n \<le> snd e" by simp_all
  ultimately show ?case by (auto split: if_splits)
qed (simp add: low_def)

lemma lowest_of_int:
  "foldl (\<lambda>l x. if num_lt (snd x) (snd l) then x else l) (fst e, num_of_int (snd e))
     (map (\<lambda>x. (fst x, num_of_int (snd x))) es)
   = (let r = foldl (\<lambda>l x. if snd x < snd l then x else l) e es in (fst r, num_of_int (snd r)))"
  by (induction es arbitrary: e) (simp_all add: Let_def)

lemma lowest_entry_least:
  assumes "es \<noteq> []"
  shows "\<exists>r \<in> set es. lowest_entry (map (\<lambda>x. (fst x, num_of_int (snd x))) es) = (fst r, num_of_int (snd r))
    \<and> (\<forall>x \<in> set es. snd r \<le> snd x)"
proof -
  obtain e es' where es: "es = e # es'" using assms by (cases es) auto
  let ?r = "foldl (\<lambda>l x. if snd x < snd l then x else l) e es'"
  have "lowest_entry (map (\<lambda>x. (fst x, num_of_int (snd x))) es) = (fst ?r, num_of_int (snd ?r))"
    using lowest_of_int [of e es'] by (simp add: lowest_entry_def es Let_def)
  then show ?thesis using low_Min [of e es'] es by blast
qed

lemma math_min_of_int:
  "math_min (map num_of_int (i # is)) = num_of_int (Min (set (i # is)))"
proof -
  have "foldl (\<lambda>m x. if num_lt x m then x else m) (num_of_int a) (map num_of_int xs)
      = num_of_int (fold min xs a)" for a xs
    by (induction xs arbitrary: a) (simp_all add: min_def)
  moreover have "num_lt (num_of_int i) PosInf" by (simp add: num_lt_def num_of_int_def)
  moreover have "\<not> List.member (map num_of_int (i # is)) NaN"
    by (auto simp: num_of_int_def)
  ultimately show ?thesis using Min.set_eq_fold [of i "is"] by (simp add: math_min_def)
qed

text \<open>
  C24. The two descriptions of the binding cap agree when the engine's limit is the least of its five
  caps: the cap the summary names is one of those the panel marks, and the panel marks exactly
  the least ones. For any other limit, as after a reduction by a reviewer, the panel marks none
  while the summary still names the least cap as the one that bound.
\<close>

theorem binding_cap_agrees:
  assumes "map snd (cap_entries caps) = map num_of_int vs"
  shows "(\<exists>i < 5. lowest_entry (cap_entries caps) = cap_entries caps ! i \<and> vs ! i = Min (set vs))
    \<and> (\<forall>j < 5. isBinding caps (num_of_int approved) (snd (cap_rows caps ! j))
         \<longleftrightarrow> vs ! j = Min (set vs) \<and> approved = Min (set vs))"
proof -
  obtain a b c d e where vs: "vs = [a, b, c, d, e]"
  proof -
    have "length vs = 5" using arg_cong [OF assms, of length] by (simp add: cap_entries_def)
    then show thesis using that by (auto simp: length_Suc_conv eval_nat_numeral)
  qed
  let ?names = "map fst (cap_entries caps)"
  let ?es = "zip ?names vs"
  have ent: "cap_entries caps = map (\<lambda>x. (fst x, num_of_int (snd x))) ?es"
    using assms by (simp add: vs cap_entries_def)
  have "?es \<noteq> []" by (simp add: vs cap_entries_def)
  from lowest_entry_least [OF this] obtain r where
    r: "lowest_entry (cap_entries caps) = (fst r, num_of_int (snd r))" "r \<in> set ?es"
      "\<forall>x \<in> set ?es. snd r \<le> snd x" unfolding ent [symmetric] by blast
  then obtain i where i: "i < length ?es" "r = ?es ! i" by (metis in_set_conv_nth)
  have len: "length ?es = 5" by (simp add: vs cap_entries_def)
  have "\<forall>v \<in> set vs. snd r \<le> v" using r(3) by (simp add: vs cap_entries_def)
  then have "snd r = Min (set vs)"
    using r(2) by (intro Min_eqI [symmetric]) (auto simp: vs cap_entries_def)
  moreover have "cap_entries caps ! i = (fst r, num_of_int (snd r))"
    using arg_cong [OF ent, of "\<lambda>l. l ! i"] nth_map [OF i(1)] i(2) by simp
  moreover have "vs ! i = snd r" using i by simp
  ultimately have "lowest_entry (cap_entries caps) = cap_entries caps ! i \<and> vs ! i = Min (set vs)"
    using r(1) by simp
  moreover have "isBinding caps (num_of_int approved) (snd (cap_rows caps ! j))
      \<longleftrightarrow> vs ! j = Min (set vs) \<and> approved = Min (set vs)" if "j < 5" for j
  proof -
    have rows: "map snd (cap_rows caps) = map num_of_int vs"
      using assms by (simp add: cap_rows_def cap_entries_def)
    have "length (cap_rows caps) = 5" "length vs = 5" by (simp_all add: cap_rows_def vs)
    then have "snd (cap_rows caps ! j) = num_of_int (vs ! j)"
      using arg_cong [OF rows, of "\<lambda>l. l ! j"] that by simp
    moreover have "math_min (map snd (cap_rows caps)) = num_of_int (Min (set vs))"
      unfolding rows unfolding vs by (rule math_min_of_int)
    ultimately show ?thesis by (auto simp: isBinding_def)
  qed
  moreover have "i < 5" using i(1) unfolding len .
  ultimately show ?thesis by blast
qed

definition sample_caps :: DeterministicEngine_caps where
  "sample_caps = \<lparr>de_caps_requested_minor = num_of_int 250000, de_caps_available_exposure_minor = num_of_int 900000,
     de_caps_revenue_advance_cap_minor = num_of_int 200000, de_caps_task_cost_cap_minor = num_of_int 240000,
     de_caps_policy_cap_minor = num_of_int 200000\<rparr>"

theorem binding_cap_agrees_witness:
  "\<not> isBinding sample_caps (num_of_int 150000) (snd (cap_rows sample_caps ! 2))
   \<and> isBinding sample_caps (num_of_int 200000) (snd (cap_rows sample_caps ! 2))"
proof -
  have h: "map snd (cap_entries sample_caps) = map num_of_int [250000, 900000, 200000, 240000, 200000]"
    by (simp add: cap_entries_def sample_caps_def)
  have r: "isBinding sample_caps (num_of_int m) (snd (cap_rows sample_caps ! 2)) \<longleftrightarrow> m = 200000" for m
    using binding_cap_agrees [OF h, of m, THEN conjunct2, rule_format, of 2] by simp
  show ?thesis by (simp add: r)
qed

end
