(* ===== verification/Repayment.thy ===== *)
theory Repayment
  imports Forms
begin

text \<open>
  \<open>frontend/components/onboarding/repayment-controls.tsx\<close>: recording revenue against a vault and
  simulating a failure. The two mutations are \<open>rp_receive\<close> and \<open>rp_fail\<close>; the effect that lets the
  amount follow the outstanding balance runs at every render (\<open>rp_follow\<close>).
\<close>

definition SETTLED_STATUSES :: "string list" where
  "SETTLED_STATUSES = [''REPAID'', ''CLOSED'', ''DEFAULTED'']"

text \<open>The answers of the two endpoints.\<close>

record RevenueAnswer =
  rva_repayment_id :: string
  rva_principal_minor :: Money
  rva_fee_minor :: Money
  rva_owner_minor :: Money
  rva_allocations :: "(string \<times> Money) list"

record FailureAnswer =
  fa_repayment_id :: string
  fa_kind :: string
  fa_swept_minor :: Money
  fa_reserve_drawn_minor :: Money
  fa_simulated_loss_minor :: Money
  fa_allocations :: "(string \<times> Money) list"

record rp_form =
  rp_amount :: string
  rp_followed :: jsnum
  rp_receive :: "RevenueAnswer mutation_result"
  rp_fail :: "FailureAnswer mutation_result"

definition rp_outstanding :: "VaultDetail \<Rightarrow> jsnum" where
  "rp_outstanding vault = num_add (vs_principal_outstanding_minor vault) (vs_fee_due_minor vault)"

definition rp_initial :: "VaultDetail \<Rightarrow> rp_form" where
  "rp_initial vault = \<lparr>rp_amount = rupeeInputValue (Some (rp_outstanding vault)),
     rp_followed = rp_outstanding vault, rp_receive = mu_idle, rp_fail = mu_idle\<rparr>"

text \<open>\<open>a === b\<close> and \<open>a !== b\<close> on numbers: \<open>NaN\<close> differs from itself.\<close>

definition rp_follow :: "VaultDetail \<Rightarrow> rp_form \<Rightarrow> rp_form" where
  "rp_follow vault s = (let outstanding = rp_outstanding vault;
       s1 = (if \<not> num_eq (rp_followed s) outstanding \<and> rp_amount s = rupeeInputValue (Some (rp_followed s))
             then s\<lparr>rp_amount := rupeeInputValue (Some outstanding)\<rparr> else s) in
     s1\<lparr>rp_followed := outstanding\<rparr>)"

definition rp_settled :: "VaultDetail \<Rightarrow> bool" where
  "rp_settled vault \<longleftrightarrow> List.member SETTLED_STATUSES (vs_status vault)"

definition rp_busy :: "rp_form \<Rightarrow> bool" where
  "rp_busy s \<longleftrightarrow> mu_pending (rp_receive s) \<or> mu_pending (rp_fail s)"

definition rp_amountMinor :: "rp_form \<Rightarrow> Money option" where
  "rp_amountMinor s = rupeeInputToMinor (rp_amount s)"

definition external_event_id :: "string \<Rightarrow> nat \<Rightarrow> jsnum \<Rightarrow> string" where
  "external_event_id vault_id eventCount amountMinor =
     ''web-'' @ vault_id @ ''-'' @ show_nat eventCount @ ''-'' @ to_string amountMinor"

datatype rp_event = SetAmount string | RecordRevenue bool | SimulateFailure

text \<open>The body of \<open>submit(taskCompleted)\<close>, when there is an amount.\<close>

definition rp_submit :: "VaultDetail \<Rightarrow> rp_form \<Rightarrow> bool \<Rightarrow> RevenueBody option" where
  "rp_submit vault s taskCompleted = map_option (\<lambda>m. \<lparr>vb_amount_minor = m,
     vb_external_event_id = external_event_id (vs_vault_id vault) (length (vd_revenue_events vault)) m,
     vb_task_completed = taskCompleted, vb_currency = None\<rparr>) (rp_amountMinor s)"

fun rp_handle :: "VaultDetail \<Rightarrow> rp_event \<Rightarrow> rp_form \<Rightarrow> rp_form" where
  "rp_handle vault (SetAmount v) s = s\<lparr>rp_amount := v\<rparr>"
| "rp_handle vault (RecordRevenue taskCompleted) s =
     (if rp_submit vault s taskCompleted = None then s else s\<lparr>rp_receive := mu_sent\<rparr>)"
| "rp_handle vault SimulateFailure s = s\<lparr>rp_fail := mu_sent\<rparr>"

text \<open>Whichever mutation is pending settles.\<close>

definition rp_settle :: "(failure + RevenueAnswer) \<times> (failure + FailureAnswer) \<Rightarrow> rp_form \<Rightarrow> rp_form" where
  "rp_settle out s =
     (if mu_pending (rp_receive s) then s\<lparr>rp_receive := mu_settled (fst out)\<rparr>
      else if mu_pending (rp_fail s) then s\<lparr>rp_fail := mu_settled (snd out)\<rparr> else s)"

definition rp_error :: "rp_form \<Rightarrow> failure option" where
  "rp_error s = (case mu_error (rp_receive s) of Some e \<Rightarrow> Some e | None \<Rightarrow> mu_error (rp_fail s))"

subsection \<open>The view\<close>

definition rp_amount_field :: "VaultDetail \<Rightarrow> rp_form \<Rightarrow> rp_event node" where
  "rp_amount_field vault s =
     Field (''Revenue received ('' @ [RUPEE] @ '')'')
       (Some (if rp_amountMinor s = None then ''Enter an amount in rupees, above zero.''
          else ''Outstanding right now: '' @ money (Some (rp_outstanding vault)) @ '' (''
            @ money (Some (vs_principal_outstanding_minor vault)) @ '' principal, ''
            @ money (Some (vs_fee_due_minor vault)) @ '' fee).''))
       (Some ''revenue-amount'')
       [Input [Attr ''id'' ''revenue-amount'', Attr ''aria-invalid'' (bool_text (rp_amountMinor s = None))]
          (rp_amount s) (rp_settled vault \<or> rp_busy s) SetAmount]"

definition rp_buttons :: "VaultDetail \<Rightarrow> rp_form \<Rightarrow> rp_event node" where
  "rp_buttons vault s = (let off = rp_settled vault \<or> rp_busy s in El ''div'' [] [
     Button Secondary (off \<or> rp_amountMinor s = None) (RecordRevenue False)
       [icon ''Banknote'', Txt ''Record partial repayment''],
     Button Primary (off \<or> rp_amountMinor s = None) (RecordRevenue True)
       [icon ''CheckCircle2'', Txt ''Record task complete & full repayment''],
     Button Danger off SimulateFailure [icon ''AlertTriangle'', Txt ''Simulate task failure'']])"

definition rp_outcome :: "rp_form \<Rightarrow> 'e node list" where
  "rp_outcome s =
     some_node (\<lambda>e. [para (failure_text ''That could not be recorded.'' e)]) (rp_error s)
     @ some_node (\<lambda>d. [El ''div'' [] [para ''Revenue recorded and allocated'',
          El ''ul'' [] [
            El ''li'' [] [Txt (''Principal repaid '' @ money (Some (rva_principal_minor d)))],
            El ''li'' [] [Txt (''Fee '' @ money (Some (rva_fee_minor d)))],
            El ''li'' [] [Txt (''Released to owner '' @ money (Some (rva_owner_minor d)))]]]])
         (mu_data (rp_receive s))
     @ some_node (\<lambda>d. [El ''div'' [] [para ''Failure recorded'',
          El ''ul'' [] [
            El ''li'' [] [Txt (''Swept from the vault '' @ money (Some (fa_swept_minor d)))],
            El ''li'' [] [Txt (''Drawn from reserve '' @ money (Some (fa_reserve_drawn_minor d)))],
            El ''li'' [] [Txt (''Shortfall booked as loss '' @ money (Some (fa_simulated_loss_minor d)))]]]])
         (mu_data (rp_fail s))"

definition rp_view :: "VaultDetail \<Rightarrow> rp_form \<Rightarrow> rp_event node" where
  "rp_view vault s = Card [
     CardHeader [CardTitle [Txt ''Record task revenue''],
       para (''Sandbox controls. These post to the live repayment endpoints and persist '' @ [EM_DASH] @
         '' revenue runs the waterfall, and the failure control draws on the reserve.''),
       Badge outline [icon ''FlaskConical'', Txt '' Sandbox'']],
     CardContent ([rp_amount_field vault s, rp_buttons vault s,
       para (''The second button sets task_completed, which is what lets the backend settle the facility '' @
         ''rather than take a part payment. Simulating failure sweeps whatever the vault still holds, draws '' @
         ''the reserve, and records the shortfall as a loss against the agent.'')]
       @ show_if (rp_settled vault) [para (''This vault is '' @ to_lower (vs_status vault) @
           ''. Nothing further is collected against it.'')]
       @ rp_outcome s)]"

definition rp_spec :: "(VaultDetail \<times> rp_form, rp_event, unit,
    (failure + RevenueAnswer) \<times> (failure + FailureAnswer)) form" where
  "rp_spec = \<lparr>
     f_initial = (\<lambda>(vault, s). s = rp_initial vault),
     f_offers = (\<lambda>(vault, s). events (rp_view vault s)),
     f_starts = (\<lambda>(vault, s) e. e = SimulateFailure \<or> (\<exists>b. e = RecordRevenue b \<and> rp_submit vault s b \<noteq> None)),
     f_handle = (\<lambda>e (vault, s). (vault, rp_handle vault e s)),
     f_progress = (\<lambda>p (vault, s). (vault, s)),
     f_settle = (\<lambda>out (vault, s). (vault, rp_settle out s)),
     f_rerender = (\<lambda>(vault, s) (vault', s'). s' = rp_follow vault' s)\<rparr>"

lemma events_rp_outcome: "(\<Union>v \<in> set (rp_outcome s). events v) = {}"
  by (auto simp: rp_outcome_def set_some_node split: option.splits)

lemma rp_offers:
  "f_offers rp_spec (vault, s) =
     (if rp_settled vault \<or> rp_busy s then {}
      else range SetAmount \<union> {SimulateFailure} \<union> (if rp_amountMinor s = None then {} else range RecordRevenue))"
  by (auto simp: rp_spec_def rp_view_def rp_amount_field_def rp_buttons_def Let_def events_rp_outcome UNIV_bool)

definition rp_pending :: "VaultDetail \<times> rp_form \<Rightarrow> nat" where
  "rp_pending p = of_bool (mu_pending (rp_receive (snd p))) + of_bool (mu_pending (rp_fail (snd p)))"

interpretation rp: submitting_form rp_spec rp_pending
proof unfold_locales
  fix e and p :: "VaultDetail \<times> rp_form" assume off: "e \<in> f_offers rp_spec p"
  obtain vault s where p: "p = (vault, s)" by (cases p)
  have idle: "\<not> mu_pending (rp_receive s)" "\<not> mu_pending (rp_fail s)"
    using off by (auto simp: p rp_offers rp_busy_def split: if_splits)
  then show "rp_pending p = 0" by (simp add: p rp_pending_def)
  show "rp_pending (f_handle rp_spec e p) = 1" if "f_starts rp_spec p e"
    using that idle by (auto simp: p rp_pending_def rp_spec_def)
  show "rp_pending (f_handle rp_spec e p) = rp_pending p" if "\<not> f_starts rp_spec p e"
    using that idle by (cases e) (auto simp: p rp_pending_def rp_spec_def)
qed (auto simp: rp_pending_def rp_spec_def rp_initial_def rp_settle_def rp_follow_def Let_def split: prod.splits)

subsection \<open>Properties\<close>

text \<open>
  C23. One mount of the controls has at most one write in flight, and it knows: the controls are busy
  exactly while it is. Something is on offer exactly when the vault is unsettled and this mount has
  nothing in flight, and recording revenue exactly when there is an amount besides; the two buttons
  send the same amount under the same key and differ in exactly the completion flag. (Another mount
  of the controls on the same vault is not held back: \<open>tab_switch_forgets\<close>.)
\<close>

theorem repayment_guarded:
  assumes "form_run rp_spec (vault, s) n"
  shows "n \<le> 1 \<and> (n = 1 \<longleftrightarrow> rp_busy s)
    \<and> (f_offers rp_spec (vault, s) \<noteq> {} \<longleftrightarrow> n = 0 \<and> \<not> List.member SETTLED_STATUSES (vs_status vault))
    \<and> (RecordRevenue b \<in> f_offers rp_spec (vault, s) \<longleftrightarrow>
         n = 0 \<and> \<not> List.member SETTLED_STATUSES (vs_status vault) \<and> rp_submit vault s b \<noteq> None)
    \<and> rp_submit vault s False = map_option (\<lambda>body. body\<lparr>vb_task_completed := False\<rparr>) (rp_submit vault s True)"
proof -
  have n: "n \<le> 1" "n = rp_pending (vault, s)" using rp.pending_flight [OF assms] by simp_all
  have "n = 1 \<longleftrightarrow> rp_busy s" using n by (auto simp: rp_pending_def rp_busy_def split: if_splits)
  then show ?thesis
    using n by (auto simp: rp_offers rp_settled_def rp_submit_def option.map_comp comp_def)
qed

definition busy_vault :: VaultDetail where
  "busy_vault = \<lparr>vs_vault_id = ''v1'', vs_agent_id = ''a1'', vs_agent_name = ''Bot'', vs_task_id = ''t1'',
      vs_task_title = ''Task'', vs_application_id = ''app1'', vs_status = ''CREATED'', vs_currency = ''INR'',
      vs_total_limit_minor = Fin 100000, vs_spent_minor = Fin 50000, vs_remaining_minor = Fin 50000,
      vs_per_transaction_limit_minor = Fin 60000, vs_daily_limit_minor = Fin 100000,
      vs_principal_outstanding_minor = Fin 50000, vs_fee_due_minor = Fin 1000,
      vs_reserve_drawn_minor = Fin 0, vs_transaction_count = Fin 1, vs_max_transactions = Fin 10,
      vs_frozen_reason = None, vs_expires_at = None, vs_created_at = None, vs_updated_at = None,
      vd_agent_status = ''ACTIVE'', vd_allowlist = [], vd_transactions = [], vd_revenue_events = [],
      vd_repayments = [], vd_revenue_mandate = None, vd_risk_events = [], vd_audit_events = []\<rparr>"

theorem repayment_guarded_witness:
  "form_run rp_spec (busy_vault, (rp_initial busy_vault)\<lparr>rp_fail := mu_sent\<rparr>) 1
   \<and> f_offers rp_spec (busy_vault, rp_initial busy_vault) \<noteq> {}
   \<and> f_offers rp_spec (busy_vault, (rp_initial busy_vault)\<lparr>rp_fail := mu_sent\<rparr>) = {}"
proof -
  let ?s = "rp_initial busy_vault"
  have i: "form_run rp_spec (busy_vault, ?s) 0"
    by (rule form_run.init) (simp add: rp_spec_def)
  have o: "SimulateFailure \<in> f_offers rp_spec (busy_vault, ?s)"
    by (simp add: rp_offers rp_settled_def rp_busy_def rp_initial_def busy_vault_def SETTLED_STATUSES_def)
  have "form_run rp_spec (f_handle rp_spec SimulateFailure (busy_vault, ?s)) (Suc 0)"
    by (rule form_run.submit [OF i o]) (simp add: rp_spec_def)
  then have r: "form_run rp_spec (busy_vault, ?s\<lparr>rp_fail := mu_sent\<rparr>) 1" by (simp add: rp_spec_def)
  show ?thesis using r o repayment_guarded [OF r] by auto
qed

lemma last_hyphen:
  assumes "x @ CHR ''-'' # a = y @ CHR ''-'' # b" and "CHR ''-'' \<notin> set a" and "CHR ''-'' \<notin> set b"
  shows "x = y \<and> a = b"
proof -
  have tw: "takeWhile (\<lambda>c. c \<noteq> CHR ''-'') (rev (z @ CHR ''-'' # c)) = rev c"
    if "CHR ''-'' \<notin> set c" for z c
    using that by (subst rev_append, simp add: takeWhile_tail) (metis set_rev takeWhile_eq_all_conv)
  have "rev a = rev b" using tw [OF assms(2), of x] tw [OF assms(3), of y] by (simp only: assms(1))
  then show ?thesis using assms(1) by simp
qed

lemma digits_no_hyphen: "0 \<le> n \<Longrightarrow> CHR ''-'' \<notin> set (show_digits n)"
  using show_digits_digits by (fastforce simp: is_digit_def)

lemma show_dec_no_hyphen:
  assumes "0 < s" "- 6 < int (length (show_digits s)) + e" "int (length (show_digits s)) + e \<le> 21"
  shows "CHR ''-'' \<notin> set (show_dec s e)"
  using assms digits_no_hyphen [of s] by (auto simp: show_dec_def Let_def dest: in_set_takeD in_set_dropD)

lemma amount_text:
  assumes "0 < i" and "safe_minor (100 * i)"
  shows "CHR ''-'' \<notin> set (to_string (num_of_int i))" and "parse_float (to_string (num_of_int i)) = num_of_int i"
proof -
  have "\<bar>i\<bar> \<le> 2 ^ 53" using assms(2) by (simp add: safe_minor_def)
  then have r: "num_of_int i = Fin (rupees (100 * i))"
    by (simp add: num_of_int_def rupees_def rnd_of_int)
  obtain s e where "to_string (num_of_int i) = show_dec s e" "0 < s"
    "- 6 < int (length (show_digits s)) + e" "int (length (show_digits s)) + e \<le> 21"
    using rupees_shown [of "100 * i"] assms unfolding r by (metis mult_pos_pos zero_less_numeral)
  then show "CHR ''-'' \<notin> set (to_string (num_of_int i))" by (simp add: show_dec_no_hyphen)
  show "parse_float (to_string (num_of_int i)) = num_of_int i"
    unfolding r using assms by (intro parse_to_string_rupees) simp_all
qed

text \<open>
  C19. The idempotency key identifies the credit event: two recordings carry the same key exactly when
  they are for the same vault, at the same position in its revenue history and of the same
  amount, even if vault identifiers contain hyphens.
\<close>

theorem event_key_identifies:
  assumes "0 < i" "safe_minor (100 * i)" "0 < j" "safe_minor (100 * j)"
  shows "external_event_id v n (num_of_int i) = external_event_id v' n' (num_of_int j)
     \<longleftrightarrow> v = v' \<and> n = n' \<and> i = j"
proof
  assume "external_event_id v n (num_of_int i) = external_event_id v' n' (num_of_int j)"
  then have "(v @ ''-'' @ show_nat n) @ CHR ''-'' # to_string (num_of_int i)
      = (v' @ ''-'' @ show_nat n') @ CHR ''-'' # to_string (num_of_int j)"
    by (simp add: external_event_id_def)
  from last_hyphen [OF this amount_text(1) amount_text(1), OF assms]
  have e: "v @ CHR ''-'' # show_nat n = v' @ CHR ''-'' # show_nat n'"
      "to_string (num_of_int i) = to_string (num_of_int j)"
    by simp_all
  have "CHR ''-'' \<notin> set (show_nat k)" for k by (simp add: show_int_def digits_no_hyphen)
  then have "v = v' \<and> show_nat n = show_nat n'" using last_hyphen [OF e(1)] by blast
  moreover have "n = n'" if "show_nat n = show_nat n'"
    using that by (simp add: show_digits_inject)
  moreover have "num_of_int i = num_of_int j" using e(2) amount_text(2) assms by metis
  then have "i = j" by (simp add: num_of_int_def)
  ultimately show "v = v' \<and> n = n' \<and> i = j" by blast
qed simp

theorem event_key_identifies_witness:
  "external_event_id ''v-1'' 2 (num_of_int 51000) \<noteq> external_event_id ''v'' 1 (num_of_int 51000)"
  by (subst event_key_identifies) (simp_all add: safe_minor_def)

lemma same_text: "num_eq a b \<Longrightarrow> rupeeInputValue (Some a) = rupeeInputValue (Some b)"
  by (cases a; cases b)
    (auto simp: num_eq_def rupeeInputValue_def num_div_def with_sign_def dbl_def)

text \<open>
  The amount follows the balance until someone types another: through any refetches the untouched
  field shows the latest outstanding amount, and a typed text that is none of the balances seen
  stays as it was typed.
\<close>

theorem amount_follows_until_typed:
  "rp_amount (fold rp_follow vs (rp_initial v)) = rupeeInputValue (Some (rp_outstanding (last (v # vs))))
   \<and> (t \<notin> (\<lambda>b. rupeeInputValue (Some b)) ` set (rp_followed s # map rp_outstanding vs) \<longrightarrow>
       rp_amount (fold rp_follow vs (s\<lparr>rp_amount := t\<rparr>)) = t)"
proof -
  have "rp_amount (fold rp_follow vs s) = rupeeInputValue (Some (rp_outstanding (last (v # vs))))
      \<and> rp_followed (fold rp_follow vs s) = rp_outstanding (last (v # vs))"
    if "rp_amount s = rupeeInputValue (Some (rp_outstanding v))" "rp_followed s = rp_outstanding v" for s v
    using that
  proof (induction vs arbitrary: s v)
    case (Cons u vs)
    have "rp_amount (rp_follow u s) = rupeeInputValue (Some (rp_outstanding u))"
      "rp_followed (rp_follow u s) = rp_outstanding u"
      using Cons.prems same_text by (auto simp: rp_follow_def Let_def)
    then show ?case using Cons.IH [of "rp_follow u s" u] by simp
  qed simp
  moreover have "rp_amount (fold rp_follow vs s) = t"
    if "rp_amount s = t" "t \<notin> (\<lambda>b. rupeeInputValue (Some b)) ` set (rp_followed s # map rp_outstanding vs)" for s
    using that
  proof (induction vs arbitrary: s)
    case (Cons u vs)
    then have "rp_amount (rp_follow u s) = t" "rp_followed (rp_follow u s) = rp_outstanding u"
      by (auto simp: rp_follow_def Let_def)
    then show ?case using Cons by simp
  qed simp
  ultimately show ?thesis by (simp add: rp_initial_def)
qed

theorem amount_follows_until_typed_witness:
  "rp_amount (fold rp_follow [busy_vault] ((rp_initial busy_vault)\<lparr>rp_amount := ''12.50''\<rparr>)) = ''12.50''"
proof -
  have t: "rupeeInputValue (Some (rp_outstanding busy_vault)) = ''510''" by code_simp
  show ?thesis
    by (rule amount_follows_until_typed [THEN conjunct2, rule_format])
      (simp add: t rp_initial_def)
qed

end
