(* ===== verification/Telemetry.thy ===== *)
theory Telemetry
  imports Data
begin

text \<open>
  \<open>frontend/components/system-intelligence/envelope.tsx\<close>, the one place a metric envelope becomes
  text, and \<open>pipeline.tsx\<close>, the rail of the sixteen pipeline stages with its detail sheet.
\<close>

subsection \<open>Envelopes\<close>

fun absenceReasonOf :: "MetricStatus \<Rightarrow> AbsenceReason" where
  "absenceReasonOf M_not_evaluated = NotEvaluated"
| "absenceReasonOf M_not_connected = NotConnected"
| "absenceReasonOf M_insufficient_sample = Insufficient"
| "absenceReasonOf _ = NotAvailable"

definition envelopeOk :: "MetricEnvelope option \<Rightarrow> bool" where
  "envelopeOk envelope \<longleftrightarrow> (case envelope of None \<Rightarrow> False
     | Some e \<Rightarrow> env_status e = M_ok \<and> (case env_value e of None \<Rightarrow> False | Some v \<Rightarrow> is_finite_num v))"

definition formatMs :: "jsnum \<Rightarrow> string" where
  "formatMs ms =
     (if num_lt ms (Fin 1000) then count (Some ms) @ '' ms''
      else let seconds = num_div ms (Fin 1000) in
        if num_lt seconds (Fin 60) then to_fixed (if num_lt seconds (Fin 10) then 1 else 0) seconds @ ''s''
        else to_fixed 1 (num_div seconds (Fin 60)) @ '' min'')"

definition sampleNote :: "MetricEnvelope option \<Rightarrow> string option" where
  "sampleNote envelope = (case envelope of None \<Rightarrow> None
     | Some e \<Rightarrow> (case env_sample_size e of None \<Rightarrow> None | Some n \<Rightarrow> Some (''n = '' @ count (Some n))))"

fun envelope_text :: "MetricUnit \<Rightarrow> bool \<Rightarrow> nat \<Rightarrow> jsnum \<Rightarrow> string" where
  "envelope_text U_ppm compactly digits v = percent (Some v) digits"
| "envelope_text U_minor compactly digits v = (if compactly then moneyCompact (Some v) else money (Some v))"
| "envelope_text U_ms compactly digits v = formatMs v"
| "envelope_text U_count compactly digits v = count (Some v)"

text \<open>The props of \<open>EnvelopeValue\<close>, with the defaults of the component.\<close>

record envelope_props =
  ep_compact :: bool
  ep_digits :: nat
  ep_label :: bool
  ep_detail :: "string option"
  ep_absentText :: "string option"

definition plain :: envelope_props where
  "plain = \<lparr>ep_compact = False, ep_digits = 1, ep_label = False, ep_detail = None, ep_absentText = None\<rparr>"

definition labelled :: envelope_props where
  "labelled = plain\<lparr>ep_label := True\<rparr>"

definition EnvelopeValue :: "envelope_props \<Rightarrow> MetricEnvelope option \<Rightarrow> 'e node" where
  "EnvelopeValue p envelope =
     (if \<not> envelopeOk envelope
      then let reason = (case envelope of None \<Rightarrow> NotAvailable | Some e \<Rightarrow> absenceReasonOf (env_status e)) in
        (case ep_absentText p of
           Some t \<Rightarrow> Tooltip (case ep_detail p of Some d \<Rightarrow> d | None \<Rightarrow> absenceLabel reason)
             [El ''span'' [Attr ''data-reason'' (absence_text reason)] [Txt t]]
         | None \<Rightarrow> Unavailable reason (ep_detail p) (ep_label p))
      else case envelope of Some e \<Rightarrow> El ''span'' []
          [Txt (envelope_text (env_unit e) (ep_compact p) (ep_digits p) (the (env_value e)))]
        | None \<Rightarrow> El ''span'' [] [])"

definition sample_span :: "MetricEnvelope option \<Rightarrow> 'e node list" where
  "sample_span envelope = some_node (\<lambda>s. [El ''span'' [] [Txt s]]) (sampleNote envelope)"

definition EnvelopeRow :: "string \<Rightarrow> string option \<Rightarrow> MetricEnvelope \<Rightarrow> 'e node" where
  "EnvelopeRow label hint envelope =
     Row label hint [El ''span'' [] (EnvelopeValue plain (Some envelope) # sample_span (Some envelope))]"

subsection \<open>The pipeline\<close>

fun stage_text :: "PipelineStageName \<Rightarrow> string" where
  "stage_text REQUEST_RECEIVED = ''REQUEST_RECEIVED''"
| "stage_text SCHEMA_VALIDATION = ''SCHEMA_VALIDATION''"
| "stage_text PASSPORT_VERIFICATION = ''PASSPORT_VERIFICATION''"
| "stage_text EVIDENCE_RETRIEVAL = ''EVIDENCE_RETRIEVAL''"
| "stage_text TASK_ANALYST = ''TASK_ANALYST''"
| "stage_text FEATURE_CALCULATION = ''FEATURE_CALCULATION''"
| "stage_text UNDERWRITING_ANALYST = ''UNDERWRITING_ANALYST''"
| "stage_text CREDIT_RISK_MODEL = ''CREDIT_RISK_MODEL''"
| "stage_text INDEPENDENT_RISK_CRITIC = ''INDEPENDENT_RISK_CRITIC''"
| "stage_text POLICY_ENGINE = ''POLICY_ENGINE''"
| "stage_text HUMAN_REVIEW = ''HUMAN_REVIEW''"
| "stage_text VAULT_CREATION = ''VAULT_CREATION''"
| "stage_text SPEND_MONITORING = ''SPEND_MONITORING''"
| "stage_text REVENUE_COLLECTION = ''REVENUE_COLLECTION''"
| "stage_text REPAYMENT_WATERFALL = ''REPAYMENT_WATERFALL''"
| "stage_text AUDIT_FINALIZATION = ''AUDIT_FINALIZATION''"

fun STATUS_TONE :: "PipelineStageStatus \<Rightarrow> BadgeTone" where
  "STATUS_TONE P_healthy = positive"
| "STATUS_TONE P_degraded = caution"
| "STATUS_TONE P_waiting = info"
| "STATUS_TONE P_reviewing = info"
| "STATUS_TONE P_failed = critical"
| "STATUS_TONE P_unavailable = outline"

fun STATUS_LABEL :: "PipelineStageStatus \<Rightarrow> string" where
  "STATUS_LABEL P_healthy = ''Healthy''"
| "STATUS_LABEL P_degraded = ''Degraded''"
| "STATUS_LABEL P_waiting = ''Waiting''"
| "STATUS_LABEL P_reviewing = ''Reviewing''"
| "STATUS_LABEL P_failed = ''Failed''"
| "STATUS_LABEL P_unavailable = ''No telemetry''"

definition NO_TELEMETRY :: MetricEnvelope where
  "NO_TELEMETRY = \<lparr>env_value = None, env_unit = U_count, env_sample_size = None, env_status = M_not_connected\<rparr>"

definition NO_TELEMETRY_MS :: MetricEnvelope where
  "NO_TELEMETRY_MS = NO_TELEMETRY\<lparr>env_unit := U_ms\<rparr>"

definition silent_stage :: "PipelineStageName \<Rightarrow> PipelineStage" where
  "silent_stage name = \<lparr>ps_stage = name, ps_label = humanise (Some (stage_text name)), ps_status = P_unavailable,
     ps_processed = NO_TELEMETRY, ps_succeeded = NO_TELEMETRY, ps_controlled_rejections = NO_TELEMETRY,
     ps_true_errors = NO_TELEMETRY, ps_p50_ms = NO_TELEMETRY_MS, ps_p95_ms = NO_TELEMETRY_MS,
     ps_last_completed_at = None\<rparr>"

text \<open>\<open>new Map(pairs)\<close>: a later pair for a key replaces the earlier.\<close>

definition byName :: "PipelineStage list \<Rightarrow> PipelineStageName \<rightharpoonup> PipelineStage" where
  "byName pipeline = map_of (rev (map (\<lambda>s. (ps_stage s, s)) pipeline))"

definition orderStages :: "PipelineStage list \<Rightarrow> PipelineStage list" where
  "orderStages pipeline = map (\<lambda>name. case byName pipeline name of Some s \<Rightarrow> s | None \<Rightarrow> silent_stage name)
     PIPELINE_STAGE_ORDER"

datatype rail_event = OpenStage PipelineStage | CloseStage

definition dt_dd :: "string \<Rightarrow> 'e node list \<Rightarrow> 'e node" where
  "dt_dd t d = El ''div'' [] [El ''dt'' [] [Txt t], El ''dd'' [] d]"

definition StageCard :: "clock \<Rightarrow> PipelineStage \<Rightarrow> nat \<Rightarrow> 'e \<Rightarrow> 'e node" where
  "StageCard ck stage index onOpen =
     El ''button'' [Attr ''type'' ''button'', OnClick onOpen,
         Attr ''aria-label'' (ps_label stage @ '' '' @ [EM_DASH] @ '' '' @ STATUS_LABEL (ps_status stage) @
           ''. Open stage detail.'')]
       [El ''div'' [] [El ''span'' [] [Txt (pad_left 2 (show_nat (Suc index)))],
          Badge (STATUS_TONE (ps_status stage)) [Txt (STATUS_LABEL (ps_status stage))]],
        para (ps_label stage),
        El ''dl'' [] [
          dt_dd ''Processed'' [EnvelopeValue plain (Some (ps_processed stage))],
          dt_dd ''Succeeded'' [EnvelopeValue plain (Some (ps_succeeded stage))],
          dt_dd ''Controlled rejections'' [EnvelopeValue plain (Some (ps_controlled_rejections stage))],
          dt_dd ''p50 / p95'' [EnvelopeValue plain (Some (ps_p50_ms stage)), Txt '' / '',
            EnvelopeValue plain (Some (ps_p95_ms stage))]],
        para (''Last completed '' @ ago ck (ps_last_completed_at stage))]"

definition stage_rows :: "clock \<Rightarrow> PipelineStage \<Rightarrow> 'e node list" where
  "stage_rows ck stage =
     [Rows [
        EnvelopeRow ''Processed'' None (ps_processed stage),
        EnvelopeRow ''Succeeded'' None (ps_succeeded stage),
        EnvelopeRow ''Controlled rejections''
          (Some ''Requests refused by policy or deterministic controls. Each one is the pipeline doing its job.'')
          (ps_controlled_rejections stage),
        EnvelopeRow ''True errors''
          (Some (''Genuine technical failures '' @ [EM_DASH] @ '' timeouts, crashes, malformed internal state. '' @
            ''Policy rejections are never counted here.''))
          (ps_true_errors stage),
        EnvelopeRow ''Latency p50''
          (Some ''Median duration for this stage over the selected window, from recorded telemetry.'') (ps_p50_ms stage),
        EnvelopeRow ''Latency p95''
          (Some ''95th-percentile duration for this stage over the selected window, from recorded telemetry.'')
          (ps_p95_ms stage),
        Row ''Last completed'' None [case ps_last_completed_at stage of
            None \<Rightarrow> El ''span'' [] [Txt [EM_DASH]]
          | Some t \<Rightarrow> El ''span'' [] [Txt (ago ck (Some t)),
              El ''span'' [] [Txt (''('' @ stamp ck (Some t) @ '')'')]]]],
      para (''A policy rejection is a controlled outcome, not a technical failure. Only true errors count against '' @
        ''this stage'' @ [APOS] @ ''s health.'')]"

definition StageSheet :: "bool \<Rightarrow> clock \<Rightarrow> PipelineStage option \<Rightarrow> 'e \<Rightarrow> 'e node list" where
  "StageSheet mounted ck stage onClose =
     Sheet mounted (stage \<noteq> None) onClose (case stage of Some s \<Rightarrow> ps_label s | None \<Rightarrow> [])
       (Some (some_node (\<lambda>s. [El ''span'' [] [El ''span'' [] [Txt (stage_text (ps_stage s))],
          Badge (STATUS_TONE (ps_status s)) [Txt (STATUS_LABEL (ps_status s))]]]) stage))
       [] (some_node (stage_rows ck) stage)"

text \<open>\<open>selected\<close> is the component's state: the stage as it was reported when it was opened.\<close>

definition PipelineRail :: "bool \<Rightarrow> clock \<Rightarrow> PipelineStage list \<Rightarrow> PipelineStage option \<Rightarrow> rail_event node list" where
  "PipelineRail mounted ck pipeline selected =
     (let ordered = orderStages pipeline in
      El ''div'' [] [El ''ol'' [] (map (\<lambda>(index, stage). El ''li'' []
          (StageCard ck stage index (OpenStage stage)
           # show_if (Suc index < length ordered) [icon ''ChevronRight''])) (enumerate 0 ordered))]
      # StageSheet mounted ck selected CloseStage)"

fun rail_handle :: "rail_event \<Rightarrow> PipelineStage option \<Rightarrow> PipelineStage option" where
  "rail_handle (OpenStage s) selected = Some s"
| "rail_handle CloseStage selected = None"

subsection \<open>Properties\<close>

lemma below_minute: "num_lt s (Fin 10) \<Longrightarrow> num_lt s (Fin 60)"
  by (cases s) (simp_all add: num_lt_def)

lemma unit_texts:
  "envelope_text u compactly digits v =
     (case u of
        U_ppm \<Rightarrow> percent (Some v) digits
      | U_minor \<Rightarrow> if compactly then moneyCompact (Some v) else money (Some v)
      | U_count \<Rightarrow> count (Some v)
      | U_ms \<Rightarrow>
          if num_lt v (Fin 1000) then count (Some v) @ '' ms''
          else if num_lt (num_div v (Fin 1000)) (Fin 10) then to_fixed 1 (num_div v (Fin 1000)) @ ''s''
          else if num_lt (num_div v (Fin 1000)) (Fin 60) then to_fixed 0 (num_div v (Fin 1000)) @ ''s''
          else to_fixed 1 (num_div (num_div v (Fin 1000)) (Fin 60)) @ '' min'')"
  using below_minute by (cases u) (auto simp: formatMs_def Let_def)

lemma absence_digits:
  "filter is_digit (fst (ABSENCE_COPY r)) = []" "filter is_digit (snd (ABSENCE_COPY r)) = []"
  "filter is_digit NO_VALUE = []"
  using absence_no_digit [of r True] absence_no_digit [of r False]
  by (simp_all add: Unavailable_def Tooltip_def)

lemma unmeasured_digits:
  assumes "\<not> envelopeOk envelope"
  shows "filter is_digit (shown (EnvelopeValue p envelope)) =
      filter is_digit (case ep_absentText p of None \<Rightarrow> [] | Some t \<Rightarrow> t)
      @ filter is_digit (case ep_detail p of None \<Rightarrow> [] | Some d \<Rightarrow> d)"
  using assms
  by (simp add: EnvelopeValue_def Unavailable_def Tooltip_def absenceLabel_def absence_digits Let_def
      split: option.split)

lemma envelopeOk_iff:
  "envelopeOk envelope \<longleftrightarrow> (\<exists>e v. envelope = Some e \<and> env_status e = M_ok \<and> env_value e = Some v \<and> is_finite_num v)"
  by (auto simp: envelopeOk_def split: option.splits)

text \<open>
  C21. The rule of the telemetry contract: an envelope that is not ok, or says ok without a finite
  number, shows no digit but those of the words its caller supplied, whatever value it carries; and an
  ok envelope shows its value and nothing else, in its own unit: parts per million as a percentage,
  minor units as money, a count as a count, and a duration in milliseconds below a second, in
  seconds below a minute, with one decimal below ten of them, and in minutes from there.
\<close>

theorem envelope_never_invents:
  "(if \<exists>e v. envelope = Some e \<and> env_status e = M_ok \<and> env_value e = Some v \<and> is_finite_num v
    then (\<exists>e v. envelope = Some e \<and> env_value e = Some v \<and> shown (EnvelopeValue p envelope :: 'e node) =
       (case env_unit e of
          U_ppm \<Rightarrow> percent (Some v) (ep_digits p)
        | U_minor \<Rightarrow> if ep_compact p then moneyCompact (Some v) else money (Some v)
        | U_count \<Rightarrow> count (Some v)
        | U_ms \<Rightarrow>
            if num_lt v (Fin 1000) then count (Some v) @ '' ms''
            else if num_lt (num_div v (Fin 1000)) (Fin 10) then to_fixed 1 (num_div v (Fin 1000)) @ ''s''
            else if num_lt (num_div v (Fin 1000)) (Fin 60) then to_fixed 0 (num_div v (Fin 1000)) @ ''s''
            else to_fixed 1 (num_div (num_div v (Fin 1000)) (Fin 60)) @ '' min''))
    else filter is_digit (shown (EnvelopeValue p envelope :: 'e node)) =
      filter is_digit (case ep_absentText p of None \<Rightarrow> [] | Some t \<Rightarrow> t)
      @ filter is_digit (case ep_detail p of None \<Rightarrow> [] | Some d \<Rightarrow> d))
   \<and> (if env_status x = M_ok then True
      else (EnvelopeValue p (Some (x\<lparr>env_value := v\<rparr>)) :: 'e node) = EnvelopeValue p (Some x))"
proof (rule conjI, goal_cases)
  case 1
  show ?case
  proof (cases "envelopeOk envelope")
    case True
    then obtain e v where e: "envelope = Some e" "env_value e = Some v" by (auto simp: envelopeOk_iff)
    have "shown (EnvelopeValue p envelope :: 'e node) = envelope_text (env_unit e) (ep_compact p) (ep_digits p) v"
      using True e by (simp add: EnvelopeValue_def)
    then show ?thesis
      unfolding envelopeOk_iff [symmetric] if_P [OF True] unit_texts using e by blast
  next
    case False
    show ?thesis unfolding envelopeOk_iff [symmetric] if_not_P [OF False] by (rule unmeasured_digits [OF False])
  qed
next
  case 2
  show ?case by (simp add: EnvelopeValue_def envelopeOk_def)
qed

lemma byName_hit: "byName pipeline n = Some s \<Longrightarrow> s \<in> set pipeline \<and> ps_stage s = n"
  by (auto simp: byName_def dest!: map_of_SomeD)

lemma byName_miss: "byName pipeline n = None \<longleftrightarrow> n \<notin> ps_stage ` set pipeline"
  by (force simp: byName_def map_of_eq_None_iff)

lemma events_EnvelopeValue [simp]: "events (EnvelopeValue p e) = {}"
  by (simp add: EnvelopeValue_def Let_def split: option.split)

lemma events_sample [simp]: "n \<in> set (sample_span e) \<Longrightarrow> events n = {}"
  by (auto simp: sample_span_def set_some_node split: option.splits)

lemma events_EnvelopeRow [simp]: "events (EnvelopeRow l h e) = {}"
  by (simp add: EnvelopeRow_def)

lemma events_StageCard [simp]: "events (StageCard ck s i e) = {e}"
  by (simp add: StageCard_def dt_dd_def)

lemma events_stage_rows: "n \<in> set (stage_rows ck s) \<Longrightarrow> events n = {}"
  by (auto simp: stage_rows_def split: option.splits)

lemma events_StageSheet: "(\<Union>n \<in> set (StageSheet m ck s e). events n) = (if m \<and> s \<noteq> None then {e} else {})"
  by (cases s) (auto simp: StageSheet_def events_Sheet events_stage_rows)

lemma UN_enumerate: "(\<Union>(i, x) \<in> set (enumerate k xs). f x) = (\<Union>x \<in> set xs. f x)"
proof -
  have "(\<Union>(i, x) \<in> set (enumerate k xs). f x) = (\<Union>x \<in> set (map snd (enumerate k xs)). f x)"
    by (simp add: split_beta del: map_snd_enumerate)
  then show ?thesis by simp
qed

lemma events_PipelineRail:
  "(\<Union>n \<in> set (PipelineRail m ck pipeline selected). events n) =
     OpenStage ` set (orderStages pipeline) \<union> (if m \<and> selected \<noteq> None then {CloseStage} else {})"
proof -
  have "(\<Union>(index, stage) \<in> set (enumerate 0 xs). events (El ''li'' [] (StageCard ck stage index (OpenStage stage)
       # show_if (Suc index < length xs) [icon ''ChevronRight''])))
     = (\<Union>stage \<in> set xs. {OpenStage stage})" for xs
  proof -
    have "events (El ''li'' [] (StageCard ck stage index (OpenStage stage)
       # show_if (Suc index < length xs) [icon ''ChevronRight''])) = {OpenStage stage}" for index stage
      by (simp cong del: if_weak_cong)
    then show ?thesis using UN_enumerate [of "\<lambda>stage. {OpenStage stage}" 0 xs] by (simp only:)
  qed
  then show ?thesis
    by (simp add: PipelineRail_def Let_def events_StageSheet split_beta)
       (simp add: UNION_singleton_eq_range)
qed

text \<open>
  The pipeline always has its sixteen stages in the contract's order: one the backend reported
  appears as it was reported, one it left out appears as a stage without telemetry, and each can
  be opened.
\<close>

theorem pipeline_complete:
  "map ps_stage (orderStages pipeline) = PIPELINE_STAGE_ORDER \<and> length (orderStages pipeline) = 16
   \<and> list_all (\<lambda>s. if List.member (map ps_stage pipeline) (ps_stage s) then List.member pipeline s
        else s = silent_stage (ps_stage s)) (orderStages pipeline)
   \<and> list_all (\<lambda>s. OpenStage s \<in> (\<Union>v \<in> set (PipelineRail mounted ck pipeline selected). events v))
        (orderStages pipeline)"
proof (intro conjI)
  show st: "map ps_stage (orderStages pipeline) = PIPELINE_STAGE_ORDER"
  proof -
    have "ps_stage (case byName pipeline n of Some s \<Rightarrow> s | None \<Rightarrow> silent_stage n) = n" for n
      by (auto simp: silent_stage_def split: option.split dest: byName_hit)
    then show ?thesis by (simp add: orderStages_def comp_def)
  qed
  then show "length (orderStages pipeline) = 16"
    by (simp add: orderStages_def PIPELINE_STAGE_ORDER_def)
  have each: "if List.member (map ps_stage pipeline) (ps_stage s) then List.member pipeline s
        else s = silent_stage (ps_stage s)" if s: "s \<in> set (orderStages pipeline)" for s
  proof -
    obtain n where n: "s = (case byName pipeline n of Some s \<Rightarrow> s | None \<Rightarrow> silent_stage n)"
      using s unfolding orderStages_def set_map by (elim imageE) (rule that)
    show ?thesis
    proof (cases "byName pipeline n")
      case None
      then show ?thesis using n byName_miss [of pipeline n] by (simp add: silent_stage_def)
    next
      case (Some s')
      then show ?thesis using n byName_hit [OF Some] by (auto simp: image_iff)
    qed
  qed
  show "list_all (\<lambda>s. if List.member (map ps_stage pipeline) (ps_stage s) then List.member pipeline s
        else s = silent_stage (ps_stage s)) (orderStages pipeline)"
    unfolding list_all_iff by (intro ballI) (rule each)
  show "list_all (\<lambda>s. OpenStage s \<in> (\<Union>v \<in> set (PipelineRail mounted ck pipeline selected). events v))
        (orderStages pipeline)"
    by (simp add: list_all_iff events_PipelineRail)
qed

end
