(* ===== verification/Widgets.thy ===== *)
theory Widgets
  imports Data
begin

text \<open>
  The remaining shared components: links, the loading placeholders of \<open>ui/skeleton.tsx\<close>, the tables
  of \<open>ui/table.tsx\<close>, the tabs of \<open>ui/tabs.tsx\<close> with their keyboard behaviour, the trust dial of
  \<open>data/trust.tsx\<close> and the tooltip of \<open>charts/exposure-chart.tsx\<close>. The drawing itself (the arc of the
  dial, the plotted areas) is not modelled.
\<close>

subsection \<open>Links and placeholders\<close>

text \<open>\<open>next/link\<close>: an anchor; following it is the browser's and the router's work.\<close>

definition Link :: "string \<Rightarrow> 'e node list \<Rightarrow> 'e node" where
  "Link href children = El ''a'' [Attr ''href'' href] children"

definition Skeleton :: "'e node" where
  "Skeleton = El ''div'' [Attr ''aria-hidden'' ''true''] []"

definition SkeletonRows :: "nat \<Rightarrow> nat \<Rightarrow> 'e node list" where
  "SkeletonRows rows cols = replicate rows (El ''tr'' [] (replicate cols (El ''td'' [] [Skeleton])))"

subsection \<open>Tables\<close>

definition TableWrap :: "'e node list \<Rightarrow> 'e node" where "TableWrap children = El ''div'' [] children"
definition Table :: "'e node list \<Rightarrow> 'e node" where "Table children = El ''table'' [] children"
definition TableHeader :: "'e node list \<Rightarrow> 'e node" where "TableHeader children = El ''thead'' [] children"
definition TableBody :: "'e node list \<Rightarrow> 'e node" where "TableBody children = El ''tbody'' [] children"
definition TableRow :: "'e node list \<Rightarrow> 'e node" where "TableRow children = El ''tr'' [] children"
definition TableHead :: "'e node list \<Rightarrow> 'e node" where
  "TableHead children = El ''th'' [Attr ''scope'' ''col''] children"
definition TableCell :: "'e node list \<Rightarrow> 'e node" where "TableCell children = El ''td'' [] children"
definition TableCaption :: "'e node list \<Rightarrow> 'e node" where
  "TableCaption children = El ''caption'' [] children"

subsection \<open>Tabs\<close>

text \<open>
  The value of \<open>Tabs\<close>: the caller's, when it controls it, or the component's own state.
  \<open>setValue\<close> writes the state only when the component owns it and reports the value either way.
\<close>

definition tabs_value :: "string option \<Rightarrow> string \<Rightarrow> string" where
  "tabs_value controlled uncontrolled = (case controlled of Some v \<Rightarrow> v | None \<Rightarrow> uncontrolled)"

definition tabs_initial :: "string option \<Rightarrow> string" where
  "tabs_initial defaultValue = (case defaultValue of Some v \<Rightarrow> v | None \<Rightarrow> [])"

definition tabs_setValue :: "string option \<Rightarrow> string \<Rightarrow> string \<Rightarrow> string \<times> string" where
  "tabs_setValue controlled next_value uncontrolled =
     (if controlled = None then next_value else uncontrolled, next_value)"

text \<open>The remainder \<open>%\<close> of JavaScript on integers: its sign is the dividend's.\<close>

definition js_rem :: "int \<Rightarrow> int \<Rightarrow> int" where
  "js_rem a b = (if a < 0 then - ((- a) mod b) else a mod b)"

text \<open>
  A key on the tab list with \<open>n\<close> tabs while the focused element is the \<open>current\<close>-th of them, or none
  of them (\<open>-1\<close>): the index focused and clicked, or nothing.
\<close>

datatype tab_key = ArrowLeft | ArrowRight | Home | EndKey | OtherTabKey

definition tabs_key_down :: "nat \<Rightarrow> int \<Rightarrow> tab_key \<Rightarrow> int option" where
  "tabs_key_down n current k =
     (if k = OtherTabKey then None
      else if n = 0 then None
      else Some (case k of
          Home \<Rightarrow> 0
        | EndKey \<Rightarrow> int n - 1
        | ArrowLeft \<Rightarrow> js_rem (current - 1 + int n) (int n)
        | _ \<Rightarrow> js_rem (current + 1) (int n)))"

definition TabsList :: "'e node list \<Rightarrow> 'e node" where
  "TabsList children = El ''div'' [Attr ''role'' ''tablist''] children"

definition TabsTrigger :: "string \<Rightarrow> string \<Rightarrow> string \<Rightarrow> (string \<Rightarrow> 'e) \<Rightarrow> 'e node list \<Rightarrow> 'e node" where
  "TabsTrigger baseId active value setValue children =
     (let selected = (active = value) in
      El ''button'' [Attr ''type'' ''button'', Attr ''role'' ''tab'', Attr ''id'' (baseId @ ''-tab-'' @ value),
          Attr ''aria-selected'' (bool_text selected), Attr ''aria-controls'' (baseId @ ''-panel-'' @ value),
          Attr ''tabindex'' (if selected then ''0'' else ''-1''), OnClick (setValue value)] children)"

definition TabsContent :: "string \<Rightarrow> string \<Rightarrow> string \<Rightarrow> 'e node list \<Rightarrow> 'e node list" where
  "TabsContent baseId active value children =
     (if active \<noteq> value then []
      else [El ''div'' [Attr ''role'' ''tabpanel'', Attr ''id'' (baseId @ ''-panel-'' @ value),
          Attr ''aria-labelledby'' (baseId @ ''-tab-'' @ value), Attr ''tabindex'' ''0''] children])"

text \<open>A key on the list of an uncontrolled \<open>Tabs\<close>: focus moves to a tab, and clicking it selects it.\<close>

definition tabs_key :: "string list \<Rightarrow> int \<times> string \<Rightarrow> tab_key \<Rightarrow> int \<times> string" where
  "tabs_key vs st k = (case tabs_key_down (length vs) (fst st) k of
     None \<Rightarrow> st
   | Some i \<Rightarrow> (i, fst (tabs_setValue None (vs ! nat i) (snd st))))"

definition panels :: "string \<Rightarrow> string \<Rightarrow> (string \<Rightarrow> 'e node list) \<Rightarrow> string list \<Rightarrow> 'e node list" where
  "panels baseId active content vs = concat (map (\<lambda>v. TabsContent baseId active v (content v)) vs)"

subsection \<open>The trust dial\<close>

definition trust_tone :: "jsnum \<Rightarrow> BadgeTone" where
  "trust_tone bounded = (if num_le (Fin 75) bounded then positive
     else if num_le (Fin 50) bounded then caution else critical)"

definition TrustScore :: "jsnum \<Rightarrow> 'e node" where
  "TrustScore score = (let bounded = clamp_100 score in
     El ''span'' [] [El ''svg'' [Attr ''aria-hidden'' ''true'', Attr ''tone'' (tone_text (trust_tone bounded))] [],
       El ''span'' [Attr ''tone'' (tone_text (trust_tone bounded))] [Txt (to_string (math_round bounded))]])"

definition TrustScoreLabel :: "'e node" where
  "TrustScoreLabel = El ''span'' [] [Txt ''Trust score'',
     InfoHint (''Computed deterministically from task success, repayment record, policy violations and identity age. '' @
       ''New agents start at a neutral 50. No AI model contributes to this number.'')]"

subsection \<open>The exposure chart\<close>

definition SERIES :: "(string \<times> string) list" where
  "SERIES = [(''approved_minor'', ''Approved''), (''utilized_minor'', ''Drawn''), (''repaid_minor'', ''Repaid'')]"

text \<open>What the chart library hands the tooltip: a data key, if any, as text or number, and its value.\<close>

datatype data_key = KeyText string | KeyNumber jsnum | NoKey

fun key_text :: "data_key \<Rightarrow> string" where
  "key_text (KeyText s) = s"
| "key_text (KeyNumber n) = to_string n"
| "key_text NoKey = ''undefined''"

fun series_label :: "data_key \<Rightarrow> string" where
  "series_label (KeyText s) = (case map_of SERIES s of Some l \<Rightarrow> l | None \<Rightarrow> s)"
| "series_label k = key_text k"

definition ChartTooltip :: "clock \<Rightarrow> bool option \<Rightarrow> (data_key \<times> jsnum option) list option \<Rightarrow> Timestamp option
    \<Rightarrow> 'e node list" where
  "ChartTooltip ck active payload label =
     (case payload of None \<Rightarrow> []
      | Some entries \<Rightarrow> if active \<noteq> Some True \<or> entries = [] then []
          else [El ''div'' [] [para (dateOf (ck_host ck) label),
            El ''dl'' [] (map (\<lambda>(k, v). El ''div'' []
              [El ''span'' [Attr ''aria-hidden'' ''true''] [],
               El ''dt'' [] [Txt (series_label k)], El ''dd'' [] [Txt (money v)]]) entries)]])"

text \<open>
  The chart library is a parameter: \<open>plot\<close> draws the areas from the labelled series, each with
  the values it reads from the points, and the axis formats.
\<close>

fun series_value :: "string \<Rightarrow> ExposurePoint \<Rightarrow> Money" where
  "series_value k p = (if k = ''approved_minor'' then ep_approved_minor p
     else if k = ''utilized_minor'' then ep_utilized_minor p else ep_repaid_minor p)"

definition x_tick :: "clock \<Rightarrow> string \<Rightarrow> string" where
  "x_tick ck d = take 6 (dateOf (ck_host ck) (Some d))"

definition y_tick :: "jsnum \<Rightarrow> string" where "y_tick v = moneyCompact (Some v)"

definition ExposureChart :: "((string \<times> (string \<times> Money) list) list \<Rightarrow> 'e node) \<Rightarrow> ExposurePoint list \<Rightarrow> 'e node" where
  "ExposureChart plot data =
     (if data = [] then EmptyState ''No exposure history yet''
        (Some ''Once credit is approved and drawn, the daily position will be plotted here.'') ''Inbox'' []
      else El ''div'' [] [plot (map (\<lambda>(k, l). (l, map (\<lambda>p. (ep_date p, series_value k p)) data)) SERIES)])"

text \<open>\<open>Math.max\<close> of two numbers; of two zeros the positive one.\<close>

definition math_max :: "jsnum \<Rightarrow> jsnum \<Rightarrow> jsnum" where
  "math_max a b = (if a = NaN \<or> b = NaN then NaN else if num_lt a b then b else if num_lt b a then a
     else if num_neg a then b else a)"

subsection \<open>Lemmas\<close>

lemma events_Link [simp]: "events (Link h ks) = (\<Union>k \<in> set ks. events k)"
  by (simp add: Link_def)

lemma events_Skeleton [simp]: "events Skeleton = {}"
  by (simp add: Skeleton_def)

lemma events_tables [simp]:
  "events (TableWrap ks) = (\<Union>k \<in> set ks. events k)" "events (Table ks) = (\<Union>k \<in> set ks. events k)"
  "events (TableHeader ks) = (\<Union>k \<in> set ks. events k)" "events (TableBody ks) = (\<Union>k \<in> set ks. events k)"
  "events (TableRow ks) = (\<Union>k \<in> set ks. events k)" "events (TableHead ks) = (\<Union>k \<in> set ks. events k)"
  "events (TableCell ks) = (\<Union>k \<in> set ks. events k)"
  by (simp_all add: TableWrap_def Table_def TableHeader_def TableBody_def TableRow_def TableHead_def TableCell_def)

lemma tabs_key_down_range:
  assumes "tabs_key_down n current k = Some i" and "-1 \<le> current" and "current < int n"
  shows "0 \<le> i \<and> i < int n"
proof -
  have n: "0 < n" using assms(1) by (cases "n = 0") (simp_all add: tabs_key_down_def split: if_splits)
  have left: "0 \<le> js_rem (current - 1 + int n) (int n) \<and> js_rem (current - 1 + int n) (int n) < int n"
  proof (cases "current - 1 + int n < 0")
    case True
    then have "n = 1" and "current = -1" using n assms(2) by linarith+
    then show ?thesis by (simp add: js_rem_def)
  next
    case False
    then show ?thesis using n by (simp add: js_rem_def)
  qed
  have right: "0 \<le> js_rem (current + 1) (int n) \<and> js_rem (current + 1) (int n) < int n"
    using n assms(2) by (simp add: js_rem_def)
  show ?thesis
    using assms(1) n left right by (cases k) (auto simp: tabs_key_down_def)
qed

text \<open>
  Tabs under the keyboard: whatever keys are pressed while focus is on a tab or elsewhere in the
  list, the focused tab is the selected one, exactly one panel is shown, and it is that tab's.
\<close>

theorem tabs_one_panel:
  assumes "distinct vs" and "i < length vs"
    and run: "foldl (tabs_key vs) (int i, vs ! i) ks = (j, v)"
  shows "0 \<le> j \<and> j < int (length vs) \<and> v = vs ! nat j
    \<and> panels baseId v content vs = TabsContent baseId v v (content v)"
proof -
  have step: "0 \<le> fst (tabs_key vs st k) \<and> fst (tabs_key vs st k) < int (length vs)
      \<and> snd (tabs_key vs st k) = vs ! nat (fst (tabs_key vs st k))"
    if "0 \<le> fst st \<and> fst st < int (length vs) \<and> snd st = vs ! nat (fst st)" for st k
  proof (cases "tabs_key_down (length vs) (fst st) k")
    case None
    then show ?thesis using that by (simp add: tabs_key_def)
  next
    case (Some n)
    then have "0 \<le> n \<and> n < int (length vs)" using tabs_key_down_range [OF Some] that by simp
    then show ?thesis using Some by (simp add: tabs_key_def tabs_setValue_def)
  qed
  have inv: "0 \<le> fst (foldl (tabs_key vs) st ks) \<and> fst (foldl (tabs_key vs) st ks) < int (length vs)
      \<and> snd (foldl (tabs_key vs) st ks) = vs ! nat (fst (foldl (tabs_key vs) st ks))"
    if "0 \<le> fst st \<and> fst st < int (length vs) \<and> snd st = vs ! nat (fst st)" for st
    using that
  proof (induction ks arbitrary: st)
    case (Cons k ks)
    show ?case using Cons.IH [OF step [OF Cons.prems]] by simp
  qed simp
  have jv: "0 \<le> j \<and> j < int (length vs) \<and> v = vs ! nat j"
    using inv [of "(int i, vs ! i)"] assms(2) by (simp add: run)
  then have v: "v \<in> set vs" by (auto intro!: nth_mem)
  have one: "concat (map (\<lambda>w. if v \<noteq> w then [] else f w) ws) = (if v \<in> set ws then f v else [])"
    if "distinct ws" for ws and f :: "string \<Rightarrow> 'b list"
    using that by (induction ws) auto
  have "panels baseId v content vs = TabsContent baseId v v (content v)"
    using one [OF assms(1), of "\<lambda>w. TabsContent baseId w w (content w)"] v
    by (simp add: panels_def TabsContent_def if_distrib cong: if_cong)
  then show ?thesis using jv by blast
qed

theorem tabs_one_panel_witness:
  "foldl (tabs_key [''credit'', ''work'', ''audit'']) (0, ''credit'') [ArrowLeft, OtherTabKey, ArrowLeft]
     = (1, ''work'')
   \<and> panels ''r1'' ''work'' (\<lambda>v. [Txt v]) [''credit'', ''work'', ''audit'']
     = (TabsContent ''r1'' ''work'' ''work'' [Txt ''work''] :: unit node list)"
proof -
  have r: "foldl (tabs_key [''credit'', ''work'', ''audit'']) (0, ''credit'') [ArrowLeft, OtherTabKey, ArrowLeft]
     = (1, ''work'')" by code_simp
  show ?thesis
    using tabs_one_panel [of "[''credit'', ''work'', ''audit'']" 0 "[ArrowLeft, OtherTabKey, ArrowLeft]" 1 "''work''"
        "''r1''" "\<lambda>v. [Txt v :: unit node]"] r by simp
qed

end
