(* ===== verification/Intelligence.thy ===== *)
theory Intelligence
  imports Telemetry Widgets Forms
begin

text \<open>
  \<open>frontend/app/(product)/system-intelligence/page.tsx\<close>: the telemetry page. Its state is the time
  window, whether it refreshes on its own, and the pipeline stage that is open; its figures are the
  answer of \<open>useSystemIntelligence\<close>.
\<close>

subsection \<open>Vocabulary\<close>

definition WINDOWS :: "SystemIntelligenceWindow list" where
  "WINDOWS = [W_1h, W_24h, W_7d, W_30d]"

definition REFRESH_INTERVAL_MS :: jsnum where "REFRESH_INTERVAL_MS = Fin 15000"

definition SCORE_HINT :: string where
  "SCORE_HINT = ''A weighted composite: 20% identity verification + 20% decision agreement + 20% evidence '' @
     ''grounding + 15% hallucination containment + 15% adversarial block rate + 10% repayment '' @
     ''invariant. It is a system assurance measure, not a guarantee of loan repayment, and it '' @
     ''exists only when all six components come from a real evaluation run.''"

definition NAV_SECTIONS :: "(string \<times> string) list" where
  "NAV_SECTIONS = [
     (''assurance'', ''Assurance''), (''pipeline'', ''Decision pipeline''), (''ai-quality'', ''AI quality''),
     (''models'', ''Models''), (''credit-engine'', ''Credit engine''), (''financial-safety'', ''Financial safety''),
     (''repayment'', ''Repayment''), (''service-health'', ''Service health''),
     (''fail-closed'', ''Fail-closed events''), (''infrastructure'', ''Infrastructure'')]"

record assurance_component =
  asc_key :: "AssuranceComponents \<Rightarrow> MetricEnvelope"
  asc_label :: string
  asc_weight :: string
  asc_hint :: "string option"

definition ASSURANCE_COMPONENTS :: "assurance_component list" where
  "ASSURANCE_COMPONENTS = [
     \<lparr>asc_key = ac_identity_verification_accuracy, asc_label = ''Identity verification accuracy'',
       asc_weight = ''20%'', asc_hint = None\<rparr>,
     \<lparr>asc_key = ac_underwriting_decision_agreement, asc_label = ''Underwriting decision agreement'',
       asc_weight = ''20%'',
       asc_hint = Some (''AI recommendation direction versus the deterministic outcome, on evaluated cases only. '' @
         ''It is never a live approval rate relabelled as accuracy.'')\<rparr>,
     \<lparr>asc_key = ac_evidence_grounding_rate, asc_label = ''Evidence grounding rate'',
       asc_weight = ''20%'', asc_hint = None\<rparr>,
     \<lparr>asc_key = ac_hallucination_containment_rate, asc_label = ''Hallucination containment rate'',
       asc_weight = ''15%'',
       asc_hint = Some (''An INSUFFICIENT_EVIDENCE reply counts toward containment, not against it '' @ [EM_DASH] @
         '' declining to invent is the system working.'')\<rparr>,
     \<lparr>asc_key = ac_adversarial_policy_block_rate, asc_label = ''Adversarial policy block rate'',
       asc_weight = ''15%'', asc_hint = None\<rparr>,
     \<lparr>asc_key = ac_repayment_invariant_pass_rate, asc_label = ''Repayment invariant pass rate'',
       asc_weight = ''10%'', asc_hint = None\<rparr>]"

fun HEALTH_TONE :: "ServiceHealthStatus \<Rightarrow> BadgeTone" where
  "HEALTH_TONE S_healthy = positive"
| "HEALTH_TONE S_degraded = caution"
| "HEALTH_TONE S_down = critical"
| "HEALTH_TONE S_idle = outline"
| "HEALTH_TONE S_not_connected = outline"

fun HEALTH_LABEL :: "ServiceHealthStatus \<Rightarrow> string" where
  "HEALTH_LABEL S_healthy = ''Healthy''"
| "HEALTH_LABEL S_degraded = ''Degraded''"
| "HEALTH_LABEL S_down = ''Down''"
| "HEALTH_LABEL S_idle = ''Idle''"
| "HEALTH_LABEL S_not_connected = ''Not connected''"

text \<open>Every declared component has a label, so the fallback \<open>humanise(component)\<close> is never taken.\<close>

fun COMPONENT_LABEL :: "ServiceHealthComponent \<Rightarrow> string" where
  "COMPONENT_LABEL C_api = ''API''"
| "COMPONENT_LABEL C_database = ''Database''"
| "COMPONENT_LABEL C_opa = ''Policy engine (OPA)''"
| "COMPONENT_LABEL C_model_runtime = ''Model runtime''"

subsection \<open>State and controls\<close>

record si_page =
  pg_timeWindow :: SystemIntelligenceWindow
  pg_live :: bool
  pg_selected :: "PipelineStage option"

definition si_initial :: si_page where
  "si_initial = \<lparr>pg_timeWindow = W_24h, pg_live = True, pg_selected = None\<rparr>"

datatype si_event = SetWindow SystemIntelligenceWindow | ToggleLive | Refetch | RailEvent rail_event

text \<open>The query the page asks for, and the calls an event makes besides (a refetch).\<close>

definition si_query :: "si_page \<Rightarrow> query" where
  "si_query s = useSystemIntelligence (pg_timeWindow s)
     \<lparr>o_enabled = None, o_refetchInterval = (if pg_live s then Some REFRESH_INTERVAL_MS else None)\<rparr>"

fun si_handle :: "si_event \<Rightarrow> si_page \<Rightarrow> si_page" where
  "si_handle (SetWindow w) s = s\<lparr>pg_timeWindow := w\<rparr>"
| "si_handle ToggleLive s = s\<lparr>pg_live := \<not> pg_live s\<rparr>"
| "si_handle Refetch s = s"
| "si_handle (RailEvent e) s = s\<lparr>pg_selected := rail_handle e (pg_selected s)\<rparr>"

fun si_calls :: "si_event \<Rightarrow> si_page \<Rightarrow> call list" where
  "si_calls Refetch s = [qy_call (si_query s)]"
| "si_calls _ s = []"

text \<open>The open stage is the state of \<open>PipelineRail\<close>, which is lost when the rail is not rendered.\<close>

definition rail_shown :: "'a query_result \<Rightarrow> bool" where
  "rail_shown q \<longleftrightarrow> \<not> qr_pending q \<and> qr_error q = None"

definition si_rendered :: "'a query_result \<Rightarrow> si_page \<Rightarrow> si_page" where
  "si_rendered q s = (if rail_shown q then s else s\<lparr>pg_selected := None\<rparr>)"

definition WindowSelector :: "SystemIntelligenceWindow \<Rightarrow> si_event node" where
  "WindowSelector value = El ''div'' [Attr ''role'' ''group'', Attr ''aria-label'' ''Time window'']
     (map (\<lambda>w. El ''button'' [Attr ''type'' ''button'', OnClick (SetWindow w),
         Attr ''aria-pressed'' (bool_text (value = w))] [Txt (window_text w)]) WINDOWS)"

definition SectionNav :: "'e node" where
  "SectionNav = El ''nav'' [Attr ''aria-label'' ''Page sections'']
     [El ''div'' [] [para ''On this page'',
       El ''ul'' [] (map (\<lambda>(i, l). El ''li'' [] [Link (CHR ''#'' # i) [Txt l]]) NAV_SECTIONS)]]"

definition PageSkeleton :: "'e node" where
  "PageSkeleton = El ''div'' [Attr ''role'' ''status'', Attr ''aria-label'' ''Loading system intelligence'']
     [El ''div'' [] (replicate 6 (Card [CardContent [LoadingBlock 2]])),
      Card [CardContent [LoadingBlock 5]],
      Card [CardContent [LoadingBlock 4]]]"

subsection \<open>The figures at the top\<close>

definition KpiCard :: "string \<Rightarrow> 'e node list \<Rightarrow> 'e node" where
  "KpiCard href children = El ''a'' [Attr ''href'' href] [Card [CardContent children]]"

record health_rollup =
  hr_label :: string
  hr_tone :: string
  hr_icon :: "string option"
  hr_healthyCount :: nat

definition rollupHealth :: "ServiceHealthEntry list \<Rightarrow> health_rollup" where
  "rollupHealth entries =
     (let healthyCount = length (filter (\<lambda>e. sh_status e = S_healthy) entries) in
      if length entries = 0 then
        \<lparr>hr_label = ''No probes'', hr_tone = ''faint'', hr_icon = None, hr_healthyCount = healthyCount\<rparr>
      else if list_ex (\<lambda>e. sh_status e = S_down) entries then
        \<lparr>hr_label = ''Component down'', hr_tone = ''critical'', hr_icon = Some ''XCircle'', hr_healthyCount = healthyCount\<rparr>
      else if list_ex (\<lambda>e. sh_status e = S_degraded) entries then
        \<lparr>hr_label = ''Degraded'', hr_tone = ''caution'', hr_icon = None, hr_healthyCount = healthyCount\<rparr>
      else if list_ex (\<lambda>e. sh_status e = S_not_connected \<or> sh_status e = S_idle) entries then
        \<lparr>hr_label = ''Partial telemetry'', hr_tone = ''muted'', hr_icon = None, hr_healthyCount = healthyCount\<rparr>
      else
        \<lparr>hr_label = ''All healthy'', hr_tone = ''positive'', hr_icon = Some ''CheckCircle2'', hr_healthyCount = healthyCount\<rparr>)"

text \<open>\<open>sampleNote(e) ?? d\<close> as the line under a figure.\<close>

definition sample_or :: "MetricEnvelope \<Rightarrow> string \<Rightarrow> 'e node list" where
  "sample_or e d = [Txt (case sampleNote (Some e) of Some s \<Rightarrow> s | None \<Rightarrow> d)]"

definition sample_line :: "MetricEnvelope \<Rightarrow> 'e node list" where
  "sample_line e = some_node (\<lambda>s. [Txt s]) (sampleNote (Some e))"

text \<open>The assurance score, out of 100 or absent with the caller's explanation.\<close>

definition score_value :: "MetricEnvelope \<Rightarrow> string \<Rightarrow> 'e node" where
  "score_value score detail =
     (if envelopeOk (Some score)
      then El ''span'' [] [EnvelopeValue plain (Some score), El ''span'' [] [Txt '' / 100'']]
      else EnvelopeValue (plain\<lparr>ep_absentText := Some ''Not enough evaluated cases'', ep_detail := Some detail\<rparr>)
        (Some score))"

definition verdict :: "bool \<Rightarrow> string \<Rightarrow> string \<Rightarrow> 'e node" where
  "verdict b yes no = El ''span'' (if b then [] else [Attr ''tone'' ''critical'']) [Txt (if b then yes else no)]"

definition KpiGrid :: "clock \<Rightarrow> SystemIntelligence \<Rightarrow> 'e node" where
  "KpiGrid ck data =
     (let score = si_assu_score (si_assurance data); components = si_assu_components (si_assurance data);
          summary = si_summary data; health = rollupHealth (si_service_health data) in
      El ''div'' [] [
        KpiCard ''#assurance'' [Metric ''System assurance''
          [score_value score (''The score is computed only when every component metric comes from a completed evaluation run '' @
             [EM_DASH] @ '' it is never estimated or hardcoded.'')]
          (Some SCORE_HINT)
          [Txt (case si_assu_last_evaluation_run_at (si_assurance data) of
             None \<Rightarrow> ''no evaluation run recorded''
           | Some t \<Rightarrow> ''last evaluation run '' @ ago ck (Some t))] None],
        KpiCard ''#pipeline'' [Metric ''Requests processed''
          [EnvelopeValue labelled (Some (si_summ_requests_processed summary))]
          (Some (''The three figures below partition this total by final outcome: an application referred to a human '' @
             ''and then approved is counted once, under approved.''))
          [El ''span'' [] [EnvelopeValue plain (Some (si_summ_approvals summary)),
             Txt ('' approved '' @ [MIDDOT] @ '' ''),
             EnvelopeValue plain (Some (si_summ_controlled_rejections summary)),
             Txt ('' controlled rejections '' @ [MIDDOT] @ '' ''),
             EnvelopeValue plain (Some (si_summ_human_reviews summary)), Txt '' awaiting human review'']] None],
        KpiCard ''#ai-quality'' [Metric ''Evidence grounding''
          [EnvelopeValue labelled (Some (ac_evidence_grounding_rate components))]
          (Some ''Share of model claims that trace to stored evidence, from evaluated cases only.'')
          (sample_or (ac_evidence_grounding_rate components) ''no evaluated sample in this window'') None],
        KpiCard ''#financial-safety'' [Metric ''Financial safety''
          [EnvelopeValue (labelled\<lparr>ep_compact := True\<rparr>) (Some (si_summ_prevented_exposure_minor summary))]
          (Some (''The summed value of spend attempts the deterministic controls refused in this window. '' @
             ''Computed from real blocked transactions '' @ [EM_DASH] @ '' never estimated.''))
          [El ''span'' [] [EnvelopeValue plain (Some (si_summ_blocked_attempts summary)), Txt '' attempts blocked'']] None],
        KpiCard ''#repayment'' [Metric ''Repayment integrity''
          [EnvelopeValue labelled (Some (ac_repayment_invariant_pass_rate components))]
          (Some (''Share of repayment waterfall runs whose conservation invariant held, '' @
             ''verified against the double-entry ledger.''))
          [El ''span'' [] [
             verdict (si_repa_ledger_balanced (si_repayment data)) ''ledger balanced'' ''ledger imbalanced'',
             Txt ('' '' @ [MIDDOT] @ '' ''),
             verdict (si_repa_audit_chain_intact (si_repayment data)) ''audit chain intact'' ''audit chain broken'']] None],
        KpiCard ''#service-health'' [Metric ''Platform health''
          [El ''span'' [Attr ''tone'' (hr_tone health)]
             (some_node (\<lambda>i. [icon i]) (hr_icon health) @ [Txt (hr_label health)])]
          (Some (''Rolled up from the service'' @ [APOS] @ ''s own health probes. '' @
             ''A component is never shown healthy without a real check behind it.''))
          [Txt (if length (si_service_health data) = 0 then ''no probes reporting''
             else Format.count (Some (num_of_int (int (hr_healthyCount health)))) @ '' of '' @
               Format.count (Some (num_of_int (int (length (si_service_health data))))) @ '' components healthy'')] None]])"

subsection \<open>The sections\<close>

definition MetricRow :: "string \<Rightarrow> string option \<Rightarrow> MetricEnvelope \<Rightarrow> 'e node" where
  "MetricRow label hint envelope =
     Row label hint [El ''span'' [] (EnvelopeValue plain (Some envelope) # sample_span (Some envelope))]"

definition assurance_tile :: "AssuranceComponents \<Rightarrow> assurance_component \<Rightarrow> 'e node" where
  "assurance_tile components c =
     (let envelope = asc_key c components in
      El ''div'' [] ([
        El ''div'' [] [El ''span'' [] (Txt (asc_label c) # some_node (\<lambda>h. [InfoHint h]) (asc_hint c)),
          El ''span'' [] [Txt (asc_weight c)]],
        El ''div'' [] [EnvelopeValue labelled (Some envelope)]]
        @ some_node (\<lambda>s. [El ''div'' [] [Txt s]]) (sampleNote (Some envelope))))"

definition AssuranceSection :: "clock \<Rightarrow> SystemIntelligence \<Rightarrow> 'e node" where
  "AssuranceSection ck data =
     (let score = si_assu_score (si_assurance data) in
      Section (Some ''assurance'') (Some ''System Assurance'')
        (Some ''Six weighted components, each computed from real evaluated cases or honestly absent.'') []
        [Card [
          CardHeader [icon ''Gauge'',
            CardTitle [El ''span'' [] [Txt ''Assurance score'', InfoHint SCORE_HINT]],
            CardDescription [Txt ''A system assurance measure, not a guarantee of loan repayment.'']],
          CardContent [
            El ''div'' [] [
              El ''div'' [] [score_value score (''The score exists only when all six components are ok. It is never estimated, '' @
                ''never hardcoded, and never shown from a partial evaluation.'')],
              El ''span'' [] [Txt ''Last evaluation run: '',
                Txt (case si_assu_last_evaluation_run_at (si_assurance data) of
                   None \<Rightarrow> ''none recorded''
                 | Some t \<Rightarrow> ago ck (Some t) @ '' ('' @ stamp ck (Some t) @ '')'')]],
            El ''div'' [] (map (assurance_tile (si_assu_components (si_assurance data))) ASSURANCE_COMPONENTS),
            para (''A component reading '' @ [LDQUO] @ ''not evaluated'' @ [RDQUO] @ '' or '' @ [LDQUO] @
              ''insufficient sample'' @ [RDQUO] @ '' is telling the truth: no evaluation run has produced that figure yet. '' @
              ''This page never displays unavailable data as zero.'')]]])"

definition PipelineSection :: "bool \<Rightarrow> clock \<Rightarrow> SystemIntelligence \<Rightarrow> PipelineStage option \<Rightarrow> rail_event node" where
  "PipelineSection mounted ck data selected =
     Section (Some ''pipeline'') (Some ''Live Credit Decision Pipeline'')
       (Some (''Sixteen stages in fixed order. Click a stage for its full telemetry. '' @
          ''A stage with no recorded telemetry says so '' @ [EM_DASH] @ '' it does not claim zeros.''))
       [El ''span'' [] [Txt ''Success rate '', EnvelopeValue plain (Some (si_summ_pipeline_success_rate (si_summary data))),
          Txt ('' '' @ [MIDDOT] @ '' True errors ''), EnvelopeValue plain (Some (si_summ_true_errors (si_summary data)))]]
       (PipelineRail mounted ck (si_pipeline data) selected)"

definition AiQualitySection :: "SystemIntelligence \<Rightarrow> 'e node" where
  "AiQualitySection data =
     (let q = si_ai_quality data in
      Section (Some ''ai-quality'') (Some ''AI quality'')
        (Some (''How the bounded model behaved '' @ [EM_DASH] @ '' including the times it correctly refused to answer.'')) []
        [Card [CardContent [
          Metric ''Structured output validity''
            [EnvelopeValue labelled (Some (si_aq_structured_output_validity q))]
            (Some ''Share of model replies that parsed against the required schema on the first attempt.'')
            (sample_line (si_aq_structured_output_validity q)) None,
          Metric ''Verifier disagreement''
            [EnvelopeValue labelled (Some (si_aq_verifier_disagreement_rate q))]
            (Some (''How often the independent verifier contradicted the analyst'' @ [APOS] @ ''s claims. '' @
               ''Disagreement is the check working, not the system failing.''))
            (sample_line (si_aq_verifier_disagreement_rate q)) None,
          Metric ''Model fallback''
            [EnvelopeValue labelled (Some (si_aq_model_fallback_rate q))]
            (Some ''Share of requests where the primary model was unavailable and a fallback path ran instead.'')
            (sample_line (si_aq_model_fallback_rate q)) None,
          Metric ''Evidence refusals''
            [EnvelopeValue labelled (Some (si_aq_insufficient_evidence_responses q))]
            (Some (''Times the model returned INSUFFICIENT_EVIDENCE instead of guessing. Each one is successful containment '' @
               [EM_DASH] @ '' the system declining to invent '' @ [EM_DASH] @
               '' and counts toward hallucination containment, not against it.''))
            [Txt ''successful containment, not failure''] None]]])"

definition model_name :: "string \<Rightarrow> string option \<Rightarrow> 'e node" where
  "model_name missing m = (case m of
     None \<Rightarrow> EnvelopeValue (labelled\<lparr>ep_detail := Some missing\<rparr>) None
   | Some n \<Rightarrow> Mono [Txt n])"

definition ModelsSection :: "SystemIntelligence \<Rightarrow> 'e node" where
  "ModelsSection data =
     (let m = si_models data; calls = si_mode_external_llm_api_calls m in
      Section (Some ''models'') (Some ''Models'')
        (Some (''Read from the running service'' @ [APOS] @ ''s configuration and telemetry, not asserted by this page.'')) []
        [Card [CardContent [Rows [
          Row ''Provider'' None [Mono [Txt (si_mode_provider m)]],
          Row ''Analyst model'' None [model_name ''The runtime did not report an analyst model.'' (si_mode_analyst_model m)],
          Row ''Critic model'' None [model_name ''The runtime did not report a critic model.'' (si_mode_critic_model m)],
          Row ''External LLM API calls'' None [
            if envelopeOk (Some calls)
            then Tooltip ''Verified from configuration and telemetry, not hardcoded.''
              [Badge (case env_value calls of None \<Rightarrow> neutral | Some v \<Rightarrow> if num_eq v (Fin 0) then positive else neutral)
                [EnvelopeValue plain (Some calls), Txt ''external calls'']]
            else EnvelopeValue (labelled\<lparr>ep_detail := Some (''This figure is only ever shown when it can be verified from '' @
              ''configuration and telemetry '' @ [EM_DASH] @ '' it is never hardcoded, so an unverifiable zero is not claimed.'')\<rparr>)
              (Some calls)]]]]])"

definition CreditEngineSection :: "SystemIntelligence \<Rightarrow> 'e node" where
  "CreditEngineSection data =
     (let e = si_credit_engine data in
      Section (Some ''credit-engine'') (Some ''Credit engine'')
        (Some (''The deterministic engine that actually decides. Observability only '' @ [EM_DASH] @
           '' nothing on this page can act on it.'')) []
        [Card [CardContent [Rows [
            Row ''Decision engine version'' None [Mono [Txt (si_ce_decision_version e)]],
            Row ''Scorecard version'' None [Mono [Txt (si_ce_scorecard_version e)]],
            MetricRow ''Decisions in window'' None (si_ce_decisions e),
            MetricRow ''Auto-approved'' None (si_ce_auto_approved e),
            MetricRow ''Auto-rejected''
              (Some ''Deterministic rejections are controlled outcomes, recorded with reason codes.'') (si_ce_auto_rejected e),
            MetricRow ''Referred to human'' None (si_ce_referred_to_human e)]],
          CardFooter [AuthorityNote]]])"

definition max_denials :: "PolicyDenialCount list \<Rightarrow> jsnum" where
  "max_denials denials = foldl (\<lambda>m d. math_max m (pdc_count d)) (Fin 0) denials"

definition denial_width :: "jsnum \<Rightarrow> PolicyDenialCount \<Rightarrow> jsnum" where
  "denial_width mx denial = (if num_lt (Fin 0) mx then num_mul (num_div (pdc_count denial) mx) (Fin 100) else Fin 0)"

definition FinancialSafetySection :: "SystemIntelligence \<Rightarrow> 'e node" where
  "FinancialSafetySection data =
     (let f = si_financial_safety data; denials = si_fs_policy_denials_by_code f; maxDenials = max_denials denials in
      Section (Some ''financial-safety'') (Some ''Financial safety'')
        (Some ''What the deterministic controls refused. A large number here is the system refusing, not failing.'') []
        [El ''div'' [] [
          Card [
            CardHeader [CardTitle [Txt ''Policy denials by code''],
              CardDescription [Txt ''Real counts from recorded policy decisions in this window.'']],
            CardContent [
              if denials = [] then EmptyState ''No policy denials in this window''
                (Some ''When the policy engine refuses a request, the refusal and its code are recorded here.'') ''Inbox'' []
              else El ''div'' [] (map (\<lambda>denial. El ''div'' [] [
                  El ''div'' [] [El ''span'' [] [Txt (pdc_code denial)],
                    El ''span'' [] [Txt (Format.count (Some (pdc_count denial)))]],
                  El ''div'' [] [El ''div'' [Attr ''width'' (to_string (denial_width maxDenials denial) @ ''%'')] []]])
                denials)]],
          Card [
            CardHeader [CardTitle [Txt ''Containment''],
              CardDescription [Txt ''Money and authority the controls took off the table.'']],
            CardContent [Rows [
              MetricRow ''Frozen vaults'' None (si_fs_frozen_vaults f),
              MetricRow ''Revoked agents'' None (si_fs_revoked_agents f),
              MetricRow ''Prevented exposure''
                (Some ''The summed value of blocked spend attempts. This money never left the platform.'')
                (si_fs_prevented_exposure_minor f)]]]]])"

definition verdict_icon :: "bool \<Rightarrow> string \<Rightarrow> string \<Rightarrow> 'e node" where
  "verdict_icon b yes no =
     (if b then El ''span'' [Attr ''tone'' ''positive''] [icon ''CheckCircle2'', Txt yes]
      else El ''span'' [Attr ''tone'' ''critical''] [icon ''XCircle'', Txt no])"

definition RepaymentSection :: "SystemIntelligence \<Rightarrow> 'e node" where
  "RepaymentSection data =
     (let r = si_repayment data in
      Section (Some ''repayment'') (Some ''Repayment'')
        (Some ''Waterfall runs and the conservation invariant, verified against the double-entry ledger.'') []
        [Card [CardContent [Rows [
          MetricRow ''Waterfall runs'' None (si_repa_waterfall_runs r),
          MetricRow ''Invariants checked''
            (Some (''Incoming revenue must equal principal + credit fee + platform fee + owner proceeds, '' @
               ''in integer arithmetic, on every run.'')) (si_repa_invariant_checked r),
          MetricRow ''Invariants passed'' None (si_repa_invariant_passed r),
          Row ''Ledger balanced'' (Some ''Verified live against the double-entry ledger, not assumed.'')
            [verdict_icon (si_repa_ledger_balanced r) '' Balanced'' '' Imbalanced''],
          Row ''Audit chain'' (Some (''Every critical financial event is SHA-256 chained to its predecessor and re-verified '' @
              ''by re-hashing the chain.''))
            [verdict_icon (si_repa_audit_chain_intact r) '' Intact'' '' Broken'']]]]])"

definition ServiceHealthSection :: "clock \<Rightarrow> SystemIntelligence \<Rightarrow> 'e node" where
  "ServiceHealthSection ck data =
     Section (Some ''service-health'') (Some ''Service health'')
       (Some (''From the service'' @ [APOS] @ ''s own probes '' @ [EM_DASH] @
          '' a page rendering does not make a component healthy.'')) []
       [Card [CardContent [
         if si_service_health data = [] then EmptyState ''No health probes reporting''
           (Some ''Component status appears only when a real probe has run. Nothing is assumed healthy.'') ''Inbox'' []
         else El ''div'' [] (map (\<lambda>entry. El ''div'' [] (
             [El ''div'' [] [El ''span'' [] [Txt (COMPONENT_LABEL (sh_component entry))],
                Badge (HEALTH_TONE (sh_status entry)) [Txt (HEALTH_LABEL (sh_status entry))]]]
             @ some_node (\<lambda>d. show_if (d \<noteq> []) [para d]) (sh_detail entry)
             @ [para (''Checked '' @ ago ck (Some (sh_checked_at entry)))])) (si_service_health data)),
         para (''A component is never shown healthy without a real probe behind it. Each status above '' @
           ''carries the timestamp of the check that produced it.'')]]]"

definition FailClosedSection :: "clock \<Rightarrow> SystemIntelligence \<Rightarrow> 'e node" where
  "FailClosedSection ck data =
     Section (Some ''fail-closed'') (Some ''Fail-closed events'')
       (Some (''When a dependency failed, the system refused to proceed rather than guess. '' @
          ''Those refusals are recorded here.'')) []
       [Card [CardContent [
         if si_fail_closed_events data = [] then EmptyState
           (''No fail-closed events in this window '' @ [EM_DASH] @ '' nothing needed to refuse'')
           (Some (''When a dependency fails, the system halts the affected action instead of proceeding on incomplete '' @
             ''information. Each such refusal would appear here.'')) ''ZapOff'' []
         else El ''ol'' [] (map (\<lambda>event. El ''li'' [] [
             El ''span'' [] [Txt (stamp ck (Some (fc_at event)))],
             El ''span'' [] [Txt (fc_component event)],
             El ''span'' [] [Txt (humanise (Some (fc_action event)))],
             El ''span'' [] [Txt (fc_detail event)]]) (si_fail_closed_events data))]]]"

definition InfrastructureSection :: "SystemIntelligence \<Rightarrow> 'e node" where
  "InfrastructureSection data =
     (let i = si_infrastructure data in
      Section (Some ''infrastructure'') (Some ''Infrastructure'')
        (Some ''Cost figures are only ever shown from a real billing export.'') []
        [Card [CardContent [
          if si_infr_billing_connected i then Rows [Row ''Billing'' None [Txt ''Connected'']]
          else EmptyState (if si_infr_note i \<noteq> [] then si_infr_note i else ''Billing data not connected'')
            (Some (''No billing source is configured in this deployment, so no cost figure exists. '' @
               ''This page does not estimate one.'')) ''Banknote'' []]]])"

subsection \<open>The page\<close>

definition not_deployed :: "failure option \<Rightarrow> bool" where
  "not_deployed error = (case error of
     Some (ApiFailure e) \<Rightarrow> ae_status e = 404 \<or> ae_status e = 501
   | _ \<Rightarrow> False)"

fun error_detail :: "failure \<Rightarrow> string" where
  "error_detail (ApiFailure e) = error_message (ApiFailure e) @
     (if 0 < ae_status e then '' (HTTP '' @ show_int (ae_status e) @ '', '' @ ae_code e @ '')'' else [])"
| "error_detail (OtherFailure m) = error_message (OtherFailure m)"

definition si_view :: "bool \<Rightarrow> clock \<Rightarrow> SystemIntelligence query_result \<Rightarrow> si_page \<Rightarrow> si_event node" where
  "si_view mounted ck query s = El ''div'' [] [
     PageHeader ''System Intelligence''
       (Some [El ''span'' [] (
          [Txt (''Windowed telemetry for the whole credit pipeline: what ran, what was refused on '' @
             ''purpose, and what cannot honestly be measured yet. '')]
          @ some_node (\<lambda>d. [El ''span'' [] [Txt ''Updated '', Txt (ago ck (Some (si_generated_at d))), Txt ''.'']])
              (qr_data query)
          @ [AuthorityNote])])
       [Badge caution [Txt (''Sandbox '' @ [EM_DASH] @ '' Test Credits'')],
        WindowSelector (pg_timeWindow s),
        El ''button'' [Attr ''type'' ''button'', Attr ''variant'' (variant_text Secondary),
            Attr ''aria-pressed'' (bool_text (pg_live s)),
            Attr ''title'' (if pg_live s then ''Auto-refresh is on: data refetches every 15 seconds.''
              else ''Auto-refresh is paused.''), OnClick ToggleLive]
          [if pg_live s then icon ''Pause'' else icon ''Play'', Txt (if pg_live s then ''Live'' else ''Paused'')],
        Button Secondary (qr_fetching query) Refetch [icon ''RefreshCw'', Txt ''Refresh'']],
     if qr_pending query then PageSkeleton
     else case qr_error query of
       Some error \<Rightarrow> Card [ErrorState
         (Some (if not_deployed (Some error) then ''The telemetry endpoint is not deployed in this environment yet''
            else ''System telemetry could not be loaded''))
         (Some (error_detail error)) (Some Refetch)]
     | None \<Rightarrow> (case qr_data query of
         None \<Rightarrow> El ''div'' [] []
       | Some d \<Rightarrow> El ''div'' [] [
           El ''div'' [] [
             KpiGrid ck d,
             AssuranceSection ck d,
             map_node RailEvent (PipelineSection mounted ck d (pg_selected s)),
             AiQualitySection d,
             ModelsSection d,
             CreditEngineSection d,
             FinancialSafetySection d,
             RepaymentSection d,
             ServiceHealthSection ck d,
             FailClosedSection ck d,
             InfrastructureSection d],
           SectionNav])]"

subsection \<open>What a user can do on the page\<close>

lemma events_score [simp]: "events (score_value e d) = {}"
  by (simp add: score_value_def)

lemma events_KpiCard [simp]: "events (KpiCard h ks) = (\<Union>k \<in> set ks. events k)"
  by (simp add: KpiCard_def)

lemma events_KpiGrid [simp]: "events (KpiGrid ck d) = {}"
  by (auto simp: KpiGrid_def Let_def verdict_def sample_or_def set_some_node split: option.splits if_splits)

lemma events_MetricRow [simp]: "events (MetricRow l h e) = {}"
  by (simp add: MetricRow_def)

lemma events_assurance_tile [simp]: "events (assurance_tile cs c) = {}"
  by (auto simp: assurance_tile_def Let_def set_some_node split: option.splits)

lemma events_AssuranceSection [simp]: "events (AssuranceSection ck d) = {}"
  by (simp add: AssuranceSection_def Let_def)

lemma events_sections [simp]:
  "events (ModelsSection d) = {}" "events (CreditEngineSection d) = {}" "events (RepaymentSection d) = {}"
  "events (InfrastructureSection d) = {}" "events (FailClosedSection ck d) = {}"
  "events SectionNav = {}" "events PageSkeleton = {}"
  by (auto simp: ModelsSection_def CreditEngineSection_def RepaymentSection_def InfrastructureSection_def
      FailClosedSection_def SectionNav_def PageSkeleton_def model_name_def verdict_icon_def Let_def
      split: option.splits if_splits prod.splits)

lemma events_AiQualitySection [simp]: "events (AiQualitySection d) = {}"
  by (auto simp: AiQualitySection_def Let_def sample_line_def set_some_node split: option.splits)

lemma events_ServiceHealthSection [simp]: "events (ServiceHealthSection ck d) = {}"
  by (auto simp: ServiceHealthSection_def set_some_node split: option.splits if_splits)

lemma events_FinancialSafetySection [simp]: "events (FinancialSafetySection d) = {}"
  by (auto simp: FinancialSafetySection_def Let_def split: if_splits)

lemma events_PipelineSection:
  "events (PipelineSection m ck d selected) = OpenStage ` set (orderStages (si_pipeline d))
     \<union> (if m \<and> selected \<noteq> None then {CloseStage} else {})"
  using events_PipelineRail [of m ck "si_pipeline d" selected] by (simp add: PipelineSection_def)

lemma events_WindowSelector: "events (WindowSelector w) = range SetWindow"
proof -
  have "w \<in> set WINDOWS" for w by (cases w) (simp_all add: WINDOWS_def)
  then show ?thesis by (auto simp: WindowSelector_def)
qed

text \<open>
  The page observes and never acts: its controls are exactly the four windows, the switch of the
  automatic refresh, a refresh (not while one runs), a retry when the telemetry could not be
  loaded, and opening and closing a stage; and the only call any of them makes is the page's own
  read for the chosen window.
\<close>

theorem intelligence_controls:
  "events (si_view m ck q s) = range SetWindow \<union> {ToggleLive} \<union> (if qr_fetching q then {} else {Refetch})
     \<union> (if qr_pending q then {} else if qr_error q \<noteq> None then {Refetch}
        else case qr_data q of None \<Rightarrow> {} | Some d \<Rightarrow> RailEvent ` (OpenStage ` set (orderStages (si_pipeline d))
          \<union> (if m \<and> pg_selected s \<noteq> None then {CloseStage} else {})))
   \<and> set (si_calls e s) \<subseteq> {getSystemIntelligence (Some (pg_timeWindow s))}
   \<and> cl_method (getSystemIntelligence (Some (pg_timeWindow s))) = ''GET''"
proof (intro conjI)
  show "set (si_calls e s) \<subseteq> {getSystemIntelligence (Some (pg_timeWindow s))}"
    by (cases e) (simp_all add: si_query_def useSystemIntelligence_def with_opts_def useQuery_def)
  show "cl_method (getSystemIntelligence (Some (pg_timeWindow s))) = ''GET''"
    by (simp add: getSystemIntelligence_def get_def)
  show "events (si_view m ck q s) = range SetWindow \<union> {ToggleLive} \<union> (if qr_fetching q then {} else {Refetch})
     \<union> (if qr_pending q then {} else if qr_error q \<noteq> None then {Refetch}
        else case qr_data q of None \<Rightarrow> {} | Some d \<Rightarrow> RailEvent ` (OpenStage ` set (orderStages (si_pipeline d))
          \<union> (if m \<and> pg_selected s \<noteq> None then {CloseStage} else {})))"
    unfolding si_view_def
    by (cases "pg_selected s")
      (simp_all add: events_WindowSelector events_PipelineSection set_some_node split: option.split)
qed

text \<open>
  The platform headline never outruns the probes: it reads all healthy exactly when there are
  probes and every one reports healthy, and component down exactly when one reports down; only
  the former is green, and the count beside it reaches the number of components exactly when
  all are healthy.
\<close>

theorem platform_health_truthful:
  "(hr_label (rollupHealth es) = ''All healthy'' \<longleftrightarrow> es \<noteq> [] \<and> list_all (\<lambda>e. sh_status e = S_healthy) es)
   \<and> (hr_label (rollupHealth es) = ''Component down'' \<longleftrightarrow> list_ex (\<lambda>e. sh_status e = S_down) es)
   \<and> (hr_tone (rollupHealth es) = ''positive'' \<longleftrightarrow> hr_label (rollupHealth es) = ''All healthy'')
   \<and> hr_healthyCount (rollupHealth es) \<le> length es
   \<and> (hr_healthyCount (rollupHealth es) = length es \<longleftrightarrow> list_all (\<lambda>e. sh_status e = S_healthy) es)"
proof -
  have status: "sh_status e = S_healthy \<longleftrightarrow> sh_status e \<noteq> S_down \<and> sh_status e \<noteq> S_degraded
      \<and> sh_status e \<noteq> S_not_connected \<and> sh_status e \<noteq> S_idle" for e
    by (cases "sh_status e") simp_all
  have "hr_healthyCount (rollupHealth es) = length (filter (\<lambda>e. sh_status e = S_healthy) es)"
    by (simp add: rollupHealth_def Let_def)
  moreover have "length (filter P es) = length es \<longleftrightarrow> list_all P es" for P :: "ServiceHealthEntry \<Rightarrow> bool"
    by (auto simp: list_all_iff dest: length_filter_less)
  ultimately have counts: "hr_healthyCount (rollupHealth es) \<le> length es"
    "hr_healthyCount (rollupHealth es) = length es \<longleftrightarrow> list_all (\<lambda>e. sh_status e = S_healthy) es"
    by simp_all
  have "list_all (\<lambda>e. sh_status e = S_healthy) es \<longleftrightarrow> \<not> list_ex (\<lambda>e. sh_status e = S_down) es
      \<and> \<not> list_ex (\<lambda>e. sh_status e = S_degraded) es
      \<and> \<not> list_ex (\<lambda>e. sh_status e = S_not_connected \<or> sh_status e = S_idle) es"
    unfolding list_all_iff list_ex_iff by (subst status) blast
  then show ?thesis using counts by (simp add: rollupHealth_def Let_def)
qed

end
