(* ===== verification/Pages.thy ===== *)
theory Pages
  imports Widgets Forms
begin

text \<open>
  What the product pages share: a panel that shows a query (loading, failed with a retry, or its
  data) and the contract of a page that only reads. The locale \<open>reading_page\<close> states that contract
  and is interpreted on every page that has no write of its own.
\<close>

subsection \<open>A panel that shows a query\<close>

text \<open>\<open>q.isPending ? ... : q.isError ? ... : ...\<close>; a query that succeeded has data.\<close>

definition query_body :: "'a query_result \<Rightarrow> 'e node list \<Rightarrow> (failure \<Rightarrow> 'e node list)
    \<Rightarrow> ('a \<Rightarrow> 'e node list) \<Rightarrow> 'e node list" where
  "query_body q loading failed shown_data =
     (if qr_pending q then loading
      else case qr_error q of Some e \<Rightarrow> failed e
      | None \<Rightarrow> (case qr_data q of Some d \<Rightarrow> shown_data d | None \<Rightarrow> []))"

text \<open>\<open><ErrorState detail={q.error.message} onRetry={() => void q.refetch()} />\<close>.\<close>

definition retry_state :: "'e \<Rightarrow> failure \<Rightarrow> 'e node list" where
  "retry_state e f = [ErrorState None (Some (error_message f)) (Some e)]"

lemma UN_query_body:
  "(\<Union>n \<in> set (query_body q l f d). events n) =
     (if qr_pending q then \<Union>n \<in> set l. events n
      else case qr_error q of Some e \<Rightarrow> (\<Union>n \<in> set (f e). events n)
      | None \<Rightarrow> (case qr_data q of Some x \<Rightarrow> (\<Union>n \<in> set (d x). events n) | None \<Rightarrow> {}))"
  by (simp add: query_body_def split: option.split)

lemma UN_retry_state [simp]: "(\<Union>n \<in> set (retry_state e f). events n) = {e}"
  by (simp add: retry_state_def)

subsection \<open>Lists that open, search and filter\<close>

text \<open>
  A table row that opens a screen: a click, or Enter while it has focus. \<open>router.push\<close> is the
  event with the path.
\<close>

definition OpenRow :: "'e \<Rightarrow> 'e node list \<Rightarrow> 'e node" where
  "OpenRow e cells = El ''tr'' [Attr ''tabindex'' ''0'', OnClick e] cells"

text \<open>\<open><TableRow><TableCell colSpan=...>...</TableCell></TableRow>\<close>.\<close>

definition whole_row :: "'e node list \<Rightarrow> 'e node" where
  "whole_row ns = TableRow [TableCell ns]"

definition head_row :: "string list \<Rightarrow> 'e node" where
  "head_row titles = TableHeader [TableRow (map (\<lambda>t. TableHead [Txt t]) titles)]"

definition search_box :: "string \<Rightarrow> string \<Rightarrow> string \<Rightarrow> (string \<Rightarrow> 'e) \<Rightarrow> 'e node" where
  "search_box label placeholder v f = El ''div'' [] [icon ''Search'',
     Input [Attr ''placeholder'' placeholder, Attr ''aria-label'' label] v False f]"

text \<open>
  The rows of a list under a filter and a search text: those the filter keeps whose searched
  searched contain the trimmed text, whatever the case.
\<close>

definition needle_of :: "string \<Rightarrow> string" where "needle_of search = to_lower (trim search)"

definition mentions :: "string list \<Rightarrow> string \<Rightarrow> bool" where
  "mentions searched needle \<longleftrightarrow> list_ex (\<lambda>f. str_includes (to_lower f) needle) searched"

definition listed :: "('a \<Rightarrow> bool) \<Rightarrow> ('a \<Rightarrow> string list) \<Rightarrow> string \<Rightarrow> 'a list option \<Rightarrow> 'a list" where
  "listed keep searched search data = (case data of None \<Rightarrow> []
     | Some xs \<Rightarrow> let needle = needle_of search in
         filter (\<lambda>x. if \<not> keep x then False else if needle = [] then True else mentions (searched x) needle) xs)"

definition n_of_m :: "nat \<Rightarrow> nat \<Rightarrow> string \<Rightarrow> string" where
  "n_of_m n m what = Format.count (Some (num_of_int (int n))) @ '' of '' @ Format.count (Some (num_of_int (int m))) @ what"

definition reason_badges :: "BadgeTone \<Rightarrow> string list \<Rightarrow> 'e node" where
  "reason_badges tone codes = El ''span'' [] (map (\<lambda>c. Badge tone [Txt c]) (take 3 codes)
     @ show_if (length codes > 3) [El ''span'' [] [Txt ''+'', Txt (show_nat (length codes - 3))]])"

lemma events_OpenRow [simp]: "events (OpenRow e ks) = insert e (\<Union>k \<in> set ks. events k)"
  by (simp add: OpenRow_def)

lemma events_list_parts [simp]:
  "events (whole_row ks) = (\<Union>k \<in> set ks. events k)" "events (head_row ts) = {}"
  "events (search_box l p v f) = range f" "events (reason_badges t cs) = {}"
  by (auto simp: whole_row_def head_row_def search_box_def reason_badges_def)

lemma str_includes_self [simp]: "str_includes s s"
  by (cases s) (simp_all add: starts_with_def)

lemma str_includes_Nil [simp]: "str_includes s []"
  by (cases s) (simp_all add: starts_with_def)

text \<open>
  A search never loses what it names: a listed item is found by the full text of any searched
  field, in any case and with spaces around it, and what is listed is in the list's order.
\<close>

lemma set_listed:
  "x \<in> set (listed keep searched search (Some xs)) \<longleftrightarrow>
     x \<in> set xs \<and> keep x \<and> (needle_of search = [] \<or> mentions (searched x) (needle_of search))"
  by (auto simp: listed_def Let_def)

lemma listed_found:
  assumes "x \<in> set xs" and "keep x" and "f \<in> set (searched x)" and "needle_of search = to_lower f"
  shows "x \<in> set (listed keep searched search (Some xs))"
proof -
  have "mentions (searched x) (needle_of search)"
    unfolding mentions_def list_ex_iff using assms(3,4) str_includes_self by metis
  then show ?thesis using assms(1,2) by (simp add: set_listed)
qed

lemma listed_all: "needle_of search = [] \<Longrightarrow> listed keep searched search (Some xs) = filter keep xs"
  by (simp add: listed_def Let_def)

lemma listed_conj:
  "listed keep searched search (Some xs) =
     filter (\<lambda>x. needle_of search = [] \<or> mentions (searched x) (needle_of search)) (filter keep xs)"
  by (simp add: listed_def Let_def conj_commute) (rule filter_cong; auto)

subsection \<open>Pages that only read\<close>

text \<open>The calls a series of a page's events makes, each in the state the earlier ones left.\<close>

fun page_calls :: "('e \<Rightarrow> 's \<Rightarrow> 's) \<Rightarrow> ('e \<Rightarrow> 's \<Rightarrow> call list) \<Rightarrow> 'e list \<Rightarrow> 's \<Rightarrow> call list" where
  "page_calls handle calls [] s = []"
| "page_calls handle calls (e # es) s = calls e s @ page_calls handle calls es (handle e s)"

text \<open>What refetching the queries of some hooks asks of the backend.\<close>

definition refetch_calls :: "query list \<Rightarrow> call list" where "refetch_calls hooks = map qy_call hooks"

locale reading_page =
  fixes handle :: "'e \<Rightarrow> 's \<Rightarrow> 's"
    and calls :: "'e \<Rightarrow> 's \<Rightarrow> call list"
    and queries :: "'s \<Rightarrow> query list"
  assumes hooks: "list_all hook_query (queries s)"
    and refetches: "set (calls e s) \<subseteq> qy_call ` set (queries s)"
begin

lemma query_reads: "q \<in> set (queries s) \<Longrightarrow> cl_method (qy_call q) = ''GET''"
  using hooks [of s] hook_reads by (auto simp: list_all_iff)

lemma event_reads: "c \<in> set (calls e s) \<Longrightarrow> cl_method c = ''GET''"
  using refetches [of e s] query_reads by blast

lemma only_reads: "list_all (\<lambda>c. cl_method c = ''GET'') (page_calls handle calls es s)"
  by (induction es arbitrary: s) (auto simp: list_all_iff event_reads)

end

end
