(* ===== verification/Dashboard.thy ===== *)
theory Dashboard
  imports Pages
begin

text \<open>
  The overview, \<open>frontend/app/(product)/dashboard/page.tsx\<close>, with the banner of an untouched
  workspace, \<open>frontend/components/onboarding/first-run-banner.tsx\<close>. The chart library is the
  parameter \<open>plot\<close>.
\<close>

subsection \<open>The first-run banner\<close>

definition workspace_empty :: "AgentSummary list query_result \<Rightarrow> CreditApplicationSummary list query_result \<Rightarrow> bool" where
  "workspace_empty agents applications \<longleftrightarrow> qr_data agents \<noteq> None \<and> qr_data applications \<noteq> None
     \<and> length (the (qr_data agents)) = 0 \<and> length (the (qr_data applications)) = 0"

definition FirstRunBanner :: "AgentSummary list query_result \<Rightarrow> CreditApplicationSummary list query_result \<Rightarrow> 'e node list" where
  "FirstRunBanner agents applications =
     (if \<not> workspace_empty agents applications then []
      else [Card [
        El ''h2'' [] [Txt ''Start your first task-backed credit request''],
        para (''This workspace has no agents and no applications yet. Register an agent, give it a '' @
          ''signed passport, then borrow against a task it has been contracted to do. Everything '' @
          ''you enter is written to the live backend '' @ [EM_DASH] @ '' this is a sandbox with test credits, not a mock.''),
        El ''div'' [] [
          Link ''/start'' [icon ''Sparkles'', Txt '' Start guided setup '', icon ''ArrowRight''],
          Link ''/agents'' [icon ''Bot'', Txt '' Register AI agent''],
          Link ''/credit-applications'' [icon ''FileText'', Txt '' Create credit application''],
          Link ''/judge-demo'' [Txt ''Run judge demo'']]]])"

subsection \<open>The portfolio\<close>

definition KpiSkeleton :: "'e node" where
  "KpiSkeleton = Card [CardContent [Skeleton, Skeleton, Skeleton]]"

text \<open>A figure in a card; \<open>n of m label\<close> under it.\<close>

definition kpi :: "'e node \<Rightarrow> 'e node" where "kpi m = Card [CardContent [m]]"

definition of_text :: "jsnum \<Rightarrow> string \<Rightarrow> jsnum \<Rightarrow> string \<Rightarrow> 'e node list" where
  "of_text n mid m what = [Txt (Format.count (Some n) @ mid @ Format.count (Some m) @ what)]"

definition ledger_line :: "DashboardSummary_integrity \<Rightarrow> 'e node" where
  "ledger_line i = El ''span'' [] (
     [icon (if ds_inte_ledger_balanced i then ''CheckCircle2'' else ''XCircle''),
      El ''span'' [] [Txt ''Double-entry ledger '', Txt (if ds_inte_ledger_balanced i then ''balanced'' else ''imbalanced'')]]
     @ show_if (\<not> ds_inte_ledger_balanced i)
         [Badge critical [Txt (join '', '' (map (\<lambda>(currency, amount). currency @ '' '' @ money (Some amount))
            (ds_inte_ledger_imbalance i)))]])"

definition chain_line :: "DashboardSummary_integrity \<Rightarrow> 'e node" where
  "chain_line i = El ''span'' [] (
     [icon (if ds_inte_audit_chain_intact i then ''CheckCircle2'' else ''XCircle''),
      El ''span'' [] [Txt ''Audit hash chain '', Txt (if ds_inte_audit_chain_intact i then ''intact'' else ''broken'')]]
     @ some_node (\<lambda>n. [Badge critical [Txt ''first break at #'', Txt (to_string n)]]) (ds_inte_first_broken_seq i))"

definition IntegrityStrip :: "DashboardSummary_integrity \<Rightarrow> 'e node" where
  "IntegrityStrip i =
     (let healthy = ds_inte_ledger_balanced i \<and> ds_inte_audit_chain_intact i in
      El ''div'' (if healthy then [] else [Attr ''tone'' ''critical'']) [
        ledger_line i, chain_line i,
        para ''Each critical financial event is chained to the previous event so tampering can be detected.''])"

definition AttentionCard :: "string \<Rightarrow> jsnum \<Rightarrow> string \<Rightarrow> string \<Rightarrow> BadgeTone \<Rightarrow> string option \<Rightarrow> string \<Rightarrow> 'e node" where
  "AttentionCard title value href cta tone icon_name body =
     Card [CardContent [
       El ''div'' [] (El ''span'' [] [Txt title] # some_node (\<lambda>i. [icon i]) icon_name),
       El ''p'' [Attr ''tone'' (tone_text tone)] [Txt (Format.count (Some value))],
       para body,
       Link href [Txt cta, Txt '' '', icon ''ArrowRight'']]]"

definition above_zero :: "jsnum \<Rightarrow> bool" where "above_zero n \<longleftrightarrow> num_lt (Fin 0) n"

definition toned :: "bool \<Rightarrow> BadgeTone \<Rightarrow> 'e node list \<Rightarrow> 'e node" where
  "toned b t ns = El ''span'' (if b then [Attr ''tone'' (tone_text t)] else []) ns"

datatype db_event = RefreshAll | RetrySummary | RetryActivity | RetryExposure

definition Portfolio :: "((string \<times> (string \<times> Money) list) list \<Rightarrow> db_event node) \<Rightarrow> ExposurePoint list query_result
    \<Rightarrow> DashboardSummary \<Rightarrow> db_event node" where
  "Portfolio plot exposure data =
     (let credit = ds_credit data; apps = ds_applications data; txns = ds_transactions data;
          reps = ds_repayments data; risk = ds_risk data; vaults = ds_vaults data in
      El ''div'' [] [
        El ''div'' [] [
          kpi (Metric ''Credit approved'' [MoneyValue (Some (ds_cred_approved_minor credit)) True NotAvailable]
            (Some ''Total limit granted across all approved applications in this workspace.'')
            (of_text (ds_appl_approved apps) '' of '' (ds_appl_total apps) '' applications approved'') None),
          kpi (Metric ''Outstanding'' [MoneyValue (Some (ds_cred_outstanding_minor credit)) True NotAvailable]
            (Some ''Principal drawn from vaults and not yet repaid. This is the money genuinely at stake right now.'')
            [El ''span'' [] [
               Meter (Some (ds_cred_outstanding_minor credit)) (Some (ds_cred_approved_minor credit))
                 (Some ''Outstanding against approved''),
               El ''span'' [] [Txt ''of '', Txt (moneyCompact (Some (ds_cred_approved_minor credit))), Txt '' approved'']]] None),
          kpi (Metric ''Repayment rate'' [El ''span'' [] [Txt (percent (ds_repa_repayment_rate_ppm reps) 1)]]
            (Some (''Vaults that settled in full, over vaults that reached a terminal state. '' @
               ''Vaults still running are not counted '' @ [EM_DASH] @ '' they have not had the chance to repay yet.''))
            (of_text (ds_repa_settled_vaults reps) '' settled of '' (ds_repa_terminal_vaults reps) '' concluded'')
            (if ds_repa_repayment_rate_ppm reps = None then Some (Insufficient,
               Some (''No vault has reached a terminal state yet, so there is no denominator. '' @
                 ''This is not a 0% repayment rate.'')) else None)),
          kpi (Metric ''Blocked exposure'' [MoneyValue (Some (ds_tran_blocked_value_minor txns)) True NotAvailable]
            (Some ''Value of spend attempts the vault controls refused. This money was never allowed to leave.'')
            (of_text (ds_tran_blocked txns) '' of '' (ds_tran_proposed txns) '' attempts blocked'') None)],
        IntegrityStrip (ds_integrity data),
        El ''div'' [] [
          Card [
            CardHeader [CardTitle [Txt ''Exposure over the last 14 days''],
              para ''Approved limits, principal actually drawn, and principal repaid.''],
            CardContent (query_body exposure [Skeleton] (retry_state RetryExposure) (\<lambda>d. [ExposureChart plot d]))],
          Card [
            CardHeader [CardTitle [Txt ''Where the money went'']],
            CardContent [Rows [
              Row ''Repaid principal'' (Some ''Returned to the credit pool from task revenue.'')
                [MoneyValue (Some (ds_cred_repaid_minor credit)) False NotAvailable],
              Row ''Credit fees earned'' None [MoneyValue (Some (ds_cred_fees_minor credit)) False NotAvailable],
              Row ''Released to owners'' (Some ''Task proceeds paid out after the waterfall.'')
                [MoneyValue (Some (ds_cred_released_to_owner_minor credit)) False NotAvailable],
              Row ''Recovered'' (Some ''Reclaimed from failed tasks by sweeping unspent funds and drawing on the reserve.'')
                [MoneyValue (Some (ds_cred_recovered_minor credit)) False NotAvailable],
              Row ''At risk'' (Some ''Outstanding principal on vaults that are frozen, expired or whose task failed.'')
                [toned (above_zero (ds_cred_at_risk_minor credit)) caution
                  [MoneyValue (Some (ds_cred_at_risk_minor credit)) False NotAvailable]],
              Row ''Recognised loss'' (Some (''Written off explicitly after recovery was exhausted. Never inferred '' @
                 [EM_DASH] @ '' a loss is booked, not assumed.''))
                [toned (above_zero (ds_cred_loss_minor credit)) critical
                  [MoneyValue (Some (ds_cred_loss_minor credit)) False NotAvailable]]]]]],
        El ''div'' [] [
          AttentionCard ''Awaiting human review'' (ds_appl_human_review apps) ''/underwriting'' ''Open the review queue''
            (if above_zero (ds_appl_human_review apps) then caution else neutral) None
            ''Applications the policy engine referred to a person rather than deciding automatically.'',
          AttentionCard ''Frozen vaults'' (ds_vaul_frozen vaults) ''/vaults?status=FROZEN'' ''Review frozen vaults''
            (if above_zero (ds_vaul_frozen vaults) then caution else neutral) (Some ''Snowflake'')
            ''Spending is suspended on these facilities until an owner or policy releases them.'',
          AttentionCard ''Critical risk events'' (ds_risk_critical risk) ''/risk'' ''Investigate risk''
            (if above_zero (ds_risk_critical risk) then critical else neutral) (Some ''ShieldAlert'')
            (Format.count (Some (ds_risk_total_events risk)) @ '' risk '' @
              (if num_eq (ds_risk_total_events risk) (Fin 1) then ''event'' else ''events'') @ '' recorded in total.'')]])"

subsection \<open>The page\<close>

record db_queries =
  dq_summary :: "DashboardSummary query_result"
  dq_exposure :: "ExposurePoint list query_result"
  dq_activity :: "ActivityEvent list query_result"
  dq_agents :: "AgentSummary list query_result"
  dq_applications :: "CreditApplicationSummary list query_result"

definition activity_row :: "clock \<Rightarrow> ActivityEvent \<Rightarrow> 'e node" where
  "activity_row ck e = El ''li'' [] (
     [El ''span'' [] [Txt ''#'', Txt (to_string (act_seq e))], El ''span'' [] [Txt (act_label e)]]
     @ some_node (\<lambda>r. [El ''span'' [] [Txt (shortId (Some r) 8 4)]]) (act_resource_id e)
     @ [El ''span'' [] [Txt (ago ck (act_created_at e))]])"

definition db_view :: "((string \<times> (string \<times> Money) list) list \<Rightarrow> db_event node) \<Rightarrow> clock \<Rightarrow> db_queries \<Rightarrow> db_event node" where
  "db_view plot ck q =
     El ''div'' [] (
       [PageHeader ''Overview''
          (Some [Txt ''Task-backed credit issued to autonomous agents, and the controls holding it in place.''])
          (some_node (\<lambda>d. [El ''span'' [] [Txt ''Updated '', Txt (ago ck (Some (ds_generated_at d)))]]) (qr_data (dq_summary q))
           @ [Button Secondary (qr_fetching (dq_summary q)) RefreshAll [icon ''RefreshCw'', Txt ''Refresh'']])]
       @ FirstRunBanner (dq_agents q) (dq_applications q)
       @ query_body (dq_summary q) [El ''div'' [] (replicate 4 KpiSkeleton)]
           (\<lambda>e. [Card [CardContent (retry_state RetrySummary e)]])
           (\<lambda>d. [Portfolio plot (dq_exposure q) d])
       @ [Section None (Some ''Recent activity'') (Some ''Drawn from the tamper-evident audit chain, newest first.'')
           [Link ''/audit'' [Txt ''Full audit trail '', icon ''ArrowRight'']]
           [Card [CardContent (query_body (dq_activity q) [LoadingBlock 6] (retry_state RetryActivity)
              (\<lambda>events. if length events = 0
                then [EmptyState ''Nothing has happened yet''
                  (Some (''Register an agent or run a demonstration scenario, '' @
                     ''and every financial event will be chained here.'')) ''Inbox''
                  [Link ''/judge-demo'' [Txt ''Run a scenario'']]]
                else [El ''ol'' [] (map (activity_row ck) events)]))]]])"

text \<open>The hooks of the page and of the banner, and what the events ask of the backend.\<close>

definition db_hooks :: "unit \<Rightarrow> query list" where
  "db_hooks u = [useDashboard no_opts, useExposureSeries (Fin 14) no_opts, useActivity (Fin 12) no_opts,
     useAgents no_opts, useApplications no_opts]"

fun db_calls :: "db_event \<Rightarrow> unit \<Rightarrow> call list" where
  "db_calls RefreshAll u = refetch_calls [useDashboard no_opts, useExposureSeries (Fin 14) no_opts, useActivity (Fin 12) no_opts]"
| "db_calls RetrySummary u = refetch_calls [useDashboard no_opts]"
| "db_calls RetryActivity u = refetch_calls [useActivity (Fin 12) no_opts]"
| "db_calls RetryExposure u = refetch_calls [useExposureSeries (Fin 14) no_opts]"

interpretation db: reading_page "\<lambda>e s. s" db_calls db_hooks
proof unfold_locales
  show "list_all hook_query (db_hooks s)" for s
    by (simp add: db_hooks_def hook_query.intros)
  show "set (db_calls e s) \<subseteq> qy_call ` set (db_hooks s)" for e s
    by (cases e) (simp_all add: db_hooks_def refetch_calls_def)
qed

subsection \<open>Properties\<close>

text \<open>
  The integrity strip reports exactly what the backend verified: it is free of alarm exactly when
  the ledger balances and the chain is intact, an imbalance is shown per currency with its amount,
  and the first broken event is named whenever there is one.
\<close>

theorem integrity_strip_exact:
  "shown (IntegrityStrip i :: 'e node) =
     ''Double-entry ledger '' @ (if ds_inte_ledger_balanced i then ''balanced''
       else ''imbalanced'' @ join '', '' (map (\<lambda>(c, a). c @ '' '' @ money (Some a)) (ds_inte_ledger_imbalance i)))
     @ ''Audit hash chain '' @ (if ds_inte_audit_chain_intact i then ''intact'' else ''broken'')
     @ (case ds_inte_first_broken_seq i of None \<Rightarrow> [] | Some n \<Rightarrow> ''first break at #'' @ to_string n)
     @ ''Each critical financial event is chained to the previous event so tampering can be detected.''
   \<and> ((\<exists>ks. (IntegrityStrip i :: 'e node) = El ''div'' [] ks) \<longleftrightarrow>
       ds_inte_ledger_balanced i \<and> ds_inte_audit_chain_intact i)"
  by (simp add: IntegrityStrip_def ledger_line_def chain_line_def Let_def Badge_def show_if_def some_node_def
      split: option.split)

end
