(* ===== verification/ListPages.thy ===== *)
theory ListPages
  imports Pages RegisterAgent NewApplication
begin

text \<open>
  The four lists of the product: agents, vaults, credit applications and transactions
  (\<open>agents/page.tsx\<close>, \<open>vaults/page.tsx\<close>, \<open>credit-applications/page.tsx\<close>, \<open>transactions/page.tsx\<close> under
  \<open>frontend/app/(product)\<close>). Each keeps a filter and a search text; the agent and application lists
  also hold the sheet that creates one, whose own state is the form's.
\<close>

subsection \<open>Shared texts\<close>

text \<open>\<open>value.charAt(0) + value.slice(1).toLowerCase()\<close>.\<close>

definition capitalised :: "string \<Rightarrow> string" where
  "capitalised v = take 1 v @ to_lower (drop 1 v)"

definition underscores_to_spaces :: "string \<Rightarrow> string" where
  "underscores_to_spaces = map (\<lambda>c. if c = CHR ''_'' then CHR '' '' else c)"

text \<open>The body of a list's table: rows while loading, a retry, an explanation when empty, or the rows.\<close>

definition list_body :: "'a list query_result \<Rightarrow> nat \<Rightarrow> nat \<Rightarrow> 'e \<Rightarrow> ('a list \<Rightarrow> 'e node) \<Rightarrow> 'b list \<Rightarrow> ('b \<Rightarrow> 'e node)
    \<Rightarrow> 'e node list" where
  "list_body q n cols retry empty_state rows row =
     query_body q (SkeletonRows n cols) (\<lambda>e. [whole_row (retry_state retry e)])
       (\<lambda>data. if length rows = 0 then [whole_row [empty_state data]] else map row rows)"

definition list_table :: "string list \<Rightarrow> 'e node list \<Rightarrow> 'e node" where
  "list_table titles body = Card [TableWrap [Table [head_row titles, TableBody body]]]"

definition found_note :: "'a list query_result \<Rightarrow> nat \<Rightarrow> string \<Rightarrow> 'e node list" where
  "found_note q n what = some_node (\<lambda>d. [El ''span'' [] [Txt (n_of_m n (length d) what)]]) (qr_data q)"

text \<open>The two lines of an agent and its task.\<close>

definition agent_task :: "string \<Rightarrow> string \<Rightarrow> 'e node" where
  "agent_task name task = TableCell [El ''div'' [] [para name, para task]]"

definition mono_id :: "string \<Rightarrow> 'e node" where
  "mono_id i = TableCell [El ''span'' [] [Txt (shortId (Some i) 10 4)]]"

subsection \<open>Agents\<close>

definition AGENT_FILTERS :: "string list" where
  "AGENT_FILTERS = [''ALL'', ''ACTIVE'', ''FROZEN'', ''REVOKED'']"

record ag_page =
  ag_filter :: string
  ag_search :: string
  ag_registering :: bool

definition ag_initial :: ag_page where
  "ag_initial = \<lparr>ag_filter = ''ALL'', ag_search = [], ag_registering = False\<rparr>"

datatype ag_event =
    SetFilter string
  | SearchAgents string
  | StartRegistering
  | RetryAgents
  | OpenAgent string
  | AgentSheet ra_event

fun ag_handle :: "ag_event \<Rightarrow> ag_page \<Rightarrow> ag_page" where
  "ag_handle (SetFilter v) s = s\<lparr>ag_filter := v\<rparr>"
| "ag_handle (SearchAgents v) s = s\<lparr>ag_search := v\<rparr>"
| "ag_handle StartRegistering s = s\<lparr>ag_registering := True\<rparr>"
| "ag_handle (AgentSheet CloseSheetEvent) s = s\<lparr>ag_registering := False\<rparr>"
| "ag_handle _ s = s"

definition ag_keep :: "string \<Rightarrow> AgentSummary \<Rightarrow> bool" where
  "ag_keep filter_value agent \<longleftrightarrow> \<not> (filter_value \<noteq> ''ALL'' \<and> as_status agent \<noteq> filter_value)"

definition ag_searched :: "AgentSummary \<Rightarrow> string list" where
  "ag_searched agent = [as_name agent, as_agent_id agent, as_model_name agent, as_owner_email agent]"

definition ag_rows :: "AgentSummary list query_result \<Rightarrow> ag_page \<Rightarrow> AgentSummary list" where
  "ag_rows agents s = listed (ag_keep (ag_filter s)) ag_searched (ag_search s) (qr_data agents)"

definition ag_repayment :: "AgentSummary \<Rightarrow> 'e node" where
  "ag_repayment agent = (if num_eq (as_vault_count agent) (Fin 0)
     then Unavailable Insufficient
       (Some ''This agent has no concluded credit facilities, so there is no repayment rate to report.'') False
     else Txt (percent (Some (as_repayment_rate_ppm agent)) 1))"

definition ag_row :: "clock \<Rightarrow> AgentSummary \<Rightarrow> ag_event node" where
  "ag_row ck agent = OpenRow (OpenAgent (''/agents/'' @ as_agent_id agent)) [
     TableCell [El ''div'' [] [para (as_name agent),
       para (shortId (Some (as_agent_id agent)) 10 4 @ '' '' @ [MIDDOT] @ '' '' @ as_model_name agent)]],
     TableCell [StatusBadge (Some (as_status agent)) False],
     TableCell [TrustScore (as_trust_score agent)],
     TableCell [RiskTierBadge (Some (as_risk_tier agent))],
     TableCell [if num_eq (as_tasks_total agent) (Fin 0)
       then Unavailable Insufficient
         (Some ''This agent has not completed any tasks yet, so there is no success rate to report.'') False
       else Txt (percent (Some (as_task_success_rate_ppm agent)) 1)],
     TableCell [ag_repayment agent],
     TableCell [MoneyValue (Some (as_active_exposure_minor agent)) True NotAvailable],
     TableCell [El ''span'' (if num_lt (Fin 0) (as_policy_violation_count agent) then [Attr ''tone'' ''caution''] else [])
       [Txt (Format.count (Some (as_policy_violation_count agent)))]],
     TableCell [if as_has_passport agent then Badge positive [Txt ''Verified''] else Badge outline [Txt ''None'']],
     TableCell [Txt (ago ck (as_last_activity_at agent))]]"

definition register_button :: "ag_event node" where
  "register_button = Button Primary False StartRegistering [icon ''Plus'', Txt '' Register agent'']"

definition ag_empty :: "AgentSummary list \<Rightarrow> ag_event node" where
  "ag_empty data = EmptyState
     (if length data = 0 then ''No agents registered yet'' else ''No agents match this filter'')
     (Some (if length data = 0
        then ''Register one with the button above '' @ [EM_DASH] @ '' it creates the agent, issues a signed passport '' @
          ''and re-runs all six passport checks.''
        else ''Try a different status filter or search term.''))
     ''Bot'' (if length data = 0 then [register_button] else [])"

definition ag_view :: "clock \<Rightarrow> ra_ctx \<Rightarrow> ra_form \<Rightarrow> AgentSummary list query_result \<Rightarrow> ag_page \<Rightarrow> ag_event node" where
  "ag_view ck cx form agents s = El ''div'' [] (
     [PageHeader ''AI Agents''
        (Some [Txt (''Autonomous agents registered under this workspace. Credit is only ever extended to an agent '' @
           ''holding a verified passport.'')])
        [register_button]]
     @ map (map_node AgentSheet) (ra_view (cx\<lparr>rx_open := ag_registering s\<rparr>) form)
     @ [El ''div'' [] (
          [search_box ''Search agents'' ''Search by name, id, model or owner'' (ag_search s) SearchAgents,
           El ''div'' [Attr ''role'' ''group'', Attr ''aria-label'' ''Filter by status'']
             (map (\<lambda>v. El ''button'' [Attr ''type'' ''button'', OnClick (SetFilter v),
                 Attr ''aria-pressed'' (bool_text (ag_filter s = v))]
               [Txt (if v = ''ALL'' then ''All'' else capitalised v)]) AGENT_FILTERS)]
          @ found_note agents (length (ag_rows agents s)) '' agents''),
        list_table [''Agent'', ''Status'', ''Trust'', ''Risk tier'', ''Task success'', ''Repayment'', ''Exposure'',
            ''Violations'', ''Passport'', ''Last activity'']
          (list_body agents 5 10 RetryAgents ag_empty (ag_rows agents s) (ag_row ck))])"

subsection \<open>Vaults\<close>

definition STATUS_OPTIONS :: "string list" where
  "STATUS_OPTIONS = [[], ''CREATED'', ''ACTIVE'', ''SPENDING'', ''FROZEN'', ''EXPIRED'', ''TASK_COMPLETED'',
     ''TASK_FAILED'', ''REVENUE_RECEIVED'', ''REPAID'', ''PARTIALLY_REPAID'', ''DEFAULTED'', ''CLOSED'']"

record search_page =
  sp_status :: string
  sp_search :: string

text \<open>The filter may come from the address: \<open>params.get("status") ?? ""\<close>.\<close>

definition sp_initial :: "string option \<Rightarrow> search_page" where
  "sp_initial param = \<lparr>sp_status = (case param of Some v \<Rightarrow> v | None \<Rightarrow> []), sp_search = []\<rparr>"

datatype sp_event = SetStatus string | SetSearch string | RetryList | OpenPath string

fun sp_handle :: "sp_event \<Rightarrow> search_page \<Rightarrow> search_page" where
  "sp_handle (SetStatus v) s = s\<lparr>sp_status := v\<rparr>"
| "sp_handle (SetSearch v) s = s\<lparr>sp_search := v\<rparr>"
| "sp_handle _ s = s"

definition va_keep :: "string \<Rightarrow> VaultSummary \<Rightarrow> bool" where
  "va_keep status vault \<longleftrightarrow> \<not> (status \<noteq> [] \<and> vs_status vault \<noteq> status)"

definition va_searched :: "VaultSummary \<Rightarrow> string list" where
  "va_searched vault = [vs_vault_id vault, vs_agent_name vault, vs_task_title vault]"

definition va_rows :: "VaultSummary list query_result \<Rightarrow> search_page \<Rightarrow> VaultSummary list" where
  "va_rows vaults s = listed (va_keep (sp_status s)) va_searched (sp_search s) (qr_data vaults)"

definition va_row :: "clock \<Rightarrow> VaultSummary \<Rightarrow> sp_event node" where
  "va_row ck vault = OpenRow (OpenPath (''/vaults/'' @ vs_vault_id vault)) [
     mono_id (vs_vault_id vault),
     agent_task (vs_agent_name vault) (vs_task_title vault),
     TableCell [StatusBadge (Some (vs_status vault)) False],
     TableCell [Txt (money (Some (vs_total_limit_minor vault)))],
     TableCell [El ''div'' [] [Meter (Some (vs_spent_minor vault)) (Some (vs_total_limit_minor vault)) (Some ''Utilisation''),
       El ''span'' [] [Txt (money (Some (vs_spent_minor vault)))]]],
     TableCell [MoneyValue (Some (vs_principal_outstanding_minor vault)) False NotAvailable],
     TableCell [El ''span'' [] [Txt (Format.count (Some (vs_transaction_count vault))), Txt ''/'',
       Txt (Format.count (Some (vs_max_transactions vault)))]],
     TableCell [Txt (ago ck (vs_expires_at vault))]]"

definition va_empty :: "VaultSummary list \<Rightarrow> sp_event node" where
  "va_empty data = EmptyState (if length data = 0 then ''No vaults yet'' else ''No vaults match this filter'')
     (Some (if length data = 0 then ''A vault is created automatically when a credit application is approved.''
        else ''Try a different status or search term.'')) ''Vault'' []"

definition va_view :: "clock \<Rightarrow> VaultSummary list query_result \<Rightarrow> search_page \<Rightarrow> sp_event node" where
  "va_view ck vaults s = El ''div'' [] [
     PageHeader ''Credit Vaults''
       (Some [Txt (''Restricted spending facilities. Every rupee leaving a vault passes thirteen deterministic '' @
          ''controls first.'')]) [],
     El ''div'' [] (
       [search_box ''Search vaults'' ''Search by id, agent or task'' (sp_search s) SetSearch,
        Select [Attr ''aria-label'' ''Filter by status''] (sp_status s) SetStatus
          (([], ''All statuses'') # map (\<lambda>v. (v, take 1 v @ underscores_to_spaces (to_lower (drop 1 v))))
             (filter (\<lambda>v. v \<noteq> []) STATUS_OPTIONS))]
       @ found_note vaults (length (va_rows vaults s)) '' vaults''),
     list_table [''Vault'', ''Agent '' @ [MIDDOT] @ '' Task'', ''Status'', ''Limit'', ''Utilisation'', ''Outstanding'',
         ''Txns'', ''Expires'']
       (list_body vaults 6 8 RetryList va_empty (va_rows vaults s) (va_row ck))]"

definition va_hooks :: "search_page \<Rightarrow> query list" where "va_hooks s = [useVaults no_opts]"

text \<open>\<open>retry_calls\<close>: the only call of these lists is the retry of their query.\<close>

fun retry_calls :: "(search_page \<Rightarrow> query list) \<Rightarrow> sp_event \<Rightarrow> search_page \<Rightarrow> call list" where
  "retry_calls hooks_of RetryList s = refetch_calls (hooks_of s)"
| "retry_calls hooks_of _ s = []"

lemma retry_calls_reads: "set (retry_calls h e s) \<subseteq> qy_call ` set (h s)"
  by (cases e) (simp_all add: refetch_calls_def)

interpretation va: reading_page sp_handle "retry_calls va_hooks" va_hooks
  by unfold_locales (simp add: va_hooks_def hook_query.intros, rule retry_calls_reads)

subsection \<open>Credit applications\<close>

definition STAGE_FILTERS :: "(string \<times> string) list" where
  "STAGE_FILTERS = [([], ''All stages''), (''IN_FLIGHT'', ''In flight''),
     (''HUMAN_REVIEW_REQUIRED'', ''Human review''), (''APPROVED'', ''Approved (incl. vaulted)''),
     (''REJECTED'', ''Rejected'')]"

definition APPROVED_FAMILY :: "string list" where
  "APPROVED_FAMILY = [''APPROVED'', ''VAULT_CREATED'', ''DISBURSEMENT_ENABLED'']"

definition TERMINALISH :: "string list" where
  "TERMINALISH = APPROVED_FAMILY @ [''REJECTED'', ''HUMAN_REVIEW_REQUIRED'']"

record cl_page =
  cl_stage :: string
  cl_search :: string
  cl_applying :: bool

definition cl_initial :: cl_page where
  "cl_initial = \<lparr>cl_stage = [], cl_search = [], cl_applying = False\<rparr>"

datatype cl_event =
    SetStage string
  | SearchApplications string
  | StartApplying
  | RetryApplications
  | OpenRowPath string
  | ApplicationSheet na_event

fun cl_handle :: "cl_event \<Rightarrow> cl_page \<Rightarrow> cl_page" where
  "cl_handle (SetStage v) s = s\<lparr>cl_stage := v\<rparr>"
| "cl_handle (SearchApplications v) s = s\<lparr>cl_search := v\<rparr>"
| "cl_handle StartApplying s = s\<lparr>cl_applying := True\<rparr>"
| "cl_handle (ApplicationSheet Close) s = s\<lparr>cl_applying := False\<rparr>"
| "cl_handle _ s = s"

definition stage_keep :: "string \<Rightarrow> string \<Rightarrow> bool" where
  "stage_keep stage status \<longleftrightarrow>
     (if stage = ''HUMAN_REVIEW_REQUIRED'' \<and> status \<noteq> ''HUMAN_REVIEW_REQUIRED'' then False
      else if stage = ''APPROVED'' \<and> \<not> List.member APPROVED_FAMILY status then False
      else if stage = ''REJECTED'' \<and> status \<noteq> ''REJECTED'' then False
      else if stage = ''IN_FLIGHT'' \<and> List.member TERMINALISH status then False
      else True)"

definition cl_searched :: "CreditApplicationSummary \<Rightarrow> string list" where
  "cl_searched app = [ca_application_id app, ca_agent_name app, ca_task_title app]"

definition cl_rows :: "CreditApplicationSummary list query_result \<Rightarrow> cl_page \<Rightarrow> CreditApplicationSummary list" where
  "cl_rows applications s =
     listed (\<lambda>a. stage_keep (cl_stage s) (ca_status a)) cl_searched (cl_search s) (qr_data applications)"

definition later :: "Timestamp option \<Rightarrow> Timestamp option \<Rightarrow> Timestamp option" where
  "later a b = (case a of Some t \<Rightarrow> Some t | None \<Rightarrow> b)"

definition cl_row :: "clock \<Rightarrow> CreditApplicationSummary \<Rightarrow> cl_event node" where
  "cl_row ck app = OpenRow (OpenRowPath (''/credit-applications/'' @ ca_application_id app)) [
     mono_id (ca_application_id app),
     agent_task (ca_agent_name app) (ca_task_title app),
     TableCell [StatusBadge (Some (ca_status app)) False],
     TableCell [Txt (money (Some (ca_requested_minor app)))],
     TableCell [case ca_approved_limit_minor app of
         None \<Rightarrow> Unavailable NotApplicable (Some (''No limit has been granted. Either the application is still in '' @
           ''flight or it was rejected.'')) False
       | Some m \<Rightarrow> Txt (money (Some m))],
     TableCell [case ca_pd_ppm app of
         None \<Rightarrow> Unavailable NotAvailable (Some ''The risk model has not scored this application yet.'') False
       | Some p \<Rightarrow> Txt (percent (Some p) 2)],
     TableCell [MoneyValue (ca_expected_loss_minor app) False NotAvailable],
     TableCell [case ca_vault_id app of
         None \<Rightarrow> El ''span'' [] [Txt [EM_DASH]]
       | Some v \<Rightarrow> Link (''/vaults/'' @ v) [Txt (shortId (Some v) 8 4)]],
     TableCell [Txt (ago ck (later (ca_updated_at app) (ca_created_at app)))]]"

definition apply_button :: "cl_event node" where
  "apply_button = Button Primary False StartApplying [icon ''Plus'', Txt '' New credit application'']"

definition cl_empty :: "CreditApplicationSummary list \<Rightarrow> cl_event node" where
  "cl_empty data = EmptyState
     (if length data = 0 then ''No credit applications yet'' else ''No applications match this filter'')
     (Some (if length data = 0 then ''Submit one against a task, or run a demonstration scenario to put a full application through the pipeline.''
        else ''Try a different stage or search term.''))
     ''FileText'' (if length data = 0 then [apply_button] else [])"

definition cl_view :: "clock \<Rightarrow> na_ctx \<Rightarrow> na_form \<Rightarrow> CreditApplicationSummary list query_result \<Rightarrow> cl_page
    \<Rightarrow> cl_event node" where
  "cl_view ck cx form applications s = El ''div'' [] (
     [PageHeader ''Credit Applications''
        (Some [Txt (''Requests for task-backed working capital. The AI recommends; the deterministic credit engine '' @
           ''decides; anything marginal goes to a human.'')])
        [apply_button]]
     @ map (map_node ApplicationSheet) (na_view (cx\<lparr>nx_open := cl_applying s\<rparr>) form)
     @ [El ''div'' [] (
          [search_box ''Search applications'' ''Search by id, agent or task'' (cl_search s) SearchApplications,
           Select [Attr ''aria-label'' ''Filter by stage''] (cl_stage s) SetStage STAGE_FILTERS]
          @ found_note applications (length (cl_rows applications s)) '' applications''),
        list_table [''Application'', ''Agent '' @ [MIDDOT] @ '' Task'', ''Stage'', ''Requested'', ''Approved limit'', ''PD'',
            ''Expected loss'', ''Vault'', ''Updated'']
          (list_body applications 6 9 RetryApplications cl_empty (cl_rows applications s) (cl_row ck))]
     @ some_node (\<lambda>d. show_if (list_ex (\<lambda>a. length (ca_reason_codes a) > 0) d)
         [El ''p'' [] [Badge outline [Txt ''Note''],
           Txt (''Reason codes on each decision are shown in the application'' @ [APOS] @ ''s underwriting view, '' @
             ''alongside the evidence they trace to.'')]]) (qr_data applications))"

subsection \<open>Transactions\<close>

definition OUTCOMES :: "(string \<times> string) list" where
  "OUTCOMES = [([], ''All outcomes''), (''EXECUTED'', ''Executed''), (''DENIED'', ''Blocked''), (''PROPOSED'', ''Proposed'')]"

definition tx_filters :: "search_page \<Rightarrow> TransactionFilters" where
  "tx_filters s = \<lparr>tf_status = (if sp_status s = [] then None else Some (sp_status s)), tf_vault_id = None, tf_agent_id = None\<rparr>"

definition tx_hooks :: "search_page \<Rightarrow> query list" where
  "tx_hooks s = [useTransactions (tx_filters s) no_opts]"

definition tx_searched :: "TransactionSummary \<Rightarrow> string list" where
  "tx_searched txn = [txs_proposal_id txn, txs_agent_name txn, txs_vendor_name txn, txs_purpose_code txn]"

definition tx_rows :: "TransactionSummary list query_result \<Rightarrow> search_page \<Rightarrow> TransactionSummary list" where
  "tx_rows transactions s = listed (\<lambda>_. True) tx_searched (sp_search s) (qr_data transactions)"

definition tx_row :: "clock \<Rightarrow> TransactionSummary \<Rightarrow> sp_event node" where
  "tx_row ck txn = OpenRow (OpenPath (''/transactions/'' @ txs_proposal_id txn)) [
     mono_id (txs_proposal_id txn),
     TableCell [Txt (txs_agent_name txn)],
     TableCell [El ''span'' [] (Txt (txs_vendor_name txn)
       # show_if (\<not> txs_vendor_known txn) [Badge critical [Txt ''Unknown'']])],
     TableCell [Badge outline [Txt (txs_purpose_code txn)]],
     TableCell [Txt (money (Some (txs_amount_minor txn)))],
     TableCell [StatusBadge (Some (txs_status txn)) False],
     TableCell [reason_badges (if txs_status txn = ''DENIED'' then critical else outline) (txs_reason_codes txn)],
     TableCell [Txt (ago ck (later (later (txs_executed_at txn) (txs_decided_at txn)) (txs_created_at txn)))]]"

definition tx_view :: "clock \<Rightarrow> TransactionSummary list query_result \<Rightarrow> search_page \<Rightarrow> sp_event node" where
  "tx_view ck transactions s = El ''div'' [] [
     PageHeader ''Transactions''
       (Some [Txt (''Every attempt to move money out of a vault. Blocked rows are the controls doing their job '' @
          [EM_DASH] @ '' each shows exactly which rule refused it.'')]) [],
     El ''div'' [] (
       [search_box ''Search transactions'' ''Search by id, agent, vendor or purpose'' (sp_search s) SetSearch,
        Select [Attr ''aria-label'' ''Filter by outcome''] (sp_status s) SetStatus OUTCOMES]
       @ some_node (\<lambda>d. [El ''span'' [] [Txt (Format.count (Some (num_of_int (int (length (tx_rows transactions s))))) @
            '' attempts'')]]) (qr_data transactions)),
     list_table [''Proposal'', ''Agent'', ''Vendor'', ''Purpose'', ''Amount'', ''Outcome'', ''Reason codes'', ''When'']
       (list_body transactions 8 8 RetryList
         (\<lambda>_. EmptyState ''No transactions match''
           (Some ''Spend attempts appear here the moment an agent proposes one.'') ''ArrowLeftRight'' [])
         (tx_rows transactions s) (tx_row ck))]"

interpretation tx: reading_page sp_handle "retry_calls tx_hooks" tx_hooks
  by unfold_locales (simp add: tx_hooks_def hook_query.intros, rule retry_calls_reads)

subsection \<open>Properties\<close>

definition cl_stages :: "string list" where
  "cl_stages = [''IN_FLIGHT'', ''HUMAN_REVIEW_REQUIRED'', ''APPROVED'', ''REJECTED'']"

lemma stage_keep_all [simp]: "stage_keep [] status"
  by (simp add: stage_keep_def)

lemma stage_keep_simps:
  "stage_keep ''HUMAN_REVIEW_REQUIRED'' status \<longleftrightarrow> status = ''HUMAN_REVIEW_REQUIRED''"
  "stage_keep ''APPROVED'' status \<longleftrightarrow> List.member APPROVED_FAMILY status"
  "stage_keep ''REJECTED'' status \<longleftrightarrow> status = ''REJECTED''"
  "stage_keep ''IN_FLIGHT'' status \<longleftrightarrow> \<not> List.member TERMINALISH status"
  by (simp_all add: stage_keep_def)

lemma filter_stages:
  "mset (filter (\<lambda>a. stage_keep ''IN_FLIGHT'' (f a)) xs) + mset (filter (\<lambda>a. stage_keep ''HUMAN_REVIEW_REQUIRED'' (f a)) xs)
   + mset (filter (\<lambda>a. stage_keep ''APPROVED'' (f a)) xs) + mset (filter (\<lambda>a. stage_keep ''REJECTED'' (f a)) xs) = mset xs"
proof (induction xs)
  case (Cons x xs)
  define h where "h v = mset (filter (\<lambda>a. stage_keep v (f a)) xs)" for v
  have step: "mset (filter (\<lambda>a. stage_keep v (f a)) (x # xs)) = (if stage_keep v (f x) then add_mset x (h v) else h v)" for v
    by (simp add: h_def)
  have "h ''IN_FLIGHT'' + h ''HUMAN_REVIEW_REQUIRED'' + h ''APPROVED'' + h ''REJECTED'' = mset xs"
    using Cons.IH by (simp only: h_def)
  then show ?case
    unfolding step by (auto simp: stage_keep_simps TERMINALISH_def APPROVED_FAMILY_def)
qed simp

text \<open>
  The stage filters of the application list split it: whatever is searched for, each application
  found under all stages is found under exactly one of in flight, human review, approved and
  rejected, so no application is hidden from a reader who goes through the stages.
\<close>

theorem stages_partition:
  "(\<Sum>v \<leftarrow> cl_stages. mset (cl_rows q (s\<lparr>cl_stage := v\<rparr>))) = mset (cl_rows q (s\<lparr>cl_stage := []\<rparr>))"
proof (cases "qr_data q")
  case None
  then show ?thesis by (simp add: cl_rows_def listed_def cl_stages_def)
next
  case (Some data)
  let ?found = "filter (\<lambda>a. needle_of (cl_search s) = [] \<or> mentions (cl_searched a) (needle_of (cl_search s))) data"
  have rows: "cl_rows q (s\<lparr>cl_stage := v\<rparr>) = filter (\<lambda>a. stage_keep v (ca_status a)) ?found" for v
    by (simp add: cl_rows_def Some listed_conj conj_commute)
  show ?thesis
    unfolding rows using filter_stages [of ca_status ?found] by (simp add: cl_stages_def add_ac)
qed

end
