(* ===== verification/Ledgers.thy ===== *)
theory Ledgers
  imports Pages
begin

text \<open>
  Four screens that report what the ledger and the audit chain hold: repayments, risk monitoring,
  the audit trail and the underwriting queue (\<open>repayments/page.tsx\<close>, \<open>risk/page.tsx\<close>, \<open>audit/page.tsx\<close>,
  \<open>underwriting/page.tsx\<close> under \<open>frontend/app/(product)\<close>).
\<close>

subsection \<open>Repayments\<close>

record repayment_totals =
  tt_revenue :: jsnum
  tt_principal :: jsnum
  tt_fee :: jsnum
  tt_reserve :: jsnum
  tt_owner :: jsnum
  tt_loss :: jsnum

definition add_row :: "repayment_totals \<Rightarrow> RepaymentRow \<Rightarrow> repayment_totals" where
  "add_row acc row = \<lparr>
     tt_revenue = num_add (tt_revenue acc) (rp_revenue_minor row),
     tt_principal = num_add (tt_principal acc) (rp_principal_minor row),
     tt_fee = num_add (tt_fee acc) (rp_fee_minor row),
     tt_reserve = num_add (tt_reserve acc) (rp_reserve_minor row),
     tt_owner = num_add (tt_owner acc) (rp_owner_minor row),
     tt_loss = num_add (tt_loss acc) (rp_loss_minor row)\<rparr>"

definition no_totals :: repayment_totals where
  "no_totals = \<lparr>tt_revenue = Fin 0, tt_principal = Fin 0, tt_fee = Fin 0, tt_reserve = Fin 0, tt_owner = Fin 0,
     tt_loss = Fin 0\<rparr>"

definition repayment_sums :: "RepaymentRow list option \<Rightarrow> repayment_totals option" where
  "repayment_sums data = (case data of None \<Rightarrow> None
     | Some rows \<Rightarrow> if length rows = 0 then None else Some (foldl add_row no_totals rows))"

datatype rep_event = SelectRun RepaymentRow | CloseRun | RetryRepayments

fun rep_handle :: "rep_event \<Rightarrow> RepaymentRow option \<Rightarrow> RepaymentRow option" where
  "rep_handle (SelectRun row) selected = Some row"
| "rep_handle CloseRun selected = None"
| "rep_handle RetryRepayments selected = selected"

definition totals_cards :: "nat \<Rightarrow> repayment_totals \<Rightarrow> 'e node" where
  "totals_cards runs t = El ''div'' [] [
     Card [CardContent [Metric ''Revenue collected'' [MoneyValue (Some (tt_revenue t)) True NotAvailable] None
       [Txt (''across '' @ Format.count (Some (num_of_int (int runs))) @ '' waterfall runs'')] None]],
     Card [CardContent [Metric ''Principal returned'' [MoneyValue (Some (tt_principal t)) True NotAvailable] None [] None]],
     Card [CardContent [Metric ''Fees earned'' [MoneyValue (Some (tt_fee t)) True NotAvailable] None [] None]],
     Card [CardContent [Metric ''Paid to owners'' [MoneyValue (Some (tt_owner t)) True NotAvailable] None [] None]],
     Card [CardContent [Metric ''Recognised losses''
       [El ''span'' (if num_lt (Fin 0) (tt_loss t) then [Attr ''tone'' ''critical''] else [])
          [MoneyValue (Some (tt_loss t)) True NotAvailable]]
       (Some ''Booked explicitly after sweeping unspent funds and drawing the reserve. Never inferred.'') [] None]]]"

definition kind_badge :: "string \<Rightarrow> 'e node" where
  "kind_badge kind = Badge (if kind = ''RECOVERY'' then caution else info) [Txt (statusLabel (Some kind))]"

definition rep_row :: "clock \<Rightarrow> RepaymentRow \<Rightarrow> rep_event node" where
  "rep_row ck row = OpenRow (SelectRun row) [
     TableCell [El ''span'' [] [Txt (shortId (Some (rp_repayment_id row)) 10 4)]],
     TableCell [El ''div'' [] [para (rp_agent_name row), para (rp_task_title row)]],
     TableCell [kind_badge (rp_kind row)],
     TableCell [Txt (money (Some (rp_revenue_minor row)))],
     TableCell [Txt (money (Some (rp_principal_minor row)))],
     TableCell [Txt (money (Some (rp_fee_minor row)))],
     TableCell [Txt (money (Some (rp_owner_minor row)))],
     TableCell [StatusBadge (Some (rp_vault_status row)) False],
     TableCell [Txt (ago ck (rp_created_at row))]]"

text \<open>The waterfall reads the allocations of what it is given, a row as well as a record.\<close>

definition row_record :: "RepaymentRow \<Rightarrow> RepaymentRecord" where
  "row_record row = \<lparr>rr_repayment_id = rp_repayment_id row, rr_kind = rp_kind row,
     rr_allocations = rp_allocations row, rr_principal_minor = rp_principal_minor row,
     rr_fee_minor = rp_fee_minor row, rr_reserve_minor = rp_reserve_minor row,
     rr_owner_minor = rp_owner_minor row, rr_loss_minor = rp_loss_minor row,
     rr_journal_transaction_id = rp_journal_transaction_id row, rr_created_at = rp_created_at row\<rparr>"

definition balance_check :: "RepaymentRow \<Rightarrow> 'e node list" where
  "balance_check row =
     [Txt (money (Some (rp_revenue_minor row))), Txt '' in = '', Txt (money (Some (rp_principal_minor row))),
      Txt '' principal + '', Txt (money (Some (rp_fee_minor row))), Txt '' fee + '',
      Txt (money (Some (rp_reserve_minor row))), Txt '' reserve + '', Txt (money (Some (rp_owner_minor row))), Txt '' owner'']
     @ show_if (num_lt (Fin 0) (rp_loss_minor row))
         [El ''span'' [Attr ''tone'' ''critical''] [Txt '' ('', Txt (money (Some (rp_loss_minor row))), Txt '' booked as loss)'']]"

definition run_detail :: "RepaymentRow \<Rightarrow> 'e node list" where
  "run_detail row = [
     El ''div'' [] [para ''Balance check'', El ''p'' [] (balance_check row),
       para (''Amounts come from the ledger'' @ [APOS] @ ''s allocations '' @ [EM_DASH] @ '' the page adds nothing of its own.'')],
     Waterfall (row_record row),
     El ''div'' [] (
       [El ''p'' [] [El ''span'' [] [Txt ''Vault''],
          Link (''/vaults/'' @ rp_vault_id row) [Txt (shortId (Some (rp_vault_id row)) 10 4)]],
        El ''p'' [] [El ''span'' [] [Txt ''Outstanding after this run''],
          El ''span'' [] [Txt (money (Some (rp_outstanding_minor row)))]]]
       @ some_node (\<lambda>j. [El ''p'' [] [El ''span'' [] [Txt ''Journal entry''],
          El ''span'' [] [Txt (shortId (Some j) 10 4)]]]) (rp_journal_transaction_id row))]"

definition rep_view :: "bool \<Rightarrow> clock \<Rightarrow> RepaymentRow list query_result \<Rightarrow> RepaymentRow option \<Rightarrow> rep_event node" where
  "rep_view mounted ck repayments selected = El ''div'' [] (
     [PageHeader ''Repayments''
        (Some [Txt (''Task revenue flowing back through the waterfall: principal first, then the credit fee, then the '' @
           ''reserve '' @ [EM_DASH] @ '' the owner is paid only from what remains.'')]) []]
     @ some_node (\<lambda>t. [totals_cards (case qr_data repayments of Some d \<Rightarrow> length d | None \<Rightarrow> 0) t])
         (repayment_sums (qr_data repayments))
     @ [Section None (Some ''Waterfall runs'') (Some ''Click a row to see the full allocation.'') []
         [Card [TableWrap [Table [
            head_row [''Repayment'', ''Agent '' @ [MIDDOT] @ '' Task'', ''Kind'', ''Revenue in'', ''Principal'', ''Fee'', ''Owner'',
              ''Vault after'', ''When''],
            TableBody (query_body repayments (SkeletonRows 6 9) (\<lambda>e. [whole_row (retry_state RetryRepayments e)])
              (\<lambda>rows. if length rows = 0
                then [whole_row [EmptyState ''No repayments yet''
                  (Some ''The first waterfall runs the moment task revenue reaches a vault.'') ''ScrollText'' []]]
                else map (rep_row ck) rows))]]]]]
     @ Sheet mounted (selected \<noteq> None) CloseRun
         (case selected of None \<Rightarrow> [] | Some row \<Rightarrow> ''Waterfall '' @ [MIDDOT] @ '' '' @ shortId (Some (rp_repayment_id row)) 10 4)
         (case selected of None \<Rightarrow> None
          | Some row \<Rightarrow> Some [Txt (rp_agent_name row @ '' '' @ [MIDDOT] @ '' '' @ stamp ck (rp_created_at row))])
         [] (some_node run_detail selected))"

definition rep_hooks :: "RepaymentRow option \<Rightarrow> query list" where "rep_hooks s = [useRepayments no_opts]"

fun rep_calls :: "rep_event \<Rightarrow> RepaymentRow option \<Rightarrow> call list" where
  "rep_calls RetryRepayments s = refetch_calls [useRepayments no_opts]"
| "rep_calls _ s = []"

interpretation rep: reading_page rep_handle rep_calls rep_hooks
proof unfold_locales
  show "list_all hook_query (rep_hooks s)" for s by (simp add: rep_hooks_def hook_query.intros)
  show "set (rep_calls e s) \<subseteq> qy_call ` set (rep_hooks s)" for e s
    by (cases e) (simp_all add: rep_hooks_def refetch_calls_def)
qed

subsection \<open>Risk monitoring\<close>

definition SEVERITY_TONE :: "(string \<times> BadgeTone) list" where
  "SEVERITY_TONE = [(''CRITICAL'', critical), (''HIGH'', critical), (''WARN'', caution), (''MEDIUM'', caution),
     (''LOW'', neutral), (''INFO'', neutral)]"

definition severity_tone :: "string \<Rightarrow> BadgeTone" where
  "severity_tone severity = (case map_of SEVERITY_TONE severity of Some t \<Rightarrow> t | None \<Rightarrow> neutral)"

text \<open>\<open>labelOf\<close>: the backend's name of an event type, else the code as words.\<close>

definition labelOf :: "(LabelMaps \<Rightarrow> (string \<times> string) list) \<Rightarrow> LabelMaps option \<Rightarrow> string \<Rightarrow> string" where
  "labelOf maps labels eventType = (case labels of
     None \<Rightarrow> statusLabel (Some eventType)
   | Some l \<Rightarrow> (case map_of (maps l) eventType of Some t \<Rightarrow> t | None \<Rightarrow> statusLabel (Some eventType)))"

definition subject_href :: "string option \<Rightarrow> string \<Rightarrow> string option" where
  "subject_href subjectType subjectId =
     (if subjectType = Some ''AGENT'' then Some (''/agents/'' @ subjectId)
      else if subjectType = Some ''VAULT'' then Some (''/vaults/'' @ subjectId)
      else if subjectType = Some ''TRANSACTION'' \<or> subjectType = Some ''PROPOSAL'' then Some (''/transactions/'' @ subjectId)
      else None)"

definition SubjectLink :: "string option \<Rightarrow> string option \<Rightarrow> 'e node" where
  "SubjectLink subjectType subjectId =
     (if subjectId = None \<or> subjectId = Some [] then El ''span'' [] [Txt [EM_DASH]]
      else let label = El ''span'' [] (some_node (\<lambda>t. [El ''span'' [] [Txt (to_lower t)]]) subjectType
             @ [Txt (shortId subjectId 10 4)]) in
        case subject_href subjectType (the subjectId) of
          None \<Rightarrow> El ''span'' [] [label]
        | Some href \<Rightarrow> Link href [label])"

record risk_queries =
  rq_summary :: "RiskSummary query_result"
  rq_events :: "RiskEvent list query_result"
  rq_labels :: "LabelMaps query_result"

datatype risk_event = RetryRiskSummary | RetryRiskEvents

definition risk_row :: "clock \<Rightarrow> LabelMaps option \<Rightarrow> RiskEvent \<Rightarrow> 'e node" where
  "risk_row ck labels event = TableRow [
     TableCell [Txt (labelOf lm_risk labels (re_event_type event))],
     TableCell [Badge (severity_tone (re_severity event)) [Txt (re_severity event)]],
     TableCell [SubjectLink (re_subject_type event) (re_subject_id event)],
     TableCell [Txt (stamp ck (re_created_at event))]]"

definition risk_kpis :: "RiskSummary \<Rightarrow> 'e node" where
  "risk_kpis d = El ''div'' [] [
     Card [CardContent [Metric ''Critical events''
       [El ''span'' (if num_lt (Fin 0) (rs_critical_events d) then [Attr ''tone'' ''critical''] else [])
         [CountValue (Some (rs_critical_events d)) NotAvailable]] None
       [Txt (Format.count (Some (rs_high_events d)) @ '' high '' @ [MIDDOT] @ '' '' @ Format.count (Some (rs_total_events d)) @
          '' total'')] None]],
     Card [CardContent [Metric ''Blocked spending'' [MoneyValue (Some (rs_blocked_value_minor d)) True NotAvailable]
       (Some ''Money the vault controls refused to release. It never left the platform.'')
       [Txt (Format.count (Some (rs_blocked_transactions d)) @ '' attempts refused'')] None]],
     Card [CardContent [Metric ''Frozen''
       [El ''span'' [] [CountValue (Some (rs_frozen_vaults d)) NotAvailable, El ''span'' [] [Txt ''vaults'']]] None
       [El ''span'' [] [icon ''Snowflake'', Txt (Format.count (Some (rs_frozen_agents d))), Txt '' agents frozen'']] None]],
     Card [CardContent [Metric ''Active controls'' [CountValue (Some (rs_active_monitoring_rules d)) NotAvailable]
       (Some (''Deterministic checks that run on every spend attempt: caps, allowlist, purpose binding, velocity, '' @
          ''anti-splitting and more.''))
       [Txt ''run on every spend attempt''] None]]]"

definition risk_view :: "clock \<Rightarrow> risk_queries \<Rightarrow> risk_event node" where
  "risk_view ck q = El ''div'' [] (
     [PageHeader ''Risk Monitoring''
        (Some [Txt (''Control breaches, automatic freezes and blocked spending across the workspace. '' @
           ''Every event here was also chained into the audit trail.'')]) []]
     @ query_body (rq_summary q) [LoadingBlock 4] (retry_state RetryRiskSummary)
         (\<lambda>d. [risk_kpis d,
           El ''div'' [] [
             Card [CardHeader [CardTitle [Txt ''Events by type'']],
               CardContent [if rs_events_by_type d = [] then EmptyState ''No risk events recorded'' None ''Inbox'' []
                 else Rows (map (\<lambda>entry. Row (labelOf lm_risk (qr_data (rq_labels q)) (rs_ebt_event_type entry)) None
                   [El ''span'' [] [Txt (Format.count (Some (rs_ebt_count entry)))]]) (rs_events_by_type d))]],
             Section None (Some ''Event log'') (Some ''Newest first.'') []
               [Card [TableWrap [Table [
                 head_row [''Event'', ''Severity'', ''Subject'', ''When''],
                 TableBody (query_body (rq_events q) [whole_row [LoadingBlock 4]]
                   (\<lambda>e. [whole_row (retry_state RetryRiskEvents e)])
                   (\<lambda>events. if events = [] then [whole_row [EmptyState ''No risk events''
                       (Some ''When a control refuses something, the refusal is recorded here.'') ''ShieldAlert'' []]]
                     else map (risk_row ck (qr_data (rq_labels q))) events))]]]]]]))"

definition risk_hooks :: "unit \<Rightarrow> query list" where
  "risk_hooks u = [useRiskSummary no_opts, useRiskEvents no_opts, useLabels no_opts]"

fun risk_calls :: "risk_event \<Rightarrow> unit \<Rightarrow> call list" where
  "risk_calls RetryRiskSummary u = refetch_calls [useRiskSummary no_opts]"
| "risk_calls RetryRiskEvents u = refetch_calls [useRiskEvents no_opts]"

interpretation risk: reading_page "\<lambda>e s. s" risk_calls risk_hooks
proof unfold_locales
  show "list_all hook_query (risk_hooks s)" for s by (simp add: risk_hooks_def hook_query.intros)
  show "set (risk_calls e s) \<subseteq> qy_call ` set (risk_hooks s)" for e s
    by (cases e) (simp_all add: risk_hooks_def refetch_calls_def)
qed

subsection \<open>The audit trail\<close>

record audit_queries =
  aq_events :: "AuditEvent list query_result"
  aq_chain :: "ChainVerification query_result"
  aq_labels :: "LabelMaps query_result"

datatype audit_event = Reverify | RetryChain | RetryEvents

definition chain_banner :: "AuditEvent list option \<Rightarrow> ChainVerification \<Rightarrow> 'e node" where
  "chain_banner loaded chain =
     El ''div'' [Attr ''tone'' (if cv_intact chain then ''positive'' else ''critical'')]
      (if cv_intact chain
       then [icon ''CheckCircle2'', El ''div'' [] [
          para (''Chain verified '' @ [EM_DASH] @ '' every hash checks out''),
          El ''p'' [] (some_node (\<lambda>es. [Txt (Format.count (Some (num_of_int (int (length es)))) @
               '' events re-hashed just now, newest to genesis. '')]) loaded
            @ [Txt ''Altering any historical event would break every hash after it.''])]]
       else [icon ''XCircle'', El ''div'' [] [
          El ''p'' [] (Txt ''Chain broken at sequence #'' # some_node (\<lambda>n. [Txt (to_string n)]) (cv_first_broken_seq chain)),
          para (''An event no longer matches the hash committed by its successor. Treat every '' @
            ''record from that point on as suspect.'')]])"

text \<open>The mark beside an event that has a predecessor in the list: whether it commits to it.\<close>

definition linksToPrevious :: "AuditEvent \<Rightarrow> AuditEvent option \<Rightarrow> bool" where
  "linksToPrevious event next_event = (case next_event of None \<Rightarrow> False
     | Some n \<Rightarrow> ae_prev_hash event = ae_event_hash n)"

definition link_note :: "AuditEvent \<Rightarrow> AuditEvent \<Rightarrow> string" where
  "link_note event n =
     (if linksToPrevious event (Some n)
      then ''Commits to #'' @ to_string (ae_seq n) @ '': '' @ shortHash (Some (ae_prev_hash event))
      else ''Link mismatch '' @ [EM_DASH] @ '' this event'' @ [APOS] @ ''s prev_hash does not equal the hash of #'' @
        to_string (ae_seq n))"

definition audit_row :: "clock \<Rightarrow> LabelMaps option \<Rightarrow> AuditEvent \<Rightarrow> AuditEvent option \<Rightarrow> 'e node" where
  "audit_row ck labels event next_event = El ''li'' [] [
     El ''div'' [] (El ''span'' [] [Txt ''#'', Txt (to_string (ae_seq event))]
       # some_node (\<lambda>n. [Tooltip (link_note event n) [El ''span''
           (if linksToPrevious event (Some n) then [] else [Attr ''tone'' ''critical'']) [icon ''Link2'']]]) next_event),
     El ''div'' [] [
       El ''div'' [] (
         [El ''span'' [] [Txt (labelOf lm_audit labels (ae_event_type event))],
          Badge outline [Txt (statusLabel (Some (ae_actor_type event)))]]
         @ some_node (\<lambda>r. [Mono [Txt (shortId (Some r) 10 4)]]) (ae_resource_id event)
         @ [El ''span'' [] [Txt (stamp ck (Some (ae_created_at event)))]]),
       El ''p'' [] [Txt ''hash '', Txt (shortHash (Some (ae_event_hash event))), Txt ('' '' @ [MIDDOT] @ '' prev ''),
         Txt (shortHash (Some (ae_prev_hash event)))]]]"

text \<open>\<open>events.data[index + 1]\<close>: the element after, or nothing for the last.\<close>

definition item_at :: "'a list \<Rightarrow> nat \<Rightarrow> 'a option" where
  "item_at xs i = (if i < length xs then Some (xs ! i) else None)"

definition audit_rows :: "clock \<Rightarrow> LabelMaps option \<Rightarrow> AuditEvent list \<Rightarrow> 'e node list" where
  "audit_rows ck labels es =
     map (\<lambda>(index, event). audit_row ck labels event (item_at es (index + 1))) (enumerate 0 es)"

definition audit_view :: "clock \<Rightarrow> audit_queries \<Rightarrow> audit_event node" where
  "audit_view ck q = El ''div'' [] (
     [PageHeader ''Audit Trail''
        (Some [Txt ''Each critical financial event is chained to the previous event so tampering can be detected.''])
        [Button Secondary (qr_fetching (aq_chain q)) Reverify [icon ''RefreshCw'', Txt ''Re-verify chain'']]]
     @ query_body (aq_chain q) [LoadingBlock 2]
         (\<lambda>e. [ErrorState (Some ''The chain could not be verified'') (Some (error_message e)) (Some RetryChain)])
         (\<lambda>chain. [chain_banner (qr_data (aq_events q)) chain])
     @ [Section None (Some ''Event chain'')
         (Some ''Newest first. Hover a link icon to see the hash each event commits to.'') []
         (query_body (aq_events q) [LoadingBlock 8] (retry_state RetryEvents)
           (\<lambda>events. if events = []
             then [Card [EmptyState ''The chain is empty''
               (Some (''The first financial event will become the genesis of this workspace'' @ [APOS] @ ''s chain.'')) ''Inbox'' []]]
             else [Card [CardContent [El ''ol'' [] (audit_rows ck (qr_data (aq_labels q)) events)]]]))])"

definition audit_hooks :: "unit \<Rightarrow> query list" where
  "audit_hooks u = [useAuditEvents no_opts, useAuditChain no_opts, useLabels no_opts]"

fun audit_calls :: "audit_event \<Rightarrow> unit \<Rightarrow> call list" where
  "audit_calls Reverify u = refetch_calls [useAuditChain no_opts, useAuditEvents no_opts]"
| "audit_calls RetryChain u = refetch_calls [useAuditChain no_opts]"
| "audit_calls RetryEvents u = refetch_calls [useAuditEvents no_opts]"

interpretation audit: reading_page "\<lambda>e s. s" audit_calls audit_hooks
proof unfold_locales
  show "list_all hook_query (audit_hooks s)" for s by (simp add: audit_hooks_def hook_query.intros)
  show "set (audit_calls e s) \<subseteq> qy_call ` set (audit_hooks s)" for e s
    by (cases e) (simp_all add: audit_hooks_def refetch_calls_def)
qed

subsection \<open>The underwriting queue\<close>

record queue_bucket =
  qb_key :: UnderwritingQueueBucket
  qb_label :: string
  qb_icon :: string
  qb_body :: string

definition BUCKETS :: "queue_bucket list" where
  "BUCKETS = [
     \<lparr>qb_key = awaiting_ai_analysis, qb_label = ''Awaiting AI analysis'', qb_icon = ''Brain'',
       qb_body = ''Evidence is stored; the bounded analyst has not reported yet.''\<rparr>,
     \<lparr>qb_key = awaiting_deterministic_decision, qb_label = ''Awaiting engine decision'', qb_icon = ''Calculator'',
       qb_body = ''Analysis is in; the deterministic engine has not decided yet.''\<rparr>,
     \<lparr>qb_key = awaiting_human_review, qb_label = ''Awaiting human review'', qb_icon = ''UserCheck'',
       qb_body = ''Referred to a person. Nothing proceeds until an owner decides.''\<rparr>,
     \<lparr>qb_key = recently_completed, qb_label = ''Recently completed'', qb_icon = ''Scale'',
       qb_body = ''Decided in the recent past '' @ [EM_DASH] @ '' approved, vaulted or rejected.''\<rparr>]"

datatype queue_event = OpenQueued string | RetryQueue

definition queue_row :: "clock \<Rightarrow> CreditApplicationSummary \<Rightarrow> queue_event node" where
  "queue_row ck app = OpenRow (OpenQueued (''/credit-applications/'' @ ca_application_id app)) [
     TableCell [El ''span'' [] [Txt (shortId (Some (ca_application_id app)) 10 4)]],
     TableCell [El ''div'' [] [para (ca_agent_name app), para (ca_task_title app)]],
     TableCell [StatusBadge (Some (ca_status app)) False],
     TableCell [Txt (money (Some (ca_requested_minor app)))],
     TableCell [case ca_approved_limit_minor app of None \<Rightarrow> El ''span'' [] [Txt [EM_DASH]] | Some m \<Rightarrow> Txt (money (Some m))],
     TableCell [reason_badges outline (ca_reason_codes app)],
     TableCell [Txt (ago ck (case ca_updated_at app of Some t \<Rightarrow> Some t | None \<Rightarrow> ca_created_at app))]]"

definition BucketTable :: "clock \<Rightarrow> CreditApplicationSummary list \<Rightarrow> string \<Rightarrow> queue_event node" where
  "BucketTable ck rows emptyBody =
     (if length rows = 0 then Card [EmptyState ''Empty'' (Some emptyBody) ''Inbox'' []]
      else Card [TableWrap [Table [
        head_row [''Application'', ''Agent '' @ [MIDDOT] @ '' Task'', ''Stage'', ''Requested'', ''Approved limit'', ''Reason codes'',
          ''Updated''],
        TableBody (map (queue_row ck) rows)]]])"

definition human_waiting :: "UnderwritingQueue \<Rightarrow> queue_bucket \<Rightarrow> bool" where
  "human_waiting queue bucket \<longleftrightarrow> qb_key bucket = awaiting_human_review \<and> num_lt (Fin 0) (uq_counts queue (qb_key bucket))"

definition bucket_card :: "UnderwritingQueue \<Rightarrow> queue_bucket \<Rightarrow> 'e node" where
  "bucket_card queue bucket = Card [CardContent [
     El ''div'' [] [El ''span'' [] [Txt (qb_label bucket)], icon (qb_icon bucket)],
     El ''p'' (if human_waiting queue bucket then [Attr ''tone'' ''caution''] else [])
       [Txt (Format.count (Some (uq_counts queue (qb_key bucket))))],
     para (qb_body bucket)]]"

definition bucket_section :: "clock \<Rightarrow> UnderwritingQueue \<Rightarrow> queue_bucket \<Rightarrow> queue_event node" where
  "bucket_section ck queue bucket = Section None (Some (qb_label bucket))
     (if human_waiting queue bucket
      then Some ''These applications are waiting on a person. Open one to decide.'' else None) []
     [BucketTable ck (uq_buckets queue (qb_key bucket))
       (if qb_key bucket = awaiting_human_review then ''Nothing needs a human right now.''
        else ''Nothing is waiting at this stage.'')]"

definition queue_view :: "clock \<Rightarrow> UnderwritingQueue query_result \<Rightarrow> queue_event node" where
  "queue_view ck queue = El ''div'' [] (
     [PageHeader ''Underwriting'' (Some [AuthorityNote]) []]
     @ query_body queue [LoadingBlock 8] (retry_state RetryQueue)
         (\<lambda>d. El ''div'' [] (map (bucket_card d) BUCKETS) # map (bucket_section ck d) BUCKETS))"

definition queue_hooks :: "unit \<Rightarrow> query list" where "queue_hooks u = [useUnderwritingQueue no_opts]"

fun queue_calls :: "queue_event \<Rightarrow> unit \<Rightarrow> call list" where
  "queue_calls RetryQueue u = refetch_calls [useUnderwritingQueue no_opts]"
| "queue_calls (OpenQueued p) u = []"

interpretation queue: reading_page "\<lambda>e s. s" queue_calls queue_hooks
proof unfold_locales
  show "list_all hook_query (queue_hooks s)" for s by (simp add: queue_hooks_def hook_query.intros)
  show "set (queue_calls e s) \<subseteq> qy_call ` set (queue_hooks s)" for e s
    by (cases e) (simp_all add: queue_hooks_def refetch_calls_def)
qed

subsection \<open>Properties\<close>

lemma foldl_num_add:
  assumes "\<bar>i\<bar> + (\<Sum>j \<leftarrow> js. \<bar>j\<bar>) \<le> 2 ^ 53"
  shows "foldl num_add (num_of_int i) (map num_of_int js) = num_of_int (i + sum_list js)"
  using assms
proof (induction js arbitrary: i)
  case (Cons j js)
  have "0 \<le> (\<Sum>k \<leftarrow> js. \<bar>k\<bar>)" by (rule sum_list_nonneg) auto
  then have "num_add (num_of_int i) (num_of_int j) = num_of_int (i + j)"
    using Cons.prems by (intro num_add_of_int) simp
  then show ?case using Cons.IH [of "i + j"] Cons.prems by (simp add: add.assoc)
qed simp

lemma foldl_add_row:
  "foldl add_row acc rows = \<lparr>
     tt_revenue = foldl num_add (tt_revenue acc) (map rp_revenue_minor rows),
     tt_principal = foldl num_add (tt_principal acc) (map rp_principal_minor rows),
     tt_fee = foldl num_add (tt_fee acc) (map rp_fee_minor rows),
     tt_reserve = foldl num_add (tt_reserve acc) (map rp_reserve_minor rows),
     tt_owner = foldl num_add (tt_owner acc) (map rp_owner_minor rows),
     tt_loss = foldl num_add (tt_loss acc) (map rp_loss_minor rows)\<rparr>"
  by (induction rows arbitrary: acc) (simp_all add: add_row_def)

definition column_sum :: "jsnum list \<Rightarrow> int" where
  "column_sum ns = (\<Sum>n \<leftarrow> ns. \<lfloor>num_val n\<rfloor>)"

definition safe_column :: "jsnum list \<Rightarrow> bool" where
  "safe_column ns \<longleftrightarrow> list_all (\<lambda>n. n = num_of_int \<lfloor>num_val n\<rfloor>) ns \<and> (\<Sum>n \<leftarrow> ns. \<bar>\<lfloor>num_val n\<rfloor>\<bar>) \<le> 2 ^ 53"

lemma safe_column_sum:
  assumes "safe_column ns"
  shows "foldl num_add (Fin 0) ns = num_of_int (column_sum ns)"
proof -
  have ns: "ns = map num_of_int (map (\<lambda>n. \<lfloor>num_val n\<rfloor>) ns)"
    using assms by (induction ns) (auto simp: safe_column_def list_all_iff)
  have "foldl num_add (num_of_int 0) (map num_of_int (map (\<lambda>n. \<lfloor>num_val n\<rfloor>) ns)) =
      num_of_int (0 + sum_list (map (\<lambda>n. \<lfloor>num_val n\<rfloor>) ns))"
    using assms by (intro foldl_num_add) (simp add: safe_column_def comp_def)
  then show ?thesis unfolding ns [symmetric] by (simp add: column_sum_def num_of_int_def)
qed

text \<open>
  C34. The figures above the repayments are exact: when every amount is a whole number of paise and
  no column's absolute sum passes the largest safe integer, the additions in binary64 lose nothing
  and each headline is the exact sum of its column.
\<close>

theorem repayment_totals_exact:
  assumes "rows \<noteq> []"
    and "list_all (\<lambda>f. safe_column (map f rows)) [rp_revenue_minor, rp_principal_minor, rp_fee_minor,
      rp_reserve_minor, rp_owner_minor, rp_loss_minor]"
  shows "repayment_sums (Some rows) = Some \<lparr>
     tt_revenue = num_of_int (column_sum (map rp_revenue_minor rows)),
     tt_principal = num_of_int (column_sum (map rp_principal_minor rows)),
     tt_fee = num_of_int (column_sum (map rp_fee_minor rows)),
     tt_reserve = num_of_int (column_sum (map rp_reserve_minor rows)),
     tt_owner = num_of_int (column_sum (map rp_owner_minor rows)),
     tt_loss = num_of_int (column_sum (map rp_loss_minor rows))\<rparr>"
proof -
  have "length rows \<noteq> 0" using assms(1) by simp
  then have sums: "repayment_sums (Some rows) = Some (foldl add_row no_totals rows)"
    by (simp only: repayment_sums_def option.case if_False)
  have safe: "foldl num_add (Fin 0) (map f rows) = num_of_int (column_sum (map f rows))"
    if "f \<in> set [rp_revenue_minor, rp_principal_minor, rp_fee_minor, rp_reserve_minor, rp_owner_minor, rp_loss_minor]" for f
    using assms(2) that by (intro safe_column_sum) (simp only: list_all_iff)
  show ?thesis
    unfolding sums foldl_add_row no_totals_def
    by (simp only: repayment_totals.simps safe list.set insertI1 insertI2)
qed

definition sample_run :: "int \<Rightarrow> int \<Rightarrow> int \<Rightarrow> RepaymentRow" where
  "sample_run revenue repaid owner = \<lparr>rp_repayment_id = ''r1'', rp_vault_id = ''v1'', rp_agent_id = ''a1'',
     rp_agent_name = ''Atlas'', rp_task_title = ''Audit'', rp_kind = ''REPAYMENT'', rp_allocations = [],
     rp_revenue_minor = num_of_int revenue, rp_principal_minor = num_of_int repaid, rp_fee_minor = num_of_int 0,
     rp_reserve_minor = num_of_int 0, rp_owner_minor = num_of_int owner, rp_loss_minor = num_of_int 0,
     rp_vault_status = ''REPAID'', rp_outstanding_minor = num_of_int 0, rp_journal_transaction_id = None,
     rp_status = ''SETTLED'', rp_created_at = None\<rparr>"

theorem repayment_totals_exact_witness:
  "map_option tt_revenue (repayment_sums (Some [sample_run 90000 60000 30000, sample_run 25000 20000 5000]))
   = Some (num_of_int 115000)"
proof -
  have cols: "list_all (\<lambda>f. safe_column (map f [sample_run 90000 60000 30000, sample_run 25000 20000 5000]))
      [rp_revenue_minor, rp_principal_minor, rp_fee_minor, rp_reserve_minor, rp_owner_minor, rp_loss_minor]"
    by (simp add: safe_column_def sample_run_def num_of_int_def)
  show ?thesis
    using repayment_totals_exact [OF _ cols] by (simp add: column_sum_def sample_run_def num_of_int_def)
qed

text \<open>
  The balance check of a run checks nothing: it prints the equation whatever the amounts are, here
  one rupee in as half a rupee of principal and nothing else.
\<close>

theorem balance_check_unchecked:
  "\<exists>row. column_sum [rp_revenue_minor row] \<noteq> column_sum [rp_principal_minor row, rp_fee_minor row,
       rp_reserve_minor row, rp_owner_minor row, rp_loss_minor row]
   \<and> concat (map shown (balance_check row :: 'e node list))
     = RUPEE # ''1.00 in = '' @ RUPEE # ''0.50 principal + '' @ RUPEE # ''0.00 fee + '' @ RUPEE # ''0.00 reserve + '' @
       RUPEE # ''0.00 owner''"
proof -
  have unbalanced: "column_sum [num_of_int 100] \<noteq> column_sum [num_of_int 50, num_of_int 0, num_of_int 0, num_of_int 0, num_of_int 0]"
    by code_simp
  have texts: "money (Some (num_of_int 100)) = RUPEE # ''1.00''" "money (Some (num_of_int 50)) = RUPEE # ''0.50''"
    "money (Some (num_of_int 0)) = RUPEE # ''0.00''" "num_lt (Fin 0) (num_of_int 0) = False"
    by code_simp+
  show ?thesis
    by (rule exI [of _ "sample_run 100 50 0"])
      (use unbalanced texts in \<open>simp add: balance_check_def sample_run_def show_if_def\<close>)
qed

lemma events_queue_row [simp]: "events (queue_row ck app) = {OpenQueued (''/credit-applications/'' @ ca_application_id app)}"
  by (auto simp: queue_row_def split: option.splits)

lemma events_bucket_section:
  "events (bucket_section ck d b) = (\<lambda>app. OpenQueued (''/credit-applications/'' @ ca_application_id app)) ` set (uq_buckets d (qb_key b))"
  by (auto simp: bucket_section_def BucketTable_def)

lemma events_bucket_card [simp]: "events (bucket_card d b) = {}"
  by (simp add: bucket_card_def)

lemma all_buckets: "set (map qb_key BUCKETS) = UNIV" "distinct (map qb_key BUCKETS)"
proof -
  have "k \<in> set (map qb_key BUCKETS)" for k by (cases k) (simp_all add: BUCKETS_def)
  then show "set (map qb_key BUCKETS) = UNIV" by blast
  show "distinct (map qb_key BUCKETS)" by (simp add: BUCKETS_def)
qed

text \<open>
  Nothing in the queue is out of reach: the four sections are the four buckets, each once, and on
  a loaded queue the page offers exactly the applications the backend put in them.
\<close>

theorem queue_complete:
  "set (map qb_key BUCKETS) = UNIV \<and> distinct (map qb_key BUCKETS)
   \<and> events (queue_view ck \<lparr>qr_data = Some d, qr_pending = False, qr_error = None, qr_fetching = fetching\<rparr>)
     = (\<Union>k. (\<lambda>app. OpenQueued (''/credit-applications/'' @ ca_application_id app)) ` set (uq_buckets d k))"
proof (intro conjI)
  let ?paths = "\<lambda>k. (\<lambda>app. OpenQueued (''/credit-applications/'' @ ca_application_id app)) ` set (uq_buckets d k)"
  have "events (queue_view ck \<lparr>qr_data = Some d, qr_pending = False, qr_error = None, qr_fetching = fetching\<rparr>)
     = (\<Union>b \<in> set BUCKETS. events (bucket_section ck d b))"
    by (simp add: queue_view_def query_body_def)
  also have "\<dots> = (\<Union>b \<in> set BUCKETS. ?paths (qb_key b))"
    by (simp only: events_bucket_section)
  also have "\<dots> = (\<Union>k \<in> set (map qb_key BUCKETS). ?paths k)"
    by (simp only: set_map image_image)
  finally show "events (queue_view ck \<lparr>qr_data = Some d, qr_pending = False, qr_error = None, qr_fetching = fetching\<rparr>)
     = (\<Union>k. ?paths k)" by (simp only: all_buckets)
qed (rule all_buckets)+

end
