(* ===== verification/VaultPage.thy ===== *)
theory VaultPage
  imports Pages Repayment
begin

text \<open>
  One vault, \<open>frontend/app/(product)/vaults/[vaultId]/page.tsx\<close>: its balances, allowlist, spend
  attempts, revenue and risk events; freezing and closing it; and the repayment controls of
  \<open>Repayment\<close> under one of its tabs. React keeps a component's state only while it is mounted, so the
  page's state carries the number of the mount each part belongs to.
\<close>

subsection \<open>State\<close>

definition FREEZABLE :: "string list" where "FREEZABLE = [''CREATED'', ''ACTIVE'', ''SPENDING'']"
definition CLOSABLE :: "string list" where "CLOSABLE = [''REPAID'', ''PARTIALLY_REPAID'', ''DEFAULTED'']"

text \<open>
  \<open>vp_mounts\<close> counts the mounts so far, of the page and of the controls; \<open>vp_id\<close> is the page's own
  and \<open>vp_repay\<close> holds the controls' with their state while their tab is shown.
\<close>

record vp_page =
  vp_mounts :: nat
  vp_id :: nat
  vp_tab :: string
  vp_freezeOpen :: bool
  vp_reason :: string
  vp_freeze :: "json mutation_result"
  vp_close :: "json mutation_result"
  vp_repay :: "(nat \<times> rp_form) option"

definition vp_initial :: "nat \<Rightarrow> vp_page" where
  "vp_initial n = \<lparr>vp_mounts = Suc n, vp_id = n, vp_tab = tabs_initial (Some ''transactions''), vp_freezeOpen = False,
     vp_reason = [], vp_freeze = mu_idle, vp_close = mu_idle, vp_repay = None\<rparr>"

datatype vp_event =
    OpenFreeze
  | CloseVaultClick
  | SelectTab string
  | SetReason string
  | CancelFreeze
  | ConfirmFreeze
  | Repay rp_event
  | RetryVault

definition vp_valid :: "vp_page \<Rightarrow> bool" where "vp_valid p \<longleftrightarrow> length (trim (vp_reason p)) \<ge> 3"

text \<open>Showing a tab mounts its content; the repayment controls start afresh each time.\<close>

definition vp_select :: "VaultDetail \<Rightarrow> string \<Rightarrow> vp_page \<Rightarrow> vp_page" where
  "vp_select v t p =
     (let p' = p\<lparr>vp_tab := fst (tabs_setValue None t (vp_tab p))\<rparr> in
      if t = ''repayment'' then (if vp_tab p = ''repayment'' then p'
        else p'\<lparr>vp_repay := Some (vp_mounts p, rp_initial v), vp_mounts := Suc (vp_mounts p)\<rparr>)
      else p'\<lparr>vp_repay := None\<rparr>)"

fun vp_handle :: "VaultDetail \<Rightarrow> vp_event \<Rightarrow> vp_page \<Rightarrow> vp_page" where
  "vp_handle v OpenFreeze p = p\<lparr>vp_freezeOpen := True\<rparr>"
| "vp_handle v CloseVaultClick p = p\<lparr>vp_close := mu_sent\<rparr>"
| "vp_handle v (SelectTab t) p = vp_select v t p"
| "vp_handle v (SetReason r) p = p\<lparr>vp_reason := r\<rparr>"
| "vp_handle v CancelFreeze p = p\<lparr>vp_freezeOpen := False\<rparr>"
| "vp_handle v ConfirmFreeze p = p\<lparr>vp_freeze := mu_sent\<rparr>"
| "vp_handle v (Repay e) p = p\<lparr>vp_repay := map_option (\<lambda>(i, f). (i, rp_handle v e f)) (vp_repay p)\<rparr>"
| "vp_handle v RetryVault p = p"

text \<open>The writes of the page, each with the mount that sent it.\<close>

datatype vp_write =
    FreezeWrite nat string
  | CloseWrite nat
  | RevenueWrite nat RevenueBody
  | FailureWrite nat

fun vp_starts :: "VaultDetail \<Rightarrow> vp_event \<Rightarrow> vp_page \<Rightarrow> vp_write option" where
  "vp_starts v ConfirmFreeze p = Some (FreezeWrite (vp_id p) (trim (vp_reason p)))"
| "vp_starts v CloseVaultClick p = Some (CloseWrite (vp_id p))"
| "vp_starts v (Repay (RecordRevenue b)) p = (case vp_repay p of None \<Rightarrow> None
     | Some (i, f) \<Rightarrow> map_option (RevenueWrite i) (rp_submit v f b))"
| "vp_starts v (Repay SimulateFailure) p = map_option (\<lambda>(i, f). FailureWrite i) (vp_repay p)"
| "vp_starts v _ p = None"

fun vp_call :: "string \<Rightarrow> vp_write \<Rightarrow> call" where
  "vp_call vaultId (FreezeWrite i reason) = mu_call (useFreezeVault vaultId reason)"
| "vp_call vaultId (CloseWrite i) = mu_call (useCloseVault vaultId)"
| "vp_call vaultId (RevenueWrite i b) = mu_call (useReceiveRevenue vaultId b)"
| "vp_call vaultId (FailureWrite i) = mu_call (useSimulateFailure vaultId)"

text \<open>
  The end of a write reaches the mount that sent it, if it still stands; a freeze that succeeded
  also clears the reason and closes the sheet.
\<close>

type_synonym vp_answer = "(failure + json) \<times> (failure + RevenueAnswer) \<times> (failure + FailureAnswer)"

definition vp_repay_settle :: "nat \<Rightarrow> (rp_form \<Rightarrow> rp_form) \<Rightarrow> vp_page \<Rightarrow> vp_page" where
  "vp_repay_settle i g p = p\<lparr>vp_repay := map_option (\<lambda>(j, f). (j, if j = i then g f else f)) (vp_repay p)\<rparr>"

fun vp_settle :: "vp_write \<Rightarrow> vp_answer \<Rightarrow> vp_page \<Rightarrow> vp_page" where
  "vp_settle (FreezeWrite i r) out p =
     (if i \<noteq> vp_id p then p
      else case fst out of
        Inl e \<Rightarrow> p\<lparr>vp_freeze := mu_settled (fst out)\<rparr>
      | Inr j \<Rightarrow> p\<lparr>vp_freeze := mu_settled (fst out), vp_reason := [], vp_freezeOpen := False\<rparr>)"
| "vp_settle (CloseWrite i) out p = (if i \<noteq> vp_id p then p else p\<lparr>vp_close := mu_settled (fst out)\<rparr>)"
| "vp_settle (RevenueWrite i b) out p = vp_repay_settle i (\<lambda>f. f\<lparr>rp_receive := mu_settled (fst (snd out))\<rparr>) p"
| "vp_settle (FailureWrite i) out p = vp_repay_settle i (\<lambda>f. f\<lparr>rp_fail := mu_settled (snd (snd out))\<rparr>) p"

text \<open>A refetched vault: only the amount of the controls follows it.\<close>

definition vp_follow :: "VaultDetail \<Rightarrow> vp_page \<Rightarrow> vp_page" where
  "vp_follow v p = p\<lparr>vp_repay := map_option (\<lambda>(i, f). (i, rp_follow v f)) (vp_repay p)\<rparr>"

subsection \<open>The view\<close>

definition vp_header :: "VaultDetail \<Rightarrow> vp_page \<Rightarrow> vp_event node" where
  "vp_header v p = El ''div'' [] [
     El ''div'' [] [
       El ''h1'' [] [El ''span'' [] (
         [Txt ''Vault '', Txt (shortId (Some (vs_vault_id v)) 10 4), StatusBadge (Some (vs_status v)) False]
         @ show_if (\<not> falsy_string (vs_frozen_reason v))
             [Badge caution [icon ''Snowflake'', Txt '' '', Txt (statusLabel (vs_frozen_reason v))]])],
       El ''p'' [] [El ''span'' [] [
         Link (''/agents/'' @ vs_agent_id v) [Txt (vs_agent_name v)],
         Txt ('' '' @ [MIDDOT] @ '' ''), Txt (vs_task_title v), Txt ('' '' @ [MIDDOT] @ '' ''),
         Link (''/credit-applications/'' @ vs_application_id v)
           [Txt ''application '', Txt (shortId (Some (vs_application_id v)) 8 4)]]]],
     El ''div'' [] (
       show_if (List.member FREEZABLE (vs_status v))
         [Button Secondary False OpenFreeze [icon ''Snowflake'', Txt ''Freeze vault'']]
       @ show_if (List.member CLOSABLE (vs_status v))
         [Button Secondary (mu_pending (vp_close p)) CloseVaultClick [icon ''XCircle'', Txt ''Close vault'']])]"

definition vp_facility :: "clock \<Rightarrow> VaultDetail \<Rightarrow> 'e node" where
  "vp_facility ck v = Card [
     CardHeader [CardTitle [Txt ''Facility'']],
     CardContent [
       El ''div'' [] [
         El ''div'' [] [El ''span'' [] [Txt ''Utilisation''],
           El ''span'' [] [Txt (money (Some (vs_spent_minor v))), Txt '' of '', Txt (money (Some (vs_total_limit_minor v)))]],
         Meter (Some (vs_spent_minor v)) (Some (vs_total_limit_minor v)) (Some ''Vault utilisation'')],
       El ''div'' [] [
         Rows [
           Row ''Remaining headroom'' None [MoneyValue (Some (vs_remaining_minor v)) False NotAvailable],
           Row ''Per-transaction cap'' None [Txt (money (Some (vs_per_transaction_limit_minor v)))],
           Row ''Daily cap'' None [Txt (money (Some (vs_daily_limit_minor v)))],
           Row ''Transactions used'' None [El ''span'' [] [Txt (Format.count (Some (vs_transaction_count v))), Txt '' of '',
             Txt (Format.count (Some (vs_max_transactions v)))]]],
         Rows [
           Row ''Principal outstanding'' None [MoneyValue (Some (vs_principal_outstanding_minor v)) False NotAvailable],
           Row ''Fee due'' None [MoneyValue (Some (vs_fee_due_minor v)) False NotAvailable],
           Row ''Reserve drawn'' None [MoneyValue (Some (vs_reserve_drawn_minor v)) False NotAvailable],
           Row ''Expires'' None [Txt (stamp ck (vs_expires_at v))]]]]]"

definition vp_allowlist :: "VaultDetail \<Rightarrow> 'e node" where
  "vp_allowlist v = Card [
     CardHeader [icon ''Lock'', CardTitle [Txt ''Vendor allowlist''],
       para (''A vault can only pay vendors on this list, and only for the purposes bound to them. '' @
         ''Everything else is refused before any money moves.'')],
     CardContent [
       if length (vd_allowlist v) = 0 then EmptyState ''No vendors allowlisted'' None ''Inbox'' []
       else El ''ul'' [] (map (\<lambda>vendor. El ''li'' [] [
         El ''div'' [] [El ''span'' [] [Txt (vd_allo_vendor_name vendor)],
           El ''span'' [] [Txt (case vd_allo_per_vendor_cap_minor vendor of
              None \<Rightarrow> ''no vendor cap'' | Some m \<Rightarrow> money (Some m))]],
         El ''div'' [] (Badge outline [Txt (vd_allo_category vendor)]
           # map (\<lambda>code. Badge neutral [Txt code]) (vd_allo_purpose_codes vendor))]) (vd_allowlist v))]]"

definition vp_attempt :: "clock \<Rightarrow> VaultDetail_transactions \<Rightarrow> 'e node" where
  "vp_attempt ck txn = TableRow [
     TableCell [Link (''/transactions/'' @ vd_tran_proposal_id txn) [Txt (shortId (Some (vd_tran_proposal_id txn)) 10 4)]],
     TableCell [Txt (vd_tran_vendor_name txn)],
     TableCell [Badge outline [Txt (vd_tran_purpose_code txn)]],
     TableCell [Txt (money (Some (vd_tran_amount_minor txn)))],
     TableCell [StatusBadge (Some (vd_tran_status txn)) False],
     TableCell [El ''span'' [] (map (\<lambda>code. Badge (if vd_tran_status txn = ''DENIED'' then critical else outline) [Txt code])
       (vd_tran_reason_codes txn))],
     TableCell [Txt (ago ck (case vd_tran_executed_at txn of Some t \<Rightarrow> Some t | None \<Rightarrow> vd_tran_created_at txn))]]"

definition vp_transactions_tab :: "clock \<Rightarrow> VaultDetail \<Rightarrow> 'e node list" where
  "vp_transactions_tab ck v = [
     if length (vd_transactions v) = 0 then EmptyState ''No spend attempts yet'' None ''Inbox'' []
     else Card [TableWrap [Table [
       head_row [''Proposal'', ''Vendor'', ''Purpose'', ''Amount'', ''Outcome'', ''Reason codes'', ''When''],
       TableBody (map (vp_attempt ck) (vd_transactions v))]]]]"

definition vp_run_of :: "clock \<Rightarrow> RepaymentRecord \<Rightarrow> 'e node" where
  "vp_run_of ck r = El ''div'' [] [
     El ''div'' [] [Badge (if rr_kind r = ''RECOVERY'' then caution else info) [Txt (statusLabel (Some (rr_kind r)))],
       Mono [Txt (shortId (Some (rr_repayment_id r)) 10 4)], El ''span'' [] [Txt (stamp ck (rr_created_at r))]],
     Waterfall r]"

definition vp_repayment_tab :: "clock \<Rightarrow> VaultDetail \<Rightarrow> vp_page \<Rightarrow> vp_event node list" where
  "vp_repayment_tab ck v p =
     some_node (\<lambda>(i, f). [map_node Repay (rp_view v f)]) (vp_repay p)
     @ [El ''div'' [] [
       Card [CardHeader [CardTitle [Txt ''Revenue received'']],
         CardContent [if length (vd_revenue_events v) = 0
           then EmptyState ''No revenue yet'' (Some ''Task revenue lands here first, then flows down the waterfall.'') ''Inbox'' []
           else Rows (map (\<lambda>e. Row (stamp ck (vd_re_created_at e)) None
             [El ''span'' [] [Txt (money (Some (vd_re_amount_minor e)))]]) (vd_revenue_events v))]],
       Card [CardHeader [CardTitle [Txt ''Repayment waterfall''],
           para (''Drawn from the ledger'' @ [APOS] @ ''s actual allocations, not recalculated for display.'')],
         CardContent (if length (vd_repayments v) = 0 then [EmptyState ''No repayments yet'' None ''Inbox'' []]
           else map (vp_run_of ck) (vd_repayments v))]]]"

definition vp_risk_tab :: "clock \<Rightarrow> VaultDetail \<Rightarrow> 'e node list" where
  "vp_risk_tab ck v = [
     if length (vd_risk_events v) = 0 then EmptyState ''No risk events on this vault'' None ''Inbox'' []
     else Card [TableWrap [Table [head_row [''Event'', ''Severity'', ''When''],
       TableBody (map (\<lambda>e. TableRow [
         TableCell [Txt (statusLabel (Some (re_event_type e)))],
         TableCell [Badge (if re_severity e = ''CRITICAL'' \<or> re_severity e = ''HIGH'' then critical else caution)
           [Txt (re_severity e)]],
         TableCell [Txt (stamp ck (re_created_at e))]]) (vd_risk_events v))]]]]"

definition vp_tabs :: "string \<Rightarrow> clock \<Rightarrow> VaultDetail \<Rightarrow> vp_page \<Rightarrow> vp_event node" where
  "vp_tabs baseId ck v p = (let tab = tabs_value None (vp_tab p) in El ''div'' [] (
     [TabsList [
        TabsTrigger baseId tab ''transactions'' SelectTab [Txt ''Spend attempts''],
        TabsTrigger baseId tab ''repayment'' SelectTab [Txt ''Revenue & repayment''],
        TabsTrigger baseId tab ''risk'' SelectTab [Txt ''Risk events'']]]
     @ TabsContent baseId tab ''transactions'' (vp_transactions_tab ck v)
     @ TabsContent baseId tab ''repayment'' (vp_repayment_tab ck v p)
     @ TabsContent baseId tab ''risk'' (vp_risk_tab ck v)))"

definition FreezeSheet :: "bool \<Rightarrow> vp_page \<Rightarrow> vp_event node list" where
  "FreezeSheet mounted p = Sheet mounted (vp_freezeOpen p) CancelFreeze ''Freeze this vault''
     (Some [Txt ''Suspends all spending immediately. Reversible by an owner.''])
     [Button Ghost False CancelFreeze [Txt ''Cancel''],
      Button Danger (\<not> vp_valid p \<or> mu_pending (vp_freeze p)) ConfirmFreeze [icon ''Snowflake'', Txt ''Freeze vault'']]
     ([para (''Freezing stops every pending and future spend attempt on this vault. Revenue can still arrive and '' @
         ''repayment still runs. The freeze, and your reason, are recorded in the audit chain.''),
       Field ''Reason'' (Some ''Required. Written to the audit chain verbatim.'') (Some ''freeze-reason'')
         [Input [Attr ''id'' ''freeze-reason'', Attr ''placeholder'' ''e.g. Owner requested pause pending task review'']
           (vp_reason p) False SetReason]]
      @ some_node (\<lambda>e. [para (failure_text ''The vault could not be frozen.'' e)]) (mu_error (vp_freeze p)))"

definition vp_loaded :: "bool \<Rightarrow> string \<Rightarrow> clock \<Rightarrow> VaultDetail \<Rightarrow> vp_page \<Rightarrow> vp_event node" where
  "vp_loaded mounted baseId ck v p = El ''div'' [] (
     [vp_header v p]
     @ some_node (\<lambda>e. [para (failure_text ''The vault could not be closed.'' e)]) (mu_error (vp_close p))
     @ [El ''div'' [] [vp_facility ck v, vp_allowlist v], vp_tabs baseId ck v p]
     @ FreezeSheet mounted p)"

definition vp_view :: "bool \<Rightarrow> string \<Rightarrow> clock \<Rightarrow> VaultDetail query_result \<Rightarrow> vp_page \<Rightarrow> vp_event node" where
  "vp_view mounted baseId ck q p = El ''div'' [] (
     Link ''/vaults'' [icon ''ArrowLeft'', Txt '' All vaults'']
     # query_body q [LoadingBlock 8] (retry_state RetryVault) (\<lambda>v. [vp_loaded mounted baseId ck v p]))"

subsection \<open>What the page offers\<close>

lemma events_Waterfall [simp]: "events (Waterfall r) = {}"
  by (auto simp: Waterfall_def Let_def split: if_splits prod.splits)

lemma events_vp_parts [simp]:
  "events (vp_facility ck v) = {}" "events (vp_allowlist v) = {}" "events (vp_attempt ck t) = {}"
  "events (vp_run_of ck r) = {}"
  by (auto simp: vp_facility_def vp_allowlist_def vp_attempt_def vp_run_of_def Meter_def Let_def split: if_splits option.splits)

lemma events_vp_tabs [simp]:
  "n \<in> set (vp_transactions_tab ck v) \<Longrightarrow> events n = {}" "n \<in> set (vp_risk_tab ck v) \<Longrightarrow> events n = {}"
  by (auto simp: vp_transactions_tab_def vp_risk_tab_def split: if_splits)

lemma events_TabsTrigger [simp]: "events (TabsTrigger b a v f ks) = insert (f v) (\<Union>k \<in> set ks. events k)"
  by (simp add: TabsTrigger_def Let_def)

lemma events_TabsContent:
  "(\<Union>n \<in> set (TabsContent b a v ks). events n) = (if a = v then \<Union>k \<in> set ks. events k else {})"
  by (simp add: TabsContent_def)

lemma events_repayment_tab:
  "(\<Union>n \<in> set (vp_repayment_tab ck v p). events n) =
     (case vp_repay p of None \<Rightarrow> {} | Some (i, f) \<Rightarrow> Repay ` f_offers rp_spec (v, f))"
proof -
  have "events (rp_view v f) = f_offers rp_spec (v, f)" for f by (simp add: rp_spec_def)
  then show ?thesis
    by (auto simp: vp_repayment_tab_def set_some_node split: option.splits prod.splits)
qed

lemma vp_tabs_offers:
  "events (vp_tabs b ck v p) = {SelectTab ''transactions'', SelectTab ''repayment'', SelectTab ''risk''}
     \<union> (if vp_tab p = ''repayment''
        then (case vp_repay p of None \<Rightarrow> {} | Some (i, f) \<Rightarrow> Repay ` f_offers rp_spec (v, f)) else {})"
proof -
  have "events (vp_tabs b ck v p) = {SelectTab ''transactions'', SelectTab ''repayment'', SelectTab ''risk''}
      \<union> (\<Union>n \<in> set (TabsContent b (vp_tab p) ''transactions'' (vp_transactions_tab ck v)). events n)
      \<union> (\<Union>n \<in> set (TabsContent b (vp_tab p) ''repayment'' (vp_repayment_tab ck v p)). events n)
      \<union> (\<Union>n \<in> set (TabsContent b (vp_tab p) ''risk'' (vp_risk_tab ck v)). events n)"
    by (simp add: vp_tabs_def Let_def tabs_value_def TabsList_def insert_commute Un_assoc)
  then show ?thesis unfolding events_TabsContent by (simp add: events_repayment_tab)
qed

lemma vp_offers:
  "events (vp_loaded m b ck v p) =
     (if List.member FREEZABLE (vs_status v) then {OpenFreeze} else {})
     \<union> (if List.member CLOSABLE (vs_status v) \<and> \<not> mu_pending (vp_close p) then {CloseVaultClick} else {})
     \<union> {SelectTab ''transactions'', SelectTab ''repayment'', SelectTab ''risk''}
     \<union> (if vp_tab p = ''repayment''
        then (case vp_repay p of None \<Rightarrow> {} | Some (i, f) \<Rightarrow> Repay ` f_offers rp_spec (v, f)) else {})
     \<union> (if m \<and> vp_freezeOpen p then {CancelFreeze} \<union> range SetReason
          \<union> (if vp_valid p \<and> \<not> mu_pending (vp_freeze p) then {ConfirmFreeze} else {}) else {})"
proof -
  have h: "events (vp_header v p) = (if List.member FREEZABLE (vs_status v) then {OpenFreeze} else {})
     \<union> (if List.member CLOSABLE (vs_status v) \<and> \<not> mu_pending (vp_close p) then {CloseVaultClick} else {})"
    by (simp add: vp_header_def)
  have f: "(\<Union>n \<in> set (FreezeSheet m p). events n) = (if m \<and> vp_freezeOpen p then {CancelFreeze} \<union> range SetReason
          \<union> (if vp_valid p \<and> \<not> mu_pending (vp_freeze p) then {ConfirmFreeze} else {}) else {})"
    by (auto simp: FreezeSheet_def events_Sheet set_some_node split: option.splits)
  have e: "(\<Union>n \<in> set (some_node (\<lambda>e. [para (g e)]) x). events n) = {}" for g :: "failure \<Rightarrow> string" and x
    by (cases x) simp_all
  have "events (vp_loaded m b ck v p) = events (vp_header v p)
      \<union> (\<Union>n \<in> set (some_node (\<lambda>e. [para (failure_text ''The vault could not be closed.'' e)]) (mu_error (vp_close p))). events n)
      \<union> events (vp_tabs b ck v p) \<union> (\<Union>n \<in> set (FreezeSheet m p). events n)"
    by (simp add: vp_loaded_def UN_Un Un_ac)
  then show ?thesis unfolding e h f vp_tabs_offers by (simp only: Un_empty_right Un_assoc)
qed

subsection \<open>Runs of the page\<close>

text \<open>
  \<open>vp_run v p ws\<close>: a user can bring the page of a vault, last read as \<open>v\<close>, into state \<open>p\<close> with the
  writes \<open>ws\<close> in flight. A query that failed and was retried, or another vault, mounts it anew.
\<close>

inductive vp_run :: "VaultDetail \<Rightarrow> vp_page \<Rightarrow> vp_write list \<Rightarrow> bool" where
  vp_open: "vp_run v (vp_initial 0) []"
| vp_user: "vp_run v p ws \<Longrightarrow> e \<in> events (vp_loaded m b ck v p) \<Longrightarrow>
    vp_run v (vp_handle v e p) (case vp_starts v e p of None \<Rightarrow> ws | Some w \<Rightarrow> w # ws)"
| vp_end: "vp_run v p ws \<Longrightarrow> w \<in> set ws \<Longrightarrow> vp_run v (vp_settle w out p) (remove1 w ws)"
| vp_refetched: "vp_run v p ws \<Longrightarrow> vp_run v' (vp_follow v' p) ws"
| vp_remount: "vp_run v p ws \<Longrightarrow> vp_run v' (vp_initial (vp_mounts p)) ws"

fun freeze_of :: "nat \<Rightarrow> vp_write \<Rightarrow> bool" where
  "freeze_of i (FreezeWrite j r) \<longleftrightarrow> j = i"
| "freeze_of i _ \<longleftrightarrow> False"

fun close_of :: "nat \<Rightarrow> vp_write \<Rightarrow> bool" where
  "close_of i (CloseWrite j) \<longleftrightarrow> j = i"
| "close_of i _ \<longleftrightarrow> False"

fun revenue_of :: "nat \<Rightarrow> vp_write \<Rightarrow> bool" where
  "revenue_of i (RevenueWrite j b) \<longleftrightarrow> j = i"
| "revenue_of i _ \<longleftrightarrow> False"

fun failure_of :: "nat \<Rightarrow> vp_write \<Rightarrow> bool" where
  "failure_of i (FailureWrite j) \<longleftrightarrow> j = i"
| "failure_of i _ \<longleftrightarrow> False"

definition repay_of :: "nat \<Rightarrow> vp_write \<Rightarrow> bool" where
  "repay_of i w \<longleftrightarrow> revenue_of i w \<or> failure_of i w"

fun write_mount :: "vp_write \<Rightarrow> nat" where
  "write_mount (FreezeWrite i r) = i"
| "write_mount (CloseWrite i) = i"
| "write_mount (RevenueWrite i b) = i"
| "write_mount (FailureWrite i) = i"

fun reason_ok :: "vp_write \<Rightarrow> bool" where
  "reason_ok (FreezeWrite i r) \<longleftrightarrow> length r \<ge> 3 \<and> trim r = r"
| "reason_ok _ \<longleftrightarrow> True"

definition in_flight :: "(vp_write \<Rightarrow> bool) \<Rightarrow> vp_write list \<Rightarrow> nat" where
  "in_flight f ws = length (filter f ws)"

lemma in_flight_simps [simp]:
  "in_flight f [] = 0" "in_flight f (w # ws) = of_bool (f w) + in_flight f ws"
  by (simp_all add: in_flight_def)

lemma in_flight_remove: "w \<in> set ws \<Longrightarrow> in_flight f (remove1 w ws) = in_flight f ws - of_bool (f w)"
  by (simp add: in_flight_def filter_remove1 length_remove1)

lemma in_flight_repay: "in_flight (repay_of i) ws = in_flight (revenue_of i) ws + in_flight (failure_of i) ws"
proof -
  have "of_bool (repay_of i w) = (of_bool (revenue_of i w) + of_bool (failure_of i w) :: nat)" for w
    by (cases w) (simp_all add: repay_of_def)
  then show ?thesis by (induction ws) simp_all
qed

lemma in_flight_none: "list_all (\<lambda>w. write_mount w < n) ws \<Longrightarrow>
    in_flight (freeze_of n) ws = 0 \<and> in_flight (close_of n) ws = 0 \<and> in_flight (revenue_of n) ws = 0
    \<and> in_flight (failure_of n) ws = 0"
proof (induction ws)
  case (Cons w ws)
  then show ?case by (cases w) simp_all
qed simp

text \<open>The invariant of a run: the writes of each mount, and what the state says of its own.\<close>

definition vp_inv :: "vp_page \<Rightarrow> vp_write list \<Rightarrow> bool" where
  "vp_inv p ws \<longleftrightarrow> vp_id p < vp_mounts p \<and> list_all (\<lambda>w. write_mount w < vp_mounts p) ws \<and> list_all reason_ok ws
     \<and> (\<forall>i. in_flight (freeze_of i) ws \<le> 1 \<and> in_flight (close_of i) ws \<le> 1 \<and> in_flight (repay_of i) ws \<le> 1)
     \<and> in_flight (freeze_of (vp_id p)) ws = of_bool (mu_pending (vp_freeze p))
     \<and> in_flight (close_of (vp_id p)) ws = of_bool (mu_pending (vp_close p))
     \<and> (case vp_repay p of None \<Rightarrow> True | Some (i, f) \<Rightarrow> i < vp_mounts p
          \<and> in_flight (revenue_of i) ws = of_bool (mu_pending (rp_receive f))
          \<and> in_flight (failure_of i) ws = of_bool (mu_pending (rp_fail f)))"

lemma vp_inv_initial: "list_all (\<lambda>w. write_mount w < n) ws \<Longrightarrow> list_all reason_ok ws \<Longrightarrow>
    (\<forall>i. in_flight (freeze_of i) ws \<le> 1 \<and> in_flight (close_of i) ws \<le> 1 \<and> in_flight (repay_of i) ws \<le> 1)
    \<Longrightarrow> vp_inv (vp_initial n) ws"
  using in_flight_none [of n ws] by (auto simp: vp_inv_def vp_initial_def list_all_iff less_Suc_eq)

lemma vp_inv_remount: "vp_inv p ws \<Longrightarrow> vp_inv (vp_initial (vp_mounts p)) ws"
  by (rule vp_inv_initial) (simp_all add: vp_inv_def)

lemma rp_follow_pending [simp]:
  "rp_receive (rp_follow v f) = rp_receive f" "rp_fail (rp_follow v f) = rp_fail f"
  by (simp_all add: rp_follow_def Let_def)

lemma vp_inv_follow: "vp_inv p ws \<Longrightarrow> vp_inv (vp_follow v p) ws"
  by (auto simp: vp_inv_def vp_follow_def split: option.splits)

lemma vp_inv_end:
  assumes "vp_inv p ws" and "w \<in> set ws"
  shows "vp_inv (vp_settle w out p) (remove1 w ws)"
proof -
  have mounts: "list_all P (remove1 w ws)" if "list_all P ws" for P
    using that set_remove1_subset [of w ws] by (auto simp: list_all_iff)
  note rem = in_flight_remove [OF assms(2)]
  have "\<forall>i. in_flight (freeze_of i) ws \<le> 1 \<and> in_flight (close_of i) ws \<le> 1 \<and> in_flight (repay_of i) ws \<le> 1"
    using assms(1) unfolding vp_inv_def by (elim conjE)
  then have counts: "\<forall>i. in_flight (freeze_of i) (remove1 w ws) \<le> 1 \<and> in_flight (close_of i) (remove1 w ws) \<le> 1
      \<and> in_flight (repay_of i) (remove1 w ws) \<le> 1"
    unfolding rem using le_trans [OF diff_le_self] by blast
  have "list_all (\<lambda>w. write_mount w < vp_mounts p) ws" "list_all reason_ok ws"
    using assms(1) by (simp_all add: vp_inv_def)
  note keep = mounts [OF this(1)] mounts [OF this(2)] counts
  have own: "vp_id p < vp_mounts p" "in_flight (freeze_of (vp_id p)) ws = of_bool (mu_pending (vp_freeze p))"
    "in_flight (close_of (vp_id p)) ws = of_bool (mu_pending (vp_close p))"
    using assms(1) by (simp_all add: vp_inv_def)
  have mine: "fst x < vp_mounts p \<and> in_flight (revenue_of (fst x)) ws = of_bool (mu_pending (rp_receive (snd x)))
      \<and> in_flight (failure_of (fst x)) ws = of_bool (mu_pending (rp_fail (snd x)))" if "vp_repay p = Some x" for x
    using assms(1) that by (simp add: vp_inv_def split_beta)
  show ?thesis
  proof (cases w)
    case (FreezeWrite i r)
    then show ?thesis using own mine keep unfolding vp_inv_def rem
      by (cases "fst out"; cases "i = vp_id p"; cases "vp_repay p") (simp_all add: split_beta)
  next
    case (CloseWrite i)
    then show ?thesis using own mine keep unfolding vp_inv_def rem
      by (cases "i = vp_id p"; cases "vp_repay p") (simp_all add: split_beta)
  next
    case (RevenueWrite i b)
    then show ?thesis using own mine keep unfolding vp_inv_def rem
      by (cases "vp_repay p") (simp_all add: vp_repay_settle_def split_beta)
  next
    case (FailureWrite i)
    then show ?thesis using own mine keep unfolding vp_inv_def rem
      by (cases "vp_repay p") (simp_all add: vp_repay_settle_def split_beta)
  qed
qed

lemma vp_inv_send:
  assumes "vp_inv p ws" and "write_mount w < vp_mounts p" and "reason_ok w"
    and "freeze_of (vp_id p) w \<Longrightarrow> \<not> mu_pending (vp_freeze p)"
    and "close_of (vp_id p) w \<Longrightarrow> \<not> mu_pending (vp_close p)"
    and "\<And>i. freeze_of i w \<Longrightarrow> i = vp_id p" and "\<And>i. close_of i w \<Longrightarrow> i = vp_id p"
    and "\<And>i. repay_of i w \<Longrightarrow> \<exists>f. vp_repay p = Some (i, f) \<and> \<not> rp_busy f"
  shows "\<forall>i. in_flight (freeze_of i) (w # ws) \<le> 1 \<and> in_flight (close_of i) (w # ws) \<le> 1
    \<and> in_flight (repay_of i) (w # ws) \<le> 1"
proof (intro allI conjI)
  fix i
  have old: "in_flight (freeze_of i) ws \<le> 1" "in_flight (close_of i) ws \<le> 1" "in_flight (repay_of i) ws \<le> 1"
    using assms(1) by (simp_all add: vp_inv_def)
  have own: "in_flight (freeze_of (vp_id p)) ws = of_bool (mu_pending (vp_freeze p))"
    "in_flight (close_of (vp_id p)) ws = of_bool (mu_pending (vp_close p))"
    using assms(1) by (simp_all add: vp_inv_def)
  show "in_flight (freeze_of i) (w # ws) \<le> 1"
    using old own assms(4,6) by (cases "freeze_of i w") auto
  show "in_flight (close_of i) (w # ws) \<le> 1"
    using old own assms(5,7) by (cases "close_of i w") auto
  have "in_flight (repay_of i) ws = 0" if r: "repay_of i w"
  proof -
    obtain f where f: "vp_repay p = Some (i, f)" "\<not> rp_busy f" using assms(8) [OF r] by blast
    then show ?thesis using assms(1) by (simp add: vp_inv_def in_flight_repay rp_busy_def)
  qed
  then show "in_flight (repay_of i) (w # ws) \<le> 1"
    using old by (cases "repay_of i w") auto
qed

lemma rp_offer_idle: "e \<in> f_offers rp_spec (v, f) \<Longrightarrow> \<not> rp_busy f"
  by (auto simp: rp_offers split: if_splits)

lemma vp_inv_user:
  assumes inv: "vp_inv p ws" and off: "e \<in> events (vp_loaded m b ck v p)"
  shows "vp_inv (vp_handle v e p) (case vp_starts v e p of None \<Rightarrow> ws | Some w \<Rightarrow> w # ws)"
proof (cases e)
  case ConfirmFreeze
  then have "vp_valid p" "\<not> mu_pending (vp_freeze p)"
    using off unfolding vp_offers by (auto split: if_splits option.splits)
  then have "\<forall>i. in_flight (freeze_of i) (FreezeWrite (vp_id p) (trim (vp_reason p)) # ws) \<le> 1
    \<and> in_flight (close_of i) (FreezeWrite (vp_id p) (trim (vp_reason p)) # ws) \<le> 1
    \<and> in_flight (repay_of i) (FreezeWrite (vp_id p) (trim (vp_reason p)) # ws) \<le> 1"
    using inv by (intro vp_inv_send) (auto simp: vp_inv_def repay_of_def vp_valid_def trim_trim)
  then show ?thesis using inv ConfirmFreeze \<open>vp_valid p\<close> \<open>\<not> mu_pending (vp_freeze p)\<close>
    by (auto simp: vp_inv_def vp_valid_def trim_trim split: option.splits)
next
  case CloseVaultClick
  then have p: "\<not> mu_pending (vp_close p)"
    using off unfolding vp_offers by (auto split: if_splits option.splits)
  then have "\<forall>i. in_flight (freeze_of i) (CloseWrite (vp_id p) # ws) \<le> 1
    \<and> in_flight (close_of i) (CloseWrite (vp_id p) # ws) \<le> 1 \<and> in_flight (repay_of i) (CloseWrite (vp_id p) # ws) \<le> 1"
    using inv by (intro vp_inv_send) (auto simp: vp_inv_def repay_of_def)
  then show ?thesis using inv CloseVaultClick p by (auto simp: vp_inv_def split: option.splits)
next
  case (SelectTab t)
  show ?thesis
  proof (cases "t = ''repayment'' \<and> vp_tab p \<noteq> ''repayment''")
    case True
    have "in_flight (revenue_of (vp_mounts p)) ws = 0" "in_flight (failure_of (vp_mounts p)) ws = 0"
      using in_flight_none [of "vp_mounts p" ws] inv by (simp_all add: vp_inv_def)
    then show ?thesis using inv True SelectTab
      by (auto simp: vp_inv_def vp_select_def Let_def rp_initial_def list_all_iff less_Suc_eq)
  next
    case False
    then show ?thesis using inv SelectTab
      by (auto simp: vp_inv_def vp_select_def Let_def split: option.splits)
  qed
next
  case (Repay r)
  then obtain i f where f: "vp_repay p = Some (i, f)" and r: "r \<in> f_offers rp_spec (v, f)"
    using off unfolding vp_offers by (auto split: if_splits option.splits)
  have idle: "\<not> rp_busy f" using rp_offer_idle [OF r] .
  have i: "i < vp_mounts p" using inv f by (simp add: vp_inv_def)
  have send: "\<forall>j. in_flight (freeze_of j) (w # ws) \<le> 1 \<and> in_flight (close_of j) (w # ws) \<le> 1
      \<and> in_flight (repay_of j) (w # ws) \<le> 1" if "w = FailureWrite i \<or> (\<exists>b. w = RevenueWrite i b)" for w
    using inv that f idle i by (intro vp_inv_send) (auto simp: repay_of_def)
  show ?thesis
  proof (cases r)
    case (SetAmount a)
    then show ?thesis using inv Repay f by (auto simp: vp_inv_def)
  next
    case (RecordRevenue b)
    show ?thesis
    proof (cases "rp_submit v f b")
      case None
      then show ?thesis using inv Repay f RecordRevenue by (auto simp: vp_inv_def)
    next
      case (Some body)
      then show ?thesis using inv Repay f RecordRevenue i idle send [of "RevenueWrite i body"]
        by (auto simp: vp_inv_def rp_busy_def)
    qed
  next
    case SimulateFailure
    then show ?thesis using inv Repay f i idle send [of "FailureWrite i"]
      by (auto simp: vp_inv_def rp_busy_def)
  qed
qed (use inv in \<open>auto simp: vp_inv_def split: option.splits\<close>)

lemma vp_run_inv: "vp_run v p ws \<Longrightarrow> vp_inv p ws"
proof (induction rule: vp_run.induct)
  case (vp_open v)
  show ?case by (rule vp_inv_initial) simp_all
qed (simp_all add: vp_inv_user vp_inv_end vp_inv_follow vp_inv_remount)

text \<open>The page after its user looked at the risk events and came back to the repayment.\<close>

definition returned :: "VaultDetail \<Rightarrow> vp_page \<Rightarrow> vp_page" where
  "returned v p = vp_handle v (SelectTab ''repayment'') (vp_handle v (SelectTab ''risk'') p)"

subsection \<open>Properties\<close>

text \<open>
  C13. Whatever a user does on the page of a vault, each mount of it has at most one freeze and one close
  in flight and each mount of the repayment controls at most one write, and every freeze carries a
  trimmed reason of three characters or more. The button that opens the freeze sheet is there exactly
  for a vault that can still spend; closing is offered exactly for one that was concluded while no
  close of this mount is in flight; the two buttons are never there together. The freeze itself is
  offered exactly when the sheet is open with such a reason and no freeze of this mount is in flight,
  whatever the status of the vault has become since the sheet was opened.
\<close>

theorem vault_writes_guarded:
  assumes "vp_run v p ws"
  shows "in_flight (freeze_of i) ws \<le> 1 \<and> in_flight (close_of i) ws \<le> 1 \<and> in_flight (repay_of i) ws \<le> 1
    \<and> list_all reason_ok ws
    \<and> (OpenFreeze \<in> events (vp_loaded m b ck v p) \<longleftrightarrow> vs_status v \<in> {''CREATED'', ''ACTIVE'', ''SPENDING''})
    \<and> (CloseVaultClick \<in> events (vp_loaded m b ck v p) \<longleftrightarrow>
         vs_status v \<in> {''REPAID'', ''PARTIALLY_REPAID'', ''DEFAULTED''} \<and> in_flight (close_of (vp_id p)) ws = 0)
    \<and> \<not> {OpenFreeze, CloseVaultClick} \<subseteq> events (vp_loaded m b ck v p)
    \<and> (ConfirmFreeze \<in> events (vp_loaded m b ck v p) \<longleftrightarrow>
         m \<and> vp_freezeOpen p \<and> 3 \<le> length (trim (vp_reason p)) \<and> in_flight (freeze_of (vp_id p)) ws = 0)"
proof -
  have inv: "vp_inv p ws" by (rule vp_run_inv [OF assms])
  have freeze: "OpenFreeze \<in> events (vp_loaded m b ck v p) \<longleftrightarrow> List.member FREEZABLE (vs_status v)"
    unfolding vp_offers by (auto split: option.splits)
  have close: "CloseVaultClick \<in> events (vp_loaded m b ck v p) \<longleftrightarrow>
      List.member CLOSABLE (vs_status v) \<and> \<not> mu_pending (vp_close p)"
    unfolding vp_offers by (auto split: option.splits)
  have confirm: "ConfirmFreeze \<in> events (vp_loaded m b ck v p) \<longleftrightarrow>
      m \<and> vp_freezeOpen p \<and> 3 \<le> length (trim (vp_reason p)) \<and> \<not> mu_pending (vp_freeze p)"
    unfolding vp_offers vp_valid_def by (auto split: option.splits)
  have counts: "in_flight (freeze_of i) ws \<le> 1" "in_flight (close_of i) ws \<le> 1" "in_flight (repay_of i) ws \<le> 1"
    "list_all reason_ok ws" "in_flight (close_of (vp_id p)) ws = of_bool (mu_pending (vp_close p))"
    "in_flight (freeze_of (vp_id p)) ws = of_bool (mu_pending (vp_freeze p))"
    using inv by (simp_all add: vp_inv_def)
  show ?thesis unfolding insert_subset freeze close confirm using counts
    by (auto simp: FREEZABLE_def CLOSABLE_def)
qed

definition still_clock :: clock where
  "still_clock = \<lparr>ck_host = \<lparr>date_value = (\<lambda>t. None), format_date_time = (\<lambda>t. []),
     format_date_only = (\<lambda>t. []), format_time_only = (\<lambda>t. [])\<rparr>, ck_now = 0\<rparr>"

lemma vp_user_step:
  assumes "vp_run v p ws" and "e \<in> events (vp_loaded True [] still_clock v p)"
    and "vp_handle v e p = p'" and "(case vp_starts v e p of None \<Rightarrow> ws | Some w \<Rightarrow> w # ws) = ws'"
  shows "vp_run v p' ws'"
  using vp_user [OF assms(1,2)] assms(3,4) by simp

definition typed_reason :: vp_page where
  "typed_reason = (vp_initial 0)\<lparr>vp_freezeOpen := True, vp_reason := '' owner paused ''\<rparr>"

theorem vault_writes_guarded_witness:
  "vp_run busy_vault (typed_reason\<lparr>vp_freeze := mu_sent\<rparr>) [FreezeWrite 0 ''owner paused'']
   \<and> list_all reason_ok [FreezeWrite 0 ''owner paused'']"
proof -
  let ?v = busy_vault
  have "vp_run ?v ((vp_initial 0)\<lparr>vp_freezeOpen := True\<rparr>) []"
    by (rule vp_user_step [OF vp_open, of OpenFreeze])
      (simp_all add: vp_offers busy_vault_def FREEZABLE_def)
  then have "vp_run ?v typed_reason []"
    by (rule vp_user_step [of _ _ _ "SetReason '' owner paused ''"]) (simp_all add: vp_offers typed_reason_def)
  moreover have t: "trim '' owner paused '' = ''owner paused''" by code_simp
  ultimately have r: "vp_run ?v (typed_reason\<lparr>vp_freeze := mu_sent\<rparr>) [FreezeWrite 0 ''owner paused'']"
    by (elim vp_user_step [of _ _ _ ConfirmFreeze])
      (simp_all add: vp_offers typed_reason_def vp_initial_def vp_valid_def)
  show ?thesis using r vault_writes_guarded [OF r] by blast
qed

text \<open>
  C38. The guard of the repayment controls does not survive a change of tab. While the failure that
  was simulated for an unsettled vault is in flight, its controls offer no other; but showing another
  tab and coming back, in the same mount of the page, unmounts them and starts them idle, so the
  failure is on offer again, and taking the offer sends it to the same vault a second time while the
  first is still in flight.
\<close>

theorem tab_switch_forgets:
  assumes "vp_run v p ws" and "vp_tab p = ''repayment''" and "vp_repay p = Some (i, f)"
    and "FailureWrite i \<in> set ws" and "\<not> rp_settled v"
  shows "Repay SimulateFailure \<notin> events (vp_loaded m b ck v p)
    \<and> SelectTab ''risk'' \<in> events (vp_loaded m b ck v p)
    \<and> SelectTab ''repayment'' \<in> events (vp_loaded m b ck v (vp_handle v (SelectTab ''risk'') p))
    \<and> Repay SimulateFailure \<in> events (vp_loaded m b ck v (returned v p)) \<and> vp_id (returned v p) = vp_id p
    \<and> (\<exists>j. j \<noteq> i \<and> vp_run v (vp_handle v (Repay SimulateFailure) (returned v p)) (FailureWrite j # ws)
         \<and> vp_call vaultId (FailureWrite j) = vp_call vaultId (FailureWrite i))"
proof -
  have inv: "vp_inv p ws" by (rule vp_run_inv [OF assms(1)])
  have "in_flight (failure_of i) ws \<noteq> 0"
    using assms(4) by (auto simp: in_flight_def filter_empty_conv intro!: bexI [of _ "FailureWrite i"])
  then have busy: "rp_busy f" using inv assms(3) by (simp add: vp_inv_def rp_busy_def)
  have i: "i < vp_mounts p" using inv assms(3) by (simp add: vp_inv_def)
  define p1 where "p1 = vp_handle v (SelectTab ''risk'') p"
  define p2 where "p2 = vp_handle v (SelectTab ''repayment'') p1"
  have p2: "returned v p = p2" by (simp add: returned_def p1_def p2_def)
  have p1': "p1 = p\<lparr>vp_tab := ''risk'', vp_repay := None\<rparr>"
    by (simp add: p1_def vp_select_def tabs_setValue_def Let_def)
  have p2': "p2 = p1\<lparr>vp_tab := ''repayment'', vp_repay := Some (vp_mounts p, rp_initial v), vp_mounts := Suc (vp_mounts p)\<rparr>"
    by (simp add: p2_def p1' vp_select_def tabs_setValue_def Let_def)
  have off: "SimulateFailure \<in> f_offers rp_spec (v, rp_initial v)"
    using assms(5) by (simp add: rp_offers rp_busy_def rp_initial_def)
  have one: "Repay SimulateFailure \<notin> events (vp_loaded m b ck v p)"
    using busy assms(3) by (auto simp: vp_offers rp_offers)
  have two: "SelectTab ''risk'' \<in> events (vp_loaded m b ck v p)"
    "SelectTab ''repayment'' \<in> events (vp_loaded m b ck v p1)"
    by (simp_all add: vp_offers)
  have three: "Repay SimulateFailure \<in> events (vp_loaded m b ck v p2)"
    using off by (simp add: vp_offers p2')
  have "vp_run v p1 ws" using vp_user [OF assms(1) two(1)] by (simp add: p1_def)
  from vp_user [OF this two(2)] have "vp_run v p2 ws" by (simp add: p2_def)
  from vp_user [OF this three] have
    "vp_run v (vp_handle v (Repay SimulateFailure) p2) (FailureWrite (vp_mounts p) # ws)"
    by (simp add: p2')
  moreover have "vp_id p2 = vp_id p" "vp_mounts p \<noteq> i" using i by (simp_all add: p2' p1')
  moreover have "vp_call vaultId (FailureWrite (vp_mounts p)) = vp_call vaultId (FailureWrite i)" by simp
  ultimately show ?thesis
    unfolding p2 p1_def [symmetric] using one two three by blast
qed

theorem tab_switch_forgets_witness:
  "\<exists>p j. j \<noteq> 1 \<and> vp_run busy_vault p [FailureWrite j, FailureWrite 1]"
proof -
  let ?v = busy_vault and ?f = "rp_initial busy_vault"
  define p1 where "p1 = (vp_initial 0)\<lparr>vp_tab := ''repayment'', vp_repay := Some (1, ?f), vp_mounts := 2\<rparr>"
  define p2 where "p2 = p1\<lparr>vp_repay := Some (1, ?f\<lparr>rp_fail := mu_sent\<rparr>)\<rparr>"
  have open_vault: "\<not> rp_settled ?v" by (simp add: rp_settled_def busy_vault_def SETTLED_STATUSES_def)
  then have off: "SimulateFailure \<in> f_offers rp_spec (?v, ?f)"
    by (simp add: rp_offers rp_busy_def rp_initial_def)
  have "vp_run ?v p1 []"
    by (rule vp_user_step [OF vp_open, of "SelectTab ''repayment''"])
      (simp_all add: vp_offers p1_def vp_select_def tabs_setValue_def vp_initial_def tabs_initial_def Let_def)
  then have r: "vp_run ?v p2 [FailureWrite 1]"
    by (rule vp_user_step [of _ _ _ "Repay SimulateFailure"]) (simp_all add: vp_offers p1_def p2_def off)
  have "vp_tab p2 = ''repayment''" "vp_repay p2 = Some (1, ?f\<lparr>rp_fail := mu_sent\<rparr>)"
    by (simp_all add: p1_def p2_def)
  from tab_switch_forgets [OF r this _ open_vault] obtain j where "j \<noteq> 1"
    "vp_run ?v (vp_handle ?v (Repay SimulateFailure) (returned ?v p2)) [FailureWrite j, FailureWrite 1]"
    by (metis list.set_intros(1))
  then show ?thesis by blast
qed

end
