(* ===== verification/Journeys.thy ===== *)
theory Journeys
  imports Dashboard RegisterAgent NewApplication
begin

text \<open>
  The two guided ways through the product: the first-run page,
  \<open>frontend/app/(product)/start/page.tsx\<close>, whose four steps report from the workspace's data, and the
  judge demo, \<open>judge-demo/page.tsx\<close>, which runs the six scenarios against the backend.
\<close>

subsection \<open>The first-run page\<close>

record st_page =
  st_registering :: bool
  st_applying :: bool
  st_newAgentId :: "string option"

definition st_initial :: st_page where
  "st_initial = \<lparr>st_registering = False, st_applying = False, st_newAgentId = None\<rparr>"

datatype st_event = StartRegister | StartApply | RegisterSheet ra_event | ApplySheet na_event

text \<open>The events of the page; \<open>st_registered\<close> is the callback of a finished registration.\<close>

fun st_handle :: "st_event \<Rightarrow> st_page \<Rightarrow> st_page" where
  "st_handle StartRegister s = s\<lparr>st_registering := True\<rparr>"
| "st_handle StartApply s = s\<lparr>st_applying := True\<rparr>"
| "st_handle (RegisterSheet CloseSheetEvent) s = s\<lparr>st_registering := False\<rparr>"
| "st_handle (ApplySheet Close) s = s\<lparr>st_applying := False\<rparr>"
| "st_handle _ s = s"

definition st_registered :: "string \<Rightarrow> st_page \<Rightarrow> st_page" where
  "st_registered i s = s\<lparr>st_newAgentId := Some i\<rparr>"

record st_queries =
  sq_agents :: "AgentSummary list query_result"
  sq_applications :: "CreditApplicationSummary list query_result"
  sq_vaults :: "VaultSummary list query_result"
  sq_repayments :: "RepaymentRow list query_result"

text \<open>\<open>q.data ?? []\<close>.\<close>

definition data_or_none :: "'a list query_result \<Rightarrow> 'a list" where
  "data_or_none q = (case qr_data q of Some d \<Rightarrow> d | None \<Rightarrow> [])"

definition passportHolders :: "st_queries \<Rightarrow> AgentSummary list" where
  "passportHolders q = filter as_has_passport (data_or_none (sq_agents q))"

definition st_approved :: "st_queries \<Rightarrow> CreditApplicationSummary list" where
  "st_approved q = filter (\<lambda>a. List.member [''APPROVED'', ''VAULT_CREATED'', ''DISBURSEMENT_ENABLED''] (ca_status a))
     (data_or_none (sq_applications q))"

definition st_loading :: "st_queries \<Rightarrow> bool" where
  "st_loading q \<longleftrightarrow> qr_pending (sq_agents q) \<or> qr_pending (sq_applications q) \<or> qr_pending (sq_vaults q)
     \<or> qr_pending (sq_repayments q)"

record 'e step_card =
  sc_index :: nat
  sc_icon :: string
  sc_title :: string
  sc_body :: string
  sc_done :: bool
  sc_status :: "string option"
  sc_disabled :: bool
  sc_disabledReason :: "string option"
  sc_action :: "'e node option"
  sc_secondary :: "'e node option"

definition StepCard :: "bool \<Rightarrow> 'e step_card \<Rightarrow> 'e node" where
  "StepCard loading c = El ''li'' [] [Card [CardContent [
     El ''div'' [Attr ''aria-hidden'' ''true''] [icon (if sc_done c then ''Check'' else sc_icon c)],
     El ''div'' [] (
       [El ''div'' [] (
          El ''h2'' [] [El ''span'' [] [Txt (show_nat (sc_index c)), Txt ''.''], Txt (sc_title c)]
          # (if loading then [] else if sc_done c then [Badge positive [Txt ''Done'']]
             else if sc_disabled c then [Badge outline [Txt ''Waiting'']] else [])),
        para (sc_body c)]
       @ some_node (\<lambda>s. [para s]) (sc_status c)
       @ show_if (sc_disabled c) (some_node (\<lambda>r. [para r]) (sc_disabledReason c))
       @ show_if (sc_action c \<noteq> None \<or> sc_secondary c \<noteq> None)
           [El ''div'' [] (show_if (\<not> sc_disabled c) (some_node (\<lambda>a. [a]) (sc_action c))
              @ some_node (\<lambda>a. [a]) (sc_secondary c))])]]]"

definition counted :: "nat \<Rightarrow> string \<Rightarrow> string" where
  "counted n what = Format.count (Some (num_of_int (int n))) @ '' '' @ what @ (if n = 1 then [] else ''s'')"

definition step_register :: "st_queries \<Rightarrow> st_event step_card" where
  "step_register q = \<lparr>sc_index = 1, sc_icon = ''Bot'',
     sc_title = ''Register an AI agent and issue its passport'',
     sc_body = ''The passport is the capability token that says who the agent is, what work it may do, who owns it, how much '' @
       ''it may borrow and until when. All six checks '' @ [EM_DASH] @ '' signature and trusted issuer, audience, validity window, '' @
       ''revocation, scope, replay nonce '' @ [EM_DASH] @ '' are re-run against the stored passport before it counts as registered.'',
     sc_done = (length (passportHolders q) > 0),
     sc_status = (if length (passportHolders q) > 0
       then Some (counted (length (passportHolders q)) ''agent'' @ '' holding a verified passport'') else None),
     sc_disabled = False, sc_disabledReason = None,
     sc_action = Some (Button Primary False StartRegister [Txt ''Register agent'']),
     sc_secondary = Some (Link ''/agents'' [Txt ''View agents''])\<rparr>"

definition step_apply :: "st_queries \<Rightarrow> st_event step_card" where
  "step_apply q = (let applications = data_or_none (sq_applications q) in
   \<lparr>sc_index = 2, sc_icon = ''FileText'',
     sc_title = ''Create a credit application against a task'',
     sc_body = ''Describe the task, what it costs, what it earns and when it pays. Attach evidence '' @ [EM_DASH] @
       '' the task order, prior outcomes, repayment history, the owner'' @ [APOS] @ ''s authorisation. Identifiers are stripped '' @
       ''before storage and every entry is content-hashed on arrival.'',
     sc_done = (length applications > 0),
     sc_status = (if length applications > 0 then Some (counted (length applications) ''application'' @ '' submitted'') else None),
     sc_disabled = (length (passportHolders q) = 0),
     sc_disabledReason = Some (''Register an agent first '' @ [EM_DASH] @
       '' credit is only extended to an agent holding a verified passport.''),
     sc_action = Some (Button Primary False StartApply [Txt ''New credit application'']),
     sc_secondary = Some (Link ''/credit-applications'' [Txt ''View applications''])\<rparr>)"

definition step_underwrite :: "st_queries \<Rightarrow> st_event step_card" where
  "step_underwrite q = (let applications = data_or_none (sq_applications q); approved = st_approved q in
   \<lparr>sc_index = 3, sc_icon = ''ShieldCheck'',
     sc_title = ''Run underwriting and read the decision'',
     sc_body = ''Open the application to run it. Evidence is retrieved, the analyst model gives an advisory read, and the '' @
       ''deterministic engine sets the amount '' @ [EM_DASH] @ '' the model cannot. You see the retrieved evidence, the advisory '' @
       ''result, the engine'' @ [APOS] @ ''s cap, the policy decision, the reason codes and the audit receipt.'',
     sc_done = (length approved > 0 \<or> list_ex (\<lambda>a. ca_status a = ''REJECTED'') applications),
     sc_status = (if length approved > 0
       then Some (Format.count (Some (num_of_int (int (length approved)))) @ '' approved'') else None),
     sc_disabled = (length applications = 0), sc_disabledReason = Some ''Submit an application first.'',
     sc_action = None, sc_secondary = Some (Link ''/underwriting'' [Txt ''Underwriting queue''])\<rparr>)"

definition step_repay :: "st_queries \<Rightarrow> st_event step_card" where
  "step_repay q = (let vaults = data_or_none (sq_vaults q); repaid = data_or_none (sq_repayments q) in
   \<lparr>sc_index = 4, sc_icon = ''Wallet'',
     sc_title = ''Create the vault, complete the task and repay'',
     sc_body = ''An approved application becomes a vault holding the granted limit, with the per-payment ceiling and the '' @
       ''vendor allowlist enforced on every spend. Record the task completing and the revenue arriving, and the waterfall '' @
       ''repays principal, fee and owner in order. The failure control is there too, so you can see what a task that does '' @
       ''not deliver costs.'',
     sc_done = (length repaid > 0),
     sc_status = (if length vaults > 0
       then Some (counted (length vaults) ''vault'' @ '', '' @ counted (length repaid) ''repayment event'' @ '' recorded'') else None),
     sc_disabled = (length (st_approved q) = 0), sc_disabledReason = Some ''Get an application approved first.'',
     sc_action = None, sc_secondary = Some (Link ''/vaults'' [Txt ''View vaults''])\<rparr>)"

definition st_view :: "ra_ctx \<Rightarrow> ra_form \<Rightarrow> na_ctx \<Rightarrow> na_form \<Rightarrow> st_queries \<Rightarrow> st_page \<Rightarrow> st_event node" where
  "st_view rcx rform ncx nform q s = El ''div'' [] (
     [PageHeader ''Start here''
        (Some [Txt (''Put your own agent and your own credit request through the system. Everything below writes to the live '' @
           ''backend; the sandbox issues test credits only.'')])
        [Link ''/dashboard'' [Txt ''Skip to Overview '', icon ''ArrowRight'']]]
     @ FirstRunBanner (sq_agents q) (sq_applications q)
     @ map (map_node RegisterSheet) (ra_view (rcx\<lparr>rx_open := st_registering s\<rparr>) rform)
     @ map (map_node ApplySheet) (na_view (ncx\<lparr>nx_open := st_applying s, nx_presetAgentId := st_newAgentId s\<rparr>) nform)
     @ [El ''ol'' [] (map (StepCard (st_loading q)) [step_register q, step_apply q, step_underwrite q, step_repay q]),
        Card [CardContent [para ''Short on time?'',
          para (''The judge demo runs a full scenario end to end against the same endpoints, including the ones that fail '' @
            ''closed. It creates its own agents and applications and leaves anything you have made alone.''),
          Link ''/judge-demo'' [icon ''PlayCircle'', Txt '' Run judge demo'']]]])"

subsection \<open>The judge demo\<close>

record scenario_card =
  sd_name :: ScenarioName
  sd_code :: string
  sd_title :: string
  sd_body :: string
  sd_proves :: string
  sd_icon :: string

definition SCENARIO_CARDS :: "scenario_card list" where
  "SCENARIO_CARDS = [
     \<lparr>sd_name = HappyPath, sd_code = ''A'', sd_title = ''Happy path'',
       sd_body = ''An agent with a verified passport applies, is underwritten, spends within its vault, earns revenue, and the '' @
         ''waterfall repays everyone.'',
       sd_proves = ''The whole pipeline works end to end.'', sd_icon = ''Play''\<rparr>,
     \<lparr>sd_name = Overspend, sd_code = ''B'', sd_title = ''Overspend'',
       sd_body = ''A '' @ [RUPEE] @ ''2,000 spend is attempted against a '' @ [RUPEE] @ ''1,000 limit.'',
       sd_proves = ''The per-transaction cap refuses it before any money moves.'', sd_icon = ''XCircle''\<rparr>,
     \<lparr>sd_name = UnapprovedVendor, sd_code = ''C'', sd_title = ''Unknown vendor'',
       sd_body = ''The agent tries to pay a wallet that is on no allowlist.'',
       sd_proves = ''Vendor allowlisting blocks payment to anywhere unvetted.'', sd_icon = ''Lock''\<rparr>,
     \<lparr>sd_name = SplitPayment, sd_code = ''D'', sd_title = ''Split payments'',
       sd_body = ''Many rapid small payments try to slip under the per-transaction cap.'',
       sd_proves = ''Velocity and anti-splitting aggregation freeze the vault.'', sd_icon = ''Snowflake''\<rparr>,
     \<lparr>sd_name = RevokeMidTask, sd_code = ''E'', sd_title = ''Kill switch'',
       sd_body = ''The owner revokes the agent while a spend is pending.'',
       sd_proves = ''Revocation takes effect immediately; the pending spend dies.'', sd_icon = ''ShieldCheck''\<rparr>,
     \<lparr>sd_name = TaskFailure, sd_code = ''F'', sd_title = ''Task failure'',
       sd_body = ''The task fails with credit outstanding.'',
       sd_proves = ''Recovery is bounded: sweep unspent funds, draw the reserve, book the loss explicitly.'',
       sd_icon = ''AlertTriangle''\<rparr>]"

definition FOLLOW_UPS :: "(string \<times> string) list" where
  "FOLLOW_UPS = [(''the agent it registered'', ''/agents''), (''the application it filed'', ''/credit-applications''),
     (''the vault it opened'', ''/vaults''), (''every spend attempt'', ''/transactions''),
     (''the audit chain it extended'', ''/audit'')]"

text \<open>\<open>JSON.stringify(v, null, 2)\<close> of a parsed value; \<open>ind\<close> is the indentation reached.\<close>

definition json_char :: "char \<Rightarrow> string" where
  "json_char c =
     (if c = CHR 0x22 then BACKSLASH # [CHR 0x22] else if c = BACKSLASH then [BACKSLASH, BACKSLASH]
      else if c = CHR 0x08 then BACKSLASH # ''b'' else if c = CHR 0x0C then BACKSLASH # ''f''
      else if c = NEWLINE then BACKSLASH # ''n'' else if c = CHR 0x0D then BACKSLASH # ''r''
      else if c = CHR 0x09 then BACKSLASH # ''t''
      else if (of_char c :: nat) < 32 then BACKSLASH # ''u00'' @ [if (of_char c :: nat) < 16 then CHR ''0'' else CHR ''1'',
          (''0123456789abcdef'') ! ((of_char c :: nat) mod 16)]
      else [c])"

definition json_quote :: "string \<Rightarrow> string" where
  "json_quote s = CHR 0x22 # concat (map json_char s) @ [CHR 0x22]"

fun json_pretty :: "nat \<Rightarrow> json \<Rightarrow> string" where
  "json_pretty ind JNull = ''null''"
| "json_pretty ind JUndef = ''null''"
| "json_pretty ind (JBool b) = (if b then ''true'' else ''false'')"
| "json_pretty ind (JNum n) = (if is_finite_num n then to_string n else ''null'')"
| "json_pretty ind (JStr s) = json_quote s"
| "json_pretty ind (JArr vs) = (if vs = [] then ''[]''
     else ''['' @ NEWLINE # replicate (ind + 2) (CHR '' '')
       @ join ('','' @ NEWLINE # replicate (ind + 2) (CHR '' '')) (map (json_pretty (ind + 2)) vs)
       @ NEWLINE # replicate ind (CHR '' '') @ '']'')"
| "json_pretty ind (JObj kvs) = (let kept = filter (\<lambda>(k, v). v \<noteq> JUndef) kvs in
     if kept = [] then ''{}''
     else ''{'' @ NEWLINE # replicate (ind + 2) (CHR '' '')
       @ join ('','' @ NEWLINE # replicate (ind + 2) (CHR '' ''))
           (map (\<lambda>(k, v). json_quote k @ '': '' @ json_pretty (ind + 2) v) kept)
       @ NEWLINE # replicate ind (CHR '' '') @ ''}'')"

text \<open>An answer is kept as it was parsed and as read under its declared type.\<close>

type_synonym scenario_answer = "ScenarioResult \<times> json"

record jd_page =
  jd_running :: "ScenarioName option"
  jd_lastResult :: "scenario_answer option"
  jd_run :: "scenario_answer mutation_result"

definition jd_initial :: jd_page where
  "jd_initial = \<lparr>jd_running = None, jd_lastResult = None, jd_run = mu_idle\<rparr>"

datatype jd_event = Launch ScenarioName

fun jd_handle :: "jd_event \<Rightarrow> jd_page \<Rightarrow> jd_page" where
  "jd_handle (Launch name) s = s\<lparr>jd_running := Some name, jd_run := mu_sent\<rparr>"

text \<open>\<open>onSuccess\<close> and \<open>onSettled\<close>.\<close>

definition jd_settle :: "failure + scenario_answer \<Rightarrow> jd_page \<Rightarrow> jd_page" where
  "jd_settle out s = s\<lparr>jd_run := mu_settled out,
     jd_lastResult := (case out of Inr r \<Rightarrow> Some r | Inl e \<Rightarrow> jd_lastResult s), jd_running := None\<rparr>"

definition scenario_tile :: "jd_page \<Rightarrow> scenario_card \<Rightarrow> jd_event node" where
  "scenario_tile s c = Card [CardContent [
     El ''div'' [] [icon (sd_icon c), El ''div'' [] [
       El ''p'' [] [El ''span'' [] [Txt (sd_code c), Txt ('' '' @ [MIDDOT])], Txt (sd_title c)],
       para (sd_body c)]],
     El ''p'' [] [El ''span'' [] [Txt ''Proves:''], Txt '' '', Txt (sd_proves c)],
     Button Primary (jd_running s \<noteq> None) (Launch (sd_name c))
       [icon (if jd_running s = Some (sd_name c) then ''RefreshCw'' else ''Play''),
        Txt (if jd_running s = Some (sd_name c) then ''Running against the live backend'' @ [ELLIPSIS] else ''Run scenario'')]]]"

definition last_run :: "scenario_answer \<Rightarrow> 'e node" where
  "last_run r = (let seed = sr_seed (fst r) in
     Section None (Some ''Last run'') (Some ''What the scenario seeded, and where to see the consequences.'') []
       [Card [CardContent [
          El ''div'' [] [Badge positive [Txt ''Completed''], El ''span'' [] [Txt (sr_scenario (fst r))],
            El ''span'' [] [Txt ''registered '', El ''span'' [] [Txt (sr_seed_agent_name seed)]],
            Mono [Txt (shortId (Some (sr_seed_agent_id seed)) 10 4)]],
          El ''div'' [] (Link (''/agents/'' @ sr_seed_agent_id seed) [Txt ''Open this agent '', icon ''ArrowRight'']
            # map (\<lambda>(l, h). Link h [Txt l, Txt '' '', icon ''ArrowRight'']) FOLLOW_UPS),
          El ''details'' [] [El ''summary'' [] [Txt (''Technical details '' @ [EM_DASH] @ '' full scenario response'')],
            El ''pre'' [] [Txt (json_pretty 0 (snd r))]]]]])"

definition jd_view :: "jd_page \<Rightarrow> jd_event node" where
  "jd_view s = El ''div'' [] (
     [PageHeader ''Judge Demo''
        (Some [Txt (''Six adversarial scenarios, run live against the real backend. Each seeds into this workspace '' @ [EM_DASH] @
           '' afterwards, walk the ordinary product pages and inspect what it did.'')]) [],
      El ''div'' [] (map (scenario_tile s) SCENARIO_CARDS)]
     @ some_node (\<lambda>e. [para (failure_text ''The scenario could not be run. Nothing was changed.'' e)]) (mu_error (jd_run s))
     @ some_node (\<lambda>r. [last_run r]) (jd_lastResult s)
     @ [para (''Sandbox '' @ [EM_DASH] @ '' test credits only. Scenario runs create real records in this workspace'' @ [APOS] @
          ''s database and extend its audit chain; they move no real money. Bearer tokens minted during a run are redacted '' @
          ''server-side and never reach this page.'')])"

definition jd_spec :: "(jd_page, jd_event, unit, failure + scenario_answer) form" where
  "jd_spec = \<lparr>
     f_initial = (\<lambda>s. s = jd_initial),
     f_offers = (\<lambda>s. events (jd_view s)),
     f_starts = (\<lambda>s e. True),
     f_handle = jd_handle,
     f_progress = (\<lambda>p s. s),
     f_settle = jd_settle,
     f_rerender = (\<lambda>s s'. s' = s)\<rparr>"

lemma all_scenarios: "set (map sd_name SCENARIO_CARDS) = UNIV" "distinct (map sd_name SCENARIO_CARDS)"
proof -
  have "n \<in> set (map sd_name SCENARIO_CARDS)" for n by (cases n) (simp_all add: SCENARIO_CARDS_def)
  then show "set (map sd_name SCENARIO_CARDS) = UNIV" by blast
  show "distinct (map sd_name SCENARIO_CARDS)" by (simp add: SCENARIO_CARDS_def)
qed

lemma events_last_run [simp]: "events (last_run r) = {}"
  by (auto simp: last_run_def Let_def)

lemma events_scenario_tile: "events (scenario_tile s c) = (if jd_running s = None then {Launch (sd_name c)} else {})"
  by (simp add: scenario_tile_def)

lemma jd_offers: "f_offers jd_spec s = (if jd_running s = None then range Launch else {})"
proof -
  have "f_offers jd_spec s = (\<Union>c \<in> set SCENARIO_CARDS. events (scenario_tile s c))"
    by (auto simp: jd_spec_def jd_view_def set_some_node split: option.splits)
  also have "\<dots> = (if jd_running s = None then Launch ` set (map sd_name SCENARIO_CARDS) else {})"
    by (auto simp: events_scenario_tile)
  finally show ?thesis by (simp only: all_scenarios)
qed

definition jd_pending :: "jd_page \<Rightarrow> nat" where "jd_pending s = of_bool (jd_running s \<noteq> None)"

interpretation jd: sound_form jd_spec jd_pending "\<lambda>s. mu_pending (jd_run s) \<longleftrightarrow> jd_running s \<noteq> None"
proof unfold_locales
  fix e s assume off: "e \<in> f_offers jd_spec s"
  obtain name where e: "e = Launch name" by (cases e)
  show "jd_pending s = 0" using off by (auto simp: jd_offers jd_pending_def split: if_splits)
  show "jd_pending (f_handle jd_spec e s) = 1" by (simp add: e jd_spec_def jd_pending_def)
  show "jd_pending (f_handle jd_spec e s) = jd_pending s" if "\<not> f_starts jd_spec s e"
    using that by (simp add: jd_spec_def)
  show "mu_pending (jd_run (f_handle jd_spec e s)) \<longleftrightarrow> jd_running (f_handle jd_spec e s) \<noteq> None"
    by (simp add: e jd_spec_def)
qed (auto simp: jd_spec_def jd_initial_def jd_pending_def jd_settle_def)

subsection \<open>Properties\<close>

text \<open>
  Whatever a visitor does on the judge demo, at most one scenario runs: all six are offered while
  none does and none while one does, and the page's own flag always agrees with the mutation's.
\<close>

theorem one_scenario_at_a_time:
  assumes "form_run jd_spec s n"
  shows "n \<le> 1 \<and> (n = 1 \<longleftrightarrow> jd_running s \<noteq> None) \<and> (mu_pending (jd_run s) \<longleftrightarrow> n = 1)
    \<and> f_offers jd_spec s = (if n = 0 then range Launch else {})"
proof -
  have n: "n = jd_pending s" "n \<le> 1" using jd.pending_flight [OF assms] by simp_all
  moreover have "mu_pending (jd_run s) \<longleftrightarrow> jd_running s \<noteq> None" by (rule jd.always_sound [OF assms])
  ultimately show ?thesis by (auto simp: jd_offers jd_pending_def split: if_splits)
qed

theorem one_scenario_at_a_time_witness:
  "form_run jd_spec (jd_handle (Launch Overspend) jd_initial) 1
   \<and> f_offers jd_spec (jd_handle (Launch Overspend) jd_initial) = {}"
proof -
  have i: "form_run jd_spec jd_initial 0" by (rule form_run.init) (simp add: jd_spec_def)
  have o: "Launch Overspend \<in> f_offers jd_spec jd_initial" by (simp add: jd_offers jd_initial_def)
  have "form_run jd_spec (f_handle jd_spec (Launch Overspend) jd_initial) (Suc 0)"
    by (rule form_run.submit [OF i o]) (simp add: jd_spec_def)
  then have r: "form_run jd_spec (jd_handle (Launch Overspend) jd_initial) 1" by (simp add: jd_spec_def)
  show ?thesis using r one_scenario_at_a_time [OF r] by simp
qed

text \<open>
  The steps of the first-run page take a failed query for an empty workspace: when the agents
  could not be read the second step says to register an agent first, and offers no application,
  although nothing is known about the agents.
\<close>

theorem start_takes_failure_for_none:
  "sc_disabled (step_apply (q\<lparr>sq_agents := \<lparr>qr_data = None, qr_pending = False, qr_error = Some e, qr_fetching = False\<rparr>\<rparr>))
   \<and> events (StepCard (st_loading q) (step_apply (q\<lparr>sq_agents :=
        \<lparr>qr_data = None, qr_pending = False, qr_error = Some e, qr_fetching = False\<rparr>\<rparr>))) = {}
   \<and> FirstRunBanner \<lparr>qr_data = None, qr_pending = False, qr_error = Some e, qr_fetching = False\<rparr> (sq_applications q) = []"
  by (auto simp: step_apply_def passportHolders_def data_or_none_def StepCard_def FirstRunBanner_def workspace_empty_def
      Let_def set_some_node split: option.splits)

end
