(* ===== verification/Shell.thy ===== *)
theory Shell
  imports Nav Uri Widgets Forms
begin

text \<open>
  The frame around every product screen: the navigation rail and its drawer
  (\<open>frontend/components/shell/sidebar.tsx\<close>), the bar with the breadcrumb and the workspace
  (\<open>topbar.tsx\<close>) and the shell that holds them (\<open>app-shell.tsx\<close>). The breadcrumb decodes a
  record's id with \<open>decodeURIComponent\<close> (in \<open>Uri\<close>) and fails where that throws.
\<close>

subsection \<open>The breadcrumb\<close>

record crumb =
  cr_label :: string
  cr_href :: "string option"

text \<open>
  What computing the breadcrumb ends in besides a list: the exception of a malformed id, and the
  limit of the model, an id with a symbol outside its character page.
\<close>

datatype crumb_fault = URIError | OutsidePage

definition record_label :: "string \<Rightarrow> crumb_fault + string" where
  "record_label recordId = (case decodeURIComponent recordId of None \<Rightarrow> Inl URIError
     | Some ps \<Rightarrow> (case text_of_points ps of None \<Rightarrow> Inl OutsidePage | Some s \<Rightarrow> Inr (shortId (Some s) 12 4)))"

definition useCrumbs :: "string \<Rightarrow> crumb_fault + crumb list" where
  "useCrumbs pathname =
     (let owner = activeHref pathname in
      case find (\<lambda>entry. Some (ni_href entry) = owner) NAV_ITEMS of
        None \<Rightarrow> Inr [\<lparr>cr_label = (if starts_with pathname ''/developer'' then ''Developer Lab'' else ''CredenceAI''),
                  cr_href = None\<rparr>]
      | Some item \<Rightarrow>
          let tail = drop (length (ni_href item)) pathname;
              rest = (if starts_with tail ''/'' then drop 1 tail else tail) in
          if rest = [] then Inr [\<lparr>cr_label = ni_label item, cr_href = None\<rparr>]
          else case record_label (hd (split_on (CHR ''/'') rest)) of
              Inl f \<Rightarrow> Inl f
            | Inr l \<Rightarrow> Inr [\<lparr>cr_label = ni_label item, cr_href = Some (ni_href item)\<rparr>, \<lparr>cr_label = l, cr_href = None\<rparr>])"

subsection \<open>State and events\<close>

text \<open>The stored preference of the rail (\<open>localStorage\<close>, nothing before the first use) and the drawer.\<close>

record shell =
  sh_stored :: "string option"
  sh_navOpen :: bool

definition readCollapsed :: "string option \<Rightarrow> bool" where
  "readCollapsed stored \<longleftrightarrow> stored = Some ''true''"

datatype shell_event = ToggleRail | OpenNav | CloseNav

fun shell_handle :: "shell_event \<Rightarrow> shell \<Rightarrow> shell" where
  "shell_handle ToggleRail s = s\<lparr>sh_stored := Some (bool_text (\<not> readCollapsed (sh_stored s)))\<rparr>"
| "shell_handle OpenNav s = s\<lparr>sh_navOpen := True\<rparr>"
| "shell_handle CloseNav s = s\<lparr>sh_navOpen := False\<rparr>"

text \<open>The drawer listens to Escape while it is open.\<close>

definition drawer_key :: "string \<Rightarrow> shell \<Rightarrow> shell_event option" where
  "drawer_key k s = (if sh_navOpen s \<and> k = ''Escape'' then Some CloseNav else None)"

subsection \<open>The view\<close>

definition click_if :: "'e option \<Rightarrow> 'e attr list" where
  "click_if e = (case e of Some x \<Rightarrow> [OnClick x] | None \<Rightarrow> [])"

definition nav_link :: "bool \<Rightarrow> 'e option \<Rightarrow> string option \<Rightarrow> NavItem \<Rightarrow> 'e node" where
  "nav_link collapsed onNavigate active item =
     (let link = El ''a'' ([Attr ''href'' (ni_href item)] @ click_if onNavigate
            @ (if active = Some (ni_href item) then [Attr ''aria-current'' ''page''] else []))
          (icon (ni_icon item) # show_if (\<not> collapsed) [El ''span'' [] [Txt (ni_label item)]]) in
      El ''li'' [] [if collapsed then Tooltip (ni_label item) [link] else link])"

definition NavLinks :: "bool \<Rightarrow> string \<Rightarrow> 'e option \<Rightarrow> 'e node" where
  "NavLinks collapsed pathname onNavigate =
     El ''nav'' [Attr ''aria-label'' ''Main''] (map (\<lambda>group. El ''div'' [] [
        (if collapsed then El ''div'' [Attr ''aria-hidden'' ''true''] [] else para (ng_label group)),
        El ''ul'' [] (map (nav_link collapsed onNavigate (activeHref pathname)) (ng_items group))]) NAV)"

definition RailFooter :: "bool \<Rightarrow> 'e node" where
  "RailFooter collapsed = El ''div'' [] (
     El ''a'' [Attr ''href'' ''/developer/console'', Attr ''title'' ''Developer Lab'']
       (icon ''Terminal'' # show_if (\<not> collapsed) [El ''span'' [] [Txt ''Developer Lab'']])
     # show_if (\<not> collapsed)
         [para (''Sandbox environment. Test credits only '' @ [EM_DASH] @ '' no real money moves.'')])"

definition Sidebar :: "string \<Rightarrow> shell \<Rightarrow> shell_event node" where
  "Sidebar pathname s =
     (let collapsed = readCollapsed (sh_stored s) in
      El ''aside'' [Attr ''data-collapsed'' (bool_text collapsed)] [
        Link ''/dashboard'' (icon ''LogoMark'' # show_if (\<not> collapsed) [El ''span'' [] [Txt ''CredenceAI'']]),
        NavLinks collapsed pathname None,
        RailFooter collapsed,
        El ''button'' [Attr ''type'' ''button'', OnClick ToggleRail,
            Attr ''aria-label'' (if collapsed then ''Expand navigation'' else ''Collapse navigation''),
            Attr ''aria-expanded'' (bool_text (\<not> collapsed))]
          (if collapsed then [icon ''PanelLeftOpen'']
           else [icon ''PanelLeftClose'', El ''span'' [] [Txt ''Collapse'']])])"

definition MobileNav :: "string \<Rightarrow> shell \<Rightarrow> shell_event node list" where
  "MobileNav pathname s = (if \<not> sh_navOpen s then [] else [El ''div'' [] [
     El ''button'' [Attr ''type'' ''button'', Attr ''aria-label'' ''Close navigation'', OnClick CloseNav] [],
     El ''div'' [Attr ''role'' ''dialog'', Attr ''aria-label'' ''Navigation''] [
       El ''div'' [] [
         El ''a'' [Attr ''href'' ''/dashboard'', OnClick CloseNav] [icon ''LogoMark'', El ''span'' [] [Txt ''CredenceAI'']],
         El ''button'' [Attr ''type'' ''button'', OnClick CloseNav, Attr ''aria-label'' ''Close''] [icon ''X'']],
       NavLinks False pathname (Some CloseNav),
       RailFooter False]]])"

definition WorkspaceChip :: "Me query_result \<Rightarrow> 'e node" where
  "WorkspaceChip q =
     (if qr_pending q then El ''span'' [Attr ''aria-hidden'' ''true''] []
      else if qr_error q \<noteq> None then Unavailable NotAvailable (Some ''The workspace could not be identified right now.'') False
      else case qr_data q of
          None \<Rightarrow> Unavailable NotAvailable (Some ''The workspace could not be identified right now.'') False
        | Some d \<Rightarrow> Tooltip (me_name d @ '' '' @ [MIDDOT] @ '' '' @ to_lower (me_user_role (me_user d)) @ '' '' @ [MIDDOT] @ '' '' @
              me_user_email (me_user d))
            [El ''span'' [] [icon ''Building2'', El ''span'' [] [Txt (me_name d)]]])"

definition crumb_views :: "crumb list \<Rightarrow> 'e node list" where
  "crumb_views crumbs = concat (map (\<lambda>(index, c).
     show_if (index > 0) [icon ''ChevronRight'']
     @ [case cr_href c of None \<Rightarrow> El ''span'' [] [Txt (cr_label c)] | Some h \<Rightarrow> Link h [Txt (cr_label c)]])
     (enumerate 0 crumbs))"

definition Topbar :: "Me query_result \<Rightarrow> crumb list \<Rightarrow> shell_event node" where
  "Topbar me crumbs = El ''header'' [] [
     El ''button'' [Attr ''type'' ''button'', OnClick OpenNav, Attr ''aria-label'' ''Open navigation''] [icon ''Menu''],
     El ''nav'' [Attr ''aria-label'' ''Breadcrumb''] (crumb_views crumbs),
     El ''div'' [] [
       WorkspaceChip me,
       Tooltip (''Every amount in this product is a test credit issued in a sandbox. No real funds move, and nothing '' @
           ''here is a regulated financial service.'')
         [Badge caution [Txt (''Sandbox '' @ [EM_DASH] @ '' Test Credits'')]]]]"

definition AppShell :: "string \<Rightarrow> Me query_result \<Rightarrow> shell \<Rightarrow> shell_event node list \<Rightarrow> crumb_fault + shell_event node" where
  "AppShell pathname me s children = (case useCrumbs pathname of Inl f \<Rightarrow> Inl f
     | Inr crumbs \<Rightarrow> Inr (El ''div'' [] ([Sidebar pathname s] @ MobileNav pathname s
         @ [El ''div'' [] [Topbar me crumbs, El ''main'' [] [El ''div'' [] children]]])))"

lemma record_label_encoded: "record_label (encodeURIComponent i) = Inr (shortId (Some i) 12 4)"
  by (simp add: record_label_def decode_encoded text_of_code_points)

subsection \<open>Properties\<close>

lemma encoded_no_slash: "CHR ''/'' \<notin> set (encodeURIComponent i)"
  using encode_chars [of "CHR ''/''" i] by (auto simp: unreserved_def is_alnum_def)

lemma encoded_empty: "encodeURIComponent i = [] \<longleftrightarrow> i = []"
proof -
  have "encodeURIComponent [] = []" by (simp add: encodeURIComponent_def)
  then show ?thesis using inj_encodeURIComponent by (metis injD)
qed

lemma active_of_item:
  assumes "item \<in> set NAV_ITEMS"
  shows "activeHref (ni_href item) = Some (ni_href item)"
    and "activeHref (ni_href item @ CHR ''/'' # t) = Some (ni_href item)"
proof -
  have active: "activeHref p = Some (ni_href item)" if "owns p (ni_href item)" for p
  proof -
    have "find (\<lambda>i. owns p (ni_href i)) NAV_ITEMS \<noteq> None" using assms that by (auto simp: find_None_iff)
    then obtain j where j: "find (\<lambda>i. owns p (ni_href i)) NAV_ITEMS = Some j" by auto
    then have "j \<in> set NAV_ITEMS" "owns p (ni_href j)" by (auto simp: find_Some_iff)
    then have "ni_href j = ni_href item" using nav_unique assms that by (meson image_eqI)
    then show ?thesis using j by (simp add: active_find)
  qed
  show "activeHref (ni_href item) = Some (ni_href item)"
    by (rule active) (simp add: owns_def)
  show "activeHref (ni_href item @ CHR ''/'' # t) = Some (ni_href item)"
    by (rule active) (simp add: owns_def starts_with_iff)
qed

lemma nav_hrefs_distinct: "distinct (map ni_href NAV_ITEMS)"
  unfolding nav_hrefs by simp

lemma find_item: "item \<in> set NAV_ITEMS \<Longrightarrow> find (\<lambda>e. ni_href e = ni_href item) NAV_ITEMS = Some item"
proof -
  have "find (\<lambda>e. f e = f x) xs = Some x" if "x \<in> set xs" "distinct (map f xs)" for x xs and f :: "NavItem \<Rightarrow> string"
    using that by (induction xs) (auto simp: image_iff)
  then show "item \<in> set NAV_ITEMS \<Longrightarrow> ?thesis" using nav_hrefs_distinct by blast
qed

text \<open>
  The breadcrumb names the record: on the detail page of any section, reached through an encoded
  id, it links back to the section under its own label and shows the id, decoded and shortened;
  on the section's own page it is the section's label alone.
\<close>

theorem crumbs_name_record:
  assumes "item \<in> set NAV_ITEMS" and "i \<noteq> []"
  shows "useCrumbs (ni_href item @ ''/'' @ encodeURIComponent i) = Inr [
       \<lparr>cr_label = ni_label item, cr_href = Some (ni_href item)\<rparr>,
       \<lparr>cr_label = shortId (Some i) 12 4, cr_href = None\<rparr>]
    \<and> useCrumbs (ni_href item) = Inr [\<lparr>cr_label = ni_label item, cr_href = None\<rparr>]"
proof
  have s: "starts_with (CHR ''/'' # t) ''/''" for t by (simp add: starts_with_def)
  show "useCrumbs (ni_href item @ ''/'' @ encodeURIComponent i) = Inr [
       \<lparr>cr_label = ni_label item, cr_href = Some (ni_href item)\<rparr>,
       \<lparr>cr_label = shortId (Some i) 12 4, cr_href = None\<rparr>]"
    using assms by (simp add: useCrumbs_def Let_def active_of_item find_item s encoded_empty
        split_on_no_sep encoded_no_slash record_label_encoded)
  show "useCrumbs (ni_href item) = Inr [\<lparr>cr_label = ni_label item, cr_href = None\<rparr>]"
    using assms(1) by (simp add: useCrumbs_def Let_def active_of_item find_item starts_with_def)
qed

theorem crumbs_name_record_witness:
  "useCrumbs (''/vaults/'' @ encodeURIComponent ''vault 7/2'') = Inr [
     \<lparr>cr_label = ''Credit Vaults'', cr_href = Some ''/vaults''\<rparr>, \<lparr>cr_label = ''vault 7/2'', cr_href = None\<rparr>]"
proof -
  define item where "item = nav_item ''/vaults'' ''Credit Vaults'' ''Vault''
    ''Restricted spending facilities and their controls''"
  have item: "item \<in> set NAV_ITEMS" by (simp add: NAV_ITEMS_def NAV_def item_def)
  have f: "ni_href item = ''/vaults''" "ni_label item = ''Credit Vaults''" by (simp_all add: item_def nav_item_def)
  have short: "shortId (Some ''vault 7/2'') 12 4 = ''vault 7/2''" by code_simp
  show ?thesis using crumbs_name_record [OF item, of "''vault 7/2''"] by (simp add: f short)
qed

text \<open>The links of a view, each with what a click on it does besides following it.\<close>

fun attr_hrefs :: "'e attr \<Rightarrow> string" where
  "attr_hrefs (Attr k v) = (if k = ''href'' then v else [])"
| "attr_hrefs _ = []"

fun anchors :: "'e node \<Rightarrow> (string \<times> 'e list) list" where
  "anchors (Txt s) = []"
| "anchors (El tag as ks) = (if tag = ''a'' then [(concat (map attr_hrefs as), concat (map attr_clicks as))] else [])
     @ concat (map anchors ks)"

lemma anchors_nav_link:
  "anchors (nav_link False (Some e) active item) = [(ni_href item, [e])]"
  by (simp add: nav_link_def click_if_def icon_def)

text \<open>
  A link of the drawer closes it, so the page it leads to is not left covered, with one exception:
  the Developer Lab at its foot, which is followed with the drawer still open.
\<close>

theorem drawer_left_open:
  "anchors (hd (MobileNav pathname (s\<lparr>sh_navOpen := True\<rparr>))) =
     (''/dashboard'', [CloseNav]) # map (\<lambda>i. (ni_href i, [CloseNav])) NAV_ITEMS @ [(''/developer/console'', [])]"
proof -
  have groups: "concat (map (\<lambda>group. anchors (El ''div'' [] [para (ng_label group),
        El ''ul'' [] (map (nav_link False (Some CloseNav) active) (ng_items group))])) gs)
     = map (\<lambda>i. (ni_href i, [CloseNav])) (concat (map ng_items gs))" for active gs
  proof (induction gs)
    case (Cons g gs)
    have "concat (map (anchors \<circ> nav_link False (Some CloseNav) active) is) = map (\<lambda>i. (ni_href i, [CloseNav])) is" for "is"
      by (induction "is") (simp_all add: anchors_nav_link)
    then show ?case using Cons by (simp add: para_def comp_def)
  qed simp
  then have "anchors (NavLinks False pathname (Some CloseNav)) = map (\<lambda>i. (ni_href i, [CloseNav])) NAV_ITEMS"
    by (simp add: NavLinks_def NAV_ITEMS_def comp_def)
  then show ?thesis by (simp add: MobileNav_def RailFooter_def icon_def para_def)
qed

end
