(* ===== verification/Details.thy ===== *)
theory Details
  imports ListPages
begin

text \<open>
  Two detail pages that only report: one spend attempt,
  \<open>frontend/app/(product)/transactions/[proposalId]/page.tsx\<close>, and one agent,
  \<open>frontend/app/(product)/agents/[agentId]/page.tsx\<close>, with its passport and its six tabs.
\<close>

subsection \<open>Shared furniture\<close>

text \<open>A \<open>PageHeader\<close> whose title is a node.\<close>

definition node_header :: "'e node list \<Rightarrow> 'e node list \<Rightarrow> 'e node" where
  "node_header title description =
     El ''div'' [] [El ''div'' [] [El ''h1'' [] [El ''span'' [] title], El ''p'' [] [El ''span'' [] description]]]"

definition dot_sep :: "'e node" where "dot_sep = Txt ('' '' @ [MIDDOT] @ '' '')"

definition policy_card :: "clock \<Rightarrow> PolicyDecisionRecord \<Rightarrow> 'e node" where
  "policy_card ck d = Card [CardContent (
     [El ''div'' [] [El ''span'' [] [icon ''FileCheck2'', Txt (pd_engine d)],
        (if pd_allow d then Badge positive [Txt ''Allowed''] else Badge critical [Txt ''Denied''])]]
     @ show_if (length (pd_deny d) > 0) [El ''div'' [] (map (\<lambda>code. Badge critical [Txt code]) (pd_deny d))]
     @ [para ((case pd_policy_version d of Some v \<Rightarrow> v | None \<Rightarrow> ''unversioned'') @ '' '' @ [MIDDOT] @ '' '' @
          stamp ck (pd_created_at d))])]"

definition policy_cards :: "clock \<Rightarrow> string \<Rightarrow> PolicyDecisionRecord list \<Rightarrow> 'e node" where
  "policy_cards ck none_text ds = (if length ds = 0 then EmptyState none_text None ''Inbox'' []
     else El ''div'' [] (map (policy_card ck) ds))"

definition risk_table :: "clock \<Rightarrow> RiskEvent list \<Rightarrow> 'e node" where
  "risk_table ck es = Card [TableWrap [Table [head_row [''Event'', ''Severity'', ''When''],
     TableBody (map (\<lambda>e. TableRow [
       TableCell [Txt (statusLabel (Some (re_event_type e)))],
       TableCell [Badge (if re_severity e = ''CRITICAL'' \<or> re_severity e = ''HIGH'' then critical else caution)
         [Txt (re_severity e)]],
       TableCell [Txt (stamp ck (re_created_at e))]]) es)]]]"

subsection \<open>One spend attempt\<close>

datatype td_event = RetryTransaction

definition attempt_sentence :: "string \<Rightarrow> string" where
  "attempt_sentence status =
     (if status = ''DENIED'' then ''The controls refused this attempt before any money moved.''
      else if status = ''EXECUTED'' then ''All controls passed and the ledger recorded the movement.''
      else ''This attempt has not been decided yet.'')"

definition td_attempt :: "clock \<Rightarrow> TransactionDetail \<Rightarrow> 'e node" where
  "td_attempt ck t = Card [
     CardHeader [CardTitle [Txt ''The attempt'']],
     CardContent [Rows (
       [Row ''Amount'' None [El ''span'' [] [Txt (money (Some (txs_amount_minor t)))]],
        Row ''Vendor'' None [El ''span'' [] (Txt (txs_vendor_name t)
          # show_if (\<not> txs_vendor_known t) [Badge critical [Txt ''Not on any allowlist'']])],
        Row ''Purpose'' None [Badge outline [Txt (txs_purpose_code t)]],
        Row ''Type'' None [Txt (statusLabel (Some (txs_type t)))],
        Row ''Idempotency key''
          (Some ''Replaying the same proposal cannot spend twice; the key makes the second attempt a no-op.'')
          [if td_idempotency_key_present t then El ''span'' [Attr ''tone'' ''positive''] [Txt ''Present'']
           else El ''span'' [Attr ''tone'' ''caution''] [Txt ''Absent'']],
        Row ''Proposed'' None [Txt (stamp ck (txs_created_at t))],
        Row ''Decided'' None [Txt (stamp ck (txs_decided_at t))]]
       @ some_node (\<lambda>e. [Row ''Executed'' None [Txt (stamp ck (Some e))]]) (txs_executed_at t))]]"

definition td_outcome :: "TransactionDetail \<Rightarrow> 'e node" where
  "td_outcome t = Card [
     CardHeader [El ''div'' [] [CardTitle [Txt ''Outcome''], para (attempt_sentence (txs_status t))]],
     CardContent [Rows (
       [Row ''Policy result'' None [StatusBadge (Some (txs_policy_result t)) False],
        Row ''Reason codes'' None [El ''span'' [] (if length (txs_reason_codes t) = 0
          then [El ''span'' [] [Txt ''None recorded'']]
          else map (\<lambda>code. Badge (if txs_status t = ''DENIED'' then critical else outline) [Txt code]) (txs_reason_codes t))]]
       @ some_node (\<lambda>i. [Row ''Transaction id'' None [Mono [Txt (shortId (Some i) 10 4)]]]) (txs_transaction_id t)
       @ some_node (\<lambda>j. [Row ''Journal entry'' (Some ''The double-entry record in the ledger.'')
           [Mono [Txt (shortId (Some j) 10 4)]]]) (txs_journal_transaction_id t))]]"

definition td_event_row :: "clock \<Rightarrow> AuditEventRef \<Rightarrow> 'e node" where
  "td_event_row ck e = El ''li'' [] [
     El ''span'' [] [Txt ''#'', Txt (to_string (aer_seq e))],
     El ''span'' [] [Txt (statusLabel (Some (aer_event_type e)))],
     Mono [Txt (shortHash (aer_event_hash e))],
     El ''span'' [] [Txt (stamp ck (aer_created_at e))]]"

definition td_loaded :: "clock \<Rightarrow> TransactionDetail \<Rightarrow> 'e node" where
  "td_loaded ck t = El ''div'' [] [
     node_header
       [El ''span'' [] [Txt (money (Some (txs_amount_minor t)))], Txt '' to '', Txt (txs_vendor_name t),
        StatusBadge (Some (txs_status t)) False]
       [Mono [Txt (shortId (Some (txs_proposal_id t)) 14 6)], dot_sep, Txt ''proposed by '',
        Link (''/agents/'' @ txs_agent_id t) [Txt (txs_agent_name t)], Txt '' from vault '',
        Link (''/vaults/'' @ txs_vault_id t) [Txt (shortId (Some (txs_vault_id t)) 8 4)]],
     El ''div'' [] [td_attempt ck t, td_outcome t],
     Section None (Some ''Policy decisions'')
       (Some ''Each engine that voted on this attempt. Any single deny blocks it.'') []
       [policy_cards ck ''No policy decisions recorded'' (td_policy_decisions t)],
     Section None (Some ''Audit trail'') (Some ''The chained events this attempt produced.'') []
       [if length (td_audit_events t) = 0 then EmptyState ''No audit events reference this attempt'' None ''Inbox'' []
        else Card [CardContent [El ''ol'' [] (map (td_event_row ck) (td_audit_events t))]]]]"

definition td_view :: "clock \<Rightarrow> TransactionDetail query_result \<Rightarrow> td_event node" where
  "td_view ck q = El ''div'' [] (
     Link ''/transactions'' [icon ''ArrowLeft'', Txt '' All transactions'']
     # query_body q [LoadingBlock 8] (retry_state RetryTransaction) (\<lambda>t. [td_loaded ck t]))"

definition td_hooks :: "string \<Rightarrow> query list" where "td_hooks proposalId = [useTransaction proposalId no_opts]"

fun td_calls :: "td_event \<Rightarrow> string \<Rightarrow> call list" where
  "td_calls RetryTransaction proposalId = refetch_calls [useTransaction proposalId no_opts]"

interpretation td: reading_page "\<lambda>e s. s" td_calls td_hooks
proof unfold_locales
  show "list_all hook_query (td_hooks s)" for s by (simp add: td_hooks_def hook_query.intros)
  show "set (td_calls e s) \<subseteq> qy_call ` set (td_hooks s)" for e s
    by (cases e) (simp add: td_hooks_def refetch_calls_def)
qed

subsection \<open>One agent\<close>

record ad_page =
  ad_agentId :: string
  ad_tab :: string

definition ad_initial :: "string \<Rightarrow> ad_page" where
  "ad_initial agentId = \<lparr>ad_agentId = agentId, ad_tab = tabs_initial (Some ''credit'')\<rparr>"

datatype ad_event = SelectAgentTab string | RetryAgent

fun ad_handle :: "ad_event \<Rightarrow> ad_page \<Rightarrow> ad_page" where
  "ad_handle (SelectAgentTab t) s = s\<lparr>ad_tab := fst (tabs_setValue None t (ad_tab s))\<rparr>"
| "ad_handle RetryAgent s = s"

definition ad_task_success :: "AgentProfile \<Rightarrow> 'e node" where
  "ad_task_success p = Metric ''Task success'' [El ''span'' [] [Txt (percent (Some (as_task_success_rate_ppm p)) 1)]] None
     [Txt (Format.count (Some (af_tasks_succeeded (ap_features p))) @ '' of '' @
        Format.count (Some (af_tasks_total (ap_features p))) @ '' tasks'')]
     (if num_eq (af_tasks_total (ap_features p)) (Fin 0) then Some (Insufficient, Some ''No tasks completed yet.'') else None)"

definition ad_repayment :: "AgentProfile \<Rightarrow> 'e node" where
  "ad_repayment p = Metric ''Repayment record'' [El ''span'' [] [Txt (percent (Some (as_repayment_rate_ppm p)) 1)]] None
     [Txt (Format.count (Some (af_repaid_in_full (ap_features p))) @ '' of '' @
        Format.count (Some (af_repayments_total (ap_features p))) @ '' repaid in full'')]
     (if num_eq (af_repayments_total (ap_features p)) (Fin 0)
      then Some (Insufficient, Some ''No concluded credit facilities yet.'') else None)"

definition ad_headline :: "AgentProfile \<Rightarrow> 'e node" where
  "ad_headline p = (let f = ap_features p in El ''div'' [] [
     Card [CardContent [TrustScore (as_trust_score p), El ''div'' [] [El ''div'' [] [TrustScoreLabel],
       para (if af_is_first_credit f then ''First credit '' @ [EM_DASH] @ '' neutral baseline''
         else Format.count (Some (af_tasks_total f)) @ '' tasks on record'')]]],
     Card [CardContent [ad_task_success p]],
     Card [CardContent [ad_repayment p]],
     Card [CardContent [Metric ''Outstanding'' [MoneyValue (Some (af_current_outstanding_minor f)) True NotAvailable] None
       [if num_lt (Fin 0) (af_total_defaulted_minor f)
        then El ''span'' [Attr ''tone'' ''critical''] [Txt (money (Some (af_total_defaulted_minor f))), Txt '' defaulted historically'']
        else Txt ''No historic defaults''] None]],
     Card [CardContent [Metric ''Control frictions''
       [El ''span'' (if num_lt (Fin 0) (as_policy_violation_count p) then [Attr ''tone'' ''caution''] else [])
         [Txt (Format.count (Some (as_policy_violation_count p)))]]
       (Some ''Policy violations recorded against this agent, and spend attempts its vault controls refused.'')
       [Txt (Format.count (Some (as_blocked_spend_attempts p)) @ '' blocked spend attempts'')] None]]])"

definition Passport :: "clock \<Rightarrow> PassportView option \<Rightarrow> Timestamp option \<Rightarrow> 'e node" where
  "Passport ck passport expiresAt = (case passport of
     None \<Rightarrow> Card [CardContent [icon ''ShieldX'',
       para (''No passport on record. This agent cannot be granted credit until it presents a signed capability token.'')]]
   | Some p \<Rightarrow> Section None (Some ''Agent Passport'')
       (Some (''The signed capability token binding this agent to its organisation and owner. '' @
         ''Every credit decision starts by verifying it.'')) []
       [Card [CardContent [
         Rows [
           Row ''Verification'' None [if pv_signature_verified p
             then El ''span'' [Attr ''tone'' ''positive''] [icon ''ShieldCheck'', Txt '' Signature verified'']
             else El ''span'' [Attr ''tone'' ''critical''] [icon ''ShieldX'', Txt '' Verification failed'']],
           Row ''Passport id'' None [Mono [Txt (shortId (Some (pv_passport_id p)) 14 6)]],
           Row ''Issuer'' None [Mono [Txt (pv_issuer p)]],
           Row ''Key version'' None [Mono [Txt (pv_key_version p)]],
           Row ''Audience'' None [Mono [Txt (pv_audience p)]],
           Row ''Purpose'' None [Txt (pv_purpose p)]],
         Rows [
           Row ''Borrowing authority''
             (Some ''The most this token permits the agent to borrow, regardless of what underwriting would allow.'')
             [Txt (money (Some (pv_max_borrowing_authority_minor p)))],
           Row ''Per-transaction cap'' None [Txt (money (Some (pv_max_transaction_value_minor p)))],
           Row ''Permitted categories'' None
             [El ''span'' [] (map (\<lambda>c. Badge outline [Txt c]) (pv_permitted_task_categories p))],
           Row ''Approved vendors'' None
             [El ''span'' [] [Txt (Format.count (Some (num_of_int (int (length (pv_approved_vendor_ids p))))))]],
           Row ''Valid from'' None [Txt (stamp ck (pv_valid_from p))],
           Row ''Expires'' None [El ''span'' [] (Txt (stamp ck (later (pv_expires_at p) expiresAt))
             # show_if (length (pv_reason_codes p) > 0) (map (\<lambda>c. Badge caution [Txt c]) (pv_reason_codes p)))]]]]])"

definition table_card :: "string list \<Rightarrow> ('a \<Rightarrow> 'e node) \<Rightarrow> 'a list \<Rightarrow> string \<Rightarrow> 'e node list" where
  "table_card titles row rows none_text = [if length rows = 0 then EmptyState none_text None ''Inbox'' []
     else Card [TableWrap [Table [head_row titles, TableBody (map row rows)]]]]"

definition ad_credit_row :: "clock \<Rightarrow> AgentProfile_credit_history \<Rightarrow> 'e node" where
  "ad_credit_row ck e = TableRow [
     TableCell [Link (''/credit-applications/'' @ ap_ch_application_id e) [Txt (shortId (Some (ap_ch_application_id e)) 10 4)]],
     TableCell [StatusBadge (Some (ap_ch_status e)) False],
     TableCell [case ap_ch_decision e of
         None \<Rightarrow> Unavailable NotAvailable (Some ''No deterministic decision has been recorded yet.'') False
       | Some d \<Rightarrow> Txt (statusLabel (Some d))],
     TableCell [Txt (money (Some (ap_ch_requested_minor e)))],
     TableCell [MoneyValue (ap_ch_approved_limit_minor e) False NotApplicable],
     TableCell [Txt (ago ck (ap_ch_created_at e))]]"

definition ad_vault_row :: "clock \<Rightarrow> AgentProfile_vaults \<Rightarrow> 'e node" where
  "ad_vault_row ck v = TableRow [
     TableCell [Link (''/vaults/'' @ ap_vaul_vault_id v) [Txt (shortId (Some (ap_vaul_vault_id v)) 10 4)]],
     TableCell [StatusBadge (Some (ap_vaul_status v)) False],
     TableCell [Txt (money (Some (ap_vaul_total_limit_minor v)))],
     TableCell [Txt (money (Some (ap_vaul_spent_minor v)))],
     TableCell [Meter (Some (ap_vaul_spent_minor v)) (Some (ap_vaul_total_limit_minor v)) (Some ''Vault utilisation'')],
     TableCell [Txt (money (Some (ap_vaul_principal_outstanding_minor v)))],
     TableCell [Txt (ago ck (ap_vaul_created_at v))]]"

definition ad_task_row :: "TaskSummary \<Rightarrow> 'e node" where
  "ad_task_row t = TableRow [
     TableCell [para (ts_title t), para (shortId (Some (ts_task_id t)) 10 4)],
     TableCell [Badge outline [Txt (ts_category t)]],
     TableCell [StatusBadge (Some (ts_status t)) False],
     TableCell [Txt (money (Some (ts_expected_revenue_minor t)))],
     TableCell [Txt (money (Some (ts_expected_cost_minor t)))],
     TableCell [Txt (money (Some (ts_expected_margin_minor t)))]]"

definition ad_spending :: "clock \<Rightarrow> AgentProfile_spending_behaviour \<Rightarrow> 'e node" where
  "ad_spending ck b = El ''div'' [] [
     Card [CardHeader [CardTitle [Txt ''Vendor distribution'']],
       CardContent [if length (ap_sb_vendor_distribution b) = 0 then EmptyState ''No executed spending yet'' None ''Inbox'' []
         else Rows (map (\<lambda>v. Row (shortId (Some (ap_sbvd_vendor_id v)) 14 4) None
           [El ''span'' [] [Txt (Format.count (Some (ap_sbvd_count v))), Txt ('' '' @ [CHR 0xD7] @ '' '' @ [MIDDOT] @ '' ''),
             Txt (money (Some (ap_sbvd_amount_minor v)))]]) (ap_sb_vendor_distribution b))]],
     Card [CardHeader [El ''div'' [] [CardTitle [Txt ''Policy violations''],
         para (Format.count (Some (ap_sb_executed_count b)) @ '' executed '' @ [MIDDOT] @ '' '' @
           Format.count (Some (ap_sb_blocked_count b)) @ '' blocked'')]],
       CardContent [if length (ap_sb_policy_violations b) = 0 then EmptyState ''No policy violations'' None ''Inbox'' []
         else El ''ul'' [] (map (\<lambda>v. El ''li'' [] [
           El ''div'' [] [Link (''/transactions/'' @ ap_sbpv_proposal_id v) [Txt (shortId (Some (ap_sbpv_proposal_id v)) 10 4)],
             El ''span'' [] [Txt (ago ck (ap_sbpv_created_at v))]],
           El ''div'' [] (map (\<lambda>c. Badge critical [Txt c]) (ap_sbpv_reason_codes v))]) (ap_sb_policy_violations b))]]]"

definition ad_audit_row :: "clock \<Rightarrow> AuditEventRef \<Rightarrow> 'e node" where
  "ad_audit_row ck e = TableRow [
     TableCell [Txt ''#'', Txt (to_string (aer_seq e))],
     TableCell [Txt (statusLabel (Some (aer_event_type e)))],
     TableCell [Mono [Txt (shortHash (aer_event_hash e))]],
     TableCell [Txt (stamp ck (aer_created_at e))]]"

definition AGENT_TABS :: "(string \<times> string) list" where
  "AGENT_TABS = [(''credit'', ''Credit history''), (''vaults'', ''Vaults''), (''tasks'', ''Tasks''),
     (''spending'', ''Spending behaviour''), (''risk'', ''Risk events''), (''audit'', ''Audit'')]"

definition ad_panel :: "clock \<Rightarrow> AgentProfile \<Rightarrow> string \<Rightarrow> 'e node list" where
  "ad_panel ck p tab =
     (if tab = ''credit'' then table_card [''Application'', ''Status'', ''Decision'', ''Requested'', ''Approved limit'', ''Created'']
        (ad_credit_row ck) (ap_credit_history p) ''No credit applications yet''
      else if tab = ''vaults'' then table_card [''Vault'', ''Status'', ''Limit'', ''Spent'', ''Utilisation'', ''Outstanding'', ''Created'']
        (ad_vault_row ck) (ap_vaults p) ''No vaults for this agent''
      else if tab = ''tasks'' then table_card [''Task'', ''Category'', ''Status'', ''Expected revenue'', ''Expected cost'', ''Margin'']
        ad_task_row (ap_tasks p) ''No tasks recorded''
      else if tab = ''spending'' then [ad_spending ck (ap_spending_behaviour p)]
      else if tab = ''risk'' then [if length (ap_risk_events p) = 0 then EmptyState ''No risk events for this agent'' None ''Inbox'' []
        else risk_table ck (ap_risk_events p)]
      else table_card [''Seq'', ''Event'', ''Hash'', ''When''] (ad_audit_row ck) (ap_audit_events p)
        ''No audit events reference this agent'')"

definition ad_loaded :: "string \<Rightarrow> clock \<Rightarrow> AgentProfile \<Rightarrow> ad_page \<Rightarrow> ad_event node" where
  "ad_loaded baseId ck p s = (let tab = tabs_value None (ad_tab s) in El ''div'' [] [
     node_header [Txt (as_name p), StatusBadge (Some (as_status p)) False, RiskTierBadge (Some (as_risk_tier p))]
       [Mono [Txt (as_agent_id p)], dot_sep, Txt (as_model_provider p), Txt ''/'', Txt (as_model_name p), dot_sep,
        Txt ''owned by '', Txt (as_owner_email p)],
     ad_headline p,
     Passport ck (ap_passport p) (as_passport_expires_at p),
     El ''div'' [] (TabsList (map (\<lambda>(v, l). TabsTrigger baseId tab v SelectAgentTab [Txt l]) AGENT_TABS)
       # panels baseId tab (ad_panel ck p) (map fst AGENT_TABS))])"

definition ad_view :: "string \<Rightarrow> clock \<Rightarrow> AgentProfile query_result \<Rightarrow> ad_page \<Rightarrow> ad_event node" where
  "ad_view baseId ck q s = El ''div'' [] (
     Link ''/agents'' [icon ''ArrowLeft'', Txt '' All agents'']
     # query_body q [LoadingBlock 8] (retry_state RetryAgent) (\<lambda>p. [ad_loaded baseId ck p s]))"

definition ad_hooks :: "ad_page \<Rightarrow> query list" where "ad_hooks s = [useAgent (ad_agentId s) no_opts]"

fun ad_calls :: "ad_event \<Rightarrow> ad_page \<Rightarrow> call list" where
  "ad_calls RetryAgent s = refetch_calls [useAgent (ad_agentId s) no_opts]"
| "ad_calls (SelectAgentTab t) s = []"

interpretation ad: reading_page ad_handle ad_calls ad_hooks
proof unfold_locales
  show "list_all hook_query (ad_hooks s)" for s by (simp add: ad_hooks_def hook_query.intros)
  show "set (ad_calls e s) \<subseteq> qy_call ` set (ad_hooks s)" for e s
    by (cases e) (simp_all add: ad_hooks_def refetch_calls_def)
qed

end
