(* ===== verification/ApplicationPage.thy ===== *)
theory ApplicationPage
  imports Details Review
begin

text \<open>
  One credit application, \<open>frontend/app/(product)/credit-applications/[applicationId]/page.tsx\<close>, with
  the three panels that can write (the underwriting summary, the human review and the narration)
  mounted in it, and the narration itself, \<open>frontend/components/voice/decision-narration.tsx\<close> and
  \<open>narration-script.tsx\<close>, down to the object URLs and the audio it plays.
\<close>

subsection \<open>The narration\<close>

definition VOICE_UNAVAILABLE_MESSAGE :: string where
  "VOICE_UNAVAILABLE_MESSAGE = ''Voice narration is not available right now''"

definition NarrationScript :: "string option \<Rightarrow> string option \<Rightarrow> 'e node list" where
  "NarrationScript body error =
     (if body = None \<and> error = None then []
      else [El ''div'' [] (some_node (\<lambda>t. [para t]) body
        @ some_node (\<lambda>e. [El ''p'' [Attr ''role'' ''status''] [Txt e]]) error)])"

text \<open>
  \<open>listen\<close> is cut at its two \<open>await\<close>s; \<open>nr_await\<close> is where it stands. An object URL and the audio
  element made for it share a number; \<open>nr_live\<close> are the URLs not revoked, \<open>nr_sounding\<close> the
  elements told to play and not paused, refused or ended.
\<close>

datatype nr_await = AwaitBlob | AwaitPlay

record narration =
  nr_mounted :: bool
  nr_requested :: bool
  nr_fetching :: bool
  nr_audioError :: "string option"
  nr_audioRef :: "nat option"
  nr_urlRef :: "nat option"
  nr_await :: "nr_await option"
  nr_live :: "nat list"
  nr_sounding :: "nat list"
  nr_minted :: nat

definition nr_initial :: narration where
  "nr_initial = \<lparr>nr_mounted = True, nr_requested = False, nr_fetching = False, nr_audioError = None,
     nr_audioRef = None, nr_urlRef = None, nr_await = None, nr_live = [], nr_sounding = [], nr_minted = 0\<rparr>"

datatype nr_event = Listen

definition nr_listen :: "narration \<Rightarrow> narration" where
  "nr_listen s = s\<lparr>nr_requested := True, nr_audioError := None, nr_fetching := True, nr_await := Some AwaitBlob\<rparr>"

definition pause :: "narration \<Rightarrow> narration" where
  "pause s = (case nr_audioRef s of None \<Rightarrow> s | Some a \<Rightarrow> s\<lparr>nr_sounding := filter (\<lambda>x. x \<noteq> a) (nr_sounding s)\<rparr>)"

definition revoke :: "narration \<Rightarrow> narration" where
  "revoke s = (case nr_urlRef s of None \<Rightarrow> s | Some u \<Rightarrow> s\<lparr>nr_live := filter (\<lambda>x. x \<noteq> u) (nr_live s)\<rparr>)"

text \<open>The effect's cleanup, which runs when the page moves on.\<close>

definition nr_leave :: "narration \<Rightarrow> narration" where
  "nr_leave s = (revoke (pause s))\<lparr>nr_mounted := False\<rparr>"

text \<open>The bytes have come: the old audio goes, a URL is made for the new one and it is played.\<close>

definition nr_arrive :: "narration \<Rightarrow> narration" where
  "nr_arrive s = (let t = revoke (pause s); u = nr_minted t in
     t\<lparr>nr_urlRef := Some u, nr_audioRef := Some u, nr_live := u # nr_live t, nr_minted := Suc u,
       nr_sounding := u # nr_sounding t, nr_await := Some AwaitPlay\<rparr>)"

text \<open>State set on a component that is gone is not kept.\<close>

definition nr_finally :: "string option \<Rightarrow> narration \<Rightarrow> narration" where
  "nr_finally err s = (if nr_mounted s
     then s\<lparr>nr_audioError := (if err = None then nr_audioError s else err), nr_fetching := False, nr_await := None\<rparr>
     else s\<lparr>nr_await := None\<rparr>)"

definition nr_fail :: "narration \<Rightarrow> narration" where
  "nr_fail s = nr_finally (Some VOICE_UNAVAILABLE_MESSAGE) s"

definition nr_refused :: "narration \<Rightarrow> narration" where
  "nr_refused s = nr_fail (pause s)"

definition nr_view :: "bool query_result \<Rightarrow> string query_result \<Rightarrow> narration \<Rightarrow> nr_event node list" where
  "nr_view enabled script s =
     (if qr_data enabled \<noteq> Some True then []
      else [El ''div'' [] (Button Secondary (nr_fetching s) Listen [icon ''Volume2'',
          Txt (if nr_fetching s then ''Preparing narration'' @ [ELLIPSIS] else ''Listen to this decision'')]
        # NarrationScript (qr_data script)
            (if nr_audioError s \<noteq> None then nr_audioError s
             else if qr_error script \<noteq> None then Some VOICE_UNAVAILABLE_MESSAGE else None))])"

definition nr_hooks :: "string \<Rightarrow> narration \<Rightarrow> query list" where
  "nr_hooks applicationId s = [useVoiceStatus no_opts,
     useDecisionScript applicationId \<lparr>o_enabled = Some (nr_requested s), o_refetchInterval = None\<rparr>]"

fun nr_call :: "string \<Rightarrow> nr_event \<Rightarrow> call" where
  "nr_call applicationId Listen = narration_call applicationId"

lemma events_nr_view:
  "(\<Union>n \<in> set (nr_view en sc s). events n) = (if qr_data en = Some True \<and> \<not> nr_fetching s then {Listen} else {})"
  by (simp add: nr_view_def NarrationScript_def set_some_node split: option.split)

text \<open>What can happen to a narration from the moment it is mounted, also after it is gone.\<close>

inductive nr_run :: "narration \<Rightarrow> bool" where
  mount: "nr_run nr_initial"
| listen: "nr_run s \<Longrightarrow> nr_mounted s \<Longrightarrow> \<exists>n \<in> set (nr_view en sc s). Listen \<in> events n \<Longrightarrow> nr_run (nr_listen s)"
| arrive: "nr_run s \<Longrightarrow> nr_await s = Some AwaitBlob \<Longrightarrow> nr_run (nr_arrive s)"
| fail: "nr_run s \<Longrightarrow> nr_await s = Some AwaitBlob \<Longrightarrow> nr_run (nr_fail s)"
| started: "nr_run s \<Longrightarrow> nr_await s = Some AwaitPlay \<Longrightarrow> nr_run (nr_finally None s)"
| refused: "nr_run s \<Longrightarrow> nr_await s = Some AwaitPlay \<Longrightarrow> nr_run (nr_refused s)"
| ended: "nr_run s \<Longrightarrow> nr_run (pause s)"
| leave: "nr_run s \<Longrightarrow> nr_mounted s \<Longrightarrow> nr_run (nr_leave s)"

text \<open>One narration: only the current URL can be alive and only the current element can sound.\<close>

definition one_voice :: "narration \<Rightarrow> bool" where
  "one_voice s \<longleftrightarrow> set (nr_live s) \<subseteq> set_option (nr_urlRef s) \<and> set (nr_sounding s) \<subseteq> set_option (nr_audioRef s)
     \<and> (nr_mounted s \<longrightarrow> nr_fetching s = (nr_await s \<noteq> None))"

lemma pause_sounding: "set (nr_sounding s) \<subseteq> set_option (nr_audioRef s) \<Longrightarrow> nr_sounding (pause s) = []"
  by (auto simp: pause_def filter_empty_conv split: option.splits)

lemma revoke_live: "set (nr_live s) \<subseteq> set_option (nr_urlRef s) \<Longrightarrow> nr_live (revoke s) = []"
  by (auto simp: revoke_def filter_empty_conv split: option.splits)

lemma pause_keeps [simp]:
  "nr_live (pause s) = nr_live s" "nr_urlRef (pause s) = nr_urlRef s" "nr_audioRef (pause s) = nr_audioRef s"
  "nr_await (pause s) = nr_await s" "nr_mounted (pause s) = nr_mounted s" "nr_fetching (pause s) = nr_fetching s"
  "nr_minted (pause s) = nr_minted s"
  by (simp_all add: pause_def split: option.split)

lemma revoke_keeps [simp]:
  "nr_sounding (revoke s) = nr_sounding s" "nr_audioRef (revoke s) = nr_audioRef s" "nr_urlRef (revoke s) = nr_urlRef s"
  "nr_await (revoke s) = nr_await s" "nr_mounted (revoke s) = nr_mounted s" "nr_fetching (revoke s) = nr_fetching s"
  "nr_minted (revoke s) = nr_minted s"
  by (simp_all add: revoke_def split: option.split)

lemma always_one_voice: "nr_run s \<Longrightarrow> one_voice s"
proof (induction rule: nr_run.induct)
  case mount
  show ?case by (simp add: one_voice_def nr_initial_def)
next
  case (listen s en sc)
  then show ?case by (simp add: one_voice_def nr_listen_def)
qed (simp_all add: one_voice_def nr_arrive_def nr_fail_def nr_refused_def nr_finally_def nr_leave_def Let_def
    pause_sounding revoke_live)

subsection \<open>The application\<close>

definition RevenueMandateCard :: "RevenueMandate option \<Rightarrow> 'e node" where
  "RevenueMandateCard mandate = Card [
     CardHeader [El ''div'' [] [icon ''Landmark'', El ''div'' [] [CardTitle [Txt ''Revenue mandate''],
       para (''Task revenue is contractually routed through the platform before anyone is paid. This '' @
         ''is what makes the credit self-repaying.'')]]],
     CardContent [case mandate of
       None \<Rightarrow> EmptyState ''No mandate on file'' (Some ''Credit cannot be disbursed without a locked revenue mandate.'') ''Inbox'' []
     | Some m \<Rightarrow> Rows [
         Row ''Mandate'' None [Mono [Txt (shortId (Some (rm_mandate_id m)) 10 4)]],
         Row ''Status'' None [StatusBadge (Some (rm_status m)) False],
         Row ''Locked'' (Some ''A locked mandate cannot be redirected while credit is outstanding.'')
           [if rm_locked m then El ''span'' [Attr ''tone'' ''positive''] [Txt ''Yes'']
            else El ''span'' [Attr ''tone'' ''caution''] [Txt ''No'']],
         Row ''Reserve cap'' None [Txt (money (Some (rm_reserve_cap_minor m)))],
         Row ''Destination'' None [Mono [Txt (rm_destination_account_code m)]]]]]"

definition request_card :: "clock \<Rightarrow> UnderwritingView \<Rightarrow> 'e node" where
  "request_card ck v = (let a = uv_application v; t = uv_task v in Card [
     CardHeader [CardTitle [Txt ''The request'']],
     CardContent (
       [Rows [
          Row ''Requested'' None [El ''span'' [] [Txt (money (Some (uv_appl_requested_minor a)))]],
          Row ''Duration'' None [Txt (durationHours (Some (uv_appl_requested_duration_hours a)))],
          Row ''Expected revenue'' None [Txt (money (Some (uv_appl_expected_revenue_minor a)))],
          Row ''Expected cost'' None [Txt (money (Some (uv_appl_expected_cost_minor a)))],
          Row ''Expected margin'' None [Txt (money (Some (uv_appl_expected_margin_minor a)))]],
        Rows [
          Row ''Owner exposure cap'' (Some ''The most this owner allows across all their agents at once.'')
            [Txt (money (Some (uv_appl_owner_exposure_cap_minor a)))],
          Row ''Proposed vendors'' None [El ''span'' [] (if length (uv_appl_proposed_vendor_ids a) = 0
            then [El ''span'' [] [Txt ''None named'']]
            else map (\<lambda>i. Badge outline [Txt (shortId (Some i) 10 4)]) (uv_appl_proposed_vendor_ids a))],
          Row ''Submitted'' None [Txt (stamp ck (uv_appl_created_at a))],
          Row ''Task'' None [Mono [Txt (shortId (Some (uv_task_task_id t)) 10 4)]]]]
       @ show_if (uv_task_description t \<noteq> []) [para (uv_task_description t)])])"

definition evidence_card :: "EvidenceItem \<Rightarrow> 'e node" where
  "evidence_card item = Card [CardContent [
     El ''div'' [] [Badge outline [Txt (statusLabel (Some (ev_evidence_type item)))],
       Mono [Txt (shortHash (Some (ev_content_hash item)))]],
     para (ev_content_text item),
     para (ev_evidence_id item @ '' '' @ [MIDDOT] @ '' '' @ ev_source item)]]"

definition review_tone :: "string \<Rightarrow> BadgeTone" where
  "review_tone action = (if action = ''APPROVE'' then positive else critical)"

definition review_row :: "clock \<Rightarrow> UnderwritingView_human_reviews \<Rightarrow> 'e node" where
  "review_row ck r = El ''li'' [] (
     [Badge (review_tone (uv_hr_action r)) [Txt (statusLabel (Some (uv_hr_action r)))]]
     @ some_node (\<lambda>m. [El ''span'' [] [MoneyValue (Some m) False NotAvailable]]) (uv_hr_amount_minor r)
     @ some_node (\<lambda>n. show_if (n \<noteq> []) [El ''span'' [] [Txt ([LDQUO] @ n @ [RDQUO])]]) (uv_hr_notes r)
     @ [El ''span'' [] [Txt (stamp ck (uv_hr_created_at r))]])"

text \<open>What the page holds while the application is shown.\<close>

record cp_panels =
  cp_summary :: us_form
  cp_review :: "rc_form option"
  cp_narration :: narration

datatype cp_event = Panel us_event | ReviewForm rc_event | Narrate nr_event | RetryApplication

definition cp_ctx :: "UnderwritingView \<Rightarrow> rc_ctx" where
  "cp_ctx v = \<lparr>rc_applicationId = uv_appl_application_id (uv_application v),
     rc_requestedMinor = uv_appl_requested_minor (uv_application v),
     rc_engineLimitMinor = map_option de_approved_limit_minor (uv_deterministic_engine v)\<rparr>"

text \<open>The review controls exist exactly while the status asks for a person.\<close>

definition cp_commit :: "UnderwritingView \<Rightarrow> cp_panels option \<Rightarrow> cp_panels" where
  "cp_commit v p =
     (let s = (case p of Some s \<Rightarrow> s
         | None \<Rightarrow> \<lparr>cp_summary = us_initial, cp_review = None, cp_narration = nr_initial\<rparr>) in
      s\<lparr>cp_review := (if us_status v = ''HUMAN_REVIEW_REQUIRED''
          then Some (case cp_review s of Some r \<Rightarrow> r | None \<Rightarrow> rc_initial (cp_ctx v)) else None)\<rparr>)"

fun cp_handle :: "cp_event \<Rightarrow> cp_panels \<Rightarrow> cp_panels" where
  "cp_handle (Panel e) s = s\<lparr>cp_summary := us_handle e (cp_summary s)\<rparr>"
| "cp_handle (ReviewForm e) s = s\<lparr>cp_review := map_option (rc_handle e) (cp_review s)\<rparr>"
| "cp_handle (Narrate Listen) s = s\<lparr>cp_narration := nr_listen (cp_narration s)\<rparr>"
| "cp_handle RetryApplication s = s"

text \<open>The calls an event makes.\<close>

fun cp_calls :: "UnderwritingView \<Rightarrow> cp_event \<Rightarrow> cp_panels \<Rightarrow> call list" where
  "cp_calls v (Panel e) s = (case us_call v (cp_summary s) e of Some c \<Rightarrow> [c] | None \<Rightarrow> [])"
| "cp_calls v (ReviewForm (Decide a)) s = (case cp_review s of None \<Rightarrow> []
     | Some r \<Rightarrow> [reviewApplication (rc_applicationId (cp_ctx v)) (decide (cp_ctx v) a r)])"
| "cp_calls v (ReviewForm e) s = []"
| "cp_calls v (Narrate e) s = [nr_call (uv_appl_application_id (uv_application v)) e]"
| "cp_calls v RetryApplication s = refetch_calls [useUnderwriting (uv_appl_application_id (uv_application v)) no_opts]"

definition cp_header :: "UnderwritingView \<Rightarrow> 'e node" where
  "cp_header v = node_header
     [Txt (uv_task_title (uv_task v)), StatusBadge (Some (us_status v)) False]
     [Mono [Txt (shortId (Some (uv_appl_application_id (uv_application v))) 14 6)], dot_sep,
      Link (''/agents/'' @ uv_agen_agent_id (uv_agent v)) [Txt (uv_agen_name (uv_agent v))], dot_sep,
      Txt (uv_task_category (uv_task v))]"

definition cp_records :: "clock \<Rightarrow> UnderwritingView \<Rightarrow> 'e node list" where
  "cp_records ck v =
     [Section None (Some ''Evidence'') (Some (''Everything the model was allowed to see, stored and content-hashed. '' @
         ''A claim citing an id not on this list is unsupported by definition.'')) []
        [if length (uv_evidence v) = 0 then EmptyState ''No evidence stored for this application'' None ''Inbox'' []
         else El ''div'' [] (map evidence_card (uv_evidence v))],
      Section None (Some ''Policy decisions'') (Some (''Each engine that voted on this application. A single deny from '' @
         ''any of them blocks it '' @ [EM_DASH] @ '' and a missing policy engine blocks it too, because the system '' @
         ''fails closed.'')) []
        [policy_cards ck ''No policy decisions recorded yet'' (uv_policy_decisions v)]]
     @ show_if (length (uv_human_reviews v) > 0)
        [Section None (Some ''Review history'') None []
          [Card [CardContent [El ''ol'' [] (map (review_row ck) (uv_human_reviews v))]]]]"

definition cp_review_section :: "UnderwritingView \<Rightarrow> cp_panels \<Rightarrow> cp_event node list" where
  "cp_review_section v s = show_if (us_status v = ''HUMAN_REVIEW_REQUIRED'')
     [Section None (Some ''Human review'') (Some (''The policy engine referred this application to a person. '' @
        ''Nothing proceeds until an owner decides.'')) []
       (some_node (\<lambda>r. [map_node ReviewForm (rc_view (cp_ctx v) r)]) (cp_review s))]"

definition cp_loaded :: "clock \<Rightarrow> bool query_result \<Rightarrow> string query_result \<Rightarrow> UnderwritingView \<Rightarrow> cp_panels
    \<Rightarrow> cp_event node" where
  "cp_loaded ck enabled script v s = El ''div'' [] (
     [cp_header v,
      El ''div'' [] [request_card ck v, RevenueMandateCard (uv_revenue_mandate v)],
      map_node Panel (us_view v (cp_summary s)),
      Section None (Some ''Decision comparison'')
        (Some ''Three independent views of the same application. Only the centre panel can move money.'') []
        (DecisionPanels (uv_ai_recommendation v) (uv_deterministic_engine v) (uv_verifier v)
         # map (map_node Narrate) (nr_view enabled script (cp_narration s)))]
     @ cp_review_section v s @ cp_records ck v)"

definition cp_view :: "clock \<Rightarrow> bool query_result \<Rightarrow> string query_result \<Rightarrow> UnderwritingView query_result
    \<Rightarrow> cp_panels option \<Rightarrow> cp_event node" where
  "cp_view ck enabled script q p = El ''div'' [] (
     Link ''/credit-applications'' [icon ''ArrowLeft'', Txt '' All applications'']
     # query_body q [LoadingBlock 8] (retry_state RetryApplication)
         (\<lambda>v. [cp_loaded ck enabled script v (cp_commit v p)]))"

lemma cards_events [simp]:
  "events (RevenueMandateCard m) = {}" "events (request_card ck v) = {}" "events (evidence_card e) = {}"
  "events (review_row ck r) = {}" "events (cp_header v) = {}" "events (policy_card ck d) = {}"
  by (simp_all add: RevenueMandateCard_def request_card_def evidence_card_def review_row_def cp_header_def
      policy_card_def node_header_def dot_sep_def Let_def set_some_node split: option.split)

lemma records_events [simp]: "(\<Union>n \<in> set (cp_records ck v). events n) = {}"
  by (auto simp: cp_records_def policy_cards_def)

lemma events_CapRows [simp]: "events (CapRows caps l) = {}"
  by (auto simp: CapRows_def split: if_splits)

lemma panel_events [simp]:
  "events (AiPanel ai) = {}" "events (EnginePanel en) = {}" "events (VerifierPanel ve) = {}"
proof -
  show "events (AiPanel ai) = {}"
    by (cases ai) (auto simp: AiPanel_def PanelHeading_def badge_group_def)
  show "events (EnginePanel en) = {}"
    by (cases en) (auto simp: EnginePanel_def PanelHeading_def badge_group_def set_some_node split: option.splits)
  show "events (VerifierPanel ve) = {}"
    by (auto simp: VerifierPanel_def PanelHeading_def Let_def)
qed

lemma events_DecisionPanels [simp]: "events (DecisionPanels ai en ve) = {}"
  by (simp add: DecisionPanels_def)

lemma events_rc_view:
  "Decide a \<in> events (rc_view cx r) \<longleftrightarrow> \<not> mu_pending (rc_review r) \<and> (a = False \<or> rc_amountMinor r \<noteq> None)"
  by (auto simp: rc_view_def Let_def set_some_node split: if_splits option.splits)

lemma cp_offers:
  "events (cp_loaded ck enabled script v s) =
     Panel ` events (us_view v (cp_summary s))
     \<union> Narrate ` (\<Union>n \<in> set (nr_view enabled script (cp_narration s)). events n)
     \<union> (case cp_review s of None \<Rightarrow> {} | Some r \<Rightarrow>
          if us_status v = ''HUMAN_REVIEW_REQUIRED'' then ReviewForm ` events (rc_view (cp_ctx v) r) else {})"
  by (auto simp: cp_loaded_def cp_review_section_def UN_Un set_some_node split: option.split)

text \<open>What the page offers for an application, once its panels are those of the application's status.\<close>

definition cp_offered :: "clock \<Rightarrow> bool query_result \<Rightarrow> string query_result \<Rightarrow> UnderwritingView
    \<Rightarrow> cp_panels option \<Rightarrow> cp_event set" where
  "cp_offered ck enabled script v p = events (cp_loaded ck enabled script v (cp_commit v p))"

subsection \<open>Properties\<close>

text \<open>
  C14. The page offers each write in its place only: underwriting is run while the application can still
  be evaluated, a person decides while the engine referred it, money is put in a vault once it is
  approved, and no two of the three are ever offered together. Approving needs a usable amount,
  rejecting needs none.
\<close>

theorem application_writes_exclusive:
  "(Panel Run \<in> cp_offered ck enabled script v p \<longleftrightarrow>
           us_busy (cp_summary (cp_commit v p)) = None \<and> List.member RUNNABLE (us_status v))
    \<and> (Panel Fund \<in> cp_offered ck enabled script v p \<longleftrightarrow> us_busy (cp_summary (cp_commit v p)) = None \<and> us_status v = ''APPROVED'')
    \<and> (ReviewForm (Decide False) \<in> cp_offered ck enabled script v p \<longleftrightarrow> us_status v = ''HUMAN_REVIEW_REQUIRED''
         \<and> \<not> mu_pending (rc_review (the (cp_review (cp_commit v p)))))
    \<and> (ReviewForm (Decide True) \<in> cp_offered ck enabled script v p \<longleftrightarrow> ReviewForm (Decide False) \<in> cp_offered ck enabled script v p
         \<and> rc_amountMinor (the (cp_review (cp_commit v p))) \<noteq> None)
    \<and> \<not> {Panel Run, Panel Fund} \<subseteq> cp_offered ck enabled script v p
    \<and> \<not> {Panel Run, ReviewForm (Decide a)} \<subseteq> cp_offered ck enabled script v p
    \<and> \<not> {Panel Fund, ReviewForm (Decide b)} \<subseteq> cp_offered ck enabled script v p"
proof -
  have us: "Panel e \<in> cp_offered ck enabled script v p \<longleftrightarrow> e \<in> events (us_view v (cp_summary (cp_commit v p)))" for e
    by (auto simp: cp_offered_def cp_offers split: option.splits if_splits)
  have rc: "ReviewForm (Decide c) \<in> cp_offered ck enabled script v p \<longleftrightarrow> us_status v = ''HUMAN_REVIEW_REQUIRED''
      \<and> \<not> mu_pending (rc_review (the (cp_review (cp_commit v p))))
      \<and> (c = False \<or> rc_amountMinor (the (cp_review (cp_commit v p))) \<noteq> None)" for c
    by (auto simp: cp_offered_def cp_offers events_rc_view cp_commit_def Let_def image_iff split: option.splits if_splits)
  have "f_offers us_spec (v, s) = events (us_view v s)" for s by (simp add: us_spec_def)
  note us_events = us_offers [of v, unfolded this]
  have run: "Panel Run \<in> cp_offered ck enabled script v p \<longleftrightarrow>
      us_busy (cp_summary (cp_commit v p)) = None \<and> List.member RUNNABLE (us_status v)"
    by (auto simp: us us_events us_canRun_def)
  have fund: "Panel Fund \<in> cp_offered ck enabled script v p \<longleftrightarrow> us_busy (cp_summary (cp_commit v p)) = None \<and> us_status v = ''APPROVED''"
    by (auto simp: us us_events us_canFund_def)
  show ?thesis by (simp add: run fund rc) (auto simp: RUNNABLE_def)
qed

text \<open>
  A review is shown in the tone of an approval only when it left the engine's limit alone: an
  approval of any other amount is recorded as a reduction and reads, in the history, in the tone
  of a rejection.
\<close>

theorem changed_approval_shown_critical:
  "review_tone (action_text (rb_action (decide cx a s))) = positive
    \<longleftrightarrow> a \<and> (rc_engineLimitMinor cx = None
         \<or> (\<exists>l m. rc_engineLimitMinor cx = Some l \<and> rc_amountMinor s = Some m \<and> num_eq m l))"
  by (auto simp: decide_def review_tone_def Let_def split: option.splits)

text \<open>
  C37. One narration at a time: in every history, only the last object URL can still be alive and only
  the last audio can sound; leaving the page silences it and revokes the URL. But when the page is
  left while the audio is still being fetched, its arrival makes a URL that nothing revokes and
  plays it on whatever page is then shown.
\<close>

theorem narration_outlives_page:
  assumes "nr_run s" and "nr_mounted s"
  shows "set (nr_live s) \<subseteq> set_option (nr_urlRef s) \<and> set (nr_sounding s) \<subseteq> set_option (nr_audioRef s)
    \<and> nr_live (nr_leave s) = [] \<and> nr_sounding (nr_leave s) = []
    \<and> (nr_await s = Some AwaitBlob \<longrightarrow>
         nr_run (nr_arrive (nr_leave s)) \<and> \<not> nr_mounted (nr_arrive (nr_leave s))
         \<and> nr_live (nr_arrive (nr_leave s)) = [nr_minted s] \<and> nr_sounding (nr_arrive (nr_leave s)) = [nr_minted s])"
proof -
  have inv: "one_voice s" using assms(1) by (rule always_one_voice)
  have left: "nr_live (nr_leave s) = []" "nr_sounding (nr_leave s) = []"
    using inv by (simp_all add: one_voice_def nr_leave_def pause_sounding revoke_live)
  have stays: "nr_await (nr_leave s) = nr_await s" "nr_minted (nr_leave s) = nr_minted s" "\<not> nr_mounted (nr_leave s)"
    by (simp_all add: nr_leave_def)
  have quiet: "nr_sounding (pause t) = [] \<and> nr_live (revoke t) = []"
    if "nr_live t = []" "nr_sounding t = []" for t
    using that by (simp add: pause_sounding revoke_live)
  have "nr_live (nr_arrive (nr_leave s)) = [nr_minted s] \<and> nr_sounding (nr_arrive (nr_leave s)) = [nr_minted s]
      \<and> \<not> nr_mounted (nr_arrive (nr_leave s))"
    using quiet [OF left] left stays by (simp add: nr_arrive_def Let_def revoke_live)
  moreover have "nr_run (nr_arrive (nr_leave s))" if "nr_await s = Some AwaitBlob"
    using nr_run.arrive [OF nr_run.leave [OF assms]] that stays(1) by simp
  ultimately show ?thesis using inv left by (simp add: one_voice_def)
qed

theorem narration_outlives_page_witness:
  "nr_run (nr_listen nr_initial) \<and> nr_sounding (nr_arrive (nr_leave (nr_listen nr_initial))) = [0]"
proof -
  let ?en = "\<lparr>qr_data = Some True, qr_pending = False, qr_error = None, qr_fetching = False\<rparr>"
  have "\<exists>n \<in> set (nr_view ?en loading_result nr_initial). Listen \<in> events n"
    using events_nr_view [of ?en loading_result nr_initial] by (auto simp: nr_initial_def)
  then have r: "nr_run (nr_listen nr_initial)"
    using nr_run.listen [OF nr_run.mount] by (simp add: nr_initial_def)
  then show ?thesis
    using narration_outlives_page [OF r] by (simp add: nr_listen_def nr_initial_def)
qed

end
