(* ===== verification/OrbChat.thy ===== *)
theory OrbChat
  imports Orb Forms
begin

text \<open>
  The floating assistant, \<open>frontend/components/orb.tsx\<close>, in front of the route of \<open>Orb\<close>: its state, its
  view, \<open>send\<close> cut at its \<open>await\<close>s, and the two composed into conversations. The scroll position,
  the focus of the input and the animations are not modelled.
\<close>

subsection \<open>Messages\<close>

datatype orb_role = FromUser | FromOrb

record orb_message =
  om_role :: orb_role
  om_text :: string
  om_source :: "string option"

fun source_text :: "Source \<Rightarrow> string" where
  "source_text Canned = ''canned''"
| "source_text Model = ''model''"
| "source_text Facts = ''facts''"

definition OPENING :: orb_message where
  "OPENING = \<lparr>om_role = FromOrb,
     om_text = ''Hi '' @ [EM_DASH] @ '' I'' @ [APOS] @ ''m the CredenceAI orb. Ask me about anything on this page: the vaults, '' @
       ''the repayment order, the agent passport, or what'' @ [APOS] @ ''s real and what'' @ [APOS] @ ''s sandbox.'',
     om_source = Some ''canned''\<rparr>"

definition SUGGESTIONS :: "string list" where
  "SUGGESTIONS = [''What is CredenceAI?'', ''How does repayment work?'', ''Is this real money?'']"

definition SOURCE_LABEL :: "(string \<times> string) list" where
  "SOURCE_LABEL = [(''canned'', ''scripted reply''), (''model'', ''generated by a local model''),
     (''facts'', ''from this page'' @ [APOS] @ ''s stated facts'')]"

definition unreachable_text :: string where
  "unreachable_text = ''I couldn'' @ [APOS] @ ''t reach my own service just then. The page itself is unaffected '' @ [EM_DASH] @
     '' try me again in a moment.''"

definition went_wrong_text :: string where
  "went_wrong_text = ''Something went wrong on my end. Try again?''"

subsection \<open>The widget\<close>

text \<open>\<open>ow_await\<close>: the question the one call of \<open>send\<close> that has not returned is waiting for.\<close>

record orb_widget =
  ow_open :: bool
  ow_messages :: "orb_message list"
  ow_draft :: string
  ow_pending :: bool
  ow_await :: "string option"

definition ow_initial :: orb_widget where
  "ow_initial = \<lparr>ow_open = False, ow_messages = [OPENING], ow_draft = [], ow_pending = False, ow_await = None\<rparr>"

datatype ow_event = ToggleOrb | CloseOrb | TypeQuestion string | SubmitQuestion | Suggest string

definition say :: "orb_role \<Rightarrow> string \<Rightarrow> string option \<Rightarrow> orb_widget \<Rightarrow> orb_widget" where
  "say who body source s =
     s\<lparr>ow_messages := ow_messages s @ [\<lparr>om_role = who, om_text = body, om_source = source\<rparr>]\<rparr>"

definition send_question :: "string \<Rightarrow> orb_widget \<Rightarrow> orb_widget" where
  "send_question body s = (let question = trim body in
     if question = [] \<or> ow_pending s then s
     else (say FromUser question None s)\<lparr>ow_draft := [], ow_pending := True, ow_await := Some question\<rparr>)"

fun ow_handle :: "ow_event \<Rightarrow> orb_widget \<Rightarrow> orb_widget" where
  "ow_handle ToggleOrb s = s\<lparr>ow_open := \<not> ow_open s\<rparr>"
| "ow_handle CloseOrb s = s\<lparr>ow_open := False\<rparr>"
| "ow_handle (TypeQuestion v) s = s\<lparr>ow_draft := v\<rparr>"
| "ow_handle SubmitQuestion s = send_question (ow_draft s) s"
| "ow_handle (Suggest t) s = send_question t s"

text \<open>
  What \<open>fetch\<close> and \<open>json\<close> give: nothing (either rejected), or the parsed body whatever the status;
  reading a field of \<open>null\<close> throws into the same \<open>catch\<close>.
\<close>

definition ow_answer :: "json option \<Rightarrow> orb_widget \<Rightarrow> orb_widget" where
  "ow_answer data s = (let t = (case data of
       None \<Rightarrow> say FromOrb unreachable_text (Some ''facts'') s
     | Some d \<Rightarrow> if is_nullish d then say FromOrb unreachable_text (Some ''facts'') s
         else say FromOrb (case as_string (member ''reply'' d) of Some r \<Rightarrow> r | None \<Rightarrow> went_wrong_text)
           (Some (case as_string (member ''source'' d) of Some x \<Rightarrow> x | None \<Rightarrow> ''facts'')) s) in
     t\<lparr>ow_pending := False, ow_await := None\<rparr>)"

definition message_view :: "orb_message \<Rightarrow> 'e node" where
  "message_view m = El ''div'' [] [El ''div'' [] (Txt (om_text m)
     # (if om_role m = FromOrb then some_node (\<lambda>x. [El ''span'' []
         (some_node (\<lambda>l. [Txt l]) (map_of SOURCE_LABEL x))]) (om_source m) else []))]"

definition ow_panel :: "orb_widget \<Rightarrow> ow_event node" where
  "ow_panel s = El ''div'' [Attr ''role'' ''dialog'', Attr ''aria-label'' ''CredenceAI page assistant''] [
     El ''header'' [] [El ''div'' [] [para ''CredenceAI orb'', para ''Answers about this page only''],
       El ''button'' [Attr ''aria-label'' ''Close assistant'', OnClick CloseOrb] [icon ''X'']],
     El ''div'' [] (map message_view (ow_messages s)
       @ show_if (ow_pending s) [El ''div'' [Attr ''aria-label'' ''Thinking''] []]
       @ show_if (length (ow_messages s) = 1 \<and> \<not> ow_pending s)
           [El ''div'' [] (map (\<lambda>t. El ''button'' [OnClick (Suggest t)] [Txt t]) SUGGESTIONS)]),
     El ''form'' [] [
       Input [Attr ''maxlength'' ''600'', Attr ''placeholder'' (''Ask about this page'' @ [ELLIPSIS]),
         Attr ''aria-label'' ''Your question''] (ow_draft s) False TypeQuestion,
       El ''button'' (Attr ''type'' ''submit'' # disabled_if (ow_pending s \<or> trim (ow_draft s) = [])
         @ [Attr ''aria-label'' ''Send'', OnClick SubmitQuestion]) [icon ''Send'']]]"

definition ow_view :: "orb_widget \<Rightarrow> ow_event node" where
  "ow_view s = El ''div'' [] (show_if (ow_open s) [ow_panel s]
     @ [El ''button'' [Attr ''aria-label'' (if ow_open s then ''Close assistant'' else ''Open assistant''),
         Attr ''aria-expanded'' (bool_text (ow_open s)), OnClick ToggleOrb]
         [if ow_open s then icon ''X'' else El ''span'' [] []]])"

text \<open>
  What a user can do: the view's events, except that \<open>maxLength\<close> stops the input at 600 characters.
  Escape closes an open panel, as its close button does.
\<close>

definition ow_offers :: "orb_widget \<Rightarrow> ow_event set" where
  "ow_offers s = {e \<in> events (ow_view s). case e of TypeQuestion v \<Rightarrow> length v \<le> 600 | _ \<Rightarrow> True}"

lemma events_message [simp]: "events (message_view m) = {}"
  by (simp add: message_view_def set_some_node split: option.split)

lemma ow_offers_iff:
  "e \<in> ow_offers s \<longleftrightarrow> (case e of ToggleOrb \<Rightarrow> True | CloseOrb \<Rightarrow> ow_open s
     | TypeQuestion v \<Rightarrow> ow_open s \<and> length v \<le> 600
     | SubmitQuestion \<Rightarrow> ow_open s \<and> \<not> ow_pending s \<and> trim (ow_draft s) \<noteq> []
     | Suggest t \<Rightarrow> ow_open s \<and> \<not> ow_pending s \<and> length (ow_messages s) = 1 \<and> List.member SUGGESTIONS t)"
  by (auto simp: ow_offers_def ow_view_def ow_panel_def split: ow_event.splits if_splits)

subsection \<open>One question at a time\<close>

definition ow_spec :: "(orb_widget, ow_event, unit, json option) form" where
  "ow_spec = \<lparr>
     f_initial = (\<lambda>s. s = ow_initial),
     f_offers = ow_offers,
     f_starts = (\<lambda>s e. ow_pending (ow_handle e s) \<and> \<not> ow_pending s),
     f_handle = ow_handle,
     f_progress = (\<lambda>p s. s),
     f_settle = ow_answer,
     f_rerender = (\<lambda>s s'. s' = s)\<rparr>"

definition ow_flights :: "orb_widget \<Rightarrow> nat" where
  "ow_flights s = of_bool (ow_pending s)"

lemma say_keeps [simp]:
  "ow_pending (say w b x s) = ow_pending s" "ow_await (say w b x s) = ow_await s"
  "ow_draft (say w b x s) = ow_draft s"
  "ow_messages (say w b x s) = ow_messages s @ [\<lparr>om_role = w, om_text = b, om_source = x\<rparr>]"
  by (simp_all add: say_def)

lemma answer_settles [simp]: "\<not> ow_pending (ow_answer d s)" "ow_await (ow_answer d s) = None" "ow_draft (ow_answer d s) = ow_draft s"
  by (simp_all add: ow_answer_def Let_def split: option.split)

lemma send_pending: "ow_pending (send_question t s) \<longleftrightarrow> ow_pending s \<or> trim t \<noteq> []"
  by (simp add: send_question_def Let_def)

interpretation ow: submitting_form ow_spec ow_flights
proof unfold_locales
  fix e s assume off: "e \<in> f_offers ow_spec s"
  show "ow_flights (f_handle ow_spec e s) = ow_flights s" if "\<not> f_starts ow_spec s e"
    using that by (cases e) (auto simp: ow_spec_def ow_flights_def send_pending)
qed (auto simp: ow_spec_def ow_flights_def ow_initial_def)

subsection \<open>Conversations with the route\<close>

definition reply_json :: "orb_reply \<Rightarrow> json" where
  "reply_json r = JObj [(''reply'', JStr (or_text r)), (''source'', JStr (source_text (or_source r)))]"

definition question_json :: "string \<Rightarrow> json" where
  "question_json question = JObj [(''message'', JStr question)]"

text \<open>
  One question that left the widget: the route's reply to it with the requests the route made of the
  chat service and their outcomes, or nothing when the request or its answer was lost on the way.
\<close>

record orb_turn =
  tn_question :: string
  tn_reply :: "orb_reply option"
  tn_calls :: "(chat_request \<times> chat_outcome) list"

text \<open>
  A conversation: the widget driven by its user, its requests answered by the route, whatever the
  chat service then does, or lost. The second argument lists the questions that came to an end.
\<close>

inductive conversation :: "env \<Rightarrow> orb_widget \<Rightarrow> orb_turn list \<Rightarrow> bool" for env where
  start: "conversation env ow_initial []"
| act: "conversation env s h \<Longrightarrow> e \<in> ow_offers s \<Longrightarrow> conversation env (ow_handle e s) h"
| answered: "conversation env s h \<Longrightarrow> ow_await s = Some q \<Longrightarrow> POST env chat (Some (question_json q)) = (r, calls)
    \<Longrightarrow> conversation env (ow_answer (Some (reply_json r)) s)
      (h @ [\<lparr>tn_question = q, tn_reply = Some r, tn_calls = map (\<lambda>c. (c, chat c)) calls\<rparr>])"
| lost: "conversation env s h \<Longrightarrow> ow_await s = Some q
    \<Longrightarrow> conversation env (ow_answer None s) (h @ [\<lparr>tn_question = q, tn_reply = None, tn_calls = []\<rparr>])"

text \<open>The messages of a question and of a turn: the words of the reply under the label it came with.\<close>

definition asked_message :: "string \<Rightarrow> orb_message" where
  "asked_message q = \<lparr>om_role = FromUser, om_text = q, om_source = None\<rparr>"

definition turn_messages :: "orb_turn \<Rightarrow> orb_message list" where
  "turn_messages t = [asked_message (tn_question t),
     (case tn_reply t of
        None \<Rightarrow> \<lparr>om_role = FromOrb, om_text = unreachable_text, om_source = Some ''facts''\<rparr>
      | Some r \<Rightarrow> \<lparr>om_role = FromOrb, om_text = or_text r,
          om_source = Some (case or_source r of Canned \<Rightarrow> ''canned'' | Model \<Rightarrow> ''model'' | Facts \<Rightarrow> ''facts'')\<rparr>)]"

text \<open>
  What each label vouches for: a canned reply is one of the list; one from the facts is a reviewed
  fact or a sentence of the route; and one from the model is the content which the configured chat
  service gave, with a success status, to the one request made for this question, without its
  markdown and the blanks around it.
\<close>

definition vouched :: "env \<Rightarrow> orb_turn \<Rightarrow> bool" where
  "vouched env t \<longleftrightarrow> (case tn_reply t of None \<Rightarrow> True
     | Some r \<Rightarrow> or_status r = 200 \<and> (case or_source r of
          Canned \<Rightarrow> or_text r \<in> snd ` set CANNED
        | Facts \<Rightarrow> or_text r \<in> fact_text ` set FACTS \<union> set route_sentences
        | Model \<Rightarrow> \<exists>base status payload content. ollamaBase env = Some base
            \<and> tn_calls t = [(chat_request_for env base (tn_question t), ChatAnswer status (Some payload))]
            \<and> status_ok status \<and> member ''content'' (member ''message'' payload) = JStr content
            \<and> or_text r = trim (strip_markdown content) \<and> or_text r \<noteq> []))"

lemma model_content:
  assumes "model_text out = Some t"
  obtains status payload content where "out = ChatAnswer status (Some payload)" "status_ok status"
    "member ''content'' (member ''message'' payload) = JStr content" "t = trim (strip_markdown content)" "t \<noteq> []"
  using assms by (cases out rule: model_text.cases)
    (auto simp: Let_def split: if_splits option.splits json.splits)

lemma vouched_POST:
  assumes post: "POST env chat (Some (question_json q)) = (r, calls)"
    and q: "trim q = q" "q \<noteq> []" "length q \<le> MAX_MESSAGE_CHARS"
  shows "vouched env \<lparr>tn_question = q, tn_reply = Some r, tn_calls = map (\<lambda>c. (c, chat c)) calls\<rparr>"
proof -
  have st: "or_status r = 200"
    using POST_accepts [of "question_json q" q env chat] q post by (simp add: question_json_def)
  note words = orb_replies_vouched [of env chat "Some (question_json q)", unfolded post fst_conv snd_conv]
  show ?thesis
  proof (cases "or_source r")
    case Model
    then obtain c where c: "calls = [c]" "model_text (chat c) = Some (or_text r)" using words by auto
    then have "c \<in> set (snd (POST env chat (Some (question_json q))))" by (simp add: post)
    from orb_model_gate [OF this] obtain base where base: "ollamaBase env = Some base"
      "c = chat_request_for env base q"
      using q(1) by (auto simp: question_json_def)
    from model_content [OF c(2)] obtain status payload content where
      "chat c = ChatAnswer status (Some payload)" "status_ok status"
      "member ''content'' (member ''message'' payload) = JStr content"
      "or_text r = trim (strip_markdown content)" "or_text r \<noteq> []" by metis
    then show ?thesis using st Model c(1) base by (simp add: vouched_def)
  qed (use st words in \<open>simp_all add: vouched_def\<close>)
qed

lemma answer_messages:
  "ow_messages (ow_answer None s) = ow_messages s @ [\<lparr>om_role = FromOrb, om_text = unreachable_text, om_source = Some ''facts''\<rparr>]"
  "ow_messages (ow_answer (Some (reply_json r)) s) =
     ow_messages s @ [\<lparr>om_role = FromOrb, om_text = or_text r,
       om_source = Some (case or_source r of Canned \<Rightarrow> ''canned'' | Model \<Rightarrow> ''model'' | Facts \<Rightarrow> ''facts'')\<rparr>]"
  by (simp_all add: ow_answer_def reply_json_def Let_def is_nullish_def split: Source.split)

text \<open>The whole exchange after \<open>h\<close>, with a question that waits.\<close>

definition transcript :: "orb_turn list \<Rightarrow> string option \<Rightarrow> orb_message list" where
  "transcript h waiting = OPENING # concat (map turn_messages h)
     @ (case waiting of None \<Rightarrow> [] | Some q \<Rightarrow> [asked_message q])"

definition ow_inv :: "env \<Rightarrow> orb_widget \<Rightarrow> orb_turn list \<Rightarrow> bool" where
  "ow_inv env s h \<longleftrightarrow> list_all (vouched env) h \<and> ow_messages s = transcript h (ow_await s)
     \<and> (ow_pending s \<longleftrightarrow> ow_await s \<noteq> None)
     \<and> (case ow_await s of None \<Rightarrow> True | Some q \<Rightarrow> trim q = q \<and> q \<noteq> [] \<and> length q \<le> MAX_MESSAGE_CHARS)
     \<and> length (ow_draft s) \<le> MAX_MESSAGE_CHARS"

lemma conversation_inv: "conversation env s h \<Longrightarrow> ow_inv env s h"
proof (induction rule: conversation.induct)
  case start
  show ?case by (simp add: ow_inv_def ow_initial_def transcript_def)
next
  case (act s h e)
  have send: "ow_inv env (send_question b s) h" if b: "length b \<le> MAX_MESSAGE_CHARS" for b
  proof (cases "trim b = [] \<or> ow_pending s")
    case True
    then show ?thesis using act.IH by (auto simp: send_question_def Let_def)
  next
    case False
    then show ?thesis
      using act.IH b trim_trim [of b] trim_length [of b]
      by (auto simp: ow_inv_def send_question_def transcript_def asked_message_def Let_def)
  qed
  show ?case
  proof (cases e)
    case SubmitQuestion
    have "ow_inv env (send_question (ow_draft s) s) h" using act.IH by (intro send) (simp add: ow_inv_def)
    then show ?thesis by (simp add: SubmitQuestion)
  next
    case (Suggest b)
    then have "length b \<le> MAX_MESSAGE_CHARS"
      using act.hyps(2) by (auto simp: ow_offers_iff SUGGESTIONS_def MAX_MESSAGE_CHARS_def)
    then show ?thesis using send Suggest by simp
  next
    case (TypeQuestion v)
    then show ?thesis using act by (auto simp: ow_offers_iff ow_inv_def MAX_MESSAGE_CHARS_def)
  qed (use act.IH in \<open>auto simp: ow_inv_def\<close>)
next
  case (answered s h q chat r calls)
  have "vouched env \<lparr>tn_question = q, tn_reply = Some r, tn_calls = map (\<lambda>c. (c, chat c)) calls\<rparr>"
    using answered by (intro vouched_POST) (auto simp: ow_inv_def)
  then show ?case
    using answered by (simp add: ow_inv_def answer_messages transcript_def turn_messages_def)
next
  case (lost s h q)
  then show ?case by (simp add: ow_inv_def answer_messages transcript_def turn_messages_def vouched_def)
qed

lemma conversation_flight: "conversation env s h \<Longrightarrow> \<exists>n. form_run ow_spec s n"
proof (induction rule: conversation.induct)
  case start
  show ?case by (rule exI [of _ 0]) (rule form_run.init, simp add: ow_spec_def)
next
  case (act s h e)
  then obtain n where n: "form_run ow_spec s n" by blast
  have e: "e \<in> f_offers ow_spec s" using act.hyps by (simp add: ow_spec_def)
  have "form_run ow_spec (f_handle ow_spec e s) (if f_starts ow_spec s e then Suc n else n)"
    using form_run.submit [OF n e] form_run.edit [OF n e] by simp
  then show ?case by (auto simp: ow_spec_def)
next
  case (answered s h q chat r calls)
  then obtain n where n: "form_run ow_spec s n" by blast
  have "ow_pending s" using conversation_inv [OF answered.hyps(1)] answered.hyps(2) by (simp add: ow_inv_def)
  then have "n = Suc 0" using ow.pending_flight [OF n] by (simp add: ow_flights_def)
  then show ?case using form_run.settle [of ow_spec s 0] n by (auto simp: ow_spec_def)
next
  case (lost s h q)
  then obtain n where n: "form_run ow_spec s n" by blast
  have "ow_pending s" using conversation_inv [OF lost.hyps(1)] lost.hyps(2) by (simp add: ow_inv_def)
  then have "n = Suc 0" using ow.pending_flight [OF n] by (simp add: ow_flights_def)
  then show ?case using form_run.settle [of ow_spec s 0] n by (auto simp: ow_spec_def)
qed

subsection \<open>Properties\<close>

text \<open>
  C28. The widget and its route, put together, keep the promise of the labels. In every conversation,
  whatever the visitor types and the chat service answers, the messages shown are the opening and
  then, for each question that came to an end, the question and its reply under the label of its
  source, in order, with at most one question waiting; every question that reached the route was
  accepted; text labelled as the model's is what the chat service returned for that very question,
  stripped of markdown; a scripted reply is one of the canned ones; and a reply from the page's facts
  is a reviewed fact or a fixed sentence.
\<close>

theorem orb_conversation_truthful:
  assumes "conversation env s h"
  shows "ow_messages s = OPENING # concat (map turn_messages h)
        @ (case ow_await s of None \<Rightarrow> [] | Some q \<Rightarrow> [asked_message q])
    \<and> list_all (vouched env) h
    \<and> (ow_pending s \<longleftrightarrow> ow_await s \<noteq> None)
    \<and> (\<exists>n. form_run ow_spec s n \<and> n = of_bool (ow_pending s))"
proof -
  obtain n where n: "form_run ow_spec s n" using conversation_flight [OF assms] by blast
  then have "n = of_bool (ow_pending s)" using ow.pending_flight [OF n] by (simp add: ow_flights_def)
  then show ?thesis
    using n conversation_inv [OF assms] unfolding ow_inv_def transcript_def by blast
qed

text \<open>A typed question that the model answers in markdown.\<close>

definition run_chat :: "chat_request \<Rightarrow> chat_outcome" where
  "run_chat c = ChatAnswer 200 (Some (JObj [(''message'', JObj [(''content'', JStr ''**Vaults** hold it. '')])]))"

theorem orb_conversation_truthful_witness:
  "\<exists>s t. conversation [''CREDENCE_ORB_OLLAMA_URL'' \<mapsto> ''http://o''] s [t]
     \<and> ow_messages s = [OPENING, asked_message ''Tell'',
         \<lparr>om_role = FromOrb, om_text = ''Vaults hold it.'', om_source = Some ''model''\<rparr>]
     \<and> vouched [''CREDENCE_ORB_OLLAMA_URL'' \<mapsto> ''http://o''] t"
proof -
  let ?env = "[''CREDENCE_ORB_OLLAMA_URL'' \<mapsto> ''http://o''] :: env"
  let ?s1 = "ow_initial\<lparr>ow_open := True\<rparr>" and ?r = "reply ''Vaults hold it.'' Model 200"
  let ?s3 = "ow_handle SubmitQuestion (ow_handle (TypeQuestion ''Tell'') ?s1)"
  have texts: "trim ''Tell'' = ''Tell''" "trim (strip_markdown ''**Vaults** hold it. '') = ''Vaults hold it.''"
    by code_simp+
  have "ToggleOrb \<in> ow_offers ow_initial" by (simp add: ow_offers_iff)
  from conversation.act [OF conversation.start this] have "conversation ?env ?s1 []"
    by (simp add: ow_initial_def)
  from conversation.act [OF this, of "TypeQuestion ''Tell''"]
  have "conversation ?env (ow_handle (TypeQuestion ''Tell'') ?s1) []" by (simp add: ow_offers_iff)
  from conversation.act [OF this, of SubmitQuestion] have c3: "conversation ?env ?s3 []"
    by (simp add: ow_offers_iff texts ow_initial_def)
  have w: "ow_await ?s3 = Some ''Tell''" by (simp add: send_question_def texts ow_initial_def Let_def)
  have nc: "find (\<lambda>(c, _). c ''Tell'') CANNED = None" and base: "ollamaBase ?env = Some ''http://o''"
    by code_simp+
  have ask: "askModel ?env run_chat ''Tell'' = (Some ''Vaults hold it.'', [chat_request_for ?env ''http://o'' ''Tell''])"
    by (simp add: askModel_def base run_chat_def texts(2) status_ok_def Let_def)
  have len: "\<not> length ''Tell'' > MAX_MESSAGE_CHARS" by (simp add: MAX_MESSAGE_CHARS_def)
  have "POST ?env run_chat (Some (question_json ''Tell'')) = (?r, [chat_request_for ?env ''http://o'' ''Tell''])"
    using len by (simp add: POST_def question_json_def Let_def texts(1) nc ask)
  from orb_conversation_truthful [OF conversation.answered [OF c3 w this]]
  show ?thesis
    using conversation.answered [OF c3 w \<open>POST ?env run_chat _ = _\<close>]
    by (intro exI conjI) (auto simp: turn_messages_def reply_def)
qed

end
