(* ===== verification/Workspace.thy ===== *)
theory Workspace
  imports Pages Journeys
begin

text \<open>
  The two pages about the workspace itself: \<open>frontend/app/(product)/settings/page.tsx\<close> and
  \<open>frontend/app/(product)/developer/console/page.tsx\<close>, the second with its inspector of raw answers.
\<close>

subsection \<open>Shared furniture\<close>

definition titled_header :: "string \<Rightarrow> string \<Rightarrow> string \<Rightarrow> 'e node" where
  "titled_header icon_name title note =
     CardHeader [El ''div'' [] [icon icon_name, El ''div'' [] [CardTitle [Txt title], para note]]]"

definition limit_note :: "PolicyParameters \<Rightarrow> 'e node" where
  "limit_note p = El ''p'' [] [Txt ''Approved limit = '', Mono [Txt (pp_cp_limit_formula (pp_credit_policy p))]]"

definition minutes_text :: "jsnum \<Rightarrow> string" where
  "minutes_text seconds = to_string (num_div seconds (Fin 60)) @ '' min''"

subsection \<open>Settings\<close>

datatype st_retry = RetryMe | RetryPolicy | RetryVendors

definition me_rows :: "clock \<Rightarrow> Me \<Rightarrow> 'e node" where
  "me_rows ck m = Rows [
     Row ''Name'' None [Txt (me_name m)],
     Row ''Workspace id'' None [Mono [Txt (shortId (Some (me_organization_id m)) 14 6)]],
     Row ''Status'' None [StatusBadge (Some (me_status m)) False],
     Row ''Signed in as'' None [Txt (me_user_email (me_user m))],
     Row ''Role'' None [Badge info [Txt (me_user_role (me_user m))]],
     Row ''Created'' None [Txt (dateOf (ck_host ck) (me_created_at m))]]"

definition environment_rows :: "PolicyParameters_environment \<Rightarrow> 'e node" where
  "environment_rows v = Rows [
     Row ''Run mode'' None [Txt (pp_envi_run_mode v)],
     Row ''Environment'' None [Txt (pp_envi_environment v)],
     Row ''Model provider'' (Some ''All model inference is local. No external LLM API is called at runtime.'')
       [Txt (pp_envi_model_provider v)],
     Row ''Voice provider'' None [Txt (pp_envi_voice_provider v)],
     Row ''Test credits only'' None [if pp_envi_test_credits_only v
       then El ''span'' [Attr ''tone'' ''positive''] [Txt (''Yes '' @ [EM_DASH] @ '' no real money moves'')]
       else El ''span'' [Attr ''tone'' ''critical''] [Txt ''No'']]]"

definition parameters_panel :: "PolicyParameters \<Rightarrow> 'e node" where
  "parameters_panel p = (let c = pp_credit_policy p; r = pp_risk_policy p in El ''div'' [] [
     Rows [
       Row ''Advance rate'' (Some ''The share of expected task revenue that can be advanced as credit.'')
         [Txt (percent (Some (pp_cp_advance_rate_ppm c)) 1)],
       Row ''Loss given default (assumed)'' None [Txt (percent (Some (pp_cp_lgd_ppm_default c)) 1)],
       Row (''Auto-approve ceiling '' @ [EM_DASH] @ '' PD'') None [Txt (percent (Some (pp_cp_auto_approve_max_pd_ppm c)) 2)],
       Row (''Auto-approve ceiling '' @ [EM_DASH] @ '' expected-loss ratio'') None
         [Txt (percent (Some (pp_cp_auto_approve_max_el_ratio_ppm c)) 2)],
       Row ''Credit fee'' None [Txt (ppmToBps (Some (pp_cp_fee_rate_ppm c)))]],
     Rows [
       Row ''Decision engine version'' None [Mono [Txt (pp_cp_decision_version c)]],
       Row ''Scorecard version'' None [Mono [Txt (pp_cp_scorecard_version c)]],
       Row ''Active vault controls'' None [El ''span'' [] [Txt (Format.count (Some (pp_rp_active_controls r)))]],
       Row ''Velocity rule'' None [El ''span'' [] [Txt (''max '' @ to_string (pp_rp_velocity_max_transactions r) @
         '' txns per ''), Txt (minutes_text (pp_rp_velocity_window_seconds r))]],
       Row ''Anti-splitting'' None [Txt (pp_rp_anti_splitting r)]],
     limit_note p])"

definition registry_row :: "Vendor \<Rightarrow> 'e node" where
  "registry_row v = TableRow [
     TableCell [Txt (vn_name v)],
     TableCell [Badge outline [Txt (vn_category v)]],
     TableCell [StatusBadge (Some (vn_status v)) False],
     TableCell [Mono [Txt (shortId (Some (vn_vendor_id v)) 12 4)]]]"

definition vendor_registry :: "Vendor list query_result \<Rightarrow> st_retry node" where
  "vendor_registry vendors = Section None (Some ''Vendor registry'') (Some (''Vendors known to the platform. A vault can only ever pay a subset '' @
         ''of this list, bound per vault at approval time.'')) []
       [Card [TableWrap [Table [head_row [''Vendor'', ''Category'', ''Status'', ''Id''],
         TableBody (query_body vendors [whole_row [LoadingBlock 3]] (\<lambda>e. [whole_row (retry_state RetryVendors e)])
           (\<lambda>vs. if length vs = 0 then [whole_row [EmptyState ''No vendors registered''
               (Some ''Scenario runs register the vendors they need.'') ''Store'' []]]
             else map registry_row vs))]]]]"

definition set_view :: "clock \<Rightarrow> Me query_result \<Rightarrow> PolicyParameters query_result \<Rightarrow> Vendor list query_result
    \<Rightarrow> st_retry node" where
  "set_view ck me policy vendors = El ''div'' [] [
     PageHeader ''Settings'' (Some [Txt ''Workspace identity, the policy parameters in force, and the vendor registry.'']) [],
     El ''div'' [] [
       Card [titled_header ''Building2'' ''Workspace'' (''A sandbox workspace provisioned for this browser session. '' @
           ''All data in it is yours alone.''),
         CardContent (query_body me [LoadingBlock 3] (retry_state RetryMe) (\<lambda>m. [me_rows ck m]))],
       Card [titled_header ''ShieldCheck'' ''Environment'' ''Read live from the service, not restated by the page.'',
         CardContent (query_body policy [LoadingBlock 3] (retry_state RetryPolicy) (\<lambda>p. [environment_rows (pp_environment p)]))]],
     Section None (Some ''Credit policy in force'') (Some (''Versioned configuration the deterministic engine runs with. '' @
         ''Changed through code review, never through this page.'')) []
       [Card [CardHeader [El ''div'' [] [icon ''Landmark'', CardTitle [Txt ''Parameters'']]],
         CardContent (query_body policy [LoadingBlock 6] (retry_state RetryPolicy) (\<lambda>p. [parameters_panel p]))]],
     vendor_registry vendors]"

definition set_hooks :: "unit \<Rightarrow> query list" where
  "set_hooks s = [useMe no_opts, usePolicyParameters no_opts, useVendors no_opts]"

fun set_calls :: "st_retry \<Rightarrow> unit \<Rightarrow> call list" where
  "set_calls RetryMe s = refetch_calls [useMe no_opts]"
| "set_calls RetryPolicy s = refetch_calls [usePolicyParameters no_opts]"
| "set_calls RetryVendors s = refetch_calls [useVendors no_opts]"

interpretation settings: reading_page "\<lambda>e s. s" set_calls set_hooks
proof unfold_locales
  show "list_all hook_query (set_hooks s)" for s by (simp add: set_hooks_def hook_query.intros)
  show "set (set_calls e s) \<subseteq> qy_call ` set (set_hooks s)" for e s
    by (cases e) (simp_all add: set_hooks_def refetch_calls_def)
qed

subsection \<open>The inspector\<close>

definition no_filters :: TransactionFilters where
  "no_filters = \<lparr>tf_status = None, tf_vault_id = None, tf_agent_id = None\<rparr>"

definition INSPECTABLE :: "(string \<times> call) list" where
  "INSPECTABLE = [
     (''Readiness'', getReadiness), (''Evaluation metrics'', getEvaluationMetrics),
     (''Policy parameters'', getPolicyParameters), (''Workspace identity'', getMe), (''Agents'', listAgents),
     (''Credit applications'', listCreditApplications), (''Underwriting queue'', getUnderwritingQueue),
     (''Vaults'', listVaults), (''Transactions'', listTransactions no_filters), (''Repayments'', listRepayments),
     (''Risk summary'', getRiskSummary), (''Risk events'', listRiskEvents), (''Audit events'', listAuditEvents),
     (''Audit chain verification'', verifyAuditChain), (''Vendors'', listVendors),
     (''Dashboard summary'', getDashboardSummary)]"

definition Check :: "bool option \<Rightarrow> string \<Rightarrow> 'e node" where
  "Check good label = (case good of None \<Rightarrow> Unavailable NotAvailable None False
     | Some b \<Rightarrow> El ''span'' [] [icon (if b then ''CheckCircle2'' else ''XCircle''),
         El ''span'' [Attr ''tone'' (if b then ''positive'' else ''critical'')] [Txt label]])"

text \<open>What a fetch can throw: the client's error, or anything else as \<open>String\<close> prints it.\<close>

datatype inspect_fault = Refused ApiError | Thrown string

fun fault_line :: "inspect_fault \<Rightarrow> string" where
  "fault_line (Refused e) = show_int (ae_status e) @ '' '' @ ae_code e @ '': '' @ ae_detail e"
| "fault_line (Thrown s) = s"

text \<open>\<open>in_asked\<close>: the entry the one running \<open>fetchIt\<close> was called for.\<close>

record inspector =
  in_index :: nat
  in_payload :: json
  in_error :: "string option"
  in_busy :: bool
  in_asked :: "nat option"

definition in_initial :: inspector where
  "in_initial = \<lparr>in_index = 0, in_payload = JNull, in_error = None, in_busy = False, in_asked = None\<rparr>"

datatype in_event = SetIndex string | FetchIt

fun in_handle :: "in_event \<Rightarrow> inspector \<Rightarrow> inspector" where
  "in_handle (SetIndex v) s = s\<lparr>in_index := nat (digits_val v)\<rparr>"
| "in_handle FetchIt s = s\<lparr>in_busy := True, in_error := None, in_asked := Some (in_index s)\<rparr>"

fun in_call :: "in_event \<Rightarrow> inspector \<Rightarrow> call list" where
  "in_call (SetIndex v) s = []"
| "in_call FetchIt s = [snd (INSPECTABLE ! in_index s)]"

definition in_settle :: "inspect_fault + json \<Rightarrow> inspector \<Rightarrow> inspector" where
  "in_settle out s = (case out of
     Inr v \<Rightarrow> s\<lparr>in_payload := v, in_busy := False, in_asked := None\<rparr>
   | Inl e \<Rightarrow> s\<lparr>in_payload := JNull, in_error := Some (fault_line e), in_busy := False, in_asked := None\<rparr>)"

definition Inspector :: "inspector \<Rightarrow> in_event node" where
  "Inspector s = Card [
     CardHeader [El ''div'' [] [CardTitle [Txt ''Raw response inspector''],
       para (''Read-only endpoints, fetched through the same proxy the product uses. Secrets are redacted server-side '' @
         ''before the response reaches this page.'')]],
     CardContent (
       [El ''div'' [] [
          Select [Attr ''aria-label'' ''Endpoint''] (show_nat (in_index s)) SetIndex
            (map (\<lambda>(i, l). (show_nat i, l)) (enumerate 0 (map fst INSPECTABLE))),
          Button Primary (in_busy s) FetchIt [icon ''RefreshCw'', Txt ''Fetch'']]]
       @ some_node (\<lambda>e. [para e]) (in_error s)
       @ show_if (in_payload s \<noteq> JNull) [El ''pre'' [] [Txt (json_pretty 0 (in_payload s))]])]"

text \<open>A select only reports the value of one of its options.\<close>

definition in_offers :: "inspector \<Rightarrow> in_event set" where
  "in_offers s = {e \<in> events (Inspector s). case e of SetIndex v \<Rightarrow> List.member (map show_nat [0..<length INSPECTABLE]) v
     | FetchIt \<Rightarrow> True}"

definition in_spec :: "(inspector, in_event, unit, inspect_fault + json) form" where
  "in_spec = \<lparr>
     f_initial = (\<lambda>s. s = in_initial),
     f_offers = in_offers,
     f_starts = (\<lambda>s e. e = FetchIt),
     f_handle = in_handle,
     f_progress = (\<lambda>p s. s),
     f_settle = in_settle,
     f_rerender = (\<lambda>s s'. s' = s)\<rparr>"

definition in_pending :: "inspector \<Rightarrow> nat" where "in_pending s = of_bool (in_busy s)"

text \<open>The selection always names an entry, and so does a fetch under way.\<close>

definition in_sound :: "inspector \<Rightarrow> bool" where
  "in_sound s \<longleftrightarrow> in_index s < length INSPECTABLE \<and> (in_busy s \<longleftrightarrow> in_asked s \<noteq> None)
     \<and> (case in_asked s of None \<Rightarrow> True | Some i \<Rightarrow> i < length INSPECTABLE)"

lemma in_offers_iff:
  "e \<in> in_offers s \<longleftrightarrow> (case e of FetchIt \<Rightarrow> \<not> in_busy s
     | SetIndex v \<Rightarrow> \<exists>i < length INSPECTABLE. v = show_nat i)"
  by (auto simp: in_offers_def Inspector_def set_some_node split: in_event.splits option.splits if_splits)

interpretation inspect: sound_form in_spec in_pending in_sound
proof unfold_locales
  fix e s assume off: "e \<in> f_offers in_spec s"
  show "in_pending (f_handle in_spec e s) = in_pending s" if "\<not> f_starts in_spec s e"
    using that by (cases e) (simp_all add: in_spec_def in_pending_def)
  show "in_sound (f_handle in_spec e s)" if "in_sound s"
    using that off by (cases e) (auto simp: in_spec_def in_sound_def in_offers_iff show_int_def)
qed (auto simp: in_spec_def in_pending_def in_initial_def in_sound_def in_offers_iff in_settle_def INSPECTABLE_def
    split: sum.splits)

subsection \<open>The Developer Lab\<close>

datatype dc_event = RefreshAll | RetryReadiness | RetryMetrics | RetryParameters | Inspect in_event

definition readiness_rows :: "Readiness \<Rightarrow> 'e node" where
  "readiness_rows r = Rows [
     Row ''Status'' None [Badge (if rd_status r = ''ready'' then positive else caution) [Txt (rd_status r)]],
     Row ''Version'' None [Txt (rd_version r)],
     Row ''Run mode'' None [Txt (rd_run_mode r)],
     Row ''Environment'' None [Txt (rd_environment r)],
     Row ''Model provider'' None [Txt (rd_model_provider r)],
     Row ''Test credits only'' None [Check (Some (rd_test_credits_only r)) (bool_text (rd_test_credits_only r))]]"

text \<open>\<open>JSON.stringify(metrics.data.ledger_imbalance)\<close>.\<close>

definition imbalance_text :: "(string \<times> jsnum) list \<Rightarrow> string" where
  "imbalance_text kvs = ''{'' @ join '','' (map (\<lambda>(k, n). json_quote k @ '':'' @
     (if is_finite_num n then to_string n else ''null'')) kvs) @ ''}''"

definition chain_state :: "ChainVerification query_result \<Rightarrow> 'e node" where
  "chain_state q = (if qr_pending q then El ''span'' [] [Txt (''Checking'' @ [ELLIPSIS])]
     else if qr_error q \<noteq> None \<or> qr_data q = None
       then Unavailable NotAvailable (Some ''The chain verification endpoint could not be reached.'') False
     else if cv_intact (the (qr_data q)) then El ''span'' [Attr ''tone'' ''positive''] [Txt ''No break found'']
     else El ''span'' [Attr ''tone'' ''critical''] [Txt ''broken at sequence '',
       Txt (case cv_first_broken_seq (the (qr_data q)) of Some n \<Rightarrow> to_string n | None \<Rightarrow> [])])"

definition invariant_rows :: "EvaluationMetrics \<Rightarrow> ChainVerification query_result \<Rightarrow> 'e node" where
  "invariant_rows m chain = Rows [
     Row ''Double-entry ledger'' None [Check (Some (em_ledger_balanced m))
       (if em_ledger_balanced m then ''Balanced'' else ''Imbalanced'')],
     Row ''Imbalance detail'' None [if length (em_ledger_imbalance m) = 0 then El ''span'' [] [Txt ''None'']
       else El ''span'' [Attr ''tone'' ''critical''] [Txt (imbalance_text (em_ledger_imbalance m))]],
     Row ''Audit hash chain'' None [Check (Some (em_audit_chain_intact m))
       (if em_audit_chain_intact m then ''Intact'' else ''Broken'')],
     Row ''Chain verified through'' None [chain_state chain]]"

definition console_parameters :: "PolicyParameters \<Rightarrow> 'e node" where
  "console_parameters p = (let c = pp_credit_policy p; r = pp_risk_policy p; v = pp_environment p in El ''div'' [] [
     Rows [
       Row ''Advance rate'' None [Txt (percent (Some (pp_cp_advance_rate_ppm c)) 1)],
       Row ''Loss given default'' None [Txt (percent (Some (pp_cp_lgd_ppm_default c)) 1)],
       Row ''Auto-approve max PD'' None [Txt (percent (Some (pp_cp_auto_approve_max_pd_ppm c)) 2)],
       Row ''Auto-approve max expected-loss ratio'' None [Txt (percent (Some (pp_cp_auto_approve_max_el_ratio_ppm c)) 2)],
       Row ''Credit fee'' None [Txt (ppmToBps (Some (pp_cp_fee_rate_ppm c)))],
       Row ''Decision version'' None [El ''span'' [] [Txt (pp_cp_decision_version c)]],
       Row ''Scorecard version'' None [El ''span'' [] [Txt (pp_cp_scorecard_version c)]]],
     Rows [
       Row ''Active vault controls'' None [El ''span'' [] [Txt (to_string (pp_rp_active_controls r))]],
       Row ''Velocity window'' None [El ''span'' [] [Txt (to_string (pp_rp_velocity_max_transactions r)), Txt '' in '',
         Txt (minutes_text (pp_rp_velocity_window_seconds r))]],
       Row ''Default transaction cap'' None [El ''span'' [] [Txt (to_string (pp_rp_max_transactions_default r))]],
       Row ''Anti-splitting'' None [Txt (pp_rp_anti_splitting r)],
       Row ''Model provider'' None [Txt (pp_envi_model_provider v)],
       Row ''Voice provider'' None [Txt (pp_envi_voice_provider v)],
       Row ''Test credits only'' None [Check (Some (pp_envi_test_credits_only v)) (bool_text (pp_envi_test_credits_only v))]],
     limit_note p])"

definition dc_view :: "Readiness query_result \<Rightarrow> EvaluationMetrics query_result \<Rightarrow> PolicyParameters query_result
    \<Rightarrow> ChainVerification query_result \<Rightarrow> inspector \<Rightarrow> dc_event node" where
  "dc_view readiness metrics policy chain s = El ''div'' [] [
     PageHeader ''Developer Lab'' (Some [Txt (''Internal diagnostics: service configuration, ledger and chain invariants, '' @
         ''and raw API responses. Not part of the product experience.'')])
       [Button Secondary False RefreshAll [icon ''RefreshCw'', Txt ''Refresh'']],
     El ''div'' [] [
       Card [CardHeader [CardTitle [Txt ''Service'']],
         CardContent (query_body readiness [LoadingBlock 3] (retry_state RetryReadiness) (\<lambda>r. [readiness_rows r]))],
       Card [CardHeader [El ''div'' [] [CardTitle [Txt ''Invariants''],
           para (''Both must hold at all times. A failure here means the ledger or the audit chain disagrees with '' @
             ''itself, which is a stop-everything condition.'')]],
         CardContent (query_body metrics [LoadingBlock 3] (retry_state RetryMetrics) (\<lambda>m. [invariant_rows m chain]))]],
     Section None (Some ''Policy parameters'') (Some (''The values the deterministic engine actually runs with, read from '' @
         ''the service rather than restated here.'')) []
       [Card [CardContent (query_body policy [LoadingBlock 6] (retry_state RetryParameters) (\<lambda>p. [console_parameters p]))]],
     Section None (Some ''Inspector'') None [] [map_node Inspect (Inspector s)]]"

definition dc_hooks :: "query list" where
  "dc_hooks = [useReadiness no_opts, useEvaluationMetrics no_opts, usePolicyParameters no_opts, useAuditChain no_opts]"

fun dc_handle :: "dc_event \<Rightarrow> inspector \<Rightarrow> inspector" where
  "dc_handle (Inspect e) s = in_handle e s"
| "dc_handle RefreshAll s = s"
| "dc_handle RetryReadiness s = s"
| "dc_handle RetryMetrics s = s"
| "dc_handle RetryParameters s = s"

fun dc_calls :: "dc_event \<Rightarrow> inspector \<Rightarrow> call list" where
  "dc_calls (Inspect e) s = in_call e s"
| "dc_calls RefreshAll s = refetch_calls dc_hooks"
| "dc_calls RetryReadiness s = refetch_calls [useReadiness no_opts]"
| "dc_calls RetryMetrics s = refetch_calls [useEvaluationMetrics no_opts]"
| "dc_calls RetryParameters s = refetch_calls [usePolicyParameters no_opts]"

lemma inspectable_endpoints: "list_all (\<lambda>(l, c). endpoint_call c) INSPECTABLE"
  by (simp add: INSPECTABLE_def endpoint_call.intros)

lemma inspectable_reads: "list_all (\<lambda>(l, c). cl_method c = ''GET'') INSPECTABLE"
  by (simp add: INSPECTABLE_def getReadiness_def getEvaluationMetrics_def getPolicyParameters_def
      getMe_def listAgents_def listCreditApplications_def getUnderwritingQueue_def listVaults_def listTransactions_def
      listRepayments_def getRiskSummary_def listRiskEvents_def listAuditEvents_def verifyAuditChain_def listVendors_def
      getDashboardSummary_def get_def)

lemma inspected:
  assumes "i < length INSPECTABLE"
  shows "cl_method (snd (INSPECTABLE ! i)) = ''GET'' \<and> endpoint_call (snd (INSPECTABLE ! i))"
proof -
  have "INSPECTABLE ! i \<in> set INSPECTABLE" using assms by simp
  then show ?thesis using inspectable_endpoints inspectable_reads by (force simp: list_all_iff)
qed

text \<open>A run of the Developer Lab, its inspector's fetches settling in between.\<close>

inductive dc_run :: "inspector \<Rightarrow> call list \<Rightarrow> bool" where
  open_lab: "dc_run in_initial []"
| act: "dc_run s cs \<Longrightarrow> e \<in> events (dc_view readiness metrics policy chain s)
    \<Longrightarrow> (case e of Inspect i \<Rightarrow> i \<in> in_offers s | _ \<Rightarrow> True) \<Longrightarrow> dc_run (dc_handle e s) (cs @ dc_calls e s)"
| answered: "dc_run s cs \<Longrightarrow> in_busy s \<Longrightarrow> dc_run (in_settle out s) cs"

lemma dc_reads: "q \<in> set dc_hooks \<Longrightarrow> cl_method (qy_call q) = ''GET''"
  using hook_reads by (auto simp: dc_hooks_def hook_query.intros)

lemma dc_run_sound: "dc_run s cs \<Longrightarrow> in_sound s \<and> list_all (\<lambda>c. cl_method c = ''GET'') cs"
proof (induction rule: dc_run.induct)
  case open_lab
  show ?case using inspect.initially_sound [of in_initial] by (simp add: in_spec_def)
next
  case (act s cs e readiness metrics policy chain)
  have sound: "in_sound (dc_handle e s)"
    using act inspect.handle_sound [of s] by (cases e) (auto simp: in_spec_def)
  have "list_all (\<lambda>c. cl_method c = ''GET'') (dc_calls e s)"
  proof (cases e)
    case (Inspect i)
    then show ?thesis using act.IH inspected [of "in_index s"] by (cases i) (simp_all add: in_sound_def)
  qed (auto simp: list_all_iff refetch_calls_def dc_hooks_def intro!: dc_reads)
  then show ?case using sound act.IH by simp
next
  case (answered s cs out)
  then show ?case using inspect.settle_sound [of s out] by (simp add: in_spec_def)
qed

subsection \<open>Properties\<close>

text \<open>
  C29. The Developer Lab reads and nothing else, as its comment promises: whatever is selected, fetched
  and refreshed, in any order, every call is a read; the selection always names an entry; and what
  the inspector fetches next is an endpoint of the client, which the proxy lets through.
\<close>

theorem developer_lab_reads:
  assumes "dc_run s cs" and "\<not> isCrossSite sv q" and "demoToken (sv_env sv) \<noteq> []"
  shows "list_all (\<lambda>c. cl_method c = ''GET'') cs
    \<and> (\<exists>l c. in_call FetchIt s = [c] \<and> (l, c) \<in> set INSPECTABLE \<and> gate sv q (call_segments c) = None)"
proof -
  have inv: "in_index s < length INSPECTABLE" "list_all (\<lambda>c. cl_method c = ''GET'') cs"
    using dc_run_sound [OF assms(1)] by (simp_all add: in_sound_def)
  then have "(fst (INSPECTABLE ! in_index s), snd (INSPECTABLE ! in_index s)) \<in> set INSPECTABLE"
    by (metis nth_mem prod.collapse)
  moreover have "gate sv q (call_segments (snd (INSPECTABLE ! in_index s))) = None"
    using served_gate [OF endpoint_served assms(2,3)] inspected [OF inv(1)] by blast
  ultimately show ?thesis
    using inv(2) by (intro conjI exI [of _ "fst (INSPECTABLE ! in_index s)"] exI [of _ "snd (INSPECTABLE ! in_index s)"]) simp_all
qed

theorem developer_lab_reads_witness:
  "\<exists>cs. dc_run (in_handle (SetIndex ''9'') in_initial) cs \<and> gate run_services run_query (call_segments listRepayments) = None"
proof -
  have o: "SetIndex ''9'' \<in> in_offers in_initial"
    unfolding in_offers_iff by (simp add: INSPECTABLE_def) (rule exI [of _ 9], code_simp)
  have e: "Inspect (SetIndex ''9'') \<in> events (dc_view loading_result loading_result loading_result loading_result in_initial)"
    using o by (simp add: dc_view_def in_offers_def)
  have r: "dc_run (in_handle (SetIndex ''9'') in_initial) []"
    using dc_run.act [OF dc_run.open_lab e] o by simp
  have nine: "in_index (in_handle (SetIndex ''9'') in_initial) = 9" by (simp add: in_initial_def) code_simp
  have "gate run_services run_query (call_segments listRepayments) = None"
    using developer_lab_reads [OF r, of run_services run_query] nine
    by (simp add: isCrossSite_def run_query_def run_services_def demoToken_def INSPECTABLE_def)
  then show ?thesis using r by blast
qed

end
