(* ===== verification/SiteText.thy ===== *)
theory SiteText
  imports Prelude
begin

text \<open>
  What the public page says, as data: the constant tables of \<open>frontend/components\<close> that
  \<open>Landing\<close> renders (\<open>navbar.tsx\<close>, \<open>products.tsx\<close>, \<open>governing-rule.tsx\<close>, \<open>developers.tsx\<close>, \<open>stats.tsx\<close>,
  \<open>safety.tsx\<close>, \<open>deployment.tsx\<close>, \<open>sandbox-notice.tsx\<close>, \<open>footer.tsx\<close>). An icon is its name.
\<close>

definition SITE_NAV :: "(string \<times> string) list" where
  "SITE_NAV = [
     (''How it works'', ''#primitives''),
     (''Governing rule'', ''#governing-rule''),
     (''API'', ''#api''),
     (''Architecture'', ''#architecture'')]"

record primitive_tab =
  pt_id :: string
  pt_label :: string
  pt_icon :: string
  pt_title :: string
  pt_description :: string
  pt_bullets :: "string list"

definition PRIMITIVE_TABS :: "primitive_tab list" where
  "PRIMITIVE_TABS = [
     \<lparr>pt_id = ''passport'',
       pt_label = ''Agent Passport'',
       pt_icon = ''BadgeCheck'',
       pt_title = ''Prove the agent before anything else can happen'',
       pt_description = (''An Ed25519-signed capability token the agent presents on every privileged '' @
         ''call. It states who the agent is, who owns it, which task categories it '' @
         ''may act in, and the ceiling it may borrow under.''),
       pt_bullets = [(''Six checks, all fail-closed: issuer and signature, audience, validity '' @
         ''window, revocation, scope, single-use request nonce''),
         (''Any failure denies with a canonical reason code '' @ [EM_DASH] @ '' there is no cached '' @
         [LDQUO] @ ''trusted'' @ [RDQUO] @ '' shortcut''),
         ''An owner can revoke a single passport or an agent entirely as a kill switch'']\<rparr>,
     \<lparr>pt_id = ''underwriting'',
       pt_label = ''Task-Backed Underwriting'',
       pt_icon = ''Scale'',
       pt_title = (''A deterministic scorecard decides '' @ [EM_DASH] @ '' never a model''),
       pt_description = (''Credit is underwritten against one specific task'' @ [APOS] @
         ''s verified economics. The reasoning models read evidence and return a '' @
         ''stance; the amount, the rate and the term are computed by ordinary code '' @
         ''from verified inputs.''),
       pt_bullets = [(''Inputs: verified expected revenue, eligible cost, the owner'' @ [APOS] @
         ''s exposure cap, credit already outstanding, the passport ceiling, and '' @
         ''repayment history''),
         (''No revenue mandate, the advisory model unavailable, or an injection suspected '' @
         ''in evidence each route to human review''),
         ''Every degraded path leads to review. None of them leads to approval'']\<rparr>,
     \<lparr>pt_id = ''vault'',
       pt_label = ''Restricted Vault'',
       pt_icon = ''Vault'',
       pt_title = ''Money that can only go where it was approved to go'',
       pt_description = (''Approved credit lands in a vault that can pay allow-listed counterparties '' @
         ''only, under a cap, inside a time window. Every spend attempt is authorised '' @
         ''against a versioned Rego rule set before it can settle.''),
       pt_bullets = [(''Vendor allow-list, purpose code, per-transaction and per-task caps, velocity '' @
         ''and split-pattern checks''),
         (''Missing or malformed policy input denies the spend '' @ [EM_DASH] @
         '' there is no permissive default''),
         (''The restriction is enforced at the point of payment, not requested of '' @ ''the agent'')]\<rparr>,
     \<lparr>pt_id = ''repayment'',
       pt_label = ''Repayment Waterfall'',
       pt_icon = ''Waves'',
       pt_title = (''The task'' @ [APOS] @ ''s revenue repays before its owner is paid''),
       pt_description = (''Revenue captured under the mandate is allocated in a fixed order, in integer '' @
         ''minor units, by pure deterministic arithmetic. The owner receives only '' @
         ''what remains after the facility is made whole.''),
       pt_bullets = [(''Order is fixed in code: outstanding principal, then fee, then replenish '' @
         ''any reserve drawn, then release the remainder''),
         (''If the task fails, the recovery waterfall sweeps the unspent vault balance '' @ ''first''),
         (''Any residual shortfall is recorded as a bounded, visible simulated loss '' @ [EM_DASH] @
         '' never hidden'')]\<rparr>,
     \<lparr>pt_id = ''audit'',
       pt_label = ''Tamper-Evident Audit'',
       pt_icon = ''Link2'',
       pt_title = ''Every decision and every movement of money, hash-chained'',
       pt_description = (''Financial events are appended to a SHA-256 hash chain over an immutable '' @
         ''double-entry journal. A retro-active edit breaks the chain, and the break '' @
         ''is detectable.''),
       pt_bullets = [(''A journal transaction that does not balance is rejected outright; corrections '' @
         ''post as explicit reversals''),
         (''Reconciliation detects any global imbalance, so affected vaults can be '' @ ''frozen''),
         ''Chain integrity is verifiable on demand from the Audit Trail page'']\<rparr>]"

record rule_column =
  rc_col_icon :: string
  rc_col_kicker :: string
  rc_col_title :: string
  rc_col_does :: "string list"
  rc_col_neverTitle :: string
  rc_col_never :: "string list"
  rc_col_dark :: bool

definition COLUMNS :: "rule_column list" where
  "COLUMNS = [
     \<lparr>rc_col_icon = ''Cpu'',
       rc_col_kicker = ''Advisory'',
       rc_col_title = ''What the model may do'',
       rc_col_does = [''Read the evidence attached to a task'',
         ''Extract claims, each with a citation back to its source'',
         ''Return a stance and a written rationale'',
         ''Flag a suspected prompt injection in the evidence''],
       rc_col_neverTitle = ''Never'',
       rc_col_never = [''Name an amount, a limit, a rate or a term'',
         ''Approve, refuse, or release a payment''],
       rc_col_dark = False\<rparr>,
     \<lparr>rc_col_icon = ''Landmark'',
       rc_col_kicker = ''Authoritative'',
       rc_col_title = ''What deterministic code decides'',
       rc_col_does = [''The approved limit, computed by a scorecard from verified inputs'',
         ''The rate and the term'',
         ''Approve, refuse, or send to a human'',
         ''Whether a degraded input forces review''],
       rc_col_neverTitle = ''Never'',
       rc_col_never = [''Ask a model to arbitrate the outcome'',
         ''Round or hold money in binary floating point''],
       rc_col_dark = True\<rparr>,
     \<lparr>rc_col_icon = ''Lock'',
       rc_col_kicker = ''Enforcing'',
       rc_col_title = ''What the controls enforce'',
       rc_col_does = [''A versioned Rego rule set authorises each individual spend'',
         ''The vault restricts the counterparty, the cap and the window'',
         ''The waterfall sequences repayment before the owner is paid'',
         ''The hash chain records the decision and every movement of money''],
       rc_col_neverTitle = ''Never'',
       rc_col_never = [''Trust the agent to respect a limit voluntarily'',
         ''Treat missing or malformed policy input as permission''],
       rc_col_dark = False\<rparr>]"

record snippet =
  sn_id :: string
  sn_label :: string
  sn_code :: string

definition SNIPPETS :: "snippet list" where
  "SNIPPETS = [
     \<lparr>sn_id = ''apply'',
       sn_label = ''Apply'',
       sn_code = (''# Amounts are integer minor units (paise). Sandbox: test credits only.'' @ [NEWLINE] @
         ''curl -X POST '' @ [CHR 0x22] @ ''$CREDENCE_API/v1/credit-applications'' @ [CHR 0x22] @
         '' '' @ [BACKSLASH] @ [NEWLINE] @ ''  -H '' @ [CHR 0x22] @
         ''Authorization: Bearer $CREDENCE_API_TOKEN'' @ [CHR 0x22] @ '' '' @ [BACKSLASH] @ [NEWLINE] @
         ''  -H '' @ [CHR 0x22] @ ''Content-Type: application/json'' @ [CHR 0x22] @ '' '' @
         [BACKSLASH] @ [NEWLINE] @ ''  -d '' @ [APOS] @ ''{'' @ [NEWLINE] @ ''    '' @ [CHR 0x22] @
         ''agent_id'' @ [CHR 0x22] @ '': '' @ [CHR 0x22] @ ''agt_...'' @ [CHR 0x22] @ '','' @
         [NEWLINE] @ ''    '' @ [CHR 0x22] @ ''task_id'' @ [CHR 0x22] @ '': '' @ [CHR 0x22] @
         ''tsk_...'' @ [CHR 0x22] @ '','' @ [NEWLINE] @ ''    '' @ [CHR 0x22] @ ''requested_minor'' @
         [CHR 0x22] @ '': 250000,'' @ [NEWLINE] @ ''    '' @ [CHR 0x22] @
         ''requested_duration_hours'' @ [CHR 0x22] @ '': 48,'' @ [NEWLINE] @ ''    '' @ [CHR 0x22] @
         ''expected_revenue_minor'' @ [CHR 0x22] @ '': 640000,'' @ [NEWLINE] @ ''    '' @ [CHR 0x22] @
         ''expected_cost_minor'' @ [CHR 0x22] @ '': 230000,'' @ [NEWLINE] @ ''    '' @ [CHR 0x22] @
         ''owner_exposure_cap_minor'' @ [CHR 0x22] @ '': 1000000,'' @ [NEWLINE] @ ''    '' @
         [CHR 0x22] @ ''proposed_vendor_ids'' @ [CHR 0x22] @ '': ['' @ [CHR 0x22] @ ''ven_...'' @
         [CHR 0x22] @ '']'' @ [NEWLINE] @ ''  }'' @ [APOS] @ [NEWLINE] @ [NEWLINE] @
         ''# Then run the deterministic decision pipeline over it.'' @ [NEWLINE] @ ''curl -X POST '' @
         [BACKSLASH] @ [NEWLINE] @ ''  '' @ [CHR 0x22] @
         ''$CREDENCE_API/v1/credit-applications/$APP_ID/evaluate'' @ [CHR 0x22] @ '' '' @ [BACKSLASH] @
         [NEWLINE] @ ''  -H '' @ [CHR 0x22] @ ''Authorization: Bearer $CREDENCE_API_TOKEN'' @ [CHR 0x22])\<rparr>,
     \<lparr>sn_id = ''spend'',
       sn_label = ''Spend'',
       sn_code = (''# Every spend is proposed first and authorized before it can settle.'' @ [NEWLINE] @
         ''curl -X POST '' @ [BACKSLASH] @ [NEWLINE] @ ''  '' @ [CHR 0x22] @
         ''$CREDENCE_API/v1/vaults/$VAULT_ID/transactions/propose'' @ [CHR 0x22] @ '' '' @
         [BACKSLASH] @ [NEWLINE] @ ''  -H '' @ [CHR 0x22] @
         ''Authorization: Bearer $CREDENCE_API_TOKEN'' @ [CHR 0x22] @ '' '' @ [BACKSLASH] @ [NEWLINE] @
         ''  -H '' @ [CHR 0x22] @ ''Content-Type: application/json'' @ [CHR 0x22] @ '' '' @
         [BACKSLASH] @ [NEWLINE] @ ''  -d '' @ [APOS] @ ''{'' @ [NEWLINE] @ ''    '' @ [CHR 0x22] @
         ''vendor_id'' @ [CHR 0x22] @ '': '' @ [CHR 0x22] @ ''ven_not_on_the_allow_list'' @
         [CHR 0x22] @ '','' @ [NEWLINE] @ ''    '' @ [CHR 0x22] @ ''amount_minor'' @ [CHR 0x22] @
         '': 40000,'' @ [NEWLINE] @ ''    '' @ [CHR 0x22] @ ''purpose_code'' @ [CHR 0x22] @ '': '' @
         [CHR 0x22] @ ''COMPUTE'' @ [CHR 0x22] @ '','' @ [NEWLINE] @ ''    '' @ [CHR 0x22] @
         ''idempotency_key'' @ [CHR 0x22] @ '': '' @ [CHR 0x22] @ ''spend-0001-abcd'' @ [CHR 0x22] @
         [NEWLINE] @ ''  }'' @ [APOS] @ [NEWLINE] @ [NEWLINE] @ ''# => 201 { '' @ [CHR 0x22] @
         ''status'' @ [CHR 0x22] @ '': '' @ [CHR 0x22] @ ''BLOCKED'' @ [CHR 0x22] @ '','' @ [NEWLINE] @
         ''#          '' @ [CHR 0x22] @ ''reason_codes'' @ [CHR 0x22] @ '': ['' @ [CHR 0x22] @
         ''VENDOR_NOT_ALLOWED'' @ [CHR 0x22] @ ''] }'' @ [NEWLINE] @
         ''# The vault refuses at the point of payment, not by asking the agent.'')\<rparr>,
     \<lparr>sn_id = ''inspect'',
       sn_label = ''Inspect'',
       sn_code = (''import os, httpx'' @ [NEWLINE] @ [NEWLINE] @ ''api = httpx.Client('' @ [NEWLINE] @
         ''    base_url=os.environ['' @ [CHR 0x22] @ ''CREDENCE_API'' @ [CHR 0x22] @ ''],'' @
         [NEWLINE] @ ''    headers={'' @ [CHR 0x22] @ ''Authorization'' @ [CHR 0x22] @ '': f'' @
         [CHR 0x22] @ ''Bearer {os.environ['' @ [APOS] @ ''CREDENCE_API_TOKEN'' @ [APOS] @ '']}'' @
         [CHR 0x22] @ ''},'' @ [NEWLINE] @ '')'' @ [NEWLINE] @ [NEWLINE] @
         ''# Every stage this one request passed through, in order, with timings.'' @ [NEWLINE] @
         ''request_id = '' @ [CHR 0x22] @ ''req_...'' @ [CHR 0x22] @ [NEWLINE] @
         ''trace = api.get(f'' @ [CHR 0x22] @ ''/v1/requests/{request_id}/trace'' @ [CHR 0x22] @
         '').json()'' @ [NEWLINE] @ [NEWLINE] @
         ''# Aggregate pipeline health, model assurance and policy enforcement.'' @ [NEWLINE] @
         ''health = api.get('' @ [CHR 0x22] @ ''/v1/system-intelligence'' @ [CHR 0x22] @ '').json()'' @
         [NEWLINE] @ [NEWLINE] @ ''# Recompute the audit chain and report the first break, if any.'' @
         [NEWLINE] @ ''chain = api.get('' @ [CHR 0x22] @ ''/v1/audit/chain/verify'' @ [CHR 0x22] @
         '').json()'')\<rparr>]"

record feature =
  ft_icon :: string
  ft_title :: string
  ft_desc :: string

definition FEATURES :: "feature list" where
  "FEATURES = [
     \<lparr>ft_icon = ''Sigma'',
       ft_title = ''Integer minor units'',
       ft_desc = (''Every amount field ends in _minor and carries paise. No decimal ever crosses '' @
         ''the wire.'')\<rparr>,
     \<lparr>ft_icon = ''ShieldX'',
       ft_title = ''Canonical reason codes'',
       ft_desc = (''A refusal returns codes like VENDOR_NOT_ALLOWED or POLICY_ENGINE_UNAVAILABLE '' @
         [EM_DASH] @ '' never an opaque failure.'')\<rparr>,
     \<lparr>ft_icon = ''ListTree'',
       ft_title = ''Per-request traces'',
       ft_desc = (''Ask any request for its own trace and get the pipeline stages it passed, '' @ ''in order.'')\<rparr>,
     \<lparr>ft_icon = ''Hash'',
       ft_title = ''Verifiable receipts'',
       ft_desc = (''Decisions carry a receipt hash, and the audit chain can be recomputed '' @ ''on demand.'')\<rparr>]"

record stat_fact =
  sf_value :: string
  sf_label :: string
  sf_note :: string

definition STAT_FACTS :: "stat_fact list" where
  "STAT_FACTS = [
     \<lparr>sf_value = ''16'',
       sf_label = ''Instrumented pipeline stages'',
       sf_note = ''Request received through audit finalization, each one timed''\<rparr>,
     \<lparr>sf_value = ''6'',
       sf_label = ''Fail-closed passport checks'',
       sf_note = ''Issuer, audience, window, revocation, scope, nonce''\<rparr>,
     \<lparr>sf_value = ''3'',
       sf_label = ''Advisory model roles'',
       sf_note = ''None of them can name an amount or approve anything''\<rparr>,
     \<lparr>sf_value = ''1'',
       sf_label = ''Place where money becomes a decimal'',
       sf_note = ''lib/format.ts. Every other line moves an integer count of paise''\<rparr>]"

record pillar =
  pl_icon :: string
  pl_title :: string
  pl_desc :: string
  pl_points :: "string list"

definition PILLARS :: "pillar list" where
  "PILLARS = [
     \<lparr>pl_icon = ''Lock'',
       pl_title = ''Refusing is the default'',
       pl_desc = (''Every gate in the system is written so that the failure path denies. There '' @
         ''is no state in which uncertainty produces money.''),
       pl_points = [''Passport verification denies on any failed check'',
         ''An unreachable policy engine refuses rather than guessing'',
         (''A model that is unavailable or returns invalid output sends the case to '' @ ''a human'')]\<rparr>,
     \<lparr>pl_icon = ''ServerCog'',
       pl_title = ''Decisions you can re-derive'',
       pl_desc = (''The financial outcome is produced by deterministic code from recorded '' @
         ''inputs, so the same inputs give the same answer every time.''),
       pl_points = [''A scorecard computes the limit; no model output enters the arithmetic'',
         ''A versioned Rego rule set (credence.credit/v1) is evaluated per spend'',
         ''Every decision keeps its reason codes and a receipt hash'']\<rparr>,
     \<lparr>pl_icon = ''FileLock2'',
       pl_title = ''Built to be auditable'',
       pl_desc = (''The record is append-only by construction rather than by policy, so an '' @
         ''edit after the fact is a detectable event and not a matter of trust.''),
       pl_points = [''SHA-256 hash chain over an immutable double-entry journal'',
         ''Corrections post as explicit reversals, never as edits'',
         ''Reconciliation surfaces any imbalance so vaults can be frozen'']\<rparr>]"

record posture =
  po_icon :: string
  po_label :: string
  po_detail :: string

definition POSTURE :: "posture list" where
  "POSTURE = [
     \<lparr>po_icon = ''UserCheck'',
       po_label = ''Humans hold the exceptions'',
       po_detail = (''Marginal, degraded and flagged cases go to a review queue with the reason '' @
         ''attached. Nothing auto-approves its way past a human.'')\<rparr>,
     \<lparr>po_icon = ''ServerCog'',
       po_label = ''Inference stays local'',
       po_detail = (''Reasoning models run through Ollama inside the deployment. No external '' @
         ''LLM API is called at runtime and no data is sent out to be scored.'')\<rparr>,
     \<lparr>po_icon = ''AlertTriangle'',
       po_label = ''Injection is treated as hostile'',
       po_detail = (''Evidence is scanned for prompt-injection patterns. A hit is recorded as '' @
         ''a reason code and blocks automatic approval.'')\<rparr>]"

record stack_part =
  sk_icon :: string
  sk_title :: string
  sk_desc :: string
  sk_tags :: "string list"

definition STACK :: "stack_part list" where
  "STACK = [
     \<lparr>sk_icon = ''Boxes'',
       sk_title = ''FastAPI Service'',
       sk_desc = (''A Python service running on Google Cloud Run exposing REST /v1 '' @ [EM_DASH] @
         '' identity, tasks, credit, vault, repayment, audit and monitoring.''),
       sk_tags = [''Cloud Run'',
         ''REST /v1'',
         ''OpenAPI'']\<rparr>,
     \<lparr>sk_icon = ''Database'',
       sk_title = ''Private Cloud SQL PostgreSQL'',
       sk_desc = (''System of record running on a private IP. Double-entry journal, tenant-scoped '' @
         ''evidence retrieval, hash-chained audit events, and immutable rows.''),
       sk_tags = [''Cloud SQL'',
         ''PostgreSQL 15'',
         ''Private IP'']\<rparr>,
     \<lparr>sk_icon = ''Scale'',
       sk_title = ''Deterministic policy engine'',
       sk_desc = (''Every spend attempt is authorised against a versioned Rego rule set (credence.credit/v1) '' @
         ''before it can settle. The deployed evaluator is an in-process mirror of '' @
         ''that bundle sharing OPA'' @ [APOS] @
         ''s input-document shape; missing or malformed input denies.''),
       sk_tags = [''Rego rules'',
         ''In-process evaluator'',
         ''Fail-closed'']\<rparr>,
     \<lparr>sk_icon = ''Cpu'',
       sk_title = ''Private GPU Inference Engine'',
       sk_desc = (''A private Cloud Run NVIDIA L4 GPU service (credence-inference) serving '' @
         ''Mistral Small 3.2 24B Instruct (Q4_K_M) under schema-constrained decoding '' @
         ''at an 8K context, verified loaded on GPU by digest before the service '' @
         ''reports ready. Its output is advisory only '' @ [EM_DASH] @
         '' it can raise concerns and force human review, but the deterministic engine '' @
         ''sets every limit and no model output can approve credit.''),
       sk_tags = [''NVIDIA L4 GPU'',
         ''Mistral Small 3.2 24B (Q4_K_M)'',
         ''Advisory only'']\<rparr>]"

definition GCP :: "string list" where
  "GCP = [
     ''Google Cloud Run for API (credence-api) & Web Frontend (credence-web)'',
     ''Cloud SQL PostgreSQL instance (credence-pg) on Private IP'',
     (''Cloud Run NVIDIA L4 GPU Service (credence-inference) '' @ [EM_DASH] @
       '' private, scales to zero''),
     ''Ed25519 passport signing key held in Secret Manager, injected at startup'']"

definition POINTS :: "(string \<times> string) list" where
  "POINTS = [
     (''Test credits only'', (''Balances, limits and repayments are denominated in test credits. Nothing '' @
       ''on this system is redeemable.'')),
     (''No real money moves'', (''There is no payment rail behind the vault. A settled transaction is a '' @
       ''ledger entry, not a transfer.'')),
     (''Not a lender'', (''CredenceAI is not a licensed lender, not a deposit-taking institution, '' @
       ''and holds no financial-services authorisation.'')),
     (''Not an offer'', (''Nothing here is an offer of credit, a solicitation, or financial advice. '' @
       ''It is a demonstration of a control architecture.''))]"

type_synonym footer_column = "string \<times> (string \<times> string) list"

definition ON_PAGE :: footer_column where
  "ON_PAGE = (''On this page'', [
       (''How it works'', ''#primitives''),
       (''The governing rule'', ''#governing-rule''),
       (''The API'', ''#api''),
       (''Architecture'', ''#architecture''),
       (''Safety posture'', ''#safety'')])"

definition ROUTES :: "footer_column list" where
  "ROUTES = [
     (''Operations'', [
       (''Overview'', ''/dashboard''),
       (''AI Agents'', ''/agents''),
       (''Credit Applications'', ''/credit-applications''),
       (''Underwriting'', ''/underwriting''),
       (''Credit Vaults'', ''/vaults'')]),
     (''Money movement'', [
       (''Transactions'', ''/transactions''),
       (''Repayments'', ''/repayments''),
       (''Settings'', ''/settings'')]),
     (''Assurance'', [
       (''Risk Monitoring'', ''/risk''),
       (''Audit Trail'', ''/audit''),
       (''System Intelligence'', ''/system-intelligence''),
       (''Judge Demo'', ''/judge-demo''),
       (''Developer console'', ''/developer/console'')])]"

end
