(* ===== verification/Landing.thy ===== *)
theory Landing
  imports SiteText Shell Telemetry
begin

text \<open>
  The public page, \<open>frontend/app/page.tsx\<close>, with the components it lays out: \<open>navbar.tsx\<close>, \<open>hero.tsx\<close>,
  \<open>dashboard-mock.tsx\<close>, \<open>products.tsx\<close>, \<open>governing-rule.tsx\<close>, \<open>developers.tsx\<close>, \<open>stats.tsx\<close>, \<open>safety.tsx\<close>,
  \<open>deployment.tsx\<close>, \<open>sandbox-notice.tsx\<close>, \<open>cta.tsx\<close>, \<open>footer.tsx\<close>, \<open>primitives.tsx\<close> and \<open>logo.tsx\<close>. Its
  tables are in \<open>SiteText\<close>. The drawings (ornament, logo mark) and styling are not modelled, except
  that the navigation bar shows and hides its parts by the width of the window.
\<close>

subsection \<open>Primitives\<close>

definition Container :: "'e node list \<Rightarrow> 'e node" where "Container children = El ''div'' [] children"
definition Eyebrow :: "'e node list \<Rightarrow> 'e node" where "Eyebrow children = El ''span'' [] children"
definition Pill :: "'e node list \<Rightarrow> 'e node" where "Pill children = El ''span'' [] children"

definition SectionHeading :: "string option \<Rightarrow> string \<Rightarrow> string option \<Rightarrow> 'e node" where
  "SectionHeading eyebrow title description = El ''div'' [] (some_node (\<lambda>e. [Eyebrow [Txt e]]) eyebrow
     @ [El ''h2'' [] [Txt title]] @ some_node (\<lambda>d. [para d]) description)"

definition site_button :: "string \<Rightarrow> 'e node list \<Rightarrow> 'e node" where
  "site_button href children = Link href children"

definition Logo :: "'e node" where
  "Logo = El ''span'' [] [icon ''LogoMark'', El ''span'' [] [Txt ''CredenceAI'']]"

definition site_section :: "string \<Rightarrow> 'e node list \<Rightarrow> 'e node" where
  "site_section i children = El ''section'' [Attr ''id'' i] children"

definition bullet_list :: "string list \<Rightarrow> 'e node" where
  "bullet_list items = El ''ul'' [] (map (\<lambda>t. El ''li'' [] [El ''span'' [] [Txt t]]) items)"

subsection \<open>The navigation bar\<close>

datatype site_event = ToggleMenu | CloseMenu | SelectPrimitive string | SelectSnippet string | CopySnippet

text \<open>\<open>md:\<close> and \<open>lg:\<close> apply from these widths on.\<close>

definition md_wide :: "nat \<Rightarrow> bool" where "md_wide width \<longleftrightarrow> 768 \<le> width"
definition lg_wide :: "nat \<Rightarrow> bool" where "lg_wide width \<longleftrightarrow> 1024 \<le> width"

definition menu_link :: "string \<times> string \<Rightarrow> site_event node" where
  "menu_link item = El ''a'' [Attr ''href'' (snd item), OnClick CloseMenu] [Txt (fst item)]"

definition mobile_menu :: "site_event node" where
  "mobile_menu = El ''div'' [] (map menu_link SITE_NAV @ [El ''div'' [] [
     site_button ''/judge-demo'' [Txt ''Demo scenarios''],
     site_button ''/dashboard'' [Txt ''Open the control centre'', icon ''ArrowRight'']]])"

definition Navbar :: "nat \<Rightarrow> bool \<Rightarrow> site_event node" where
  "Navbar width opened = El ''header'' [] [El ''div'' [] (
     El ''nav'' [] (
       [El ''a'' [Attr ''href'' ''#top'', Attr ''aria-label'' ''CredenceAI home''] [Logo]]
       @ show_if (lg_wide width) [El ''ul'' [] (map (\<lambda>(l, h). El ''li'' [] [Link h [Txt l]]) SITE_NAV)]
       @ show_if (md_wide width) [El ''div'' [] [Link ''/judge-demo'' [Txt ''Demo scenarios''],
           site_button ''/dashboard'' [Txt ''Open the control centre'']]]
       @ show_if (\<not> md_wide width) [El ''button'' [Attr ''type'' ''button'',
           Attr ''aria-label'' (if opened then ''Close menu'' else ''Open menu''),
           Attr ''aria-expanded'' (bool_text opened), OnClick ToggleMenu] [icon (if opened then ''X'' else ''Menu'')]])
     # show_if (opened \<and> \<not> md_wide width) [mobile_menu])]"

text \<open>What the bar's effect leaves in \<open>document.body.style.overflow\<close>.\<close>

definition body_overflow :: "bool \<Rightarrow> string" where
  "body_overflow opened = (if opened then ''hidden'' else [])"

subsection \<open>The hero\<close>

definition mock_nav :: "(string \<times> string) list \<Rightarrow> 'e node" where
  "mock_nav items = El ''div'' [] (map (\<lambda>(i, l). El ''div'' [] [icon i, Txt l]) items)"

definition GroupLabel :: "string \<Rightarrow> 'e node" where "GroupLabel l = El ''div'' [] [Txt l]"

definition Stage :: "string \<Rightarrow> string \<Rightarrow> string \<Rightarrow> 'e node" where
  "Stage kicker title detail = El ''div'' [] [El ''div'' [] [Txt kicker], El ''div'' [] [Txt title], El ''div'' [] [Txt detail]]"

definition SpendRow :: "string \<Rightarrow> string \<Rightarrow> bool \<Rightarrow> string \<Rightarrow> 'e node" where
  "SpendRow vendor amount allowed code = El ''div'' [] [
     El ''span'' [] [icon (if allowed then ''Check'' else ''X'')],
     El ''div'' [] [El ''div'' [] [Txt vendor], El ''div'' [] [Txt code]],
     El ''span'' (if allowed then [] else [Attr ''tone'' ''line-through'']) [Txt amount]]"

definition mock_sidebar :: "'e node" where
  "mock_sidebar = El ''aside'' [] [
     El ''div'' [] [icon ''LogoMark'', El ''span'' [] [Txt ''CredenceAI'']],
     mock_nav [(''LayoutDashboard'', ''Overview'')],
     GroupLabel ''Operations'',
     mock_nav [(''Bot'', ''AI Agents''), (''FileText'', ''Credit Applications''), (''Scale'', ''Underwriting''),
       (''Vault'', ''Credit Vaults''), (''ArrowLeftRight'', ''Transactions''), (''ScrollText'', ''Repayments'')],
     GroupLabel ''Risk & Compliance'',
     mock_nav [(''ShieldAlert'', ''Risk Monitoring''), (''Activity'', ''Audit Trail''), (''Gauge'', ''System Intelligence'')]]"

definition DashboardMock :: "'e node" where
  "DashboardMock = El ''div'' [] [
     El ''div'' [] [Txt ''/credit-applications''],
     El ''div'' [] [mock_sidebar, El ''main'' [] [
       El ''div'' [] [
         El ''div'' [] [El ''h3'' [] [Txt ''Credit application''], para (''app_7f2c '' @ [MIDDOT] @ '' task_9d41 '' @ [MIDDOT] @ '' agent verified'')],
         El ''span'' [] [Txt (''Sandbox '' @ [MIDDOT] @ '' test credits'')]],
       El ''div'' [] [
         Stage (''AI '' @ [MIDDOT] @ '' advisory'') ''Stance: supportive'' (''cites 3 evidence items '' @ [MIDDOT] @ '' no amounts''),
         Stage (''Scorecard '' @ [MIDDOT] @ '' authoritative'') (''Approve '' @ [EM_DASH] @ '' '' @ [RUPEE] @ ''2,500.00'') (''deterministic '' @ [MIDDOT] @ '' receipt 0x9c4e'' @ [ELLIPSIS]),
         Stage (''policy '' @ [MIDDOT] @ '' enforcing'') ''Vault opened'' (''2 vendors '' @ [MIDDOT] @ '' 48h window'')],
       El ''div'' [] [
         El ''div'' [] [El ''h4'' [] [Txt ''Then the vault holds the line''],
           para (''Each spend is authorized before it can settle. A counterparty that was '' @
         ''never approved does not become approved because the agent asked twice.'')],
         El ''div'' [] [
           SpendRow ''Compute provider'' ([RUPEE] @ ''1,840.00'') True (''SETTLED '' @ [MIDDOT] @ '' on allow-list''),
           SpendRow ''Unlisted counterparty'' ([RUPEE] @ ''900.00'') False (''BLOCKED '' @ [MIDDOT] @ '' VENDOR_NOT_ALLOWED''),
           SpendRow ''Compute provider'' ([RUPEE] @ ''6,000.00'') False (''BLOCKED '' @ [MIDDOT] @ '' TRANSACTION_LIMIT_EXCEEDED'')]]]]]"

definition Hero :: "'e node" where
  "Hero = site_section ''top'' [Container [El ''div'' [] [
     para ''Task-Backed Credit Infrastructure for Autonomous Agents'',
     El ''h1'' [] [Txt ''Credit rails for autonomous agents''],
     para (''Verified agent passports. Restricted spending vaults. Automatic repayment '' @
         ''from task revenue. The LLM advises '' @ [EM_DASH] @
         '' deterministic policy code controls every rupee. Sandbox: test credits '' @ ''only.''),
     El ''div'' [] [site_button ''/dashboard'' [Txt ''Launch the sandbox'', icon ''ArrowRight''],
       site_button ''#primitives'' [Txt ''How it works'']]],
     DashboardMock]]"

subsection \<open>The five primitives\<close>

definition Tag :: "string \<Rightarrow> 'e node" where "Tag t = El ''span'' [] [Txt t]"

definition Verdict :: "string \<Rightarrow> string \<Rightarrow> string \<Rightarrow> 'e node" where
  "Verdict tone label detail = El ''div'' [Attr ''tone'' tone] [El ''span'' [] [Txt label], El ''span'' [] [Txt detail]]"

definition site_field :: "string \<Rightarrow> string \<Rightarrow> 'e node" where
  "site_field name v = El ''div'' [] [El ''span'' [] [Txt name], El ''span'' [] [Txt v]]"

definition PASSPORT_CHECKS :: "string list" where
  "PASSPORT_CHECKS = [''Trusted issuer & signature'', ''Audience'', ''Validity window'', ''Revocation'', ''Scope'', ''Request nonce'']"

definition WATERFALL_STEPS :: "string list" where
  "WATERFALL_STEPS = [''Repay outstanding principal'', ''Pay the facility fee'', ''Replenish any reserve drawn'',
     ''Release the remainder to the owner'']"

definition CHAIN_EVENTS :: "string list" where
  "CHAIN_EVENTS = [''DECISION_RECORDED'', ''VAULT_CREATED'', ''TRANSACTION_BLOCKED'', ''REVENUE_APPLIED'']"

definition Visual :: "string \<Rightarrow> 'e node" where
  "Visual i =
     (if i = ''passport'' then El ''div'' [] (
        [El ''div'' [] [Txt ''Verification, in order'']]
        @ map (\<lambda>c. El ''div'' [] [icon ''Check'', El ''span'' [] [Txt c]]) PASSPORT_CHECKS
        @ [El ''div'' [] [Txt ''Any one of them failing denies the request.'']])
      else if i = ''underwriting'' then El ''div'' [] [
        El ''div'' [] [Txt ''Scorecard inputs''],
        El ''div'' [] [site_field ''Expected revenue'' ''verified'', site_field ''Eligible cost'' ''verified'',
          site_field ''Owner exposure cap'' ''on file'', site_field ''Passport ceiling'' ''signed'',
          site_field ''Repayment history'' ''on file''],
        El ''div'' [] [Txt ''Possible outcomes''],
        El ''div'' [] [Verdict ''allow'' ''Approve'' ''limit computed'',
          Verdict ''review'' ''Human review'' ''HUMAN_REVIEW_REQUIRED'', Verdict ''deny'' ''Refuse'' ''POLICY_DENIED'']]
      else if i = ''vault'' then El ''div'' [] [
        El ''div'' [] [Txt ''Vault restrictions''],
        El ''div'' [] (map Tag [''vendor_allow_list'', ''purpose_code'', ''amount_cap'', ''expires_at'']),
        El ''div'' [] [Txt ''Each spend attempt''],
        El ''div'' [] [Verdict ''allow'' ''Vendor on the list'' ''settles'',
          Verdict ''deny'' ''Vendor not on the list'' ''VENDOR_NOT_ALLOWED'',
          Verdict ''deny'' ''Policy engine unreachable'' ''POLICY_ENGINE_UNAVAILABLE'']]
      else if i = ''repayment'' then El ''div'' [] (
        [El ''div'' [] [Txt (''Revenue received '' @ [EM_DASH] @ '' allocation order'')]]
        @ map (\<lambda>(n, t). El ''div'' [] [El ''span'' [] [Txt (show_nat (n + 1))], El ''span'' [] [Txt t]])
            (enumerate 0 WATERFALL_STEPS)
        @ [El ''div'' [] [Txt ''The order is fixed in code and computed in integer minor units.'']])
      else El ''div'' [] (
        [El ''div'' [] [Txt ''Append-only hash chain'']]
        @ map (\<lambda>e. El ''div'' [] [icon ''Link2'', El ''span'' [] [Txt e], El ''span'' [] [Txt ''prev_hash'']]) CHAIN_EVENTS
        @ [El ''div'' [] [Txt ''Change any earlier row and every hash after it stops matching.'']]))"

text \<open>\<open>TABS.find(...) ?? TABS[0]\<close>.\<close>

definition current_primitive :: "string \<Rightarrow> primitive_tab" where
  "current_primitive active = (case find (\<lambda>t. pt_id t = active) PRIMITIVE_TABS of Some t \<Rightarrow> t | None \<Rightarrow> hd PRIMITIVE_TABS)"

definition Products :: "string \<Rightarrow> site_event node" where
  "Products active = (let current = current_primitive active in site_section ''primitives'' [Container [
     SectionHeading (Some ''How it works'') ''Five primitives, and an agent meets them in this order''
       (Some (''An autonomous agent has no legal personhood and no credit file. So the '' @
         ''credit is not extended to the agent '' @ [EM_DASH] @
         '' it is extended to one task with verified economics, and the controls '' @
         ''hold for the life of that task.'')),
     El ''div'' [] (map (\<lambda>t. El ''button'' [Attr ''type'' ''button'', Attr ''aria-pressed'' (bool_text (pt_id t = active)),
       OnClick (SelectPrimitive (pt_id t))] [icon (pt_icon t), Txt (pt_label t)]) PRIMITIVE_TABS),
     El ''div'' [] [
       El ''div'' [] [El ''h3'' [] [Txt (pt_title current)], para (pt_description current), bullet_list (pt_bullets current),
         Link ''#governing-rule'' [Txt (''What the model is and isn'' @ [CHR 0x92] @ ''t allowed to do''), icon ''ArrowRight'']],
       El ''div'' [] [Visual (pt_id current)]]]])"

subsection \<open>The governing rule\<close>

definition rule_card :: "rule_column \<Rightarrow> 'e node" where
  "rule_card col = El ''div'' [] [
     El ''div'' [] [icon (rc_col_icon col), El ''span'' [] [Txt (rc_col_kicker col)]],
     El ''h3'' [] [Txt (rc_col_title col)],
     bullet_list (rc_col_does col),
     El ''div'' [] [El ''div'' [] [icon ''ShieldOff'', Txt (rc_col_neverTitle col)],
       El ''ul'' [] (map (\<lambda>t. El ''li'' [] [Txt t]) (rc_col_never col))]]"

definition GoverningRule :: "'e node" where
  "GoverningRule = site_section ''governing-rule'' [Container [
     SectionHeading (Some ''The governing rule'')
       (''LLMs advise; deterministic code decides; policy authorizes; the vault '' @
         ''enforces; humans approve exceptions.'')
       (Some (''An LLM is never permitted to move money or set a limit. It produces an '' @ ''opinion '' @
         [EM_DASH] @
         '' a stance and a rationale, with no amounts in it at all. Everything downstream '' @
         ''of that opinion is ordinary, testable code.'')),
     El ''div'' [] (map rule_card COLUMNS),
     para (''The reasoning models run locally through Ollama. No external LLM API is '' @
         ''called at runtime, and no data leaves the deployment to be scored. Where '' @
         ''the model is unavailable or its output fails schema validation, the application '' @
         ''degrades to human review '' @ [EM_DASH] @ '' never to approval.'')]]"

subsection \<open>The API section\<close>

text \<open>
  \<open>dv_timers\<close>: the timeouts set by successful copies that have not fired; \<open>dv_copying\<close>: the calls
  waiting for the clipboard.
\<close>

record developers =
  dv_tab :: string
  dv_copied :: bool
  dv_timers :: nat
  dv_copying :: nat

definition dv_initial :: developers where
  "dv_initial = \<lparr>dv_tab = sn_id (hd SNIPPETS), dv_copied = False, dv_timers = 0, dv_copying = 0\<rparr>"

definition current_snippet :: "developers \<Rightarrow> snippet" where
  "current_snippet s = (case find (\<lambda>x. sn_id x = dv_tab s) SNIPPETS of Some x \<Rightarrow> x | None \<Rightarrow> hd SNIPPETS)"

definition is_comment :: "string \<Rightarrow> bool" where
  "is_comment line \<longleftrightarrow> starts_with (trim_start line) ''#'' \<or> starts_with (trim_start line) ''//''"

definition CodeBlock :: "string \<Rightarrow> 'e node" where
  "CodeBlock code = El ''pre'' [] [El ''code'' [] (map (\<lambda>line.
     El ''span'' (if is_comment line then [Attr ''tone'' ''comment''] else []) [Txt line, Txt [NEWLINE]])
     (split_on NEWLINE code))]"

definition Developers :: "developers \<Rightarrow> site_event node" where
  "Developers s = site_section ''api'' [Container [
     SectionHeading (Some ''The API'') ''Plain REST, and it tells you why it said no''
       (Some (''A FastAPI service under /v1. There is no SDK to install and nothing clever '' @
         ''to learn '' @ [EM_DASH] @
         '' the interesting part is that every refusal comes back with the reason '' @ ''attached.'')),
     El ''div'' [] [
       El ''div'' [] (icon ''Terminal'' # map (\<lambda>x. El ''button'' [Attr ''type'' ''button'', OnClick (SelectSnippet (sn_id x))]
         [Txt (sn_label x)]) SNIPPETS),
       El ''button'' [Attr ''type'' ''button'', Attr ''aria-label'' ''Copy code'', OnClick CopySnippet]
         (if dv_copied s then [icon ''Check'', Txt ''Copied''] else [icon ''Copy'', Txt ''Copy'']),
       CodeBlock (sn_code (current_snippet s)),
       para (''The bearer token is read from the environment in every example. The web '' @
         ''app never holds one: it is attached server-side by the proxy, so no credential '' @
         ''reaches the browser.'')],
     El ''div'' [] [
       El ''div'' [] (map (\<lambda>f. El ''div'' [] [icon (ft_icon f), El ''h3'' [] [Txt (ft_title f)], para (ft_desc f)]) FEATURES),
       site_button ''/developer/console'' [Txt ''Open the developer console'', icon ''ArrowRight''],
       site_button ''/judge-demo'' [Txt ''Run the demo scenarios'']]]]"

subsection \<open>Facts, safety, architecture, notice\<close>

definition Stats :: "'e node" where
  "Stats = site_section ''facts'' [Container [
     El ''div'' [] [Eyebrow [Txt ''Properties of the build''], El ''h2'' [] [Txt ''Facts you can check by reading the code''],
       para (''Not benchmarks. These hold because of how the system is written, so they '' @
         ''need no measurement to be true.'')],
     El ''dl'' [] (map (\<lambda>f. El ''div'' [] [El ''dt'' [] [Txt (sf_value f)], El ''dd'' [] [Txt (sf_label f)],
       El ''dd'' [] [Txt (sf_note f)]]) STAT_FACTS),
     para (''Measured numbers '' @ [EM_DASH] @ '' stage health, model assurance, policy enforcement '' @
         [EM_DASH] @ '' are computed from real runs and published inside the product. Where there '' @
         ''is not yet enough data, that page says so rather than showing a reassuring '' @ ''zero.''),
     Link ''/system-intelligence'' [Txt ''Open System Intelligence'', icon ''ArrowRight'']]]"

definition Safety :: "'e node" where
  "Safety = site_section ''safety'' [Container [
     SectionHeading (Some ''Safety posture'') ''What actually holds the money in place''
       (Some (''A credit system for software agents is only as good as its worst failure '' @
         ''mode. These are the properties we designed for, described as they are '' @ ''implemented.'')),
     El ''div'' [] (map (\<lambda>p. El ''div'' [] [icon (pl_icon p), El ''h3'' [] [Txt (pl_title p)], para (pl_desc p),
       bullet_list (pl_points p)]) PILLARS),
     El ''div'' [] (map (\<lambda>p. El ''div'' [] [icon (po_icon p), El ''h4'' [] [Txt (po_label p)], para (po_detail p)]) POSTURE),
     El ''div'' [] [icon ''Info'', El ''p'' [] [
       El ''span'' [] [Txt ''We hold no security or compliance certification, and claim none.''],
       Txt ('' This is a hackathon build. What is described above is how the code behaves, '' @
         ''not the outcome of any external audit or attestation.'')]]]]"

definition Deployment :: "'e node" where
  "Deployment = site_section ''architecture'' [Container [
     SectionHeading (Some ''Architecture'') ''Applied Terraform & Live GCP Sandbox Stack''
       (Some (''The entire sandbox architecture is provisioned with Terraform on GCP '' @ [EM_DASH] @
         '' Cloud Run services, private Cloud SQL PostgreSQL, a deterministic Rego-mirror '' @
         ''policy engine, and private NVIDIA L4 GPU inference. Test credits only; '' @
         ''no real money moves.'')),
     El ''div'' [] (map (\<lambda>c. El ''div'' [] [icon (sk_icon c), El ''h3'' [] [Txt (sk_title c)], para (sk_desc c),
       El ''div'' [] (map Tag (sk_tags c))]) STACK),
     El ''div'' [] [
       El ''div'' [] [icon ''Cloud'', El ''h3'' [] [Txt ''Deployed GCP Sandbox Infrastructure''],
         Pill [Txt (''Terraform '' @ [MIDDOT] @ '' Deployed on GCP'')]],
       para (''Infrastructure-as-code describes and manages the deployed GCP sandbox '' @
         ''environment. Applied via Terraform in gated stages with strict security '' @
         ''boundaries, private IP networking, and zero external LLM API dependencies. '' @
         ''Synthetic data and test credits only '' @ [EM_DASH] @ '' no real money moves.''),
       bullet_list GCP]]]"

definition SandboxNotice :: "'e node" where
  "SandboxNotice = site_section ''sandbox'' [Container [
     El ''div'' [] [icon ''FlaskConical'', El ''h2'' [] [Txt ''This is a sandbox'']],
     para (''CredenceAI is a hackathon project. It is a working implementation of a '' @
         ''credit-control architecture, running end to end against its own database '' @ [EM_DASH] @
         '' and it is not a financial product.''),
     El ''dl'' [] (map (\<lambda>(t, d). El ''div'' [] [El ''dt'' [] [Txt t], El ''dd'' [] [Txt d]]) POINTS)]]"

definition CTA :: "'e node" where
  "CTA = site_section ''get-started'' [Container [
     El ''h2'' [] [Txt ''Watch it refuse something''],
     para (''The demo runs the evaluation scenarios end to end '' @ [EM_DASH] @
         '' a passport that fails, a spend the vault blocks, a task whose revenue '' @
         ''repays itself '' @ [EM_DASH] @ '' and shows the reason codes behind each outcome.''),
     El ''div'' [] [site_button ''/judge-demo'' [Txt ''Run the demo scenarios'', icon ''ArrowRight''],
       site_button ''/dashboard'' [Txt ''Open the control centre'']]]]"

definition footer_links :: "footer_column \<Rightarrow> 'e node" where
  "footer_links col = El ''div'' [] [El ''h3'' [] [Txt (fst col)],
     El ''ul'' [] (map (\<lambda>(l, h). El ''li'' [] [Link h [Txt l]]) (snd col))]"

text \<open>\<open>year\<close>: \<open>new Date().getFullYear()\<close>.\<close>

definition Footer :: "int \<Rightarrow> 'e node" where
  "Footer year = El ''footer'' [] [El ''div'' [] [
     El ''div'' [] ([El ''div'' [] [Logo,
         para (''Task-backed credit infrastructure for autonomous agents. The AI recommends; '' @
         ''deterministic systems decide; financial controls enforce.''),
         para ''Sandbox environment. Test credits only.''],
       footer_links ON_PAGE] @ map footer_links ROUTES),
     El ''div'' [] [
       El ''p'' [] [Txt ([CHR 0xA9] @ '' ''), Txt (show_int year), Txt '' CredenceAI. A hackathon project.''],
       para ''Not a licensed lender. No real money moves.'']]]"

subsection \<open>The page\<close>

record site =
  si_width :: nat
  si_menu :: bool
  si_primitive :: string
  si_developers :: developers

definition site_initial :: "nat \<Rightarrow> site" where
  "site_initial width = \<lparr>si_width = width, si_menu = False, si_primitive = pt_id (hd PRIMITIVE_TABS), si_developers = dv_initial\<rparr>"

definition Home :: "int \<Rightarrow> site \<Rightarrow> site_event node" where
  "Home year s = El ''div'' [] [
     Navbar (si_width s) (si_menu s),
     El ''main'' [] [Hero, Products (si_primitive s), GoverningRule, Developers (si_developers s), Stats, Safety,
       Deployment, SandboxNotice, CTA],
     Footer year]"

fun site_handle :: "site_event \<Rightarrow> site \<Rightarrow> site" where
  "site_handle ToggleMenu s = s\<lparr>si_menu := \<not> si_menu s\<rparr>"
| "site_handle CloseMenu s = s\<lparr>si_menu := False\<rparr>"
| "site_handle (SelectPrimitive i) s = s\<lparr>si_primitive := i\<rparr>"
| "site_handle (SelectSnippet i) s = s\<lparr>si_developers := (si_developers s)\<lparr>dv_tab := i\<rparr>\<rparr>"
| "site_handle CopySnippet s = s\<lparr>si_developers := (si_developers s)\<lparr>dv_copying := Suc (dv_copying (si_developers s))\<rparr>\<rparr>"

text \<open>\<open>onCopy\<close> after its \<open>await\<close>, and its timeout.\<close>

definition copy_done :: "bool \<Rightarrow> developers \<Rightarrow> developers" where
  "copy_done written d = (if written
     then d\<lparr>dv_copying := dv_copying d - 1, dv_copied := True, dv_timers := Suc (dv_timers d)\<rparr>
     else d\<lparr>dv_copying := dv_copying d - 1\<rparr>)"

definition copy_timeout :: "developers \<Rightarrow> developers" where
  "copy_timeout d = d\<lparr>dv_copied := False, dv_timers := dv_timers d - 1\<rparr>"

text \<open>What a visitor and the clock can do to the page; the window may be resized at any time.\<close>

inductive site_run :: "site \<Rightarrow> bool" where
  visit: "site_run (site_initial width)"
| act: "site_run s \<Longrightarrow> e \<in> events (Home year s) \<Longrightarrow> site_run (site_handle e s)"
| resize: "site_run s \<Longrightarrow> site_run (s\<lparr>si_width := width\<rparr>)"
| copied: "site_run s \<Longrightarrow> 0 < dv_copying (si_developers s)
    \<Longrightarrow> site_run (s\<lparr>si_developers := copy_done written (si_developers s)\<rparr>)"
| timeout: "site_run s \<Longrightarrow> 0 < dv_timers (si_developers s)
    \<Longrightarrow> site_run (s\<lparr>si_developers := copy_timeout (si_developers s)\<rparr>)"

text \<open>Where a link leads: into the page, or to a route of the application (its \<open>page.tsx\<close> files).\<close>

definition APP_ROUTES :: "string list" where
  "APP_ROUTES = [''/'', ''/agents'', ''/audit'', ''/credit-applications'', ''/dashboard'', ''/developer/console'',
     ''/judge-demo'', ''/repayments'', ''/risk'', ''/settings'', ''/start'', ''/system-intelligence'', ''/transactions'',
     ''/underwriting'', ''/vaults'']"

fun attr_id :: "'e attr \<Rightarrow> string list" where
  "attr_id (Attr k v) = (if k = ''id'' then [v] else [])"
| "attr_id _ = []"

fun ids :: "'e node \<Rightarrow> string list" where
  "ids (Txt s) = []"
| "ids (El tag as ks) = concat (map attr_id as) @ concat (map ids ks)"

definition resolves :: "'e node \<Rightarrow> string \<Rightarrow> bool" where
  "resolves page h \<longleftrightarrow> (if h \<noteq> [] \<and> hd h = CHR ''#'' then List.member (ids page) (tl h) else List.member APP_ROUTES h)"

subsection \<open>The links of each part\<close>

lemma anchors_plain [simp]: "anchors (icon n) = []" "anchors (para t) = []" "anchors (Link h ks) = (h, []) # concat (map anchors ks)"
  by (simp_all add: icon_def para_def Link_def)

lemma ids_plain [simp]: "ids (icon n) = []" "ids (para t) = []" "ids (Link h ks) = concat (map ids ks)"
  by (simp_all add: icon_def para_def Link_def)

lemma concat_empty: "(\<And>x. f x = []) \<Longrightarrow> concat (map f xs) = []"
  by (induction xs) simp_all

lemma quiet_parts [simp]:
  "anchors (bullet_list ts) = []" "ids (bullet_list ts) = []" "anchors (Tag t) = []" "ids (Tag t) = []"
  "anchors (Verdict a b c) = []" "ids (Verdict a b c) = []" "anchors (site_field a b) = []" "ids (site_field a b) = []"
  "anchors Logo = []" "ids Logo = []" "anchors (rule_card col) = []" "ids (rule_card col) = []"
  "anchors (CodeBlock c) = []" "ids (CodeBlock c) = []"
  by (simp_all add: bullet_list_def Tag_def Verdict_def site_field_def Logo_def rule_card_def CodeBlock_def comp_def
      concat_empty)

lemma quiet_heading [simp]: "anchors (SectionHeading e t d) = []" "ids (SectionHeading e t d) = []"
  by (cases e; cases d; simp add: SectionHeading_def Eyebrow_def)+

lemma quiet_visual [simp]: "anchors (Visual i) = []" "ids (Visual i) = []"
  by (simp_all add: Visual_def comp_def case_prod_unfold concat_empty)

lemma quiet_mock [simp]: "anchors DashboardMock = []" "ids DashboardMock = []"
  by (simp_all add: DashboardMock_def mock_sidebar_def mock_nav_def GroupLabel_def Stage_def SpendRow_def)

lemma section_parts [simp]:
  "ids (site_section i ks) = i # concat (map ids ks)" "anchors (site_section i ks) = concat (map anchors ks)"
  "ids (Container ks) = concat (map ids ks)" "anchors (Container ks) = concat (map anchors ks)"
  "ids (site_button h ks) = concat (map ids ks)" "anchors (site_button h ks) = (h, []) # concat (map anchors ks)"
  by (simp_all add: site_section_def Container_def site_button_def)

lemma section_links:
  "map fst (anchors Hero) = [''/dashboard'', ''#primitives'']" "ids Hero = [''top'']"
  "map fst (anchors (Products a)) = [''#governing-rule'']" "ids (Products a) = [''primitives'']"
  "anchors GoverningRule = []" "ids GoverningRule = [''governing-rule'']"
  "map fst (anchors (Developers d)) = [''/developer/console'', ''/judge-demo'']" "ids (Developers d) = [''api'']"
  by (simp_all add: Hero_def Products_def GoverningRule_def Developers_def Let_def comp_def concat_empty)

lemma more_links:
  "map fst (anchors Stats) = [''/system-intelligence'']" "ids Stats = [''facts'']"
  "anchors Safety = []" "ids Safety = [''safety'']" "anchors Deployment = []" "ids Deployment = [''architecture'']"
  "anchors SandboxNotice = []" "ids SandboxNotice = [''sandbox'']"
  "map fst (anchors CTA) = [''/judge-demo'', ''/dashboard'']" "ids CTA = [''get-started'']"
  by (simp_all add: Stats_def Safety_def Deployment_def SandboxNotice_def CTA_def Eyebrow_def Pill_def comp_def
      case_prod_unfold concat_empty)

lemma footer_column: "map fst (anchors (footer_links c)) = map snd (snd c)" "ids (footer_links c) = []"
proof -
  have "map fst (concat (map (\<lambda>p. anchors (case p of (l, h) \<Rightarrow> El ''li'' [] [Link h [Txt l]])) xs)) = map snd xs" for xs
    by (induction xs) auto
  then show "map fst (anchors (footer_links c)) = map snd (snd c)" by (simp add: footer_links_def comp_def)
  show "ids (footer_links c) = []" by (simp add: footer_links_def comp_def case_prod_unfold concat_empty)
qed

lemma footer_parts:
  "map fst (anchors (Footer y)) = concat (map (\<lambda>c. map snd (snd c)) (ON_PAGE # ROUTES))" "ids (Footer y) = []"
proof -
  have "map fst (concat (map anchors (map footer_links cs))) = concat (map (\<lambda>c. map snd (snd c)) cs)" for cs
    by (induction cs) (simp_all add: footer_column)
  from this [of "ON_PAGE # ROUTES"]
  show "map fst (anchors (Footer y)) = concat (map (\<lambda>c. map snd (snd c)) (ON_PAGE # ROUTES))"
    by (simp add: Footer_def)
  show "ids (Footer y) = []" by (simp add: Footer_def footer_column comp_def concat_empty)
qed

lemma navbar_ids: "ids (Navbar w b) = []"
  by (simp add: Navbar_def mobile_menu_def menu_link_def show_if_def comp_def case_prod_unfold concat_empty)

lemma navbar_links: "set (map fst (anchors (Navbar w b))) \<subseteq> insert ''#top'' (insert ''/judge-demo'' (insert ''/dashboard'' (snd ` set SITE_NAV)))"
  by (auto simp: Navbar_def mobile_menu_def menu_link_def SITE_NAV_def split: if_splits)

lemma home_ids: "ids (Home y s) = [''top'', ''primitives'', ''governing-rule'', ''api'', ''facts'', ''safety'',
    ''architecture'', ''sandbox'', ''get-started'']"
  by (simp add: Home_def navbar_ids footer_parts section_links more_links)

lemma home_links: "set (map fst (anchors (Home y s))) \<subseteq> set (map fst (anchors (Navbar (si_width s) (si_menu s))))
    \<union> {''/dashboard'', ''#primitives'', ''#governing-rule'', ''/developer/console'', ''/judge-demo'', ''/system-intelligence''}
    \<union> set (concat (map (\<lambda>c. map snd (snd c)) (ON_PAGE # ROUTES)))"
proof -
  have "map fst (anchors (Home y s)) = map fst (anchors (Navbar (si_width s) (si_menu s)))
      @ map fst (anchors (Hero :: site_event node)) @ map fst (anchors (Products (si_primitive s)))
      @ map fst (anchors (Developers (si_developers s))) @ map fst (anchors (Stats :: site_event node))
      @ map fst (anchors (CTA :: site_event node)) @ map fst (anchors (Footer y :: site_event node))"
    by (simp add: Home_def section_links more_links)
  then show ?thesis by (auto simp: section_links more_links footer_parts)
qed

subsection \<open>The events of the page\<close>

lemma events_quiet [simp]:
  "events (SectionHeading e t d) = {}" "events (bullet_list ts) = {}" "events (Tag t) = {}" "events (Verdict a b c) = {}"
  "events (site_field a b) = {}" "events (rule_card r) = {}" "events (CodeBlock code) = {}" "events (Logo :: 'e node) = {}"
  "events (Container ks) = (\<Union>k \<in> set ks. events k)" "events (site_section i ks) = (\<Union>k \<in> set ks. events k)"
  "events (site_button h ks) = (\<Union>k \<in> set ks. events k)" "events (footer_links fc) = {}"
  by (auto simp: SectionHeading_def bullet_list_def Tag_def Verdict_def site_field_def rule_card_def CodeBlock_def
      Logo_def Container_def site_section_def site_button_def footer_links_def Eyebrow_def set_some_node
      split: option.splits)

lemma events_visual [simp]: "events (Visual i) = {}"
  by (auto simp: Visual_def)

lemma events_static [simp]:
  "events (DashboardMock :: 'e node) = {}" "events (Hero :: 'e node) = {}" "events (GoverningRule :: 'e node) = {}"
  by (auto simp: DashboardMock_def mock_sidebar_def mock_nav_def GroupLabel_def Stage_def SpendRow_def Hero_def GoverningRule_def)

lemma events_static2 [simp]:
  "events (Stats :: 'e node) = {}" "events (Safety :: 'e node) = {}" "events (Deployment :: 'e node) = {}"
  "events (SandboxNotice :: 'e node) = {}" "events (CTA :: 'e node) = {}" "events (Footer y :: 'e node) = {}"
  by (auto simp: Stats_def Safety_def Deployment_def SandboxNotice_def CTA_def Footer_def Eyebrow_def Pill_def)

lemma events_Navbar: "events (Navbar w b) =
    (if md_wide w then {} else insert ToggleMenu (if b then {CloseMenu} else {}))"
  by (auto simp: Navbar_def mobile_menu_def menu_link_def SITE_NAV_def split: if_splits)

lemma events_Products: "events (Products a) = SelectPrimitive ` pt_id ` set PRIMITIVE_TABS"
  by (auto simp: Products_def Let_def)

lemma events_Developers: "events (Developers d) = insert CopySnippet (SelectSnippet ` sn_id ` set SNIPPETS)"
  by (auto simp: Developers_def)

lemma events_Home: "events (Home y s) = events (Navbar (si_width s) (si_menu s)) \<union> SelectPrimitive ` pt_id ` set PRIMITIVE_TABS
    \<union> insert CopySnippet (SelectSnippet ` sn_id ` set SNIPPETS)"
  by (auto simp: Home_def events_Products events_Developers)

text \<open>The copy button's label always goes away again: while it says so, a timeout is still to come.\<close>

lemma copied_clears: "site_run s \<Longrightarrow> dv_copied (si_developers s) \<Longrightarrow> 0 < dv_timers (si_developers s)"
proof (induction rule: site_run.induct)
  case (act s e y)
  then show ?case by (cases e) simp_all
next
  case (copied s written)
  then show ?case by (cases written) (simp_all add: copy_done_def)
qed (simp_all add: site_initial_def dv_initial_def copy_timeout_def)

subsection \<open>Properties\<close>

lemma page_link:
  "resolves (Home y s) (CHR ''/'' # p) = List.member APP_ROUTES (CHR ''/'' # p)"
  "resolves (Home y s) (CHR ''#'' # p) = List.member [''top'', ''primitives'', ''governing-rule'', ''api'', ''facts'', ''safety'',
    ''architecture'', ''sandbox'', ''get-started''] p"
  by (simp_all add: resolves_def home_ids)

definition SITE_LINKS :: "string list" where
  "SITE_LINKS = [''#top'', ''/dashboard'', ''#primitives'', ''#governing-rule'', ''/developer/console'', ''/judge-demo'',
     ''/system-intelligence''] @ map snd SITE_NAV @ concat (map (\<lambda>c. map snd (snd c)) (ON_PAGE # ROUTES))"

lemma home_in_links: "set (map fst (anchors (Home y s))) \<subseteq> set SITE_LINKS"
  using home_links [of y s] navbar_links [of "si_width s" "si_menu s"]
  unfolding SITE_LINKS_def by auto

lemma site_links_resolve: "list_all (resolves (Home y s)) SITE_LINKS"
  by (simp add: SITE_LINKS_def page_link SITE_NAV_def ON_PAGE_def ROUTES_def APP_ROUTES_def)

text \<open>
  C33. No link of the public page is dead: in every state of the page and at every width, each leads to a
  section that is on the page or to a route of the application.
\<close>

theorem landing_links_resolve:
  "list_all (resolves (Home year s)) (map fst (anchors (Home year s)))"
  using site_links_resolve [of year s] home_in_links [of year s] unfolding list_all_iff by blast

text \<open>
  The mobile menu can lock the page: opened in a narrow window, it and its button disappear when the
  window grows past the breakpoint, but the menu stays open, the body stays unscrollable, and the
  page offers no control that would close it.
\<close>

theorem menu_locks_page:
  "\<exists>s. site_run s \<and> body_overflow (si_menu s) = ''hidden''
     \<and> ToggleMenu \<notin> events (Home year s) \<and> CloseMenu \<notin> events (Home year s)"
proof -
  let ?narrow = "site_initial 400" and ?open = "site_handle ToggleMenu (site_initial 400)"
  have "ToggleMenu \<in> events (Home year ?narrow)"
    by (simp add: events_Home events_Navbar md_wide_def site_initial_def)
  from site_run.resize [OF site_run.act [OF site_run.visit this]]
  have r: "site_run (?open\<lparr>si_width := 1200\<rparr>)" .
  show ?thesis
    using r by (intro exI [of _ "?open\<lparr>si_width := 1200\<rparr>"])
      (auto simp: events_Home events_Navbar md_wide_def site_initial_def body_overflow_def)
qed

text \<open>
  The figures the page states about the build are those of the code: the number of pipeline stages
  is that of the rail, and the number of passport checks is that of the list it shows.
\<close>

theorem landing_figures_hold:
  "map sf_value (take 2 STAT_FACTS) = [show_nat (length PIPELINE_STAGE_ORDER), show_nat (length PASSPORT_CHECKS)]"
  by code_simp

end
