(* ===== verification/Lifecycle.thy ===== *)
theory Lifecycle
  imports Shell OrbChat Telemetry
begin

text \<open>
  What overlays do to the document while they are open, and the store behind the rail:
  the effect of \<open>frontend/components/ui/sheet.tsx\<close> (background scrolling, focus, the key listener),
  the key listeners of the navigation drawer (\<open>shell/sidebar.tsx\<close>) and of the assistant
  (\<open>orb.tsx\<close>), the order in which a key reaches the three, and the collapsed preference of the
  rail, which every open tab of the browser subscribes to.

  An effect runs after the first render and after every render that changed one of its
  dependencies, its own cleanup first. A function given as a prop is known by a number: two
  renders pass the same number exactly when they pass the same function, so a page that writes
  \<open>onClose={() => ...}\<close> passes a new number in every render, and one that uses \<open>useCallback\<close> the
  same one.
\<close>

subsection \<open>The effect of the sheet\<close>

text \<open>
  An element that can have focus: the \<open>k\<close>-th of the page, one of the sheet (\<open>Ui.focus\<close>), or
  none, which the document reports as its body.
\<close>

datatype element = OnPage nat | InSheet focus | Body

text \<open>
  One mounted sheet with the parts of the document it touches: \<open>sl_shown\<close> says that its panel is in
  the document, with \<open>sl_items\<close> focusable controls; \<open>sl_deps\<close> are the dependencies of the last run
  of the effect; \<open>sl_cleanup\<close> is what the cleanup of a running effect closes over, the overflow
  saved and the \<open>onClose\<close> of its listener; \<open>sl_page\<close> lists the elements of the page that take focus.
\<close>

record sheet_life =
  sl_shown :: bool
  sl_items :: nat
  sl_deps :: "(bool \<times> nat) option"
  sl_cleanup :: "(string \<times> nat) option"
  sl_restoreTo :: "element option"
  sl_active :: element
  sl_overflow :: string
  sl_keydown :: "nat list"
  sl_page :: "nat list"

definition sheet_fresh :: "string \<Rightarrow> nat list \<Rightarrow> sheet_life" where
  "sheet_fresh ov page = \<lparr>sl_shown = False, sl_items = 0, sl_deps = None, sl_cleanup = None, sl_restoreTo = None,
     sl_active = Body, sl_overflow = ov, sl_keydown = [], sl_page = page\<rparr>"

fun takes_focus :: "sheet_life \<Rightarrow> element \<Rightarrow> bool" where
  "takes_focus s (OnPage k) = List.member (sl_page s) k"
| "takes_focus s (InSheet Panel) = sl_shown s"
| "takes_focus s (InSheet (Item i)) = (sl_shown s \<and> i < sl_items s)"
| "takes_focus s (InSheet Elsewhere) = False"
| "takes_focus s Body = False"

text \<open>\<open>element.focus()\<close>: nothing happens to an element that left the document or takes no focus.\<close>

definition focus_on :: "element \<Rightarrow> sheet_life \<Rightarrow> sheet_life" where
  "focus_on e s = (if takes_focus s e then s\<lparr>sl_active := e\<rparr> else s)"

text \<open>An element that leaves the document, or stops taking focus, leaves the focus on the body.\<close>

definition drop_focus :: "sheet_life \<Rightarrow> sheet_life" where
  "drop_focus s = (if takes_focus s (sl_active s) then s else s\<lparr>sl_active := Body\<rparr>)"

definition sheet_start :: "nat \<Rightarrow> sheet_life \<Rightarrow> sheet_life" where
  "sheet_start onClose s =
     (let s1 = s\<lparr>sl_restoreTo := Some (sl_active s)\<rparr>;
          s2 = s1\<lparr>sl_cleanup := Some (sl_overflow s1, onClose), sl_overflow := ''hidden''\<rparr>;
          s3 = focus_on (InSheet Panel) s2 in
      s3\<lparr>sl_keydown := sl_keydown s3 @ [onClose]\<rparr>)"

definition sheet_stop :: "sheet_life \<Rightarrow> sheet_life" where
  "sheet_stop s = (case sl_cleanup s of
     None \<Rightarrow> s
   | Some (saved, onClose) \<Rightarrow>
       let s1 = s\<lparr>sl_cleanup := None, sl_keydown := remove1 onClose (sl_keydown s)\<rparr>;
           s2 = s1\<lparr>sl_overflow := saved\<rparr> in
       (case sl_restoreTo s2 of None \<Rightarrow> s2 | Some e \<Rightarrow> focus_on e s2))"

definition sheet_effect :: "bool \<Rightarrow> nat \<Rightarrow> sheet_life \<Rightarrow> sheet_life" where
  "sheet_effect is_open onClose s =
     (if sl_deps s = Some (is_open, onClose) then s
      else let s1 = sheet_stop s;
               s2 = (if \<not> is_open then s1 else sheet_start onClose s1) in
           s2\<lparr>sl_deps := Some (is_open, onClose)\<rparr>)"

text \<open>
  A render that is committed: the document shows the panel with its \<open>n\<close> controls, or not, and the
  effect follows. \<open>mounted\<close> is \<open>useMounted\<close>: false on the server and while hydrating. Leaving the page
  removes the panel and runs the cleanup.
\<close>

definition sheet_commit :: "bool \<Rightarrow> bool \<Rightarrow> nat \<Rightarrow> nat \<Rightarrow> sheet_life \<Rightarrow> sheet_life" where
  "sheet_commit mounted is_open onClose n s =
     sheet_effect is_open onClose (drop_focus (s\<lparr>sl_shown := mounted \<and> is_open, sl_items := n\<rparr>))"

definition sheet_leave :: "sheet_life \<Rightarrow> sheet_life" where
  "sheet_leave s = (sheet_stop (drop_focus (s\<lparr>sl_shown := False\<rparr>)))\<lparr>sl_deps := None, sl_restoreTo := None\<rparr>"

text \<open>A key goes to every listener; the result has the \<open>onClose\<close> functions that were called.\<close>

fun focus_in :: "element \<Rightarrow> focus" where
  "focus_in (InSheet f) = f"
| "focus_in _ = Elsewhere"

definition sheet_hears :: "sheet_key \<Rightarrow> nat \<Rightarrow> sheet_life \<times> nat list \<Rightarrow> sheet_life \<times> nat list" where
  "sheet_hears k onClose r = (case r of (s, called) \<Rightarrow>
     case sheet_key_down (sl_items s) (focus_in (sl_active s)) k of
       CloseSheet \<Rightarrow> (s, called @ [onClose])
     | MoveTo f \<Rightarrow> (focus_on (InSheet f) s, called)
     | Browser \<Rightarrow> (s, called))"

definition sheet_press :: "sheet_key \<Rightarrow> sheet_life \<Rightarrow> sheet_life \<times> nat list" where
  "sheet_press k s = fold (sheet_hears k) (sl_keydown s) (s, [])"

datatype sheet_event =
    Renders bool bool nat nat
  | Presses sheet_key
  | FocusMoves element
  | PageOffers "nat list"
  | Leaves

fun sheet_step :: "sheet_event \<Rightarrow> sheet_life \<Rightarrow> sheet_life" where
  "sheet_step (Renders mounted is_open onClose n) s = sheet_commit mounted is_open onClose n s"
| "sheet_step (Presses k) s = fst (sheet_press k s)"
| "sheet_step (FocusMoves e) s = (if e = Body then s\<lparr>sl_active := Body\<rparr> else focus_on e s)"
| "sheet_step (PageOffers ks) s = drop_focus (s\<lparr>sl_page := ks\<rparr>)"
| "sheet_step Leaves s = sheet_leave s"

abbreviation sheet_run :: "sheet_event list \<Rightarrow> sheet_life \<Rightarrow> sheet_life" where
  "sheet_run es s \<equiv> fold sheet_step es s"

subsection \<open>The drawer and the assistant\<close>

text \<open>
  The effect of \<open>MobileNav\<close> depends on \<open>[open, onClose]\<close>, that of the assistant on \<open>[open]\<close>; each
  only keeps a key listener. A listener is known by the function it calls.
\<close>

record key_life =
  kl_deps :: "(bool \<times> nat) option"
  kl_listeners :: "nat list"

definition key_fresh :: key_life where
  "key_fresh = \<lparr>kl_deps = None, kl_listeners = []\<rparr>"

definition key_cleanup :: "key_life \<Rightarrow> key_life" where
  "key_cleanup s = (case kl_deps s of
     Some (True, f) \<Rightarrow> s\<lparr>kl_listeners := remove1 f (kl_listeners s)\<rparr>
   | _ \<Rightarrow> s)"

definition drawer_effect :: "bool \<Rightarrow> nat \<Rightarrow> key_life \<Rightarrow> key_life" where
  "drawer_effect is_open onClose s =
     (if kl_deps s = Some (is_open, onClose) then s
      else let s1 = key_cleanup s;
               s2 = (if \<not> is_open then s1 else s1\<lparr>kl_listeners := kl_listeners s1 @ [onClose]\<rparr>) in
           s2\<lparr>kl_deps := Some (is_open, onClose)\<rparr>)"

text \<open>What the assistant's listener calls is \<open>setOpen\<close>, the same function in every render.\<close>

abbreviation SET_OPEN :: nat where "SET_OPEN \<equiv> 0"

definition orb_effect :: "bool \<Rightarrow> key_life \<Rightarrow> key_life" where
  "orb_effect is_open s =
     (if kl_deps s = Some (is_open, SET_OPEN) then s
      else let s1 = key_cleanup s;
               s2 = (if \<not> is_open then s1 else s1\<lparr>kl_listeners := kl_listeners s1 @ [SET_OPEN]\<rparr>) in
           s2\<lparr>kl_deps := Some (is_open, SET_OPEN)\<rparr>)"

definition key_leave :: "key_life \<Rightarrow> key_life" where
  "key_leave s = (key_cleanup s)\<lparr>kl_deps := None\<rparr>"

text \<open>A render (\<open>Some\<close>) or the end of the component (\<open>None\<close>).\<close>

fun drawer_step :: "(bool \<times> nat) option \<Rightarrow> key_life \<Rightarrow> key_life" where
  "drawer_step (Some (is_open, onClose)) s = drawer_effect is_open onClose s"
| "drawer_step None s = key_leave s"

fun orb_step :: "bool option \<Rightarrow> key_life \<Rightarrow> key_life" where
  "orb_step (Some is_open) s = orb_effect is_open s"
| "orb_step None s = key_leave s"

subsection \<open>An effect that listens while it is open\<close>

text \<open>
  What a history last asked of an effect: the dependencies of its last render, nothing before the
  first and after the end.
\<close>

definition asked :: "('e \<Rightarrow> (bool \<times> nat) option option) \<Rightarrow> 'e list \<Rightarrow> (bool \<times> nat) option \<Rightarrow> (bool \<times> nat) option" where
  "asked says es d = fold (\<lambda>e d. case says e of None \<Rightarrow> d | Some d' \<Rightarrow> d') es d"

lemma asked_simps [simp]:
  "asked says [] d = d"
  "asked says (e # es) d = asked says es (case says e of None \<Rightarrow> d | Some d' \<Rightarrow> d')"
  "asked says (es @ es') d = asked says es' (asked says es d)"
  by (simp_all add: asked_def)

definition listening :: "(bool \<times> nat) option \<Rightarrow> nat list" where
  "listening d = (case d of Some (True, f) \<Rightarrow> [f] | _ \<Rightarrow> [])"

lemma listening_simps [simp]:
  "listening None = []" "listening (Some (False, f)) = []" "listening (Some (True, f)) = [f]"
  by (simp_all add: listening_def)

text \<open>
  The contract of such an effect: what an event says of the dependencies is what they become, and in
  every good state, which events lead to again, the listeners are those of the dependencies.
\<close>

locale listening_effect =
  fixes act :: "'e \<Rightarrow> 's \<Rightarrow> 's"
    and says :: "'e \<Rightarrow> (bool \<times> nat) option option"
    and deps :: "'s \<Rightarrow> (bool \<times> nat) option"
    and listeners :: "'s \<Rightarrow> nat list"
    and good :: "'s \<Rightarrow> bool"
  assumes act_deps: "deps (act e s) = (case says e of None \<Rightarrow> deps s | Some d \<Rightarrow> d)"
    and act_good: "good s \<Longrightarrow> good (act e s)"
    and good_listeners: "good s \<Longrightarrow> listeners s = listening (deps s)"
begin

lemma run_deps: "deps (fold act es s) = asked says es (deps s)"
  by (induction es arbitrary: s) (simp_all add: act_deps)

lemma run_good: "good s \<Longrightarrow> good (fold act es s)"
  by (induction es arbitrary: s) (simp_all add: act_good)

lemma run_listeners: "good s \<Longrightarrow> listeners (fold act es s) = listening (asked says es (deps s))"
  by (simp add: good_listeners [OF run_good] run_deps)

text \<open>However often it was rendered, an open component has one listener and a closed one none.\<close>

lemma one_listener:
  "good s \<Longrightarrow> length (listeners (fold act es s)) = of_bool (\<exists>f. asked says es (deps s) = Some (True, f))"
  by (auto simp: run_listeners listening_def split: option.splits bool.splits)

end

fun sheet_says :: "sheet_event \<Rightarrow> (bool \<times> nat) option option" where
  "sheet_says (Renders mounted is_open onClose n) = Some (Some (is_open, onClose))"
| "sheet_says Leaves = Some None"
| "sheet_says _ = None"

definition orb_says :: "bool option \<Rightarrow> (bool \<times> nat) option option" where
  "orb_says e = Some (map_option (\<lambda>b. (b, SET_OPEN)) e)"

definition key_ok :: "key_life \<Rightarrow> bool" where
  "key_ok s \<longleftrightarrow> kl_listeners s = listening (kl_deps s)"

interpretation drawer: listening_effect drawer_step Some kl_deps kl_listeners key_ok
proof
  fix e s
  show "kl_deps (drawer_step e s) = (case Some e of None \<Rightarrow> kl_deps s | Some d \<Rightarrow> d)"
    by (cases "(e, s)" rule: drawer_step.cases) (simp_all add: drawer_effect_def key_leave_def Let_def)
  show "key_ok s \<Longrightarrow> key_ok (drawer_step e s)"
    by (cases "(e, s)" rule: drawer_step.cases)
      (auto simp: key_ok_def drawer_effect_def key_leave_def key_cleanup_def listening_def Let_def
        split: option.splits bool.splits)
qed (simp add: key_ok_def)

interpretation assistant: listening_effect orb_step orb_says kl_deps kl_listeners key_ok
proof
  fix e s
  show "kl_deps (orb_step e s) = (case orb_says e of None \<Rightarrow> kl_deps s | Some d \<Rightarrow> d)"
    by (cases e) (simp_all add: orb_effect_def orb_says_def key_leave_def Let_def)
  show "key_ok s \<Longrightarrow> key_ok (orb_step e s)"
    by (cases e)
      (auto simp: key_ok_def orb_effect_def key_leave_def key_cleanup_def listening_def Let_def
        split: option.splits bool.splits)
qed (simp add: key_ok_def)

subsection \<open>What the sheet keeps\<close>

text \<open>Focus is on something that takes it, or on the body.\<close>

definition focused :: "sheet_life \<Rightarrow> bool" where
  "focused s \<longleftrightarrow> sl_active s = Body \<or> takes_focus s (sl_active s)"

text \<open>
  \<open>sheet_ok ov s\<close>: an open sheet hides the overflow, holds the page's own value \<open>ov\<close> for its cleanup,
  remembers where focus was and has its one listener; a closed one has put everything back. Focus is
  on something that takes it.
\<close>

definition effect_ok :: "string \<Rightarrow> sheet_life \<Rightarrow> bool" where
  "effect_ok ov s \<longleftrightarrow> sl_keydown s = listening (sl_deps s)
     \<and> (case sl_deps s of
          Some (True, f) \<Rightarrow> sl_cleanup s = Some (ov, f) \<and> sl_overflow s = ''hidden'' \<and> sl_restoreTo s \<noteq> None
        | _ \<Rightarrow> sl_cleanup s = None \<and> sl_overflow s = ov \<and> \<not> sl_shown s)"

definition sheet_ok :: "string \<Rightarrow> sheet_life \<Rightarrow> bool" where
  "sheet_ok ov s \<longleftrightarrow> effect_ok ov s \<and> focused s"

lemma effect_ok_update [simp]:
  "effect_ok ov (s\<lparr>sl_active := a\<rparr>) = effect_ok ov s" "effect_ok ov (s\<lparr>sl_page := ks\<rparr>) = effect_ok ov s"
  by (simp_all add: effect_ok_def split: option.split bool.split)

lemma effect_ok_closed:
  "effect_ok ov s \<Longrightarrow> listening (sl_deps s) = [] \<Longrightarrow> sl_cleanup s = None \<and> sl_overflow s = ov \<and> \<not> sl_shown s"
  by (simp add: effect_ok_def listening_def split: option.split_asm prod.split_asm bool.split_asm)

lemma takes_focus_cong:
  "sl_shown s = sl_shown t \<Longrightarrow> sl_items s = sl_items t \<Longrightarrow> sl_page s = sl_page t \<Longrightarrow> takes_focus s e = takes_focus t e"
  by (cases "(s, e)" rule: takes_focus.cases) simp_all

lemma takes_focus_update [simp]:
  "takes_focus (s\<lparr>sl_deps := d\<rparr>) e = takes_focus s e" "takes_focus (s\<lparr>sl_cleanup := c\<rparr>) e = takes_focus s e"
  "takes_focus (s\<lparr>sl_restoreTo := r\<rparr>) e = takes_focus s e" "takes_focus (s\<lparr>sl_active := a\<rparr>) e = takes_focus s e"
  "takes_focus (s\<lparr>sl_overflow := w\<rparr>) e = takes_focus s e" "takes_focus (s\<lparr>sl_keydown := k\<rparr>) e = takes_focus s e"
  by (rule takes_focus_cong; simp)+

lemma focus_on_keeps [simp]:
  "sl_shown (focus_on e s) = sl_shown s" "sl_items (focus_on e s) = sl_items s" "sl_deps (focus_on e s) = sl_deps s"
  "sl_cleanup (focus_on e s) = sl_cleanup s" "sl_restoreTo (focus_on e s) = sl_restoreTo s"
  "sl_overflow (focus_on e s) = sl_overflow s" "sl_keydown (focus_on e s) = sl_keydown s" "sl_page (focus_on e s) = sl_page s"
  "takes_focus (focus_on e s) x = takes_focus s x"
  by (simp_all add: focus_on_def)

lemma drop_focus_keeps [simp]:
  "sl_shown (drop_focus s) = sl_shown s" "sl_items (drop_focus s) = sl_items s" "sl_deps (drop_focus s) = sl_deps s"
  "sl_cleanup (drop_focus s) = sl_cleanup s" "sl_restoreTo (drop_focus s) = sl_restoreTo s"
  "sl_overflow (drop_focus s) = sl_overflow s" "sl_keydown (drop_focus s) = sl_keydown s" "sl_page (drop_focus s) = sl_page s"
  "takes_focus (drop_focus s) x = takes_focus s x"
  by (simp_all add: drop_focus_def)

lemma focused_drop [simp]: "focused (drop_focus s)"
  by (simp add: focused_def drop_focus_def)

lemma focused_on: "focused s \<Longrightarrow> focused (focus_on e s)"
  by (auto simp: focused_def focus_on_def)

lemma focused_update [simp]:
  "focused (s\<lparr>sl_deps := d\<rparr>) = focused s" "focused (s\<lparr>sl_cleanup := c\<rparr>) = focused s"
  "focused (s\<lparr>sl_restoreTo := r\<rparr>) = focused s" "focused (s\<lparr>sl_overflow := w\<rparr>) = focused s"
  "focused (s\<lparr>sl_keydown := k\<rparr>) = focused s"
  by (simp_all add: focused_def)

lemma focused_stop: "focused s \<Longrightarrow> focused (sheet_stop s)"
  by (auto simp: sheet_stop_def Let_def focused_on split: option.splits)

lemma focused_start: "focused s \<Longrightarrow> focused (sheet_start f s)"
  by (simp add: sheet_start_def Let_def focused_on)

lemma focused_effect: "focused s \<Longrightarrow> focused (sheet_effect b f s)"
  by (simp add: sheet_effect_def Let_def focused_stop focused_start)

text \<open>What moving focus leaves alone.\<close>

definition untouched :: "sheet_life \<Rightarrow> sheet_life \<Rightarrow> bool" where
  "untouched s s' \<longleftrightarrow> (\<exists>a. s' = s\<lparr>sl_active := a\<rparr>) \<and> (focused s \<longrightarrow> focused s')"

lemma untouched_refl [intro]: "untouched s s"
  unfolding untouched_def by (auto intro: exI [of _ "sl_active s"])

lemma untouched_trans: "untouched s t \<Longrightarrow> untouched t u \<Longrightarrow> untouched s u"
  unfolding untouched_def by auto

lemma untouched_focus_on: "untouched s (focus_on e s)"
  unfolding untouched_def using focused_on [of s e] by (auto simp: focus_on_def intro: exI [of _ "sl_active s"])

lemma untouched_press: "untouched s (fst (sheet_press k s))"
proof -
  have one: "untouched (fst r) (fst (sheet_hears k l r))" for l r
    by (cases r) (auto simp: sheet_hears_def intro: untouched_focus_on split: key_action.splits)
  have "untouched (fst r) (fst (fold (sheet_hears k) ls r))" for ls r
  proof (induction ls arbitrary: r)
    case (Cons l ls)
    show ?case using untouched_trans [OF one Cons.IH, of r l] by simp
  qed auto
  from this [of "(s, [])"] show ?thesis by (simp add: sheet_press_def)
qed

lemma sheet_ok_untouched: "untouched s s' \<Longrightarrow> sheet_ok ov s \<Longrightarrow> sheet_ok ov s'"
  by (auto simp: untouched_def sheet_ok_def)

lemma sheet_ok_fresh [simp]: "sheet_ok ov (sheet_fresh ov page)"
  by (simp add: sheet_ok_def effect_ok_def sheet_fresh_def focused_def)

lemma sheet_stop_puts_back:
  assumes "sheet_ok ov s"
  shows "sl_keydown (sheet_stop (drop_focus (s\<lparr>sl_shown := b, sl_items := n\<rparr>))) = []"
    and "sl_overflow (sheet_stop (drop_focus (s\<lparr>sl_shown := b, sl_items := n\<rparr>))) = ov"
    and "sl_cleanup (sheet_stop (drop_focus (s\<lparr>sl_shown := b, sl_items := n\<rparr>))) = None"
  using assms by (auto simp: sheet_ok_def effect_ok_def sheet_stop_def listening_def Let_def split: option.splits bool.splits)

lemma sheet_stop_keeps [simp]:
  "sl_shown (sheet_stop s) = sl_shown s" "sl_page (sheet_stop s) = sl_page s" "sl_items (sheet_stop s) = sl_items s"
  "takes_focus (sheet_stop s) e = takes_focus s e"
  by (auto simp: sheet_stop_def Let_def split: option.split)

lemma sheet_commit_deps: "sl_deps (sheet_commit m b f n s) = Some (b, f)"
  by (simp add: sheet_commit_def sheet_effect_def Let_def)

lemma sheet_commit_ok:
  assumes "sheet_ok ov s"
  shows "sheet_ok ov (sheet_commit m b f n s)"
proof (cases "sl_deps s = Some (b, f)")
  case True
  then show ?thesis using assms by (cases b) (auto simp: sheet_ok_def effect_ok_def sheet_commit_def sheet_effect_def)
next
  case False
  let ?d = "drop_focus (s\<lparr>sl_shown := m \<and> b, sl_items := n\<rparr>)"
  have f: "focused (sheet_commit m b f n s)" by (simp add: sheet_commit_def focused_effect)
  show ?thesis
    using False f sheet_stop_puts_back [OF assms, of n "m \<and> b"]
    by (cases b) (auto simp: sheet_ok_def effect_ok_def sheet_commit_def sheet_effect_def sheet_start_def Let_def)
qed

lemma untouched_moves: "untouched s (sheet_step (FocusMoves x) s)"
  using untouched_focus_on [of s x] by (auto simp: untouched_def focused_def)

lemma sheet_step_ok: "sheet_ok ov s \<Longrightarrow> sheet_ok ov (sheet_step e s)"
proof (cases e)
  case Leaves
  assume "sheet_ok ov s"
  from sheet_stop_puts_back [OF this, of "sl_items s" False] show ?thesis
    by (simp add: Leaves sheet_leave_def sheet_ok_def effect_ok_def focused_stop)
next
  case (PageOffers ks)
  assume "sheet_ok ov s"
  then show ?thesis by (simp add: PageOffers sheet_ok_def drop_focus_def focused_def)
next
  case (FocusMoves x)
  assume "sheet_ok ov s"
  then show ?thesis unfolding FocusMoves by (rule sheet_ok_untouched [OF untouched_moves])
qed (simp_all add: sheet_commit_ok sheet_ok_untouched [OF untouched_press])

lemma sheet_step_deps: "sl_deps (sheet_step e s) = (case sheet_says e of None \<Rightarrow> sl_deps s | Some d \<Rightarrow> d)"
proof (cases e)
  case (Presses k)
  then show ?thesis using untouched_press [of s k] by (auto simp: untouched_def)
qed (simp_all add: sheet_commit_deps sheet_leave_def)

interpretation sheet: listening_effect sheet_step sheet_says sl_deps sl_keydown "sheet_ok ov" for ov
proof
  show "sl_deps (sheet_step e s) = (case sheet_says e of None \<Rightarrow> sl_deps s | Some d \<Rightarrow> d)" for e s
    by (rule sheet_step_deps)
  show "sheet_ok ov s \<Longrightarrow> sheet_ok ov (sheet_step e s)" for e s by (rule sheet_step_ok)
qed (simp add: sheet_ok_def effect_ok_def)

lemma fresh_deps [simp]: "sl_deps (sheet_fresh ov page) = None"
  by (simp add: sheet_fresh_def)

lemma escape_calls: "snd (sheet_press Escape s) = sl_keydown s"
proof -
  have "snd (fold (sheet_hears Escape) ls (t, cs)) = cs @ ls" for ls t cs
    by (induction ls arbitrary: t cs) (simp_all add: sheet_hears_def)
  then show ?thesis by (simp add: sheet_press_def)
qed

subsection \<open>An open sheet holds the page, a closed one has put it back\<close>

text \<open>
  C30. After any history of a page with a sheet, of renders, keys, moves of the focus, changes of the
  page and departures: the page scrolls as it did before, and nothing listens to keys, exactly when
  the sheet is closed; an open sheet has one listener, however often it was rendered, and Escape
  calls the close function of its latest render and no other.
\<close>

theorem sheet_puts_back:
  "let s = sheet_run es (sheet_fresh ov page); now = listening (asked sheet_says es None) in
     sl_overflow s = (if now = [] then ov else ''hidden'')
     \<and> sl_keydown s = now \<and> snd (sheet_press Escape s) = now"
proof -
  let ?s = "sheet_run es (sheet_fresh ov page)"
  have "sl_deps ?s = asked sheet_says es None" using sheet.run_deps [of es "sheet_fresh ov page"] by simp
  moreover have "sheet_ok ov ?s" by (rule sheet.run_good) simp
  ultimately show ?thesis
    by (auto simp: Let_def escape_calls sheet_ok_def effect_ok_def listening_def split: option.splits bool.splits)
qed

subsection \<open>Where focus returns\<close>

fun stays_open :: "nat \<Rightarrow> sheet_event \<Rightarrow> bool" where
  "stays_open k (Renders mounted is_open onClose n) = is_open"
| "stays_open k (PageOffers ks) = List.member ks k"
| "stays_open k Leaves = False"
| "stays_open k _ = True"

fun closes :: "sheet_event \<Rightarrow> bool" where
  "closes (Renders mounted is_open onClose n) = (\<not> is_open)"
| "closes Leaves = True"
| "closes _ = False"

text \<open>\<open>opened_from k s\<close>: the sheet is open, and remembers element \<open>k\<close>, which the page still has.\<close>

definition opened_from :: "nat \<Rightarrow> sheet_life \<Rightarrow> bool" where
  "opened_from k s \<longleftrightarrow> (\<exists>ov f. sl_cleanup s = Some (ov, f) \<and> sl_deps s = Some (True, f))
     \<and> sl_restoreTo s = Some (OnPage k) \<and> List.member (sl_page s) k"

lemma opened_from_untouched: "untouched s s' \<Longrightarrow> opened_from k s \<Longrightarrow> opened_from k s'"
  by (auto simp: untouched_def opened_from_def)

lemma opened_from_step:
  assumes "opened_from k s" and "stays_open k e"
  shows "opened_from k (sheet_step e s)"
proof (cases e)
  case (Renders m b f n)
  then show ?thesis using assms
    by (auto simp: opened_from_def sheet_commit_def sheet_effect_def sheet_stop_def sheet_start_def focus_on_def Let_def)
next
  case (FocusMoves x)
  show ?thesis unfolding FocusMoves by (rule opened_from_untouched [OF untouched_moves assms(1)])
next
  case (Presses x)
  then show ?thesis using opened_from_untouched [OF untouched_press assms(1)] by simp
qed (use assms in \<open>auto simp: opened_from_def\<close>)

lemma opened_from_run: "opened_from k s \<Longrightarrow> list_all (stays_open k) es \<Longrightarrow> opened_from k (sheet_run es s)"
  by (induction es arbitrary: s) (simp_all add: opened_from_step)

lemma opened_from_closes:
  assumes "opened_from k s" and "closes e"
  shows "sl_active (sheet_step e s) = OnPage k"
  using assms
  by (cases e) (auto simp: opened_from_def sheet_commit_def sheet_effect_def sheet_leave_def sheet_stop_def focus_on_def Let_def)

lemma sheet_opens:
  assumes "sheet_ok ov s" and "listening (sl_deps s) = []" and "sl_active s = OnPage k"
  shows "opened_from k (sheet_commit m True f n s)"
proof -
  have "takes_focus s (OnPage k)" using assms(1,3) by (simp add: sheet_ok_def focused_def)
  moreover have "sl_cleanup s = None" "sl_deps s \<noteq> Some (True, f)"
    using assms(1,2) effect_ok_closed by (auto simp: sheet_ok_def)
  ultimately show ?thesis using assms(3)
    by (simp add: opened_from_def sheet_commit_def sheet_effect_def sheet_stop_def sheet_start_def drop_focus_def
        focus_on_def Let_def)
qed

text \<open>
  C31. Focus comes back to the element the sheet was opened from, whatever happened in between, as long
  as the page kept that element on offer.
\<close>

theorem focus_returns_to_opener:
  assumes "listening (asked sheet_says before None) = []"
    and "sl_active (sheet_run before (sheet_fresh ov page)) = OnPage k"
    and "list_all (stays_open k) during" and "closes e"
  shows "sl_active (sheet_run (before @ Renders m True f n # during @ [e]) (sheet_fresh ov page)) = OnPage k"
proof -
  let ?b = "sheet_run before (sheet_fresh ov page)"
  have "sheet_ok ov ?b" by (rule sheet.run_good) simp
  moreover have "listening (sl_deps ?b) = []" using assms(1) sheet.run_deps [of before "sheet_fresh ov page"] by simp
  ultimately have "opened_from k (sheet_commit m True f n ?b)" using assms(2) by (rule sheet_opens)
  then show ?thesis using opened_from_closes [OF opened_from_run [OF _ assms(3)] assms(4)] by simp
qed

text \<open>Opened from the second element of a page, tabbed through, rendered anew and left with Escape.\<close>

theorem focus_returns_to_opener_witness:
  "sl_active (sheet_run ([Renders True False 0 0, FocusMoves (OnPage 2)] @ Renders True True 1 3
     # [FocusMoves (InSheet (Item 1)), Renders True True 2 3, Presses (Tab True)] @ [Renders True False 3 0])
     (sheet_fresh ''auto'' [1, 2])) = OnPage 2"
  by (rule focus_returns_to_opener)
    (simp_all add: sheet_fresh_def sheet_commit_def sheet_effect_def sheet_stop_def focus_on_def drop_focus_def
      List.member_iff Let_def)

subsection \<open>A new close function moves focus\<close>

text \<open>
  The elements of a tree that the sheet's \<open>FOCUSABLE\<close> selects: links, and buttons, inputs, selects and
  text areas that are not disabled, and whatever has a tab index other than -1.
\<close>

fun attr_href :: "'e attr \<Rightarrow> bool" where
  "attr_href (Attr k v) \<longleftrightarrow> k = ''href''"
| "attr_href _ \<longleftrightarrow> False"

fun attr_tabindex :: "'e attr \<Rightarrow> bool" where
  "attr_tabindex (Attr k v) \<longleftrightarrow> k = ''tabindex'' \<and> v \<noteq> ''-1''"
| "attr_tabindex _ \<longleftrightarrow> False"

definition selected_by :: "string \<Rightarrow> 'e attr list \<Rightarrow> bool" where
  "selected_by tag as \<longleftrightarrow> tag = ''a'' \<and> list_ex attr_href as \<or> list_ex attr_tabindex as
     \<or> List.member [''button'', ''input'', ''select'', ''textarea''] tag \<and> \<not> list_ex is_disabled as"

fun focusables :: "'e node \<Rightarrow> nat" where
  "focusables (Txt s) = 0"
| "focusables (El tag as ks) = of_bool (selected_by tag as) + sum_list (map focusables ks)"

text \<open>\<open>panelRef\<close> is the second child of a sheet, after its backdrop.\<close>

fun panel_items :: "'e node list \<Rightarrow> nat" where
  "panel_items [El tag as [backdrop, panel]] = focusables panel"
| "panel_items _ = 0"

text \<open>
  The stage sheet is rendered with a function made in the render, so the \<open>i\<close>-th render passes the
  \<open>i\<close>-th function; its controls are those of its panel.
\<close>

definition rail_renders :: "clock \<Rightarrow> nat \<Rightarrow> PipelineStage option \<Rightarrow> sheet_event" where
  "rail_renders ck i selected =
     Renders True (selected \<noteq> None) i (panel_items (StageSheet True ck selected CloseStage))"

lemma selected_plain [simp]:
  "\<not> selected_by ''span'' []" "\<not> selected_by ''div'' []" "\<not> selected_by ''dt'' []" "\<not> selected_by ''dd'' []"
  "\<not> selected_by ''dl'' []" "\<not> selected_by ''p'' []" "\<not> selected_by ''h2'' []" "\<not> selected_by ''header'' []"
  by (simp_all add: selected_by_def)

lemma focusables_Tooltip: "focusables (Tooltip c ks) = sum_list (map focusables ks)"
  by (simp add: Tooltip_def selected_by_def)

text \<open>An absent figure explains itself in a tooltip that takes no focus; a hint is a button.\<close>

lemma focusables_parts [simp]:
  "focusables (EnvelopeValue p env) = 0" "focusables (InfoHint h) = 1" "focusables (icon i) = 0"
  "focusables (para s) = 0" "focusables (Badge tone [Txt s]) = 0"
  "n \<in> set (sample_span env) \<Longrightarrow> focusables n = 0"
  by (auto simp: EnvelopeValue_def Unavailable_def InfoHint_def focusables_Tooltip selected_by_def icon_def
      para_def Badge_def sample_span_def set_some_node Let_def split: option.splits)

lemma focusables_row: "focusables (EnvelopeRow l h e) = of_bool (h \<noteq> None)"
  by (cases h) (simp_all add: EnvelopeRow_def Row_def some_node_def)

lemma stage_sheet_items: "panel_items (StageSheet True ck (Some st) e) = 5"
proof -
  have rows: "sum_list (map focusables (stage_rows ck st)) = 4"
    by (simp add: stage_rows_def Rows_def Row_def focusables_row some_node_def split: option.split)
  show ?thesis
    by (simp add: StageSheet_def Sheet_def some_node_def selected_by_def rows del: map_append)
qed

lemma open_effect:
  assumes "sheet_ok ov s" and "sl_deps s = Some (True, f)" and "takes_focus s (InSheet (Item i))"
    and "sl_active s = InSheet (Item i)" and "i < n"
  shows "sl_active (sheet_commit True True g n s) = (if g = f then InSheet (Item i) else InSheet Panel)"
  using assms by (auto simp: sheet_commit_def sheet_effect_def sheet_start_def drop_focus_def focus_on_def Let_def)

lemma focused_item:
  assumes "i < m"
  shows "takes_focus (focus_on (InSheet (Item i)) (sheet_commit True True f m s)) (InSheet (Item i))"
    and "sl_active (focus_on (InSheet (Item i)) (sheet_commit True True f m s)) = InSheet (Item i)"
  using assms by (simp_all add: focus_on_def sheet_commit_def sheet_effect_def sheet_start_def Let_def)

lemma rerender_step:
  assumes "sheet_ok ov s" and "i < m" and "i < n"
  shows "sl_active (sheet_run [Renders True True f m, FocusMoves (InSheet (Item i)), Renders True True g n] s)
    = (if g = f then InSheet (Item i) else InSheet Panel)"
proof -
  let ?t = "focus_on (InSheet (Item i)) (sheet_commit True True f m s)"
  have "takes_focus ?t (InSheet (Item i))" "sl_active ?t = InSheet (Item i)"
    by (rule focused_item [OF assms(2)])+
  moreover have "sheet_ok ov ?t" "sl_deps ?t = Some (True, f)"
    using assms(1) by (simp_all add: sheet_commit_ok sheet_ok_untouched [OF untouched_focus_on] sheet_commit_deps)
  ultimately show ?thesis using open_effect [of ov ?t f i n g] assms(3) by simp
qed

text \<open>
  C32. A render that passes another close function than the last, and changes nothing else, takes the
  focus off the control of an open sheet that has it and puts it on the panel; with the same function
  focus stays. The stage sheet is the first kind: every new set of figures, which a live page fetches
  by itself, moves focus off whichever of its five controls has it, the button that closes it and the
  four hints beside its figures.
\<close>

theorem rerender_moves_focus:
  assumes "i < m" and "i < n" and "k < 5"
  shows "sl_active (sheet_run (es @ [Renders True True f m, FocusMoves (InSheet (Item i)), Renders True True g n])
      (sheet_fresh ov page)) = (if g = f then InSheet (Item i) else InSheet Panel)
    \<and> panel_items (StageSheet True ck (Some st) CloseStage) = 5
    \<and> sl_active (sheet_run (es @ [rail_renders ck j (Some st), FocusMoves (InSheet (Item k))])
      (sheet_fresh ov page)) = InSheet (Item k)
    \<and> sl_active (sheet_run (es @ [rail_renders ck j (Some st), FocusMoves (InSheet (Item k)), rail_renders ck (Suc j) (Some st')])
      (sheet_fresh ov page)) = InSheet Panel"
proof -
  have ok: "sheet_ok ov (sheet_run es (sheet_fresh ov page))" by (rule sheet.run_good) simp
  have "sl_active (sheet_run [Renders True True j 5, FocusMoves (InSheet (Item k))] (sheet_run es (sheet_fresh ov page)))
      = InSheet (Item k)"
    using focused_item(2) [OF assms(3)] by simp
  with rerender_step [OF ok assms(1,2), of f g] rerender_step [OF ok assms(3,3), of j "Suc j"]
  show ?thesis by (simp add: rail_renders_def stage_sheet_items)
qed

theorem rerender_moves_focus_witness:
  "sl_active (sheet_run ([] @ [Renders True True 5 4, FocusMoves (InSheet (Item 2)), Renders True True 6 4])
      (sheet_fresh ''auto'' [1])) = InSheet Panel"
  using rerender_moves_focus [of 2 4 4 4 "[]" 5 6 "''auto''" "[1]"] by simp

text \<open>
  The element to return to is remembered anew as well: if the page withdrew the opener for a moment
  (a button that is disabled while something is pending), a render in that moment forgets it for
  good, and closing leaves focus nowhere, where the same function would have returned it.
\<close>

theorem rerender_forgets_opener:
  "sl_active (sheet_run [Renders True False e 0, FocusMoves (OnPage k), Renders True True f 1, PageOffers [],
      Renders True True g 1, PageOffers [k], Renders True False h 0] (sheet_fresh ov [k]))
    = (if g = f then OnPage k else Body)"
  by (simp add: sheet_fresh_def sheet_commit_def sheet_effect_def sheet_stop_def sheet_start_def focus_on_def
      drop_focus_def List.member_iff)

subsection \<open>Which overlay a key reaches\<close>

text \<open>
  A key passes the document on its way down, where the sheet listens (it asked for the capturing
  phase), then the document and the window on its way up, where the drawer and the assistant listen.
  The sheet stops an Escape it hears. The result lists, for each, the functions that were called.
\<close>

definition drawer_hears :: "sheet_key \<Rightarrow> key_life \<Rightarrow> nat list" where
  "drawer_hears k s = (if k = Escape then kl_listeners s else [])"

definition orb_hears :: "sheet_key \<Rightarrow> key_life \<Rightarrow> nat list" where
  "orb_hears k s = (if k = Escape then kl_listeners s else [])"

definition stopped :: "sheet_key \<Rightarrow> sheet_life \<Rightarrow> bool" where
  "stopped k s \<longleftrightarrow> k = Escape \<and> sl_keydown s \<noteq> []"

definition key_calls :: "sheet_key \<Rightarrow> sheet_life \<Rightarrow> key_life \<Rightarrow> key_life \<Rightarrow> nat list \<times> nat list \<times> nat list" where
  "key_calls k sh drawer orb =
     (let called = snd (sheet_press k sh) in
      if stopped k sh then (called, [], []) else (called, drawer_hears k drawer, orb_hears k orb))"

text \<open>
  Whatever was opened, rendered and closed before, Escape closes the sheet alone when one is open;
  otherwise it closes the drawer and the assistant, each if it is open, both if both are.
\<close>

theorem escape_closes_topmost:
  "key_calls Escape (sheet_run es (sheet_fresh ov page)) (fold drawer_step ds key_fresh) (fold orb_step os key_fresh)
     = (let sheet_now = listening (asked sheet_says es None) in
        (sheet_now,
         if sheet_now = [] then listening (asked Some ds None) else [],
         if sheet_now = [] then listening (asked orb_says os None) else []))"
proof -
  have "kl_listeners (fold drawer_step ds key_fresh) = listening (asked Some ds None)"
    using drawer.run_listeners [of key_fresh ds] by (simp add: key_fresh_def key_ok_def)
  moreover have "kl_listeners (fold orb_step os key_fresh) = listening (asked orb_says os None)"
    using assistant.run_listeners [of key_fresh os] by (simp add: key_fresh_def key_ok_def)
  moreover have "sl_keydown (sheet_run es (sheet_fresh ov page)) = listening (asked sheet_says es None)"
    using sheet.run_listeners [of ov "sheet_fresh ov page" es] by simp
  ultimately show ?thesis
    by (simp add: key_calls_def escape_calls stopped_def drawer_hears_def orb_hears_def Let_def)
qed

subsection \<open>The preference of the rail, shared by every tab\<close>

text \<open>
  The preference is one string in the browser's storage. Each open tab has the listeners of its rails
  (\<open>collapseListeners\<close>) and of the storage event, what each mounted rail shows, and whether a
  storage event is still on its way to it: the browser sends one to every tab but the one that wrote.
\<close>

record rail_tab =
  rt_listeners :: "nat list"
  rt_storage :: "nat list"
  rt_shown :: "nat \<Rightarrow> bool option"
  rt_pending :: bool

record rail_store =
  rs_stored :: "string option"
  rs_tabs :: "nat \<Rightarrow> rail_tab"

definition rail_fresh :: "string option \<Rightarrow> rail_store" where
  "rail_fresh stored = \<lparr>rs_stored = stored,
     rs_tabs = (\<lambda>t. \<lparr>rt_listeners = [], rt_storage = [], rt_shown = (\<lambda>r. None), rt_pending = False\<rparr>)\<rparr>"

text \<open>A listener makes its rail read the store again.\<close>

definition rails_read :: "string option \<Rightarrow> nat list \<Rightarrow> rail_tab \<Rightarrow> rail_tab" where
  "rails_read stored rs tab = tab\<lparr>rt_shown :=
     (\<lambda>r. if List.member rs r then map_option (\<lambda>_. readCollapsed stored) (rt_shown tab r) else rt_shown tab r)\<rparr>"

definition subscribeCollapsed :: "nat \<Rightarrow> rail_tab \<Rightarrow> rail_tab" where
  "subscribeCollapsed r tab = tab\<lparr>
     rt_listeners := (if List.member (rt_listeners tab) r then rt_listeners tab else rt_listeners tab @ [r]),
     rt_storage := (if List.member (rt_storage tab) r then rt_storage tab else rt_storage tab @ [r])\<rparr>"

definition unsubscribeCollapsed :: "nat \<Rightarrow> rail_tab \<Rightarrow> rail_tab" where
  "unsubscribeCollapsed r tab = tab\<lparr>
     rt_listeners := remove1 r (rt_listeners tab), rt_storage := remove1 r (rt_storage tab)\<rparr>"

definition toggleCollapsed :: "nat \<Rightarrow> rail_store \<Rightarrow> rail_store" where
  "toggleCollapsed t s = (let stored = Some (bool_text (\<not> readCollapsed (rs_stored s))) in
     \<lparr>rs_stored = stored,
      rs_tabs = (\<lambda>u. if u = t then rails_read stored (rt_listeners (rs_tabs s u)) (rs_tabs s u)
                     else (rs_tabs s u)\<lparr>rt_pending := True\<rparr>)\<rparr>)"

datatype tab_event = RailMounts nat nat | RailLeaves nat nat | RailToggles nat | StorageArrives nat

fun rail_step :: "tab_event \<Rightarrow> rail_store \<Rightarrow> rail_store" where
  "rail_step (RailMounts t r) s = (let tab = subscribeCollapsed r (rs_tabs s t) in
     s\<lparr>rs_tabs := (rs_tabs s)(t := tab\<lparr>rt_shown := (rt_shown tab)(r := Some (readCollapsed (rs_stored s)))\<rparr>)\<rparr>)"
| "rail_step (RailLeaves t r) s = (let tab = unsubscribeCollapsed r (rs_tabs s t) in
     s\<lparr>rs_tabs := (rs_tabs s)(t := tab\<lparr>rt_shown := (rt_shown tab)(r := None)\<rparr>)\<rparr>)"
| "rail_step (RailToggles t) s = toggleCollapsed t s"
| "rail_step (StorageArrives t) s = s\<lparr>rs_tabs := (rs_tabs s)
     (t := (rails_read (rs_stored s) (rt_storage (rs_tabs s t)) (rs_tabs s t))\<lparr>rt_pending := False\<rparr>)\<rparr>"

fun is_toggle :: "tab_event \<Rightarrow> bool" where
  "is_toggle (RailToggles t) = True"
| "is_toggle _ = False"

text \<open>
  Both sets of listeners of a tab are its mounted rails, and unless an event is on its way to the tab,
  each shows what is stored.
\<close>

definition tab_ok :: "string option \<Rightarrow> rail_tab \<Rightarrow> bool" where
  "tab_ok stored tab \<longleftrightarrow> distinct (rt_listeners tab) \<and> distinct (rt_storage tab)
     \<and> set (rt_listeners tab) = dom (rt_shown tab) \<and> set (rt_storage tab) = dom (rt_shown tab)
     \<and> (\<not> rt_pending tab \<longrightarrow> ran (rt_shown tab) \<subseteq> {readCollapsed stored})"

lemma tab_ok_mount:
  "tab_ok stored tab \<Longrightarrow>
   tab_ok stored ((subscribeCollapsed r tab)\<lparr>rt_shown := (rt_shown (subscribeCollapsed r tab))(r := Some (readCollapsed stored))\<rparr>)"
  by (auto simp: tab_ok_def subscribeCollapsed_def List.member_iff ran_def)

lemma tab_ok_leave:
  "tab_ok stored tab \<Longrightarrow>
   tab_ok stored ((unsubscribeCollapsed r tab)\<lparr>rt_shown := (rt_shown (unsubscribeCollapsed r tab))(r := None)\<rparr>)"
  by (auto simp: tab_ok_def unsubscribeCollapsed_def ran_def)

lemma rails_read_all:
  assumes "tab_ok stored tab" and "set rs = dom (rt_shown tab)"
  shows "rt_shown (rails_read stored' rs tab) r = (if List.member rs r then Some (readCollapsed stored') else None)"
  using assms by (cases "rt_shown tab r") (auto simp: rails_read_def List.member_iff dom_def)

lemma tab_ok_read:
  assumes "tab_ok stored tab" and "set rs = dom (rt_shown tab)"
  shows "tab_ok stored' (rails_read stored' rs tab)" "tab_ok stored' ((rails_read stored' rs tab)\<lparr>rt_pending := False\<rparr>)"
proof -
  have "rt_shown (rails_read stored' rs tab) = (\<lambda>r. if List.member rs r then Some (readCollapsed stored') else None)"
    by (rule ext, rule rails_read_all [OF assms])
  moreover have "rt_listeners (rails_read stored' rs tab) = rt_listeners tab"
    "rt_storage (rails_read stored' rs tab) = rt_storage tab" by (simp_all add: rails_read_def)
  moreover have "dom (\<lambda>r. if List.member rs r then Some (readCollapsed stored') else None) = set rs"
    "ran (\<lambda>r. if List.member rs r then Some (readCollapsed stored') else None) \<subseteq> {readCollapsed stored'}"
    by (auto simp: List.member_iff ran_def split: if_splits)
  ultimately show "tab_ok stored' (rails_read stored' rs tab)"
    "tab_ok stored' ((rails_read stored' rs tab)\<lparr>rt_pending := False\<rparr>)"
    using assms by (simp_all add: tab_ok_def)
qed

lemma tab_ok_pending: "tab_ok stored tab \<Longrightarrow> tab_ok stored' (tab\<lparr>rt_pending := True\<rparr>)"
  by (simp add: tab_ok_def)

definition rails_ok :: "rail_store \<Rightarrow> bool" where
  "rails_ok s \<longleftrightarrow> (\<forall>t. tab_ok (rs_stored s) (rs_tabs s t))"

lemma rails_ok_step: "rails_ok s \<Longrightarrow> rails_ok (rail_step e s)"
proof (cases e)
  case (RailToggles t)
  assume "rails_ok s"
  then have ok: "tab_ok (rs_stored s) (rs_tabs s u)" for u by (simp add: rails_ok_def)
  then have "set (rt_listeners (rs_tabs s t)) = dom (rt_shown (rs_tabs s t))" by (simp add: tab_ok_def)
  from tab_ok_read(1) [OF ok this] tab_ok_pending [OF ok] show ?thesis
    by (simp add: RailToggles rails_ok_def toggleCollapsed_def Let_def)
next
  case (StorageArrives t)
  assume "rails_ok s"
  then have ok: "tab_ok (rs_stored s) (rs_tabs s u)" for u by (simp add: rails_ok_def)
  then have "set (rt_storage (rs_tabs s t)) = dom (rt_shown (rs_tabs s t))" by (simp add: tab_ok_def)
  from tab_ok_read(2) [OF ok this] ok show ?thesis by (simp add: StorageArrives rails_ok_def)
qed (simp_all add: rails_ok_def tab_ok_mount tab_ok_leave Let_def)

lemma rails_ok_run: "rails_ok (fold rail_step es (rail_fresh stored))"
proof -
  have "rails_ok s \<Longrightarrow> rails_ok (fold rail_step es s)" for s
    by (induction es arbitrary: s) (simp_all add: rails_ok_step)
  moreover have "rails_ok (rail_fresh stored)" by (simp add: rails_ok_def rail_fresh_def tab_ok_def)
  ultimately show ?thesis by blast
qed

lemma toggles_count:
  "readCollapsed (rs_stored (fold rail_step es s))
     = (readCollapsed (rs_stored s) \<noteq> odd (length (filter is_toggle es)))"
proof (induction es arbitrary: s)
  case (Cons e es)
  then show ?case
    by (cases e) (auto simp: toggleCollapsed_def Let_def readCollapsed_def bool_text_def)
qed simp

text \<open>
  However many tabs are open and whatever they did in whatever order, the rail is collapsed exactly
  when it was so at first and was toggled an even number of times, in all tabs together, or the
  other way round; and once the storage event has reached a tab, exactly its mounted rails show that.
\<close>

theorem rails_agree:
  "readCollapsed (rs_stored (fold rail_step es (rail_fresh stored)))
     = (readCollapsed stored \<noteq> odd (length (filter is_toggle es)))
   \<and> rt_shown (rs_tabs (fold rail_step (es @ [StorageArrives t]) (rail_fresh stored)) t) r
     = (if List.member (rt_listeners (rs_tabs (fold rail_step es (rail_fresh stored)) t)) r
        then Some (readCollapsed stored \<noteq> odd (length (filter is_toggle es))) else None)"
proof -
  let ?s = "fold rail_step es (rail_fresh stored)"
  have n: "readCollapsed (rs_stored ?s) = (readCollapsed stored \<noteq> odd (length (filter is_toggle es)))"
    using toggles_count [of es "rail_fresh stored"] by (simp add: rail_fresh_def)
  have ok: "tab_ok (rs_stored ?s) (rs_tabs ?s t)" using rails_ok_run [of es stored] by (simp add: rails_ok_def)
  then have "set (rt_storage (rs_tabs ?s t)) = dom (rt_shown (rs_tabs ?s t))"
    "set (rt_listeners (rs_tabs ?s t)) = dom (rt_shown (rs_tabs ?s t))" by (simp_all add: tab_ok_def)
  with rails_read_all [OF ok this(1), of "rs_stored ?s" r] n show ?thesis by (simp add: List.member_iff)
qed

end
