(* ===== verification/EndToEnd.thy ===== *)
theory EndToEnd
  imports Api
begin

text \<open>
  One call of the client, all the way: \<open>request\<close> of \<open>frontend/lib/api.ts\<close> in the browser, the handler
  of \<open>frontend/app/api/credence/[...path]/route.ts\<close> on the server, the backend behind it and back.
  \<open>served_call\<close> composes the two models; \<open>direct_call\<close> is what the composition amounts to: the call
  put to the backend with the bearer of a session, under the path that the client wrote.

  \<open>JSON.stringify\<close> is the parameter \<open>str\<close>; the theorems ask of it that its text is never blank and,
  for the one answer of the run, that \<open>JSON.parse\<close> reads back what it wrote.
\<close>

subsection \<open>The composition\<close>

text \<open>
  The request a same-origin \<open>fetch\<close> of the page makes: a browser sends no \<open>Origin\<close> with a \<open>GET\<close>, and
  the router hands the handler the segments of the path below \<open>/api/credence\<close>, decoded.
\<close>

definition browser_request :: "(json \<Rightarrow> string) \<Rightarrow> string \<Rightarrow> string \<Rightarrow> call \<Rightarrow> http_request" where
  "browser_request str origin host c = \<lparr>q_method = cl_method c, q_path = Some (call_segments c),
     q_search = dropWhile (\<lambda>x. x \<noteq> CHR ''?'') (cl_path c),
     q_origin = (if cl_method c = ''GET'' then None else Some origin), q_host = Some host,
     q_content_type = map_of (cl_headers c) ''Content-Type'',
     q_body = (case cl_json c of None \<Rightarrow> [] | Some j \<Rightarrow> str j)\<rparr>"

fun wire_text :: "(json \<Rightarrow> string) \<Rightarrow> body \<Rightarrow> string" where
  "wire_text str NoBody = []"
| "wire_text str (JsonBody v) = str v"
| "wire_text str (StreamBody s) = s"

definition served_call :: "'w services \<Rightarrow> (json \<Rightarrow> string) \<Rightarrow> string \<Rightarrow> string \<Rightarrow> call \<Rightarrow> 'w edge
    \<Rightarrow> (ApiError + json) \<times> 'w edge" where
  "served_call sv str origin host c st =
     (let (r, st') = proxy sv (browser_request str origin host c) st in
      (request (sv_parse sv) (FetchAnswer (rs_status r) (wire_text str (rs_body r))), st'))"

subsection \<open>What it amounts to\<close>

text \<open>
  What a page makes of the answer of the backend; of one whose text could not be read it gets the
  fixed sentence for any failure.
\<close>

definition answer_outcome :: "int \<Rightarrow> json \<Rightarrow> ApiError + json" where
  "answer_outcome status v = (if status_ok status then Inr v else Inl (toApiError status v))"

definition unreadable_answer :: ApiError where
  "unreadable_answer = \<lparr>ae_status = 500, ae_code = ''REQUEST_FAILED'',
     ae_detail = ''Something went wrong while loading this.''\<rparr>"

definition api_answer :: "'w services \<Rightarrow> upstream_response \<Rightarrow> ApiError + json" where
  "api_answer sv up =
     (if starts_with (case up_content_type up of None \<Rightarrow> [] | Some t \<Rightarrow> t) ''audio/''
      then answer_outcome (up_status up) (parsed_body (sv_parse sv) (up_text up))
      else if \<not> sv_text_read sv up then Inl unreadable_answer
      else if up_text up = [] then answer_outcome (up_status up) JNull
      else case sv_parse sv (up_text up) of
          None \<Rightarrow> Inl \<lparr>ae_status = 502, ae_code = ''UPSTREAM_UNREADABLE'',
            ae_detail = ''The CredenceAI service returned an unreadable response.''\<rparr>
        | Some v \<Rightarrow> answer_outcome (up_status up) (stringify_value (redact v)))"

fun session_fault :: "session_error \<Rightarrow> ApiError" where
  "session_fault (SessionError m) = \<lparr>ae_status = 503, ae_code = ''WORKSPACE_UNAVAILABLE'', ae_detail =
     ''Your sandbox workspace could not be prepared. The CredenceAI service may still be starting.''\<rparr>"
| "session_fault OtherError = \<lparr>ae_status = 503, ae_code = ''SERVICE_UNAVAILABLE'',
     ae_detail = ''The CredenceAI service is not reachable.''\<rparr>"

definition direct_call :: "'w services \<Rightarrow> (json \<Rightarrow> string) \<Rightarrow> string \<Rightarrow> string \<Rightarrow> call \<Rightarrow> 'w edge
    \<Rightarrow> (ApiError + json) \<times> 'w edge" where
  "direct_call sv str origin host c st =
     (case resolveSession sv st of
        (Inl e, st1) \<Rightarrow> (Inl (session_fault e), st1)
      | (Inr session, st1) \<Rightarrow>
          (case exchange sv (browser_request str origin host c) (call_segments c) session st1 of
             (Inl e, st2) \<Rightarrow> (Inl (session_fault e), st2)
           | (Inr upstream, st2) \<Rightarrow> (api_answer sv upstream, st2)))"

text \<open>
  The request the backend gets: the method, path, query and body of the call, and a bearer. The path
  is read the way \<open>fetch\<close> reads its target; encoding its segments gives the ones the client wrote.
\<close>

definition carries :: "'w services \<Rightarrow> (json \<Rightarrow> string) \<Rightarrow> call \<Rightarrow> upstream_request \<Rightarrow> bool" where
  "carries sv str c u \<longleftrightarrow> (\<exists>rest. u_url u = backendBase (sv_env sv) @ ''/'' @ rest
        \<and> map encodeURIComponent (routed_path rest) = raw_segments c
        \<and> dropWhile (\<lambda>x. x \<noteq> CHR ''?'') rest = dropWhile (\<lambda>x. x \<noteq> CHR ''?'') (cl_path c))
     \<and> u_method u = cl_method c \<and> u_body u = map_option str (cl_json c)
     \<and> (\<exists>tok. map_of (u_headers u) ''Authorization'' = Some (''Bearer '' @ tok))"

subsection \<open>The request\<close>

lemma endpoint_shape:
  "endpoint_call c \<Longrightarrow> cl_method c = ''GET'' \<and> cl_json c = None \<or> cl_method c = ''POST''"
  by (induction rule: endpoint_call.induct) (simp_all add: endpoint_defs get_def post_def)

text \<open>The query of a call is empty or a question mark and text without spaces.\<close>

definition visible_query :: "string \<Rightarrow> bool" where
  "visible_query s \<longleftrightarrow> (s = [] \<or> hd s = CHR ''?'') \<and> list_all (\<lambda>c. 32 < (of_char c :: nat)) s"

lemma form_visible: "c \<in> set (form_encode s) \<Longrightarrow> 32 < (of_char c :: nat)"
proof -
  have byte: "32 < (of_char x :: nat)" if "x \<in> set (percent_byte b)" "b < 256" for x b
  proof -
    have "b div 16 < 16" "b mod 16 < 16" using that(2) by simp_all
    then have "is_alnum (hex_digit (b div 16))" "is_alnum (hex_digit (b mod 16))"
      by (simp_all add: hex_digit_alnum)
    then show ?thesis using that(1) by (auto simp: percent_byte_def is_alnum_def Let_def)
  qed
  have "32 < (of_char x :: nat)" if "x \<in> set (form_char d)" for x d
    using that byte utf8_bytes [OF code_point_bound]
    by (auto simp: form_char_def is_alnum_def Let_def split: if_splits)
  then show "c \<in> set (form_encode s) \<Longrightarrow> 32 < (of_char c :: nat)"
    by (auto simp: form_encode_def)
qed

lemma qs_visible: "visible_query (qs ps)"
proof -
  have "32 < (of_char c :: nat)" if "c \<in> set (search_string kvs)" for c kvs
  proof -
    have "c = CHR ''&'' \<or> c = CHR ''='' \<or> (\<exists>s. c \<in> set (form_encode s))"
      using that set_join [of "''&''" "map (\<lambda>(k, v). form_encode k @ ''='' @ form_encode v) kvs"]
      by (auto simp: search_string_def)
    then show ?thesis using form_visible by auto
  qed
  then show ?thesis by (auto simp: visible_query_def qs_def Let_def list_all_iff)
qed

lemma dropWhile_encoded [simp]:
  "dropWhile (\<lambda>x. x \<noteq> CHR ''?'') (encodeURIComponent i @ s) = dropWhile (\<lambda>x. x \<noteq> CHR ''?'') s"
  "dropWhile (\<lambda>x. x \<noteq> CHR ''?'') (encodeURIComponent i) = []"
proof -
  have "x \<noteq> CHR ''?''" if "x \<in> set (encodeURIComponent i)" for x
    using encoded_safe [OF that] by (simp add: plain_char_def)
  then show "dropWhile (\<lambda>x. x \<noteq> CHR ''?'') (encodeURIComponent i @ s) = dropWhile (\<lambda>x. x \<noteq> CHR ''?'') s"
    "dropWhile (\<lambda>x. x \<noteq> CHR ''?'') (encodeURIComponent i) = []"
    by (simp_all add: dropWhile_append2 dropWhile_eq_Nil_conv)
qed

lemma dropWhile_qs [simp]: "dropWhile (\<lambda>x. x \<noteq> CHR ''?'') (qs ps) = qs ps"
  by (simp add: qs_def Let_def)

lemma scenario_unmarked [simp]: "dropWhile (\<lambda>x. x \<noteq> CHR ''?'') (scenario_text s) = []"
  by (cases s) simp_all

lemma endpoint_query:
  "endpoint_call c \<Longrightarrow> visible_query (dropWhile (\<lambda>x. x \<noteq> CHR ''?'') (cl_path c))"
  by (induction rule: endpoint_call.induct)
    (simp_all add: endpoint_defs get_def post_def qs_visible, simp_all add: visible_query_def)

lemma call_path:
  assumes "endpoint_call c"
  defines "s \<equiv> dropWhile (\<lambda>x. x \<noteq> CHR ''?'') (cl_path c)"
  shows "routed_path (join ''/'' (call_segments c) @ s) = call_segments c"
    and "dropWhile (\<lambda>x. x \<noteq> CHR ''?'') (join ''/'' (call_segments c) @ s) = s"
proof -
  have plain: "list_all plain_segment (call_segments c)" and ne: "call_segments c \<noteq> []"
    using endpoint_served [OF assms(1)] by (auto simp: served_path_def seg_def)
  have s: "visible_query s" unfolding s_def by (rule endpoint_query [OF assms(1)])
  then show "routed_path (join ''/'' (call_segments c) @ s) = call_segments c"
    by (intro routed_mark plain ne) (auto simp: visible_query_def)
  have "dropWhile (\<lambda>x. x \<noteq> CHR ''?'') (join ''/'' (call_segments c) @ s) = dropWhile (\<lambda>x. x \<noteq> CHR ''?'') s"
    using join_visible(2) [OF plain] by (intro dropWhile_append2) blast
  then show "dropWhile (\<lambda>x. x \<noteq> CHR ''?'') (join ''/'' (call_segments c) @ s) = s"
    using s by (cases s) (auto simp: visible_query_def)
qed

lemma upstream_carries:
  assumes "endpoint_call c" and "\<And>j. str j \<noteq> []"
  shows "carries sv str c (upstream_of sv (browser_request str origin host c) (call_segments c) tok)"
proof -
  have "List.member MUTATING_METHODS ''POST''" "\<not> List.member MUTATING_METHODS ''GET''" by code_simp+
  then show ?thesis
    using endpoint_shape [OF assms(1)] assms(2) call_path [OF assms(1)] endpoint_encoded [OF assms(1)]
    by (auto simp: carries_def upstream_of_def browser_request_def Let_def split: option.splits)
qed

lemma same_site:
  assumes "sv_url_host sv origin = Some host"
  shows "\<not> isCrossSite sv (browser_request str origin host c)"
  using assms by (simp add: isCrossSite_def browser_request_def)

subsection \<open>The answer\<close>

lemma request_answer:
  "request parse (FetchAnswer status txt) = answer_outcome status (parsed_body parse txt)"
  by (simp add: answer_outcome_def Let_def)

lemma wire_problem:
  assumes "\<And>v. rs_body (problem code detail status) = JsonBody v \<Longrightarrow> parse (str v) = Some (stringify_value v) \<and> str v \<noteq> []"
    and "\<not> status_ok status"
  shows "request parse (FetchAnswer (rs_status (problem code detail status)) (wire_text str (rs_body (problem code detail status))))
    = Inl \<lparr>ae_status = status, ae_code = code, ae_detail = detail\<rparr>"
  using assms by (simp add: problem_def parsed_body_def toApiError_def Let_def)

lemma wire_relay:
  assumes "\<And>v. rs_body (relay sv up) = JsonBody v \<Longrightarrow> sv_parse sv (str v) = Some (stringify_value v) \<and> str v \<noteq> []"
  shows "request (sv_parse sv) (FetchAnswer (rs_status (relay sv up)) (wire_text str (rs_body (relay sv up)))) = api_answer sv up"
proof -
  let ?audio = "starts_with (case up_content_type up of None \<Rightarrow> [] | Some t \<Rightarrow> t) ''audio/''"
  consider (kept) "?audio \<or> sv_text_read sv up \<and> (up_text up = [] \<or> sv_parse sv (up_text up) \<noteq> None)"
    | (unread) "\<not> ?audio" "\<not> sv_text_read sv up"
    | (unparsed) "\<not> ?audio" "sv_text_read sv up" "up_text up \<noteq> []" "sv_parse sv (up_text up) = None"
    by blast
  then show ?thesis
  proof cases
    case kept
    then show ?thesis
      using assms by (auto simp: relay_def api_answer_def answer_outcome_def parsed_body_def Let_def)
  next
    case unread
    then have "relay sv up = server_fault" "api_answer sv up = Inl unreadable_answer"
      by (simp_all add: relay_def api_answer_def Let_def)
    then show ?thesis
      by (simp add: server_fault_def unreadable_answer_def toApiError_def status_ok_def parsed_body_def Let_def)
  next
    case unparsed
    then have "relay sv up = problem ''UPSTREAM_UNREADABLE'' ''The CredenceAI service returned an unreadable response.'' 502"
      by (simp add: relay_def Let_def)
    then show ?thesis using assms unparsed wire_problem [of _ _ 502 "sv_parse sv" str]
      by (simp add: api_answer_def status_ok_def)
  qed
qed

lemma wire_session_problem:
  assumes "\<And>v. rs_body (session_problem e) = JsonBody v \<Longrightarrow> sv_parse sv (str v) = Some (stringify_value v) \<and> str v \<noteq> []"
  shows "request (sv_parse sv) (FetchAnswer (rs_status (session_problem e)) (wire_text str (rs_body (session_problem e))))
    = Inl (session_fault e)"
  using assms wire_problem [of _ _ 503 "sv_parse sv" str]
  by (cases e) (simp_all add: session_problem_def status_ok_def)

text \<open>The call passes the gate, and the handler's outcome on the wire is the direct one.\<close>

lemma served_direct:
  assumes c: "endpoint_call c" "sv_url_host sv origin = Some host" "demoToken (sv_env sv) \<noteq> []"
    and read: "\<not> body_lost sv (browser_request str origin host c)"
    and str: "\<And>j. str j \<noteq> []"
    and parse: "\<And>v. rs_body (fst (proxy sv (browser_request str origin host c) st)) = JsonBody v \<Longrightarrow>
      sv_parse sv (str v) = Some (stringify_value v)"
  shows "served_call sv str origin host c st = direct_call sv str origin host c st"
proof -
  let ?q = "browser_request str origin host c"
  have gate: "gate sv ?q (call_segments c) = None"
    using served_gate [OF endpoint_served [OF c(1)] same_site [OF c(2)] c(3)] .
  have path: "q_path ?q = Some (call_segments c)" by (simp add: browser_request_def)
  note run = proxy_gated [OF read path gate]
  obtain o1 st1 where r1: "resolveSession sv st = (o1, st1)" by fastforce
  show ?thesis
  proof (cases o1)
    case (Inl e)
    then have p: "proxy sv ?q st = (session_problem e, st1)" using r1 by (simp add: run)
    then show ?thesis
      using wire_session_problem [of e sv str] parse str r1 Inl by (simp add: served_call_def direct_call_def)
  next
    case (Inr ses)
    obtain o2 st2 where e: "exchange sv ?q (call_segments c) ses st1 = (o2, st2)" by fastforce
    show ?thesis
    proof (cases o2)
      case (Inl f)
      then have "proxy sv ?q st = (session_problem f, st2)" using r1 Inr e by (simp add: run)
      then show ?thesis
        using wire_session_problem [of f sv str] parse str r1 Inr e Inl by (simp add: served_call_def direct_call_def)
    next
      case (Inr up)
      then have "proxy sv ?q st = (relay sv up, st2)" using r1 \<open>o1 = Inr ses\<close> e by (simp add: run)
      then show ?thesis
        using wire_relay [of sv up str] parse str r1 \<open>o1 = Inr ses\<close> e Inr by (simp add: served_call_def direct_call_def)
    qed
  qed
qed

lemma api_answer_ok: "api_answer sv up = Inr j \<Longrightarrow> status_ok (up_status up)"
  by (auto simp: api_answer_def answer_outcome_def split: if_splits option.splits)

lemma direct_sends:
  assumes "endpoint_call c" and "\<And>j. str j \<noteq> []" and "direct_call sv str origin host c st = (r, st')"
  shows "\<exists>us. sent st' = sent st @ us \<and> length us \<le> 2 \<and> list_all (carries sv str c) us"
proof -
  note carry = upstream_carries [of c str sv origin host, OF assms(1,2)]
  obtain o1 st1 where r1: "resolveSession sv st = (o1, st1)" by fastforce
  have s1: "sent st1 = sent st" using resolve_sent [OF r1] .
  show ?thesis
  proof (cases o1)
    case (Inl e)
    then show ?thesis using assms(3) r1 s1 by (auto simp: direct_call_def intro: exI [of _ "[]"])
  next
    case (Inr ses)
    obtain o2 st2 where e: "exchange sv (browser_request str origin host c) (call_segments c) ses st1 = (o2, st2)" by fastforce
    have "st' = st2" using assms(3) r1 Inr e by (auto simp: direct_call_def split: sum.splits)
    then show ?thesis using exchange_sends [OF e] s1 carry by (auto simp: exchange_log_def)
  qed
qed

lemma secret_free_stringify: "secret_free v \<Longrightarrow> secret_free (stringify_value v)"
proof (induction v rule: stringify_value.induct)
  case (3 kvs)
  have "secret_key k \<Longrightarrow> is_nullish (stringify_value v) \<or> stringify_value v = JStr REDACTED"
    "\<not> secret_key k \<Longrightarrow> secret_free (stringify_value v)" if "(k, v) \<in> set kvs" "v \<noteq> JUndef" for k v
    using "3.prems" "3.IH" that by (auto simp: list_all_iff is_nullish_def split: if_splits)
  then show ?case by (auto simp: list_all_iff)
qed (auto simp: list_all_iff)

subsection \<open>Properties\<close>

text \<open>
  C4. A call of the client is a call of the backend: for every endpoint and plain identifier, on a page
  of the site itself with the demo surface on, unless reading the body of the request fails, what
  the page gets through the proxy is the outcome of putting the call to the backend directly with the
  bearer of a session, with the answer redacted; at most two requests are sent for it, and each
  carries the method, path, query and body that the page wrote, and a bearer. (What becomes of other
  identifiers is \<open>escaped_ids_lost\<close>.)
\<close>

theorem call_reaches_backend:
  assumes "endpoint_call c" and "sv_url_host sv origin = Some host" and "demoToken (sv_env sv) \<noteq> []"
    and "\<not> body_lost sv (browser_request str origin host c)" and "\<And>j. str j \<noteq> []"
    and "\<And>v. rs_body (fst (proxy sv (browser_request str origin host c) st)) = JsonBody v \<Longrightarrow>
      sv_parse sv (str v) = Some (stringify_value v)"
    and "served_call sv str origin host c st = (r, st')"
  shows "direct_call sv str origin host c st = (r, st')
    \<and> (\<exists>us. sent st' = sent st @ us \<and> length us \<le> 2 \<and> list_all (carries sv str c) us)"
  using served_direct [of c sv origin host str st] direct_sends [of c str sv origin host st r st'] assms by simp

text \<open>
  C5. Success is the backend's word: when a page is told that a call with a plain identifier succeeded,
  the last request that was sent carried this call and the backend answered it with a success status.
\<close>

theorem success_was_answered:
  assumes "endpoint_call c" and "sv_url_host sv origin = Some host" and "demoToken (sv_env sv) \<noteq> []"
    and "\<not> body_lost sv (browser_request str origin host c)" and "\<And>j. str j \<noteq> []"
    and "\<And>v. rs_body (fst (proxy sv (browser_request str origin host c) st)) = JsonBody v \<Longrightarrow>
      sv_parse sv (str v) = Some (stringify_value v)"
    and "served_call sv str origin host c st = (Inr j, st')"
  shows "\<exists>w up. sent st' \<noteq> [] \<and> carries sv str c (last (sent st'))
    \<and> fst (sv_fetch sv w (last (sent st'))) = Some up \<and> status_ok (up_status up) \<and> api_answer sv up = Inr j"
proof -
  have "direct_call sv str origin host c st = (Inr j, st')"
    using served_direct [of c sv origin host str st] assms by simp
  then obtain ses st1 up where
    e: "exchange sv (browser_request str origin host c) (call_segments c) ses st1 = (Inr up, st')"
    and j: "api_answer sv up = Inr j"
    by (auto simp: direct_call_def split: prod.splits sum.splits)
  from exchange_answer [OF e] obtain w tok where "sent st' \<noteq> []"
    "last (sent st') = upstream_of sv (browser_request str origin host c) (call_segments c) tok"
    "fst (sv_fetch sv w (last (sent st'))) = Some up" by auto
  then show ?thesis using upstream_carries [of c str sv origin host tok] assms(1,5) api_answer_ok [OF j] j by auto
qed

text \<open>
  C6. No page holds a credential: whatever the backend answers to whatever call, the data a page gets has
  nothing but the marker under a secret key at any depth, unless the backend declared its answer
  audio, which is passed on unread.
\<close>

theorem no_credential_reaches_page:
  assumes "\<And>v. rs_body (fst (proxy sv (browser_request str origin host c) st)) = JsonBody v \<Longrightarrow>
      sv_parse sv (str v) = Some (stringify_value v)"
    and "served_call sv str origin host c st = (Inr j, st')"
  shows "secret_free j \<or> (\<exists>s ty. rs_body (fst (proxy sv (browser_request str origin host c) st)) = StreamBody s
    \<and> rs_content_type (fst (proxy sv (browser_request str origin host c) st)) = Some ty \<and> starts_with ty ''audio/'')"
proof -
  let ?r = "fst (proxy sv (browser_request str origin host c) st)"
  have j: "answer_outcome (rs_status ?r) (parsed_body (sv_parse sv) (wire_text str (rs_body ?r))) = Inr j"
    using assms(2) unfolding served_call_def request_answer by (simp add: split_beta)
  note safe = proxy_secret_free [of sv "browser_request str origin host c" st]
  show ?thesis
  proof (cases "rs_body ?r")
    case NoBody
    then have "j = JNull" using j by (auto simp: answer_outcome_def parsed_body_def split: if_splits)
    then show ?thesis by simp
  next
    case (JsonBody v)
    then have "secret_free v" using safe by simp
    moreover have "j = JNull \<or> j = stringify_value v"
      using j JsonBody assms(1) [OF JsonBody] by (auto simp: answer_outcome_def parsed_body_def split: if_splits)
    ultimately show ?thesis using secret_free_stringify by auto
  next
    case (StreamBody s)
    then show ?thesis using safe by auto
  qed
qed

text \<open>A freeze sent with a dead cookie: repeated with a fresh bearer, then answered.\<close>

definition run_str :: "json \<Rightarrow> string" where
  "run_str v = ''{}''"

definition run_call :: call where
  "run_call = freezeVault ''v:1'' ''theft''"

lemma run_call_facts:
  "endpoint_call run_call" "sv_url_host run_services ''https://app'' = Some ''app''"
  "demoToken (sv_env run_services) \<noteq> []" "\<not> body_lost run_services q" "run_str j \<noteq> []"
proof -
  have "plain_id ''v:1''" by code_simp
  then show "endpoint_call run_call" unfolding run_call_def by (rule endpoint_call.intros)
qed (simp_all add: run_services_def demoToken_def run_str_def body_lost_def)

lemma run_call_gate: "gate run_services (browser_request run_str ''https://app'' ''app'' run_call) (call_segments run_call) = None"
  using served_gate [OF endpoint_served [OF run_call_facts(1)] same_site [OF run_call_facts(2)] run_call_facts(3)] .

lemma run_call_answer:
  "fst (proxy run_services (browser_request run_str ''https://app'' ''app'' run_call) run_edge)
     = relay run_services \<lparr>up_status = 200, up_content_type = Some ''application/json'', up_text = ''{}''\<rparr>"
proof -
  have "q_path (browser_request run_str ''https://app'' ''app'' run_call) = Some (call_segments run_call)"
    by (simp add: browser_request_def)
  then show ?thesis
    by (simp add: proxy_gated [OF run_read _ run_call_gate] resolveSession_def exchange_def send_def drop_session_def Let_def)
qed

lemma run_call_parses:
  "rs_body (fst (proxy run_services (browser_request run_str ''https://app'' ''app'' run_call) run_edge)) = JsonBody v \<Longrightarrow>
     sv_parse run_services (run_str v) = Some (stringify_value v)"
  unfolding run_call_answer by (auto simp: relay_def run_services_def starts_with_def run_str_def)

lemma run_call_served:
  "\<exists>st'. served_call run_services run_str ''https://app'' ''app'' run_call run_edge = (Inr (JObj []), st')"
  using run_call_answer
  by (auto simp: served_call_def relay_def run_services_def starts_with_def run_str_def status_ok_def parsed_body_def
      Let_def split: prod.splits)

theorem call_reaches_backend_witness:
  "\<exists>st'. direct_call run_services run_str ''https://app'' ''app'' run_call run_edge = (Inr (JObj []), st')
     \<and> (\<exists>us. sent st' = us \<and> length us \<le> 2 \<and> list_all (carries run_services run_str run_call) us)"
proof -
  obtain st' where s: "served_call run_services run_str ''https://app'' ''app'' run_call run_edge = (Inr (JObj []), st')"
    using run_call_served by blast
  show ?thesis using call_reaches_backend [OF run_call_facts _ s] run_call_parses by (intro exI [of _ st']) simp
qed

theorem success_was_answered_witness:
  "\<exists>st' up. served_call run_services run_str ''https://app'' ''app'' run_call run_edge = (Inr (JObj []), st')
     \<and> sent st' \<noteq> [] \<and> carries run_services run_str run_call (last (sent st'))
     \<and> status_ok (up_status (up :: upstream_response))"
proof -
  obtain st' where s: "served_call run_services run_str ''https://app'' ''app'' run_call run_edge = (Inr (JObj []), st')"
    using run_call_served by blast
  have "\<exists>w up. sent st' \<noteq> [] \<and> carries run_services run_str run_call (last (sent st'))
      \<and> fst (sv_fetch run_services w (last (sent st'))) = Some up \<and> status_ok (up_status up)
      \<and> api_answer run_services up = Inr (JObj [])"
    by (rule success_was_answered [OF run_call_facts _ s]) (rule run_call_parses)
  with s show ?thesis by blast
qed

theorem no_credential_reaches_page_witness:
  "\<exists>j st'. served_call run_services run_str ''https://app'' ''app'' run_call run_edge = (Inr j, st') \<and> secret_free j"
proof -
  obtain st' where s: "served_call run_services run_str ''https://app'' ''app'' run_call run_edge = (Inr (JObj []), st')"
    using run_call_served by blast
  have "secret_free (JObj [])"
    using no_credential_reaches_page [OF _ s] run_call_parses by simp
  with s show ?thesis by blast
qed

end
