(* ===== verification/Spec2Isabelle.thy ===== *)
theory Spec2Isabelle
  imports Format Types Onboarding Backend Session SessionProgress Proxy Uri Api Queries Nav Orb View Ui Data Forms
    NewApplication RegisterAgent Review Repayment Telemetry Widgets Intelligence Pages Dashboard ListPages
    Ledgers VaultPage Journeys Shell Details ApplicationPage
    OrbChat Workspace SiteText Landing Lifecycle EndToEnd
begin

text \<open>
  A verification development for the CredenceAI front end (\<open>frontend/\<close>): a Next.js application that
  lends to software agents in a sandbox. A browser page calls the front end's own server under
  \<open>/api/credence\<close>; the proxy there checks the path, finds or mints a sandbox session, calls the
  Python service behind it and redacts what comes back. Pages read through query hooks with a
  cache and write through a few forms.

  \<^bold>\<open>Foundations.\<close> \<open>Prelude\<close>: strings as the code handles them (\<open>trim\<close>, \<open>split\<close>, case, decimal
  digits); characters outside ASCII have fixed code points there. \<open>JsNumber\<close>: binary64 numbers as
  integers, dyadic rationals and the special values, with rounding, \<open>Number.parseFloat\<close>, \<open>toFixed\<close>, shortest
  printing and Indian grouping. \<open>Json\<close>: parsed JSON. \<open>View\<close>: what a component renders, as a tree with
  the events a user can cause; \<open>events\<close> is what a view offers.

  \<^bold>\<open>The data path.\<close> \<open>Format\<close> is \<open>lib/format.ts\<close>, \<open>Types\<close> is \<open>lib/types.ts\<close>, \<open>Onboarding\<close> is
  \<open>lib/onboarding.ts\<close> with \<open>runSteps\<close>, \<open>Backend\<close> is \<open>lib/server/backend.ts\<close> with \<open>redact\<close>, \<open>Session\<close> and
  \<open>SessionProgress\<close> are \<open>lib/server/session.ts\<close> cut at its \<open>await\<close>s and run by many requests at once,
  \<open>Proxy\<close> is \<open>app/api/credence/[...path]/route.ts\<close>, \<open>Uri\<close> and \<open>Api\<close> are \<open>lib/api.ts\<close> and the URI coding it
  relies on, with the router's decoding of the segments between client and proxy (\<open>call_segments\<close>),
  \<open>EndToEnd\<close> composes client, proxy and backend into one call, \<open>Queries\<close> is
  \<open>lib/queries.ts\<close> and \<open>lib/providers.tsx\<close>, \<open>Orb\<close> is \<open>lib/orb-knowledge.ts\<close> with
  \<open>app/api/orb/route.ts\<close>.

  \<^bold>\<open>Components.\<close> \<open>Ui\<close>, \<open>Data\<close> and \<open>Widgets\<close> are \<open>components/ui\<close>, \<open>components/data\<close>,
  \<open>vaults/waterfall.tsx\<close> and \<open>charts/exposure-chart.tsx\<close>; \<open>Telemetry\<close> is \<open>components/system-intelligence\<close>;
  \<open>Nav\<close> and \<open>Shell\<close> are \<open>components/shell\<close>; \<open>OrbChat\<close> is \<open>components/orb.tsx\<close>, composed with the
  route of \<open>Orb\<close> into conversations; \<open>Lifecycle\<close> is what overlays do to the document while open (the
  effect of \<open>ui/sheet.tsx\<close>, the key listeners of drawer and assistant, through the contract
  \<open>listening_effect\<close>) and the preference of the rail over several tabs; \<open>SiteText\<close> and \<open>Landing\<close>
  are the public page, \<open>app/page.tsx\<close>.

  \<^bold>\<open>Forms.\<close> \<open>Forms\<close> holds the life of a form that submits (\<open>form_run\<close>) and the contract
  \<open>submitting_form\<close>: at most one submission in flight. It is interpreted on \<open>NewApplication\<close>,
  \<open>RegisterAgent\<close>, \<open>Review\<close> (human decision, running and funding), \<open>Repayment\<close>, \<open>Journeys\<close>
  (\<open>judge-demo\<close>), \<open>OrbChat\<close> and the inspector of \<open>Workspace\<close>, each the component of that name.

  \<^bold>\<open>Pages.\<close> \<open>Pages\<close> holds the contract \<open>reading_page\<close>: every call an event makes is a refetch of one
  of the page's hooks, hence a read. \<open>Dashboard\<close>, \<open>ListPages\<close>, \<open>Ledgers\<close>, \<open>Details\<close> and \<open>Workspace\<close> interpret it on the
  pages under \<open>app/(product)\<close> that only report; \<open>VaultPage\<close> and \<open>ApplicationPage\<close> are the two pages that
  mount writing panels, \<open>Intelligence\<close> the telemetry page, \<open>Journeys\<close> the guided ones.

  \<^bold>\<open>What is shown.\<close> Money: round trips and exact text of amounts through binary64, exact totals
  within the safe integers. The proxy: what reaches the service, what comes back, how often, with
  which bearer; and which identifiers survive the encoding and decoding on the way (\<open>plain_id\<close>), and
  which do not. Sessions: isolation and coalescing in every interleaving, and that every request is
  served. Calls end to end: a page gets the outcome of the call it wrote, success is the backend's,
  and no credential. Submissions: they refine a fixed sequence of calls for the record that the
  backend's first answer names, and report it truthfully. Forms and pages: what is offered in each state, at most one write of a kind in flight, retries possible,
  reporting pages never write. Overlays: scrolling, focus and key listeners are put back, and in
  what case focus is not. Rendering: absent figures never look like figures, labels of origin
  are truthful, filters partition, breadcrumbs name the record, links resolve. Some theorems state a defect as it
  is, as the exact case in which a promise fails.

  \<^bold>\<open>Parameters.\<close> What is not under the repository is an argument: the service behind the API
  (\<open>api\<close>, \<open>'w\<close>), \<open>JSON.parse\<close> and \<open>JSON.stringify\<close>, whether a body can be read to its end, the chat service of the orb, the \<open>Intl\<close> date formats and the clock (\<open>clock\<close>, \<open>host\<close>),
  \<open>localeCompare\<close> (\<open>collate\<close>), the chart library (\<open>plot\<close>), what the query cache holds (\<open>query_result\<close>).
  When effects run, where focus can go, which tabs a storage event reaches, what \<open>fetch\<close> makes of its
  target and that the router decodes the parameters of a route are modelled as documented.
  Hypotheses named \<open>safe_minor\<close> or \<open>safe_column\<close> bound amounts by the largest safe integer. No model
  uses fuel: loops are structural recursion or step relations.

  \<^bold>\<open>Not modelled.\<close> Styling, layout classes and animation, except that the navigation bar of the
  public page depends on the width of the window; document metadata and fonts (\<open>layout.tsx\<close>); the
  arc of the trust dial and the drawing of charts; the Python service, its database, contracts,
  infrastructure, scripts and tests, which the front end sees only as answers.
\<close>

subsection \<open>Properties across components\<close>

text \<open>
  C27. Looking changes nothing: whatever a user does on the overview, the lists of vaults and
  transactions, the repayment, risk, audit and underwriting screens, the pages of one agent and one
  transaction, and the settings, in any order, every call those pages make of the backend is a read.
\<close>

theorem reading_pages_only_read:
  "list_all (\<lambda>c. cl_method c = ''GET'')
     (page_calls (\<lambda>e s. s) db_calls es1 () @ page_calls sp_handle (retry_calls va_hooks) es2 s2
      @ page_calls sp_handle (retry_calls tx_hooks) es3 s3 @ page_calls rep_handle rep_calls es4 s4
      @ page_calls (\<lambda>e s. s) risk_calls es5 () @ page_calls (\<lambda>e s. s) audit_calls es6 ()
      @ page_calls (\<lambda>e s. s) queue_calls es7 () @ page_calls (\<lambda>e s. s) td_calls es8 s8
      @ page_calls ad_handle ad_calls es9 s9 @ page_calls (\<lambda>e s. s) set_calls es10 ())"
  unfolding list_all_append
  by (intro conjI db.only_reads va.only_reads tx.only_reads rep.only_reads risk.only_reads audit.only_reads
      queue.only_reads td.only_reads ad.only_reads settings.only_reads)

end
